(* ===== verification/GoPrelude.thy ===== *)
theory GoPrelude
  imports Main "HOL-Library.Word"
begin

text \<open>
  Shared vocabulary of the development: Go errors and results, the state-passing shape of
  functions that call Kubernetes, Azure or the kernel, nil pointers, and the slice
  operations the controllers use. Every later theory imports this one.

  \<^item> A Go function that returns \<open>(T, error)\<close> returns a \<open>'a res\<close>: \<open>Ok\<close>, \<open>Err\<close>, or \<open>Panic\<close>
    for a nil dereference or an index out of range. A panic is not an error value: no
    \<open>if err != nil\<close> of the source sees it, so no combinator below turns it into one.
  \<^item> A Go function that also calls the outside world is an \<open>('s, 'a) io\<close>, a function from the
    state of the world to a result and the next state. The type \<open>'s\<close> stays a parameter.
  \<^item> A pointer \<open>*T\<close> is a \<open>'a option\<close>; \<open>deref\<close> is Go's \<open>*p\<close>.
\<close>

named_theorems go_simps \<open>unfolding rules of the Go combinators\<close>
named_theorems triple_rules \<open>proof rules for triples of io programs\<close>

section \<open>Errors and results\<close>

text \<open>
  Error values. \<open>Wrap m e\<close> is \<open>fmt.Errorf("m: %w", e)\<close>; the formatted arguments of a message are
  left out. \<open>RespErr c n m\<close> is an Azure \<open>azcore.ResponseError\<close> with error code \<open>c\<close> and HTTP status
  \<open>n\<close>; \<open>StatusErr r m\<close> is a Kubernetes API status error with reason \<open>r\<close>; \<open>LinkNotFound\<close> is
  netlink's \<open>LinkNotFoundError\<close>; \<open>Joined\<close> is \<open>errors.Join\<close>.
\<close>

datatype error =
    ErrMsg string
  | Wrap string error
  | RespErr string nat string
  | StatusErr string string
  | LinkNotFound string
  | Joined error error

datatype 'a res = Ok 'a | Err error | Panic

type_synonym ('s, 'a) io = "'s \<Rightarrow> 'a res \<times> 's"

text \<open>The text that Go's \<open>err.Error()\<close> returns.\<close>

fun error_text :: "error \<Rightarrow> string" where
  "error_text (ErrMsg m) = m"
| "error_text (Wrap m e) = m @ '': '' @ error_text e"
| "error_text (RespErr c n m) = m"
| "error_text (StatusErr r m) = m"
| "error_text (LinkNotFound m) = m"
| "error_text (Joined e f) = error_text e @ [char_of (10::nat)] @ error_text f"

text \<open>
  \<open>errors.As(err, &respErr)\<close>: the first response error in the tree of wrapped errors, as its
  code and status; \<open>apierrors.IsNotFound\<close> looks for a status error the same way.
\<close>

fun as_resp_err :: "error \<Rightarrow> (string \<times> nat) option" where
  "as_resp_err (RespErr c n m) = Some (c, n)"
| "as_resp_err (Wrap m e) = as_resp_err e"
| "as_resp_err (Joined e f) = (case as_resp_err e of None \<Rightarrow> as_resp_err f | Some r \<Rightarrow> Some r)"
| "as_resp_err _ = None"

fun as_status_err :: "error \<Rightarrow> string option" where
  "as_status_err (StatusErr r m) = Some r"
| "as_status_err (Wrap m e) = as_status_err e"
| "as_status_err (Joined e f) =
     (case as_status_err e of None \<Rightarrow> as_status_err f | Some r \<Rightarrow> Some r)"
| "as_status_err _ = None"

definition IsNotFound :: "error \<Rightarrow> bool" where
  "IsNotFound e \<longleftrightarrow> as_status_err e = Some ''NotFound''"

section \<open>Results\<close>

fun bindR :: "'a res \<Rightarrow> ('a \<Rightarrow> 'b res) \<Rightarrow> 'b res" where
  "bindR (Ok a) f = f a"
| "bindR (Err e) f = Err e"
| "bindR Panic f = Panic"

definition wrapR :: "string \<Rightarrow> 'a res \<Rightarrow> 'a res" where
  "wrapR m r = (case r of Ok a \<Rightarrow> Ok a | Err e \<Rightarrow> Err (Wrap m e) | Panic \<Rightarrow> Panic)"

definition deref :: "'a option \<Rightarrow> 'a res" where
  "deref p = (case p of None \<Rightarrow> Panic | Some x \<Rightarrow> Ok x)"

fun is_ok :: "'a res \<Rightarrow> bool" where
  "is_ok (Ok _) = True"
| "is_ok _ = False"

lemma bindR_Ok_iff [simp]: "bindR r f = Ok b \<longleftrightarrow> (\<exists>a. r = Ok a \<and> f a = Ok b)"
  by (cases r) auto

lemma bindR_Err_iff: "bindR r f = Err e \<longleftrightarrow> r = Err e \<or> (\<exists>a. r = Ok a \<and> f a = Err e)"
  by (cases r) auto

lemma bindR_Panic_iff: "bindR r f = Panic \<longleftrightarrow> r = Panic \<or> (\<exists>a. r = Ok a \<and> f a = Panic)"
  by (cases r) auto

lemma bindR_assoc: "bindR (bindR r f) g = bindR r (\<lambda>a. bindR (f a) g)"
  by (cases r) auto

lemma bindR_cong [fundef_cong]:
  "r = r' \<Longrightarrow> (\<And>a. r' = Ok a \<Longrightarrow> f a = f' a) \<Longrightarrow> bindR r f = bindR r' f'"
  by (cases r) auto

lemma wrapR_simps [simp]:
  "wrapR m (Ok a) = Ok a" "wrapR m (Err e) = Err (Wrap m e)" "wrapR m Panic = Panic"
  "wrapR m r = Ok a \<longleftrightarrow> r = Ok a" "wrapR m r = Panic \<longleftrightarrow> r = Panic"
  by (auto simp: wrapR_def split: res.splits)

lemma deref_simps [simp]:
  "deref None = Panic" "deref (Some x) = Ok x"
  "deref p = Ok y \<longleftrightarrow> p = Some y" "deref p = Panic \<longleftrightarrow> p = None" "deref p \<noteq> Err e"
  by (auto simp: deref_def split: option.splits)

lemma is_ok_iff: "is_ok r \<longleftrightarrow> (\<exists>a. r = Ok a)"
  by (cases r) auto

section \<open>Programs over a world state\<close>

definition retE :: "'a \<Rightarrow> ('s, 'a) io" where
  "retE a = (\<lambda>s. (Ok a, s))"

definition failE :: "error \<Rightarrow> ('s, 'a) io" where
  "failE e = (\<lambda>s. (Err e, s))"

definition liftR :: "'a res \<Rightarrow> ('s, 'a) io" where
  "liftR r = (\<lambda>s. (r, s))"

text \<open>
  \<open>tryE m f h\<close> is \<open>x, err := m; if err != nil { h } else { f }\<close>; \<open>bindE\<close> is the case where the
  error is returned as it is, \<open>wrapE\<close> where it is returned wrapped.
\<close>

definition tryE :: "('s, 'a) io \<Rightarrow> ('a \<Rightarrow> ('s, 'b) io) \<Rightarrow> (error \<Rightarrow> ('s, 'b) io) \<Rightarrow> ('s, 'b) io" where
  "tryE m f h = (\<lambda>s. case m s of (r, s1) \<Rightarrow>
     (case r of Ok a \<Rightarrow> f a s1 | Err e \<Rightarrow> h e s1 | Panic \<Rightarrow> (Panic, s1)))"

definition bindE :: "('s, 'a) io \<Rightarrow> ('a \<Rightarrow> ('s, 'b) io) \<Rightarrow> ('s, 'b) io" where
  "bindE m f = tryE m f failE"

definition wrapE :: "string \<Rightarrow> ('s, 'a) io \<Rightarrow> ('s, 'a) io" where
  "wrapE msg m = tryE m retE (\<lambda>e. failE (Wrap msg e))"

text \<open>An effect that cannot fail: recording an event or a metric.\<close>

definition effE :: "('s \<Rightarrow> 's) \<Rightarrow> ('s, unit) io" where
  "effE f = (\<lambda>s. (Ok (), f s))"

text \<open>
  \<open>for _, x := range xs { ... }\<close> whose body updates a variable of type \<open>'b\<close> and may return an
  error, which ends the loop.
\<close>

fun foldE :: "('b \<Rightarrow> 'a \<Rightarrow> ('s, 'b) io) \<Rightarrow> 'b \<Rightarrow> 'a list \<Rightarrow> ('s, 'b) io" where
  "foldE f b [] = retE b"
| "foldE f b (x # xs) = bindE (f b x) (\<lambda>b'. foldE f b' xs)"

text \<open>\<open>finE m g\<close> runs the deferred function \<open>g\<close> on the result of \<open>m\<close>, as \<open>defer\<close> does.\<close>

definition finE :: "('s, 'a) io \<Rightarrow> ('a res \<Rightarrow> 's \<Rightarrow> 's) \<Rightarrow> ('s, 'a) io" where
  "finE m g = (\<lambda>s. case m s of (r, s1) \<Rightarrow> (r, g r s1))"

lemma bindE_simps [go_simps]:
  "bindE m f s = (case m s of (r, s1) \<Rightarrow>
     (case r of Ok a \<Rightarrow> f a s1 | Err e \<Rightarrow> (Err e, s1) | Panic \<Rightarrow> (Panic, s1)))"
  by (auto simp: bindE_def tryE_def failE_def split: prod.splits res.splits)

lemma wrapE_simps [go_simps]:
  "wrapE msg m s = (case m s of (r, s1) \<Rightarrow> (wrapR msg r, s1))"
  by (auto simp: wrapE_def tryE_def retE_def failE_def split: prod.splits res.splits)

lemmas io_defs [go_simps] = retE_def failE_def liftR_def tryE_def effE_def finE_def

lemma bindE_Ok_iff:
  "bindE m f s = (Ok b, s') \<longleftrightarrow> (\<exists>a s1. m s = (Ok a, s1) \<and> f a s1 = (Ok b, s'))"
  by (auto simp: bindE_simps split: prod.splits res.splits)

lemma wrapE_Ok_iff: "wrapE m a s = (Ok b, s') \<longleftrightarrow> a s = (Ok b, s')"
  by (auto simp: wrapE_simps split: prod.splits)

lemma bindE_retE [simp]: "bindE (retE a) f = f a"
  by (simp add: fun_eq_iff bindE_simps retE_def)

lemma bindE_assoc: "bindE (bindE m f) g = bindE m (\<lambda>a. bindE (f a) g)"
  by (auto simp: fun_eq_iff bindE_simps split: prod.splits res.splits)

lemma liftR_Ok_iff [simp]: "liftR r s = (Ok a, s') \<longleftrightarrow> r = Ok a \<and> s' = s"
  by (auto simp: liftR_def)

lemma retE_Ok_iff [simp]: "retE a s = (Ok b, s') \<longleftrightarrow> a = b \<and> s' = s"
  by (auto simp: retE_def)

lemma failE_Ok_iff [simp]: "failE e s = (Ok b, s') \<longleftrightarrow> False"
  by (simp add: failE_def)

section \<open>Triples\<close>

text \<open>
  \<open>triple P m Q E N\<close>: from a state that satisfies \<open>P\<close>, \<open>m\<close> ends with a value and a state that
  satisfy \<open>Q\<close>, or with an error and a state that satisfy \<open>E\<close>, or panics in a state that
  satisfies \<open>N\<close>. Every \<open>io\<close> program is a total function, so there is no fourth case.
\<close>

definition triple ::
  "('s \<Rightarrow> bool) \<Rightarrow> ('s, 'a) io \<Rightarrow> ('a \<Rightarrow> 's \<Rightarrow> bool) \<Rightarrow> (error \<Rightarrow> 's \<Rightarrow> bool) \<Rightarrow> ('s \<Rightarrow> bool) \<Rightarrow> bool"
where
  "triple P m Q E N \<longleftrightarrow> (\<forall>s. P s \<longrightarrow> (case m s of (r, s') \<Rightarrow>
     (case r of Ok a \<Rightarrow> Q a s' | Err e \<Rightarrow> E e s' | Panic \<Rightarrow> N s')))"

text \<open>\<open>m\<close> keeps \<open>I\<close>, however it ends.\<close>

abbreviation keeps :: "('s \<Rightarrow> bool) \<Rightarrow> ('s, 'a) io \<Rightarrow> bool" where
  "keeps I m \<equiv> triple I m (\<lambda>_. I) (\<lambda>_. I) I"

lemma triple_OkD: "triple P m Q E N \<Longrightarrow> P s \<Longrightarrow> m s = (Ok a, s') \<Longrightarrow> Q a s'"
  by (auto simp: triple_def dest!: spec [of _ s])

lemma triple_ErrD: "triple P m Q E N \<Longrightarrow> P s \<Longrightarrow> m s = (Err e, s') \<Longrightarrow> E e s'"
  by (auto simp: triple_def dest!: spec [of _ s])

lemma triple_PanicD: "triple P m Q E N \<Longrightarrow> P s \<Longrightarrow> m s = (Panic, s') \<Longrightarrow> N s'"
  by (auto simp: triple_def dest!: spec [of _ s])

lemmas triple_dests = triple_OkD triple_ErrD triple_PanicD

lemma keepsD: "keeps I m \<Longrightarrow> I s \<Longrightarrow> m s = (r, s') \<Longrightarrow> I s'"
  by (cases r) (auto dest: triple_dests)

lemma keepsI: "(\<And>s r s'. I s \<Longrightarrow> m s = (r, s') \<Longrightarrow> I s') \<Longrightarrow> keeps I m"
  by (auto simp: triple_def split: prod.splits res.splits)

lemma triple_conseq:
  assumes "triple P' m Q' E' N'" and "\<And>s. P s \<Longrightarrow> P' s" and "\<And>a s. Q' a s \<Longrightarrow> Q a s"
    and "\<And>e s. E' e s \<Longrightarrow> E e s" and "\<And>s. N' s \<Longrightarrow> N s"
  shows "triple P m Q E N"
  unfolding triple_def
proof (intro allI impI)
  fix s assume "P s"
  then have "case m s of (r, s') \<Rightarrow> (case r of Ok a \<Rightarrow> Q' a s' | Err e \<Rightarrow> E' e s' | Panic \<Rightarrow> N' s')"
    using assms(1,2) by (simp add: triple_def)
  then show "case m s of (r, s') \<Rightarrow> (case r of Ok a \<Rightarrow> Q a s' | Err e \<Rightarrow> E e s' | Panic \<Rightarrow> N s')"
    using assms(3-5) by (simp split: prod.splits res.splits)
qed

lemma triple_ret [triple_rules]: "(\<And>s. P s \<Longrightarrow> Q a s) \<Longrightarrow> triple P (retE a) Q E N"
  by (simp add: triple_def retE_def)

lemma triple_fail [triple_rules]: "(\<And>s. P s \<Longrightarrow> E e s) \<Longrightarrow> triple P (failE e) Q E N"
  by (simp add: triple_def failE_def)

lemma triple_lift [triple_rules]:
  "(\<And>a s. r = Ok a \<Longrightarrow> P s \<Longrightarrow> Q a s) \<Longrightarrow> (\<And>e s. r = Err e \<Longrightarrow> P s \<Longrightarrow> E e s)
    \<Longrightarrow> (\<And>s. r = Panic \<Longrightarrow> P s \<Longrightarrow> N s) \<Longrightarrow> triple P (liftR r) Q E N"
  by (auto simp: triple_def liftR_def split: res.splits)

lemma triple_eff [triple_rules]: "(\<And>s. P s \<Longrightarrow> Q () (f s)) \<Longrightarrow> triple P (effE f) Q E N"
  by (simp add: triple_def effE_def)

lemma triple_try [triple_rules]:
  assumes "triple P m R F N" and "\<And>a. triple (R a) (f a) Q E N" and "\<And>e. triple (F e) (h e) Q E N"
  shows "triple P (tryE m f h) Q E N"
  using assms unfolding triple_def tryE_def by (fastforce split: prod.splits res.splits)

lemma triple_bind [triple_rules]:
  assumes "triple P m R E N" and "\<And>a. triple (R a) (f a) Q E N"
  shows "triple P (bindE m f) Q E N"
  unfolding bindE_def
  by (rule triple_try [OF assms]) (simp add: triple_fail)

lemma triple_wrap [triple_rules]:
  "triple P m Q (\<lambda>e. E (Wrap msg e)) N \<Longrightarrow> triple P (wrapE msg m) Q E N"
  unfolding wrapE_def by (rule triple_try) (auto intro: triple_rules)

lemma triple_fin [triple_rules]:
  assumes "triple P m (\<lambda>a s. Q a (g (Ok a) s)) (\<lambda>e s. E e (g (Err e) s)) (\<lambda>s. N (g Panic s))"
  shows "triple P (finE m g) Q E N"
  using assms unfolding triple_def finE_def by (fastforce split: prod.splits res.splits)

lemma triple_if [triple_rules]:
  "(c \<Longrightarrow> triple P m Q E N) \<Longrightarrow> (\<not> c \<Longrightarrow> triple P m' Q E N) \<Longrightarrow> triple P (if c then m else m') Q E N"
  by simp

lemma triple_case_option [triple_rules]:
  "(x = None \<Longrightarrow> triple P m Q E N) \<Longrightarrow> (\<And>y. x = Some y \<Longrightarrow> triple P (f y) Q E N)
    \<Longrightarrow> triple P (case x of None \<Rightarrow> m | Some y \<Rightarrow> f y) Q E N"
  by (cases x) auto

lemma triple_case_prod [triple_rules]:
  "(\<And>a b. x = (a, b) \<Longrightarrow> triple P (f a b) Q E N) \<Longrightarrow> triple P (case x of (a, b) \<Rightarrow> f a b) Q E N"
  by (cases x) auto

lemma triple_let [triple_rules]: "triple P (f x) Q E N \<Longrightarrow> triple P (let y = x in f y) Q E N"
  by simp

lemma triple_fold:
  assumes "\<And>b x. x \<in> set xs \<Longrightarrow> triple (I b) (f b x) I E N"
  shows "triple (I b) (foldE f b xs) I E N"
  using assms
proof (induction xs arbitrary: b)
  case Nil
  show ?case by (simp add: triple_ret)
next
  case (Cons x xs)
  have "triple (I b) (f b x) I E N" by (rule Cons.prems) simp
  moreover have "triple (I a) (foldE f a xs) I E N" for a
    by (rule Cons.IH) (simp add: Cons.prems)
  ultimately show ?case by (simp add: triple_bind)
qed

lemma keeps_fold:
  "(\<And>b x. x \<in> set xs \<Longrightarrow> keeps I (f b x)) \<Longrightarrow> keeps I (foldE f b xs)"
  by (rule triple_fold [where I = "\<lambda>_. I"])

lemma keeps_ret: "keeps I (retE a)" and keeps_fail: "keeps I (failE e)" and keeps_lift: "keeps I (liftR r)"
  by (simp_all add: triple_ret triple_fail triple_lift)

lemma keeps_try:
  "keeps I m \<Longrightarrow> (\<And>a. keeps I (f a)) \<Longrightarrow> (\<And>e. keeps I (h e)) \<Longrightarrow> keeps I (tryE m f h)"
  by (rule triple_try)

lemma keeps_bind: "keeps I m \<Longrightarrow> (\<And>a. keeps I (f a)) \<Longrightarrow> keeps I (bindE m f)"
  by (rule triple_bind)

lemma keeps_wrap: "keeps I m \<Longrightarrow> keeps I (wrapE msg m)"
  by (rule triple_wrap)

lemmas keeps_rules = keeps_ret keeps_fail keeps_lift keeps_try keeps_bind keeps_wrap keeps_fold
  triple_if triple_case_option triple_case_prod triple_let

text \<open>A call that leaves alone what \<open>view\<close> reads from the world and does not panic.\<close>

definition reads :: "('s \<Rightarrow> 'v) \<Rightarrow> ('s, 'a) io \<Rightarrow> bool" where
  "reads view m \<longleftrightarrow>
     (\<forall>v. triple (\<lambda>s. view s = v) m (\<lambda>_ s. view s = v) (\<lambda>_ s. view s = v) (\<lambda>_. False))"

lemma reads_triple:
  "reads view m \<Longrightarrow> triple (\<lambda>s. view s = v) m (\<lambda>_ s. view s = v) (\<lambda>_ s. view s = v) (\<lambda>_. False)"
  by (simp add: reads_def)

lemma reads_ret: "reads view (retE a)" and reads_fail [intro]: "reads view (failE e)"
  by (simp_all add: reads_def triple_ret triple_fail)

lemma reads_bind: "reads view m \<Longrightarrow> (\<And>a. reads view (f a)) \<Longrightarrow> reads view (bindE m f)"
  unfolding reads_def by (blast intro: triple_bind)

lemma reads_if: "reads view m \<Longrightarrow> reads view m' \<Longrightarrow> reads view (if c then m else m')"
  by simp

lemma reads_case_option:
  "reads view m \<Longrightarrow> (\<And>y. reads view (f y)) \<Longrightarrow> reads view (case x of None \<Rightarrow> m | Some y \<Rightarrow> f y)"
  by (cases x) auto

lemmas reads_rules = reads_bind reads_if reads_case_option reads_ret reads_fail

lemma reads_view: "reads view m \<Longrightarrow> m s = (r, s') \<Longrightarrow> view s' = view s \<and> r \<noteq> Panic"
  by (cases r) (auto dest!: reads_triple [where v = "view s"] dest: triple_dests)

lemma triple_ghost:
  assumes "\<And>v. P v \<Longrightarrow> triple (\<lambda>s. g s = v) m Q E N"
  shows "triple (\<lambda>s. P (g s)) m Q E N"
  unfolding triple_def
proof (intro allI impI)
  fix s assume "P (g s)"
  from assms [OF this, unfolded triple_def, rule_format, OF refl]
  show "case m s of (r, s') \<Rightarrow> (case r of Ok a \<Rightarrow> Q a s' | Err e \<Rightarrow> E e s' | Panic \<Rightarrow> N s')" .
qed

lemma triple_ghost2:
  assumes "\<And>u v. P u v \<Longrightarrow> triple (\<lambda>s. g s = u \<and> h s = v) m Q E N"
  shows "triple (\<lambda>s. P (g s) (h s)) m Q E N"
  using triple_ghost [of "\<lambda>(u, v). P u v" "\<lambda>s. (g s, h s)" m Q E N] assms by auto

lemma triple_ghost3:
  assumes "\<And>u v w. P u v w \<Longrightarrow> triple (\<lambda>s. g s = u \<and> h s = v \<and> k s = w) m Q E N"
  shows "triple (\<lambda>s. P (g s) (h s) (k s)) m Q E N"
  using triple_ghost [of "\<lambda>(u, v, w). P u v w" "\<lambda>s. (g s, h s, k s)" m Q E N] assms by auto

lemma triple_both:
  assumes "triple P m Q E N" and "keeps I m"
  shows "triple (\<lambda>s. P s \<and> I s) m (\<lambda>a s. Q a s \<and> I s) (\<lambda>e s. E e s \<and> I s) (\<lambda>s. N s \<and> I s)"
proof -
  have "case m s of (r, s') \<Rightarrow> (case r of Ok a \<Rightarrow> Q a s' \<and> I s' | Err e \<Rightarrow> E e s' \<and> I s' | Panic \<Rightarrow> N s' \<and> I s')"
    if "P s" "I s" for s
    using triple_dests [OF assms(1) that(1)] keepsD [OF assms(2) that(2)]
    by (cases "m s") (simp split: res.splits)
  then show ?thesis by (simp add: triple_def)
qed

text \<open>Every value that \<open>m\<close> returns satisfies \<open>Q\<close>.\<close>

definition yields :: "('a \<Rightarrow> bool) \<Rightarrow> ('s, 'a) io \<Rightarrow> bool" where
  "yields Q m \<longleftrightarrow> (\<forall>s a s'. m s = (Ok a, s') \<longrightarrow> Q a)"

lemma yieldsD: "yields Q m \<Longrightarrow> m s = (Ok a, s') \<Longrightarrow> Q a"
  by (auto simp: yields_def)

lemma yields_ret: "Q a \<Longrightarrow> yields Q (retE a)" and yields_fail: "yields Q (failE e)"
  by (simp_all add: yields_def)

lemma yields_bind: "(\<And>a. yields Q (f a)) \<Longrightarrow> yields Q (bindE m f)"
  by (auto simp: yields_def bindE_Ok_iff)

lemma yields_if: "(c \<Longrightarrow> yields Q m) \<Longrightarrow> (\<not> c \<Longrightarrow> yields Q m') \<Longrightarrow> yields Q (if c then m else m')"
  by simp

lemma yields_case_option:
  "(x = None \<Longrightarrow> yields Q m) \<Longrightarrow> (\<And>y. x = Some y \<Longrightarrow> yields Q (f y)) \<Longrightarrow> yields Q (case x of None \<Rightarrow> m | Some y \<Rightarrow> f y)"
  by (cases x) auto

lemma yields_case_prod:
  "(\<And>a b. x = (a, b) \<Longrightarrow> yields Q (f a b)) \<Longrightarrow> yields Q (case x of (a, b) \<Rightarrow> f a b)"
  by (cases x) auto

lemma yields_let: "yields Q (f x) \<Longrightarrow> yields Q (let y = x in f y)"
  by simp

lemmas yields_rules = yields_let yields_case_prod yields_case_option yields_if yields_bind yields_ret yields_fail

section \<open>Slices\<close>

text \<open>\<open>append(xs[:i], xs[i+1:]...)\<close>.\<close>

definition remove_at :: "nat \<Rightarrow> 'a list \<Rightarrow> 'a list" where
  "remove_at i xs = take i xs @ drop (Suc i) xs"

text \<open>
  \<open>for i := range xs { if p(xs[i]) { xs = append(xs[:i], xs[i+1:]...); break } }\<close>: the first
  element that satisfies \<open>p\<close> is dropped.
\<close>

fun drop_first :: "('a \<Rightarrow> bool) \<Rightarrow> 'a list \<Rightarrow> 'a list" where
  "drop_first p [] = []"
| "drop_first p (x # xs) = (if p x then xs else x # drop_first p xs)"

text \<open>
  The first element that satisfies a test which may panic, with its index: a \<open>range\<close> loop that
  tests elements in order and breaks at the first hit.
\<close>

fun find_res :: "('a \<Rightarrow> bool res) \<Rightarrow> 'a list \<Rightarrow> (nat \<times> 'a) option res" where
  "find_res p [] = Ok None"
| "find_res p (x # xs) = bindR (p x) (\<lambda>b. if b then Ok (Some (0, x))
     else bindR (find_res p xs) (\<lambda>r. Ok (map_option (apfst Suc) r)))"

lemma length_remove_at: "i < length xs \<Longrightarrow> length (remove_at i xs) = length xs - 1"
  by (auto simp: remove_at_def)

lemma set_remove_at: "set (remove_at i xs) \<subseteq> set xs"
  by (auto simp: remove_at_def dest: in_set_takeD in_set_dropD)

lemma remove_at_simps [simp]:
  "remove_at 0 (x # xs) = xs" "remove_at (Suc i) (x # xs) = x # remove_at i xs"
  by (auto simp: remove_at_def)

lemma set_drop_first: "set (drop_first p xs) \<subseteq> set xs"
  by (induction xs) auto

lemma drop_first_keeps: "x \<in> set xs \<Longrightarrow> \<not> p x \<Longrightarrow> x \<in> set (drop_first p xs)"
  by (induction xs) auto

lemma filter_drop_first: "filter (\<lambda>x. \<not> q x) (drop_first q xs) = filter (\<lambda>x. \<not> q x) xs"
  by (induction xs) auto

lemma drop_first_none: "\<forall>x\<in>set xs. \<not> p x \<Longrightarrow> drop_first p xs = xs"
  by (induction xs) auto

lemma drop_first_append:
  "drop_first p (xs @ ys) = (if \<exists>x\<in>set xs. p x then drop_first p xs @ ys else xs @ drop_first p ys)"
  by (induction xs) auto

lemma find_res_Some:
  assumes "find_res p xs = Ok (Some (i, x))"
  shows "i < length xs \<and> x = xs ! i \<and> p x = Ok True \<and> (\<forall>j<i. p (xs ! j) = Ok False)"
  using assms
proof (induction xs arbitrary: i)
  case (Cons y ys)
  show ?case
  proof (cases i)
    case 0
    with Cons.prems show ?thesis by (auto split: if_splits)
  next
    case (Suc j)
    with Cons.prems have py: "p y = Ok False" and "find_res p ys = Ok (Some (j, x))"
      by (auto split: if_splits)
    then have "j < length ys \<and> x = ys ! j \<and> p x = Ok True \<and> (\<forall>k<j. p (ys ! k) = Ok False)"
      by (intro Cons.IH)
    with Suc py show ?thesis by (auto simp: less_Suc_eq_0_disj)
  qed
qed simp

lemma find_res_None: "find_res p xs = Ok None \<longleftrightarrow> (\<forall>x\<in>set xs. p x = Ok False)"
  by (induction xs) (auto split: if_splits)

lemma find_res_total:
  assumes "\<And>x. x \<in> set xs \<Longrightarrow> \<exists>b. p x = Ok b"
  shows "\<exists>r. find_res p xs = Ok r"
  using assms
proof (induction xs)
  case (Cons x xs)
  obtain b where "p x = Ok b" using Cons.prems by auto
  moreover obtain r where "find_res p xs = Ok r" using Cons by auto
  ultimately show ?case by simp
qed simp

lemma remove_at_find:
  "find_res p xs = Ok (Some (i, x)) \<Longrightarrow> remove_at i xs = drop_first (\<lambda>y. p y = Ok True) xs"
  by (induction xs arbitrary: i) (auto split: if_splits)

lemma find_res_cases:
  assumes "\<And>x. x \<in> set xs \<Longrightarrow> p x = Ok (q x)"
  shows "find_res p xs = Ok None \<and> find q xs = None \<or>
    (\<exists>i x. find_res p xs = Ok (Some (i, x)) \<and> find q xs = Some x \<and> remove_at i xs = drop_first q xs)"
  using assms
proof (induction xs)
  case (Cons x xs)
  then have px: "p x = Ok (q x)" by simp
  have IH: "find_res p xs = Ok None \<and> find q xs = None \<or>
    (\<exists>i y. find_res p xs = Ok (Some (i, y)) \<and> find q xs = Some y \<and> remove_at i xs = drop_first q xs)"
    using Cons by simp
  show ?case
  proof (cases "q x")
    case False
    from IH show ?thesis
    proof
      assume "find_res p xs = Ok None \<and> find q xs = None"
      with False px show ?thesis by simp
    next
      assume "\<exists>i y. find_res p xs = Ok (Some (i, y)) \<and> find q xs = Some y \<and> remove_at i xs = drop_first q xs"
      then obtain i y where
        "find_res p xs = Ok (Some (i, y))" "find q xs = Some y" "remove_at i xs = drop_first q xs" by blast
      with False px show ?thesis by (auto intro!: exI [of _ "Suc i"])
    qed
  qed (simp add: px)
qed simp

lemma find_append_Some: "find q xs = Some x \<Longrightarrow> find q (xs @ ys) = Some x"
  by (induction xs) auto

lemma find_append_None: "find q xs = None \<Longrightarrow> find q (xs @ ys) = find q ys"
  by (induction xs) auto

lemma find_SomeD: "find q xs = Some x \<Longrightarrow> x \<in> set xs \<and> q x"
  by (induction xs) (auto split: if_splits)

lemma find_None_iff_ex: "find q xs = None \<longleftrightarrow> (\<forall>x\<in>set xs. \<not> q x)"
  by (induction xs) auto

lemma drop_first_changes: "drop_first q xs = xs \<longleftrightarrow> \<not> (\<exists>x\<in>set xs. q x)"
proof
  show "\<not> (\<exists>x\<in>set xs. q x)" if "drop_first q xs = xs"
  proof
    assume "\<exists>x\<in>set xs. q x"
    then have "length (drop_first q xs) < length xs" by (induction xs) auto
    with that show False by simp
  qed
qed (simp add: drop_first_none)

lemma filter_changes: "filter (\<lambda>x. \<not> q x) xs = xs \<longleftrightarrow> \<not> (\<exists>x\<in>set xs. q x)"
  by (auto simp: filter_id_conv)

lemma find_after_replace:
  assumes "find q (drop_first q xs) = None" and "q y"
  shows "find q (drop_first q xs @ [y]) = Some y"
  using assms by (simp add: find_append_None)

end
