(* ===== verification/GoStrings.thy ===== *)
theory GoStrings
  imports GoPrelude
begin

text \<open>
  The functions of Go's \<open>strings\<close>, \<open>strconv\<close> and \<open>fmt\<close> packages that the program uses, on byte
  strings. Case folding and white space are those of ASCII: the strings compared without case
  in the program are Azure resource names and identifiers, Kubernetes names and node-pool
  tags. The second part is the \<open>to\<close> package (src/pkg/utils/to/convert.go).
\<close>

section \<open>Case folding\<close>

definition lower_byte :: "char \<Rightarrow> char" where
  "lower_byte c = (if 65 \<le> (of_char c :: nat) \<and> (of_char c :: nat) \<le> 90
     then char_of ((of_char c :: nat) + 32) else c)"

definition ToLower :: "string \<Rightarrow> string" where
  "ToLower s = map lower_byte s"

definition EqualFold :: "string \<Rightarrow> string \<Rightarrow> bool" where
  "EqualFold a b \<longleftrightarrow> ToLower a = ToLower b"

lemma EqualFold_refl [simp]: "EqualFold a a"
  by (simp add: EqualFold_def)

lemma EqualFold_sym: "EqualFold a b \<longleftrightarrow> EqualFold b a"
  by (auto simp: EqualFold_def)

lemma EqualFold_trans: "EqualFold a b \<Longrightarrow> EqualFold b c \<Longrightarrow> EqualFold a c"
  by (simp add: EqualFold_def)

lemma EqualFold_cong: "EqualFold a b \<Longrightarrow> EqualFold c a \<longleftrightarrow> EqualFold c b"
  by (simp add: EqualFold_def)

lemma EqualFold_length: "EqualFold a b \<Longrightarrow> length a = length b"
  unfolding EqualFold_def ToLower_def by (metis length_map)

lemma EqualFold_Nil [simp]: "EqualFold a [] \<longleftrightarrow> a = []" "EqualFold [] a \<longleftrightarrow> a = []"
  by (auto simp: EqualFold_def ToLower_def)

lemma EqualFold_append_cancel [simp]: "EqualFold (p @ a) (p @ b) \<longleftrightarrow> EqualFold a b"
  by (simp add: EqualFold_def ToLower_def)

section \<open>Searching, splitting, joining\<close>

definition HasPrefix :: "string \<Rightarrow> string \<Rightarrow> bool" where
  "HasPrefix s p \<longleftrightarrow> take (length p) s = p"

definition TrimPrefix :: "string \<Rightarrow> string \<Rightarrow> string" where
  "TrimPrefix s p = (if HasPrefix s p then drop (length p) s else s)"

definition HasSuffix :: "string \<Rightarrow> string \<Rightarrow> bool" where
  "HasSuffix s p \<longleftrightarrow> HasPrefix (rev s) (rev p)"

fun Contains :: "string \<Rightarrow> string \<Rightarrow> bool" where
  "Contains [] p \<longleftrightarrow> p = []"
| "Contains (c # s) p \<longleftrightarrow> HasPrefix (c # s) p \<or> Contains s p"

text \<open>\<open>strings.Split\<close> at a one-byte separator and \<open>strings.Join\<close>.\<close>

fun Split :: "string \<Rightarrow> char \<Rightarrow> string list" where
  "Split [] c = [[]]"
| "Split (x # xs) c = (if x = c then [] # Split xs c
     else (case Split xs c of [] \<Rightarrow> [[x]] | w # ws \<Rightarrow> (x # w) # ws))"

fun Join :: "string list \<Rightarrow> string \<Rightarrow> string" where
  "Join [] sep = []"
| "Join [w] sep = w"
| "Join (w # ws) sep = w @ sep @ Join ws sep"

definition ReplaceAll :: "string \<Rightarrow> char \<Rightarrow> char \<Rightarrow> string" where
  "ReplaceAll s a b = map (\<lambda>c. if c = a then b else c) s"

definition is_space :: "char \<Rightarrow> bool" where
  "is_space c \<longleftrightarrow> (of_char c :: nat) \<in> {9, 10, 11, 12, 13, 32}"

definition TrimSpace :: "string \<Rightarrow> string" where
  "TrimSpace s = rev (dropWhile is_space (rev (dropWhile is_space s)))"

lemma HasPrefix_iff: "HasPrefix s p \<longleftrightarrow> (\<exists>t. s = p @ t)"
  by (metis HasPrefix_def append_eq_conv_conj append_take_drop_id)

lemma HasPrefix_append [simp]: "HasPrefix (p @ s) p"
  by (simp add: HasPrefix_def)

lemma TrimPrefix_append [simp]: "TrimPrefix (p @ s) p = s"
  by (simp add: TrimPrefix_def)

lemma Split_not_Nil [simp]: "Split s c \<noteq> []"
  by (induction s) (auto split: list.splits)

lemma Split_single: "c \<notin> set s \<Longrightarrow> Split s c = [s]"
  by (induction s) auto

lemma Split_append: "c \<notin> set a \<Longrightarrow> Split (a @ c # b) c = a # Split b c"
  by (induction a) auto

lemma Split_parts: "w \<in> set (Split s c) \<Longrightarrow> c \<notin> set w"
proof (induction s arbitrary: w)
  case (Cons x xs)
  obtain v vs where v: "Split xs c = v # vs" by (cases "Split xs c") auto
  with Cons show ?case by (auto split: if_splits)
qed simp

lemma Join_Cons: "ws \<noteq> [] \<Longrightarrow> Join (w # ws) sep = w @ sep @ Join ws sep"
  by (cases ws) auto

lemma Join_Split: "Join (Split s c) [c] = s"
proof (induction s)
  case (Cons x xs)
  obtain v vs where v: "Split xs c = v # vs" by (cases "Split xs c") auto
  show ?case
  proof (cases "x = c")
    case True
    then show ?thesis by (simp add: Join_Cons Cons.IH)
  next
    case False
    have "Join ((x # v) # vs) [c] = x # Join (v # vs) [c]" by (cases vs) auto
    with False v Cons.IH show ?thesis by simp
  qed
qed simp

lemma Split_Join:
  assumes "ws \<noteq> []" and "\<forall>w\<in>set ws. c \<notin> set w"
  shows "Split (Join ws [c]) c = ws"
  using assms
proof (induction ws)
  case (Cons w ws)
  show ?case
  proof (cases "ws = []")
    case True
    with Cons.prems show ?thesis by (simp add: Split_single)
  next
    case False
    with Cons show ?thesis by (simp add: Join_Cons Split_append)
  qed
qed simp

lemma TrimSpace_Nil [simp]: "TrimSpace [] = []"
  by (simp add: TrimSpace_def)

lemma dropWhile_dropWhile [simp]: "dropWhile p (dropWhile p s) = dropWhile p s"
  by (induction s) auto

lemma dropWhile_rev_dropWhile:
  "dropWhile p (rev (dropWhile p (rev (dropWhile p s)))) = rev (dropWhile p (rev (dropWhile p s)))"
proof (cases "dropWhile p s")
  case (Cons x xs)
  then have "\<not> p x" by (metis hd_dropWhile list.distinct(1) list.sel(1))
  then have "\<exists>ys. rev (dropWhile p (rev (x # xs))) = x # ys"
    by (simp add: dropWhile_append) (metis rev_rev_ident)
  with Cons \<open>\<not> p x\<close> show ?thesis by auto
next
  case Nil
  then show ?thesis by (simp only: dropWhile.simps rev.simps)
qed

lemma TrimSpace_idem [simp]: "TrimSpace (TrimSpace s) = TrimSpace s"
  unfolding TrimSpace_def by (simp add: dropWhile_rev_dropWhile)

section \<open>Decimal numbers\<close>

definition digit_char :: "nat \<Rightarrow> char" where
  "digit_char d = char_of (48 + d)"

definition is_digit :: "char \<Rightarrow> bool" where
  "is_digit c \<longleftrightarrow> 48 \<le> (of_char c :: nat) \<and> (of_char c :: nat) \<le> 57"

fun nat_str :: "nat \<Rightarrow> string" where
  "nat_str n = (if n < 10 then [digit_char n] else nat_str (n div 10) @ [digit_char (n mod 10)])"

declare nat_str.simps [simp del]

text \<open>\<open>strconv.Itoa\<close> and \<open>fmt.Sprintf("%d", i)\<close>.\<close>

definition Itoa :: "int \<Rightarrow> string" where
  "Itoa i = (if i < 0 then ''-'' @ nat_str (nat (- i)) else nat_str (nat i))"

fun parse_digits :: "nat \<Rightarrow> string \<Rightarrow> nat option" where
  "parse_digits acc [] = Some acc"
| "parse_digits acc (c # cs) =
     (if is_digit c then parse_digits (acc * 10 + (of_char c - 48)) cs else None)"

text \<open>
  \<open>strconv.Atoi\<close> on a 64-bit platform: an optional sign, at least one digit, nothing else, and a
  value that fits in an int64.
\<close>

definition Atoi :: "string \<Rightarrow> int res" where
  "Atoi s = (let neg = HasPrefix s ''-'';
       body = (if neg \<or> HasPrefix s ''+'' then tl s else s)
     in if body = [] then Err (ErrMsg ''invalid syntax'')
        else (case parse_digits 0 body of
            None \<Rightarrow> Err (ErrMsg ''invalid syntax'')
          | Some n \<Rightarrow> (let v = (if neg then - int n else int n)
              in if - (2 ^ 63) \<le> v \<and> v < 2 ^ 63 then Ok v else Err (ErrMsg ''value out of range''))))"

lemma of_char_digit [simp]: "d < 10 \<Longrightarrow> (of_char (digit_char d) :: nat) = 48 + d"
  by (simp add: digit_char_def)

lemma is_digit_digit_char [simp]: "d < 10 \<Longrightarrow> is_digit (digit_char d)"
  by (simp add: is_digit_def)

lemma nat_str_digits: "c \<in> set (nat_str n) \<Longrightarrow> is_digit c"
  by (induction n arbitrary: c rule: nat_str.induct)
    (subst (asm) (2) nat_str.simps, auto split: if_splits)

lemma nat_str_not_Nil [simp]: "nat_str n \<noteq> []"
  by (subst nat_str.simps) simp

lemma parse_digits_append:
  "parse_digits a (xs @ ys) = Option.bind (parse_digits a xs) (\<lambda>b. parse_digits b ys)"
  by (induction xs arbitrary: a) auto

lemma parse_nat_str: "parse_digits 0 (nat_str n) = Some n"
proof (induction n rule: nat_str.induct)
  case (1 n)
  show ?case
    by (subst nat_str.simps) (auto simp: parse_digits_append 1)
qed

lemma nat_str_inj [simp]: "nat_str m = nat_str n \<longleftrightarrow> m = n"
  by (metis option.inject parse_nat_str)

lemma nat_str_no_sign: "\<not> HasPrefix (nat_str n) ''-'' \<and> \<not> HasPrefix (nat_str n) ''+''"
proof -
  obtain c cs where c: "nat_str n = c # cs" by (cases "nat_str n") auto
  with nat_str_digits [of c n] show ?thesis by (auto simp: HasPrefix_def is_digit_def)
qed

lemma Atoi_Itoa:
  assumes "- (2 ^ 63) \<le> i" and "i < 2 ^ 63"
  shows "Atoi (Itoa i) = Ok i"
  using assms nat_str_no_sign
  by (auto simp: Atoi_def Itoa_def Let_def parse_nat_str HasPrefix_def)

lemma Itoa_inj: "Itoa i = Itoa j \<Longrightarrow> i = j"
proof -
  assume eq: "Itoa i = Itoa j"
  have dash: "i < 0 \<longleftrightarrow> HasPrefix (Itoa i) ''-''" for i
    using nat_str_no_sign by (auto simp: Itoa_def HasPrefix_def)
  from eq have "i < 0 \<longleftrightarrow> j < 0" using dash [of i] dash [of j] by simp
  with eq show "i = j" by (auto simp: Itoa_def split: if_splits)
qed

lemma Itoa_inj_iff [simp]: "Itoa i = Itoa j \<longleftrightarrow> i = j"
  using Itoa_inj by blast

section \<open>Pointers to values\<close>

text \<open>
  \<open>to.Val\<close> (src/pkg/utils/to/convert.go): the pointed-to value, or the zero value of its type
  for a nil pointer. The zero value is the first argument.
\<close>

definition Val :: "'a \<Rightarrow> 'a option \<Rightarrow> 'a" where
  "Val z v = (case v of None \<Rightarrow> z | Some x \<Rightarrow> x)"

abbreviation valS :: "string option \<Rightarrow> string" where "valS \<equiv> Val ''''"
abbreviation valB :: "bool option \<Rightarrow> bool" where "valB \<equiv> Val False"

definition Ptr :: "'a \<Rightarrow> 'a option" where
  "Ptr v = Some v"

lemma Val_simps [simp]: "Val z None = z" "Val z (Some x) = x"
  by (simp_all add: Val_def)

lemma Val_Ptr [simp]: "Val z (Ptr v) = v"
  by (simp add: Ptr_def)

end
