(* ===== verification/Cloud_Config.thy ===== *)
theory Cloud_Config
  imports GoStrings
begin

text \<open>
  The cloud configuration of the controllers: src/pkg/config/config.go and the constants of
  src/pkg/consts/const.go that more than one component reads.
\<close>

section \<open>Constants\<close>

definition SGCFinalizerName :: string where
  "SGCFinalizerName = ''static-gateway-configuration-controller.microsoft.com''"

definition LBConfigFinalizerName :: string where
  "LBConfigFinalizerName = ''gateway-lb-configuration-controller.microsoft.com''"

definition VMConfigFinalizerName :: string where
  "VMConfigFinalizerName = ''gateway-vm-configuration-controller.microsoft.com''"

definition DefaultGatewayLBName :: string where
  "DefaultGatewayLBName = ''kubeegressgateway-ilb''"

definition ManagedResourcePrefix :: string where
  "ManagedResourcePrefix = ''egressgateway-''"

definition WireguardPortStart :: "32 word" where
  "WireguardPortStart = 6000"

definition WireguardPortEnd :: "32 word" where
  "WireguardPortEnd = 7000"

definition GatewayHealthProbeEndpoint :: string where
  "GatewayHealthProbeEndpoint = ''/gw/''"

definition AKSNodepoolTagKey :: string where
  "AKSNodepoolTagKey = ''aks-managed-poolName''"

definition AKSNodepoolIPPrefixSizeTagKey :: string where
  "AKSNodepoolIPPrefixSizeTagKey = ''aks-managed-gatewayIPPrefixSize''"

definition AKSStaticGatewayNICTagKey :: string where
  "AKSStaticGatewayNICTagKey = ''aks-managed-static-gateway-nic''"

definition DefaultUserAgent :: string where
  "DefaultUserAgent = ''kube-egress-gateway-controller''"

section \<open>The configuration\<close>

text \<open>
  \<open>CloudConfig\<close> with the fields of the embedded ARM and authentication configurations that
  this package reads. \<open>RateLimitConfig\<close> is a pointer; of the structure behind it only the
  switch is set here.
\<close>

record CloudConfig =
  cc_Cloud :: string
  cc_TenantID :: string
  cc_UserAgent :: string
  cc_UserAssignedIdentityID :: string
  cc_UseManagedIdentityExtension :: bool
  cc_AADClientID :: string
  cc_AADClientSecret :: string
  cc_RateLimitConfig :: "bool option"
  cc_Location :: string
  cc_SubscriptionID :: string
  cc_ResourceGroup :: string
  cc_LoadBalancerName :: string
  cc_LoadBalancerResourceGroup :: string
  cc_VnetName :: string
  cc_VnetResourceGroup :: string
  cc_SubnetName :: string

definition trimSpace :: "CloudConfig \<Rightarrow> CloudConfig" where
  "trimSpace cfg = cfg\<lparr>
     cc_Cloud := TrimSpace (cc_Cloud cfg),
     cc_Location := TrimSpace (cc_Location cfg),
     cc_SubscriptionID := TrimSpace (cc_SubscriptionID cfg),
     cc_TenantID := TrimSpace (cc_TenantID cfg),
     cc_UserAssignedIdentityID := TrimSpace (cc_UserAssignedIdentityID cfg),
     cc_AADClientID := TrimSpace (cc_AADClientID cfg),
     cc_AADClientSecret := TrimSpace (cc_AADClientSecret cfg),
     cc_UserAgent := TrimSpace (cc_UserAgent cfg),
     cc_ResourceGroup := TrimSpace (cc_ResourceGroup cfg),
     cc_LoadBalancerName := TrimSpace (cc_LoadBalancerName cfg),
     cc_LoadBalancerResourceGroup := TrimSpace (cc_LoadBalancerResourceGroup cfg),
     cc_VnetName := TrimSpace (cc_VnetName cfg),
     cc_VnetResourceGroup := TrimSpace (cc_VnetResourceGroup cfg),
     cc_SubnetName := TrimSpace (cc_SubnetName cfg)\<rparr>"

definition setDefaults :: "CloudConfig \<Rightarrow> CloudConfig" where
  "setDefaults cfg = cfg\<lparr>
     cc_UserAgent := (if cc_UserAgent cfg = '''' then DefaultUserAgent else cc_UserAgent cfg),
     cc_LoadBalancerResourceGroup := (if cc_LoadBalancerResourceGroup cfg = ''''
       then cc_ResourceGroup cfg else cc_LoadBalancerResourceGroup cfg),
     cc_VnetResourceGroup := (if cc_VnetResourceGroup cfg = ''''
       then cc_ResourceGroup cfg else cc_VnetResourceGroup cfg),
     cc_RateLimitConfig := (if cc_RateLimitConfig cfg = None
       then Some False else cc_RateLimitConfig cfg)\<rparr>"

text \<open>
  \<open>DefaultAndValidate\<close> changes the receiver: the state of the \<open>io\<close> program is the configuration,
  and it stays trimmed when a check fails.
\<close>

definition DefaultAndValidate :: "(CloudConfig, unit) io" where
  "DefaultAndValidate = (\<lambda>cfg0. let cfg = trimSpace cfg0; bad = (\<lambda>m. (Err (ErrMsg m), cfg)) in
     if cc_Cloud cfg = '''' then bad ''cloud is empty''
     else if cc_Location cfg = '''' then bad ''location is empty''
     else if cc_SubscriptionID cfg = '''' then bad ''subscription ID is empty''
     else if \<not> cc_UseManagedIdentityExtension cfg \<and> cc_UserAssignedIdentityID cfg \<noteq> ''''
       then bad ''useManagedIdentityExtension needs to be true when userAssignedIdentityID is provided''
     else if \<not> cc_UseManagedIdentityExtension cfg
         \<and> (cc_AADClientID cfg = '''' \<or> cc_AADClientSecret cfg = '''')
       then bad ''AAD client ID or AAD client secret is empty''
     else if cc_ResourceGroup cfg = '''' then bad ''resource group is empty''
     else if cc_VnetName cfg = '''' then bad ''virtual network name is empty''
     else if cc_SubnetName cfg = '''' then bad ''virtual network subnet name is empty''
     else (Ok (), setDefaults cfg))"

text \<open>What the manager binaries rely on once the configuration has been accepted.\<close>

definition config_complete :: "CloudConfig \<Rightarrow> bool" where
  "config_complete cfg \<longleftrightarrow>
     cc_Cloud cfg \<noteq> '''' \<and> cc_Location cfg \<noteq> '''' \<and> cc_SubscriptionID cfg \<noteq> '''' \<and>
     cc_ResourceGroup cfg \<noteq> '''' \<and> cc_VnetName cfg \<noteq> '''' \<and> cc_SubnetName cfg \<noteq> '''' \<and>
     cc_UserAgent cfg \<noteq> '''' \<and> cc_LoadBalancerResourceGroup cfg \<noteq> '''' \<and>
     cc_VnetResourceGroup cfg \<noteq> '''' \<and> cc_RateLimitConfig cfg \<noteq> None \<and>
     (cc_UseManagedIdentityExtension cfg \<or>
       cc_UserAssignedIdentityID cfg = '''' \<and> cc_AADClientID cfg \<noteq> '''' \<and> cc_AADClientSecret cfg \<noteq> '''')"

lemma trimSpace_idem [simp]: "trimSpace (trimSpace cfg) = trimSpace cfg"
  by (simp add: trimSpace_def)

lemma DefaultUserAgent_trimmed [simp]:
  "TrimSpace DefaultUserAgent = DefaultUserAgent" "DefaultUserAgent \<noteq> ''''"
  by (simp_all add: DefaultUserAgent_def TrimSpace_def is_space_def)

lemma trimSpace_setDefaults: "trimSpace (setDefaults (trimSpace cfg)) = setDefaults (trimSpace cfg)"
  by (simp add: trimSpace_def setDefaults_def Let_def)

lemma setDefaults_fields [simp]:
  "cc_Cloud (setDefaults c) = cc_Cloud c" "cc_Location (setDefaults c) = cc_Location c"
  "cc_SubscriptionID (setDefaults c) = cc_SubscriptionID c"
  "cc_ResourceGroup (setDefaults c) = cc_ResourceGroup c"
  "cc_VnetName (setDefaults c) = cc_VnetName c" "cc_SubnetName (setDefaults c) = cc_SubnetName c"
  "cc_UseManagedIdentityExtension (setDefaults c) = cc_UseManagedIdentityExtension c"
  "cc_UserAssignedIdentityID (setDefaults c) = cc_UserAssignedIdentityID c"
  "cc_AADClientID (setDefaults c) = cc_AADClientID c"
  "cc_AADClientSecret (setDefaults c) = cc_AADClientSecret c"
  "cc_LoadBalancerName (setDefaults c) = cc_LoadBalancerName c"
  by (simp_all add: setDefaults_def Let_def)

lemma setDefaults_given:
  "cc_ResourceGroup c \<noteq> '''' \<Longrightarrow>
     cc_LoadBalancerResourceGroup (setDefaults c) \<noteq> '''' \<and> cc_VnetResourceGroup (setDefaults c) \<noteq> '''' \<and>
     cc_UserAgent (setDefaults c) \<noteq> '''' \<and> cc_RateLimitConfig (setDefaults c) \<noteq> None"
  by (auto simp: setDefaults_def Let_def)

lemma setDefaults_idem [simp]: "setDefaults (setDefaults c) = setDefaults c"
  by (simp add: setDefaults_def Let_def)

lemma DefaultAndValidate_cases:
  assumes "DefaultAndValidate cfg = (r, cfg')"
  shows "r = Ok () \<and> cfg' = setDefaults (trimSpace cfg) \<and> config_complete cfg'
    \<or> (\<exists>m. r = Err (ErrMsg m)) \<and> cfg' = trimSpace cfg"
  using assms setDefaults_given [of "trimSpace cfg"]
  by (auto simp: DefaultAndValidate_def Let_def config_complete_def split: if_splits)

lemma DefaultAndValidate_complete:
  assumes "config_complete cfg" and "trimSpace cfg = cfg"
  shows "DefaultAndValidate cfg = (Ok (), cfg)"
proof -
  have "setDefaults cfg = cfg"
    using assms(1) by (simp add: setDefaults_def config_complete_def)
  then show ?thesis
    using assms(1) by (auto simp: DefaultAndValidate_def Let_def config_complete_def assms(2))
qed

end
