(* ===== verification/Azure_Types.thy ===== *)
theory Azure_Types
  imports GoStrings
begin

text \<open>
  The Azure resources the controllers read and write, as records of the SDK fields that the
  program uses. Every pointer field is an \<open>option\<close>. Slices whose elements the program checks
  for nil are lists of options, and a slice that the program compares with nil is an option of a list.
  SDK enumerations are strings, as they are in the SDK. The program never changes a field
  that is not listed here.
\<close>

type_synonym int32 = "32 word"
type_synonym tags = "string \<rightharpoonup> string option"

record sub_resource =
  sr_ID :: "string option"

record subnet =
  sn_ID :: "string option"

record sku =
  sku_Name :: "string option"
  sku_Tier :: "string option"

section \<open>Load balancers\<close>

record lb_rule_props =
  lrp_Protocol :: "string option"
  lrp_EnableFloatingIP :: "bool option"
  lrp_FrontendIPConfiguration :: "sub_resource option"
  lrp_BackendAddressPool :: "sub_resource option"
  lrp_Probe :: "sub_resource option"
  lrp_FrontendPort :: "int32 option"
  lrp_BackendPort :: "int32 option"

record lb_rule =
  lr_Name :: "string option"
  lr_Properties :: "lb_rule_props option"

record probe_props =
  pbp_RequestPath :: "string option"
  pbp_Protocol :: "string option"
  pbp_Port :: "int32 option"

record probe =
  pb_Name :: "string option"
  pb_Properties :: "probe_props option"

record frontend_props =
  fep_PrivateIPAddressVersion :: "string option"
  fep_PrivateIPAllocationMethod :: "string option"
  fep_PrivateIPAddress :: "string option"
  fep_Subnet :: "subnet option"

record frontend =
  fe_Name :: "string option"
  fe_ID :: "string option"
  fe_Properties :: "frontend_props option"

record backend_pool =
  bp_Name :: "string option"
  bp_ID :: "string option"
  bp_Properties :: "unit option"

record lb_props =
  lbp_FrontendIPConfigurations :: "frontend list"
  lbp_BackendAddressPools :: "backend_pool list"
  lbp_LoadBalancingRules :: "lb_rule list"
  lbp_Probes :: "probe list"

record load_balancer =
  lb_Name :: "string option"
  lb_Location :: "string option"
  lb_SKU :: "sku option"
  lb_Properties :: "lb_props option"

section \<open>Scale sets and their instances\<close>

text \<open>
  \<open>vpip_Properties\<close> is the pointer to the properties of a public IP configuration, of which the
  program uses the public IP prefix, itself a pointer.
\<close>

record vmss_pip_props =
  vpp_PublicIPPrefix :: "sub_resource option"

record vmss_pip =
  vpip_Name :: "string option"
  vpip_Properties :: "vmss_pip_props option"

record vmss_ip_props =
  vip_Primary :: "bool option"
  vip_PrivateIPAddressVersion :: "string option"
  vip_PublicIPAddressConfiguration :: "vmss_pip option"
  vip_Subnet :: "sub_resource option"
  vip_LoadBalancerBackendAddressPools :: "sub_resource list"

record vmss_ipconfig =
  vic_Name :: "string option"
  vic_Properties :: "vmss_ip_props option"

record vmss_nic_props =
  vnp_Primary :: "bool option"
  vnp_IPConfigurations :: "vmss_ipconfig list"

record vmss_nic =
  vn_Name :: "string option"
  vn_Properties :: "vmss_nic_props option"

record vmss_network_profile =
  vnw_NetworkInterfaceConfigurations :: "vmss_nic list"

record vmss_vm_profile =
  vmp_NetworkProfile :: "vmss_network_profile option"

record vmss_props =
  vsp_UniqueID :: "string option"
  vsp_VirtualMachineProfile :: "vmss_vm_profile option"

record vmss =
  vs_Name :: "string option"
  vs_Location :: "string option"
  vs_Tags :: tags
  vs_Properties :: "vmss_props option"

record os_profile =
  os_ComputerName :: "string option"

record vmss_vm_props =
  vvp_NetworkProfileConfiguration :: "vmss_network_profile option"
  vvp_OSProfile :: "os_profile option"
  vvp_ProvisioningState :: "string option"

record vmss_vm =
  vv_ID :: "string option"
  vv_InstanceID :: "string option"
  vv_Properties :: "vmss_vm_props option"

record virtual_machine =
  vm_Name :: "string option"
  vm_Tags :: tags

section \<open>Public IP addresses, prefixes and network interfaces\<close>

record public_ip_props =
  pipp_PublicIPAddressVersion :: "string option"
  pipp_PublicIPPrefix :: "sub_resource option"
  pipp_PublicIPAllocationMethod :: "string option"

record public_ip =
  pip_ID :: "string option"
  pip_Name :: "string option"
  pip_Location :: "string option"
  pip_SKU :: "sku option"
  pip_Properties :: "public_ip_props option"

record ip_prefix_props =
  ipp_PrefixLength :: "int32 option"
  ipp_PublicIPAddressVersion :: "string option"
  ipp_IPPrefix :: "string option"
  ipp_PublicIPAddresses :: "sub_resource option list"

record ip_prefix =
  ipx_ID :: "string option"
  ipx_Name :: "string option"
  ipx_Location :: "string option"
  ipx_SKU :: "sku option"
  ipx_Properties :: "ip_prefix_props option"

record nic_ip_props =
  nip_Primary :: "bool option"
  nip_PrivateIPAddressVersion :: "string option"
  nip_PrivateIPAddress :: "string option"
  nip_Subnet :: "subnet option"
  nip_PublicIPAddress :: "public_ip option"
  nip_LoadBalancerBackendAddressPools :: "backend_pool option list"

record nic_ipconfig =
  nic_Name :: "string option"
  nic_Properties :: "nic_ip_props option"

record interface_props =
  ifp_ProvisioningState :: "string option"
  ifp_IPConfigurations :: "nic_ipconfig option list option"

record interface =
  if_ID :: "string option"
  if_Name :: "string option"
  if_Tags :: tags
  if_Properties :: "interface_props option"

end
