(* ===== verification/AzManager.thy ===== *)
theory AzManager
  imports Complex_Main Cloud_Config Azure_Types
begin

text \<open>
  The Azure access layer, src/pkg/azmanager/azmanager.go: the retry loop around every call and
  the methods of \<open>AzureManager\<close>. The resource clients belong to the Azure SDK: they are the
  fields of the record \<open>AzureManager\<close> that a caller supplies, functions over a world state \<open>'s\<close>.
  Logging is left out.
\<close>

section \<open>Retry\<close>

type_synonym duration = int

definition Second :: duration where "Second = 1000000000"
definition Minute :: duration where "Minute = 60 * Second"

record wait_backoff =
  bo_Duration :: duration
  bo_Factor :: rat
  bo_Jitter :: rat
  bo_Steps :: nat
  bo_Cap :: duration

definition defaultPollOverallTimeout :: duration where
  "defaultPollOverallTimeout = 2 * Minute"

definition ErrRateLimitReached :: string where
  "ErrRateLimitReached = ''rate limit reached''"

definition defaultPollBackoff :: wait_backoff where
  "defaultPollBackoff = \<lparr>bo_Duration = Second, bo_Factor = 2, bo_Jitter = 1 / 10, bo_Steps = 10,
     bo_Cap = 30 * Second\<rparr>"

definition isRateLimitError :: "error \<Rightarrow> bool" where
  "isRateLimitError err \<longleftrightarrow> error_text err = ErrRateLimitReached"

definition isInternalServerError :: "error \<Rightarrow> bool" where
  "isInternalServerError err \<longleftrightarrow>
     (case as_resp_err err of None \<Rightarrow> False | Some (code, status) \<Rightarrow> code = ''InternalServerError'')"

record retrySettings =
  rs_OverallTimeout :: "duration option"
  rs_Backoff :: "wait_backoff option"

text \<open>
  What \<open>wait.ExponentialBackoffWithContext\<close> takes from its surroundings: whether a timeout that
  started in one world state has expired in another, the pause after a poll, given how many
  polls are left, and whether that pause was cut short by the cap of the backoff.
\<close>

record 's clock =
  clk_expired :: "duration \<Rightarrow> 's \<Rightarrow> 's \<Rightarrow> bool"
  clk_sleep :: "wait_backoff \<Rightarrow> nat \<Rightarrow> 's \<Rightarrow> 's"
  clk_capped :: "wait_backoff \<Rightarrow> nat \<Rightarrow> bool"

text \<open>
  The documented contract of \<open>wait.ExponentialBackoffWithContext\<close>: the condition is polled until
  it is done or fails, at most \<open>Steps\<close> times with a pause between two polls, and no more after
  the context has expired or a pause that was cut short by the cap is over. A condition that is done carries the value its closure stored.
\<close>

fun poll_backoff ::
  "('s \<Rightarrow> bool) \<Rightarrow> (nat \<Rightarrow> bool) \<Rightarrow> (nat \<Rightarrow> 's \<Rightarrow> 's) \<Rightarrow> ('s, 'a option) io \<Rightarrow> nat \<Rightarrow> ('s, 'a) io" where
  "poll_backoff expired capped sleep condition 0 s = (Err (ErrMsg ''timed out waiting for the condition''), s)"
| "poll_backoff expired capped sleep condition (Suc n) s =
     (if expired s then (Err (ErrMsg ''context deadline exceeded''), s)
      else (case condition s of
          (Ok (Some a), s1) \<Rightarrow> (Ok a, s1)
        | (Ok None, s1) \<Rightarrow> if n \<noteq> 0 \<and> capped n then (Err (ErrMsg ''timed out waiting for the condition''), sleep n s1)
            else poll_backoff expired capped sleep condition n (if n = 0 then s1 else sleep n s1)
        | (Err e, s1) \<Rightarrow> (Err e, s1)
        | (Panic, s1) \<Rightarrow> (Panic, s1)))"

definition conditionFunc :: "('s, 'a) io \<Rightarrow> (error \<Rightarrow> bool) \<Rightarrow> ('s, 'a option) io" where
  "conditionFunc operation isRetriableFunc = tryE operation (\<lambda>a. retE (Some a))
     (\<lambda>e. if isRetriableFunc e then retE None else failE e)"

definition wrapRetry ::
  "'s clock \<Rightarrow> ('s, 'a) io \<Rightarrow> (error \<Rightarrow> bool) \<Rightarrow> retrySettings list \<Rightarrow> ('s, 'a) io" where
  "wrapRetry clk operation isRetriableFunc settings = (\<lambda>s.
     let overallTimeout = (case settings of [] \<Rightarrow> defaultPollOverallTimeout
           | rs # _ \<Rightarrow> Val defaultPollOverallTimeout (rs_OverallTimeout rs));
         backoff = (case settings of [] \<Rightarrow> defaultPollBackoff
           | rs # _ \<Rightarrow> Val defaultPollBackoff (rs_Backoff rs))
     in poll_backoff (clk_expired clk overallTimeout s) (clk_capped clk backoff) (clk_sleep clk backoff)
          (conditionFunc operation isRetriableFunc) (bo_Steps backoff) s)"

definition timeout_of :: "duration \<Rightarrow> retrySettings list" where
  "timeout_of d = [\<lparr>rs_OverallTimeout = Some d, rs_Backoff = None\<rparr>]"

section \<open>The manager\<close>

record 's AzureManager =
  az_CloudConfig :: CloudConfig
  az_clock :: "'s clock"
  LoadBalancerClient_Get :: "string \<Rightarrow> string \<Rightarrow> ('s, load_balancer) io"
  LoadBalancerClient_CreateOrUpdate :: "string \<Rightarrow> string \<Rightarrow> load_balancer \<Rightarrow> ('s, load_balancer) io"
  LoadBalancerClient_Delete :: "string \<Rightarrow> string \<Rightarrow> ('s, unit) io"
  VmssClient_List :: "string \<Rightarrow> ('s, vmss list) io"
  VmssClient_Get :: "string \<Rightarrow> string \<Rightarrow> ('s, vmss) io"
  VmssClient_CreateOrUpdate :: "string \<Rightarrow> string \<Rightarrow> vmss \<Rightarrow> ('s, vmss) io"
  VmssVMClient_List :: "string \<Rightarrow> string \<Rightarrow> ('s, vmss_vm list) io"
  VmssVMClient_Get :: "string \<Rightarrow> string \<Rightarrow> string \<Rightarrow> ('s, vmss_vm) io"
  VmssVMClient_Update :: "string \<Rightarrow> string \<Rightarrow> string \<Rightarrow> vmss_vm \<Rightarrow> ('s, vmss_vm) io"
  VMClient_List :: "string \<Rightarrow> ('s, virtual_machine list) io"
  VMClient_Get :: "string \<Rightarrow> string \<Rightarrow> ('s, virtual_machine) io"
  PublicIPPrefixClient_Get :: "string \<Rightarrow> string \<Rightarrow> ('s, ip_prefix) io"
  PublicIPPrefixClient_CreateOrUpdate :: "string \<Rightarrow> string \<Rightarrow> ip_prefix \<Rightarrow> ('s, ip_prefix) io"
  PublicIPPrefixClient_Delete :: "string \<Rightarrow> string \<Rightarrow> ('s, unit) io"
  PublicIPClient_CreateOrUpdate :: "string \<Rightarrow> string \<Rightarrow> public_ip \<Rightarrow> ('s, public_ip) io"
  PublicIPClient_Delete :: "string \<Rightarrow> string \<Rightarrow> ('s, unit) io"
  InterfaceClient_GetVMSS :: "string \<Rightarrow> string \<Rightarrow> string \<Rightarrow> string \<Rightarrow> ('s, interface) io"
  InterfaceClient_List :: "string \<Rightarrow> ('s, interface option list) io"
  InterfaceClient_Get :: "string \<Rightarrow> string \<Rightarrow> ('s, interface) io"
  InterfaceClient_CreateOrUpdate :: "string \<Rightarrow> string \<Rightarrow> interface \<Rightarrow> ('s, interface) io"
  SubnetClient_Get :: "string \<Rightarrow> string \<Rightarrow> string \<Rightarrow> ('s, subnet) io"

definition SubscriptionID :: "'s AzureManager \<Rightarrow> string" where
  "SubscriptionID az = cc_SubscriptionID (az_CloudConfig az)"

definition Location :: "'s AzureManager \<Rightarrow> string" where
  "Location az = cc_Location (az_CloudConfig az)"

definition ResourceGroup :: "'s AzureManager \<Rightarrow> string" where
  "ResourceGroup az = cc_ResourceGroup (az_CloudConfig az)"

definition LoadBalancerResourceGroup :: "'s AzureManager \<Rightarrow> string" where
  "LoadBalancerResourceGroup az = cc_LoadBalancerResourceGroup (az_CloudConfig az)"

definition LoadBalancerName :: "'s AzureManager \<Rightarrow> string" where
  "LoadBalancerName az = (if cc_LoadBalancerName (az_CloudConfig az) = ''''
     then DefaultGatewayLBName else cc_LoadBalancerName (az_CloudConfig az))"

text \<open>The three identifier templates differ in the collection name only.\<close>

definition LBSubresourceID :: "string \<Rightarrow> 's AzureManager \<Rightarrow> string \<Rightarrow> string option" where
  "LBSubresourceID collection az name = Ptr (''/subscriptions/'' @ SubscriptionID az
     @ ''/resourceGroups/'' @ LoadBalancerResourceGroup az
     @ ''/providers/Microsoft.Network/loadBalancers/'' @ LoadBalancerName az
     @ ''/'' @ collection @ ''/'' @ name)"

definition GetLBFrontendIPConfigurationID :: "'s AzureManager \<Rightarrow> string \<Rightarrow> string option" where
  "GetLBFrontendIPConfigurationID = LBSubresourceID ''frontendIPConfigurations''"

definition GetLBBackendAddressPoolID :: "'s AzureManager \<Rightarrow> string \<Rightarrow> string option" where
  "GetLBBackendAddressPoolID = LBSubresourceID ''backendAddressPools''"

definition GetLBProbeID :: "'s AzureManager \<Rightarrow> string \<Rightarrow> string option" where
  "GetLBProbeID = LBSubresourceID ''probes''"

definition defaultRG :: "'s AzureManager \<Rightarrow> string \<Rightarrow> string" where
  "defaultRG az resourceGroup = (if resourceGroup = '''' then ResourceGroup az else resourceGroup)"

section \<open>Load balancer, scale set and machine calls\<close>

definition GetLB :: "'s AzureManager \<Rightarrow> ('s, load_balancer) io" where
  "GetLB az = wrapRetry (az_clock az)
     (LoadBalancerClient_Get az (LoadBalancerResourceGroup az) (LoadBalancerName az)) isRateLimitError []"

definition CreateOrUpdateLB :: "'s AzureManager \<Rightarrow> load_balancer \<Rightarrow> ('s, load_balancer) io" where
  "CreateOrUpdateLB az lb = wrapRetry (az_clock az)
     (LoadBalancerClient_CreateOrUpdate az (LoadBalancerResourceGroup az) (valS (lb_Name lb)) lb)
     isRateLimitError (timeout_of (5 * Minute))"

definition DeleteLB :: "'s AzureManager \<Rightarrow> ('s, unit) io" where
  "DeleteLB az = wrapRetry (az_clock az)
     (LoadBalancerClient_Delete az (LoadBalancerResourceGroup az) (LoadBalancerName az)) isRateLimitError []"

definition ListVMSS :: "'s AzureManager \<Rightarrow> ('s, vmss list) io" where
  "ListVMSS az = wrapRetry (az_clock az) (VmssClient_List az (ResourceGroup az)) isRateLimitError []"

definition GetVMSS :: "'s AzureManager \<Rightarrow> string \<Rightarrow> string \<Rightarrow> ('s, vmss) io" where
  "GetVMSS az resourceGroup vmssName =
     (if vmssName = '''' then failE (ErrMsg ''vmss name is empty'')
      else wrapRetry (az_clock az) (VmssClient_Get az (defaultRG az resourceGroup) vmssName)
        isRateLimitError (timeout_of (5 * Minute)))"

definition ListVMs :: "'s AzureManager \<Rightarrow> ('s, virtual_machine list) io" where
  "ListVMs az = wrapRetry (az_clock az) (VMClient_List az (ResourceGroup az)) isRateLimitError []"

definition GetVM :: "'s AzureManager \<Rightarrow> string \<Rightarrow> string \<Rightarrow> ('s, virtual_machine) io" where
  "GetVM az resourceGroup vmName =
     (if vmName = '''' then failE (ErrMsg ''vm name is empty'')
      else wrapRetry (az_clock az) (VMClient_Get az (defaultRG az resourceGroup) vmName)
        isRateLimitError (timeout_of (5 * Minute)))"

definition CreateOrUpdateVMSS :: "'s AzureManager \<Rightarrow> string \<Rightarrow> string \<Rightarrow> vmss \<Rightarrow> ('s, vmss) io" where
  "CreateOrUpdateVMSS az resourceGroup vmssName vm =
     (if vmssName = '''' then failE (ErrMsg ''vmss name is empty'')
      else wrapRetry (az_clock az) (VmssClient_CreateOrUpdate az (defaultRG az resourceGroup) vmssName vm)
        isRateLimitError (timeout_of (5 * Minute)))"

definition ListVMSSInstances :: "'s AzureManager \<Rightarrow> string \<Rightarrow> string \<Rightarrow> ('s, vmss_vm list) io" where
  "ListVMSSInstances az resourceGroup vmssName =
     (if vmssName = '''' then failE (ErrMsg ''vmss name is empty'')
      else wrapRetry (az_clock az) (VmssVMClient_List az (defaultRG az resourceGroup) vmssName)
        isRateLimitError [])"

definition GetVMSSInstance :: "'s AzureManager \<Rightarrow> string \<Rightarrow> string \<Rightarrow> string \<Rightarrow> ('s, vmss_vm) io" where
  "GetVMSSInstance az resourceGroup vmssName instanceID =
     (if vmssName = '''' then failE (ErrMsg ''vmss name is empty'')
      else if instanceID = '''' then failE (ErrMsg ''vmss instanceID is empty'')
      else wrapRetry (az_clock az) (VmssVMClient_Get az (defaultRG az resourceGroup) vmssName instanceID)
        isRateLimitError [])"

definition UpdateVMSSInstance ::
  "'s AzureManager \<Rightarrow> string \<Rightarrow> string \<Rightarrow> string \<Rightarrow> vmss_vm \<Rightarrow> ('s, vmss_vm) io" where
  "UpdateVMSSInstance az resourceGroup vmssName instanceID vm =
     (if vmssName = '''' then failE (ErrMsg ''vmss name is empty'')
      else if instanceID = '''' then failE (ErrMsg ''vmss instanceID is empty'')
      else wrapRetry (az_clock az) (VmssVMClient_Update az (defaultRG az resourceGroup) vmssName instanceID vm)
        isRateLimitError [])"

section \<open>Public IP, interface and subnet calls\<close>

definition GetPublicIPPrefix :: "'s AzureManager \<Rightarrow> string \<Rightarrow> string \<Rightarrow> ('s, ip_prefix) io" where
  "GetPublicIPPrefix az resourceGroup prefixName =
     (if prefixName = '''' then failE (ErrMsg ''public ip prefix name is empty'')
      else wrapRetry (az_clock az) (PublicIPPrefixClient_Get az (defaultRG az resourceGroup) prefixName)
        isRateLimitError [])"

definition CreateOrUpdatePublicIPPrefix ::
  "'s AzureManager \<Rightarrow> string \<Rightarrow> string \<Rightarrow> ip_prefix \<Rightarrow> ('s, ip_prefix) io" where
  "CreateOrUpdatePublicIPPrefix az resourceGroup prefixName ipPrefix =
     (if prefixName = '''' then failE (ErrMsg ''public ip prefix name is empty'')
      else wrapRetry (az_clock az)
        (PublicIPPrefixClient_CreateOrUpdate az (defaultRG az resourceGroup) prefixName ipPrefix)
        isRateLimitError [])"

definition DeletePublicIPPrefix :: "'s AzureManager \<Rightarrow> string \<Rightarrow> string \<Rightarrow> ('s, unit) io" where
  "DeletePublicIPPrefix az resourceGroup prefixName =
     (if prefixName = '''' then failE (ErrMsg ''public ip prefix name is empty'')
      else wrapRetry (az_clock az) (PublicIPPrefixClient_Delete az (defaultRG az resourceGroup) prefixName)
        (\<lambda>err. isRateLimitError err \<or> isInternalServerError err) (timeout_of (15 * Minute)))"

definition CreateOrUpdatePublicIP ::
  "'s AzureManager \<Rightarrow> string \<Rightarrow> string \<Rightarrow> public_ip \<Rightarrow> ('s, public_ip) io" where
  "CreateOrUpdatePublicIP az resourceGroup name pip =
     (if name = '''' then failE (ErrMsg ''public ip name is empty'')
      else wrapRetry (az_clock az) (PublicIPClient_CreateOrUpdate az (defaultRG az resourceGroup) name pip)
        isRateLimitError [])"

definition DeletePublicIP :: "'s AzureManager \<Rightarrow> string \<Rightarrow> string \<Rightarrow> ('s, unit) io" where
  "DeletePublicIP az resourceGroup name =
     (if name = '''' then failE (ErrMsg ''public ip name is empty'')
      else wrapRetry (az_clock az) (PublicIPClient_Delete az (defaultRG az resourceGroup) name)
        isRateLimitError [])"

definition GetVMSSInterface ::
  "'s AzureManager \<Rightarrow> string \<Rightarrow> string \<Rightarrow> string \<Rightarrow> string \<Rightarrow> ('s, interface) io" where
  "GetVMSSInterface az resourceGroup vmssName instanceID interfaceName =
     (if vmssName = '''' then failE (ErrMsg ''vmss name is empty'')
      else if instanceID = '''' then failE (ErrMsg ''instanceID is empty'')
      else if interfaceName = '''' then failE (ErrMsg ''interface name is empty'')
      else wrapRetry (az_clock az)
        (InterfaceClient_GetVMSS az (defaultRG az resourceGroup) vmssName instanceID interfaceName)
        isRateLimitError [])"

definition ListNetworkInterfaces :: "'s AzureManager \<Rightarrow> string \<Rightarrow> ('s, interface option list) io" where
  "ListNetworkInterfaces az resourceGroup =
     wrapRetry (az_clock az) (InterfaceClient_List az (defaultRG az resourceGroup)) isRateLimitError []"

definition GetNetworkInterface :: "'s AzureManager \<Rightarrow> string \<Rightarrow> ('s, interface) io" where
  "GetNetworkInterface az interfaceName =
     (if interfaceName = '''' then failE (ErrMsg ''interface name is empty'')
      else wrapRetry (az_clock az) (InterfaceClient_Get az (ResourceGroup az) interfaceName)
        isRateLimitError [])"

definition CreateOrUpdateNetworkInterface ::
  "'s AzureManager \<Rightarrow> string \<Rightarrow> string \<Rightarrow> interface \<Rightarrow> ('s, interface) io" where
  "CreateOrUpdateNetworkInterface az resourceGroup nicName networkInterface =
     (if nicName = '''' then failE (ErrMsg ''nic name is empty'')
      else wrapRetry (az_clock az)
        (InterfaceClient_CreateOrUpdate az (defaultRG az resourceGroup) nicName networkInterface)
        isRateLimitError [])"

definition GetSubnet :: "'s AzureManager \<Rightarrow> ('s, subnet) io" where
  "GetSubnet az = wrapRetry (az_clock az)
     (SubnetClient_Get az (cc_VnetResourceGroup (az_CloudConfig az)) (cc_VnetName (az_CloudConfig az))
       (cc_SubnetName (az_CloudConfig az))) isRateLimitError []"

section \<open>Facts about the retry loop\<close>

definition retry_errors :: "error set" where
  "retry_errors = {ErrMsg ''timed out waiting for the condition'', ErrMsg ''context deadline exceeded''}"

lemma poll_backoff_triple:
  assumes op: "triple P operation Q E N"
    and again: "\<And>e n s. E e s \<Longrightarrow> retr e \<Longrightarrow> P s \<and> P (sleep n s)"
  shows "triple P (poll_backoff expired capped sleep (conditionFunc operation retr) n) Q
    (\<lambda>e s. E e s \<and> \<not> retr e \<or> e \<in> retry_errors \<and> P s) N"
  unfolding triple_def
proof (intro allI impI)
  fix s assume "P s"
  then show "case poll_backoff expired capped sleep (conditionFunc operation retr) n s of (r, s') \<Rightarrow>
      case r of Ok a \<Rightarrow> Q a s' | Err e \<Rightarrow> E e s' \<and> \<not> retr e \<or> e \<in> retry_errors \<and> P s' | Panic \<Rightarrow> N s'"
  proof (induction n arbitrary: s)
    case (Suc n)
    obtain r s1 where m: "operation s = (r, s1)" by (cases "operation s")
    show ?case
    proof (cases "expired s")
      case False
      show ?thesis
      proof (cases r)
        case (Err e)
        then have "E e s1" using op Suc.prems m by (auto dest: triple_ErrD)
        then show ?thesis
          using Err m False again [of e s1] Suc.IH [of "if n = 0 then s1 else sleep n s1"]
          by (auto simp: conditionFunc_def go_simps retry_errors_def)
      qed (use op Suc.prems m False in \<open>auto simp: conditionFunc_def go_simps dest: triple_dests\<close>)
    qed (use Suc.prems in \<open>simp add: retry_errors_def\<close>)
  qed (simp add: retry_errors_def)
qed

lemma wrapRetry_triple:
  assumes "triple P operation Q E N"
    and "\<And>e b n s. E e s \<Longrightarrow> retr e \<Longrightarrow> P s \<and> P (clk_sleep clk b n s)"
  shows "triple P (wrapRetry clk operation retr settings) Q
    (\<lambda>e s. E e s \<and> \<not> retr e \<or> e \<in> retry_errors \<and> P s) N"
proof -
  have "triple P (poll_backoff ex cap (clk_sleep clk b) (conditionFunc operation retr) n) Q
      (\<lambda>e s. E e s \<and> \<not> retr e \<or> e \<in> retry_errors \<and> P s) N" for ex cap b n
    using assms by (intro poll_backoff_triple) auto
  note poll = this [unfolded triple_def, rule_format]
  show ?thesis
    unfolding triple_def wrapRetry_def Let_def by (intro allI impI) (rule poll)
qed

text \<open>A call that keeps a fact of the world keeps it when it is retried.\<close>

lemma wrapRetry_keeps:
  assumes "keeps I operation" and "\<And>b n s. I s \<Longrightarrow> I (clk_sleep clk b n s)"
  shows "keeps I (wrapRetry clk operation retr settings)"
  by (rule triple_conseq [OF wrapRetry_triple [OF assms(1)]]) (auto simp: assms(2))

text \<open>The state in which attempt \<open>k\<close> starts when every earlier attempt was retried.\<close>

fun attempt_state :: "'s clock \<Rightarrow> ('s, 'a) io \<Rightarrow> wait_backoff \<Rightarrow> 's \<Rightarrow> nat \<Rightarrow> 's" where
  "attempt_state clk operation b s 0 = s"
| "attempt_state clk operation b s (Suc k) =
     clk_sleep clk b (bo_Steps b - Suc k) (snd (operation (attempt_state clk operation b s k)))"

lemma poll_backoff_first:
  fixes clk :: "'s clock" and operation :: "('s, 'a) io" and b :: wait_backoff and s :: 's
  defines "st \<equiv> attempt_state clk operation b s"
  assumes "\<forall>j<k. \<exists>e. fst (operation (st j)) = Err e \<and> retr e" and "\<forall>j\<le>k. \<not> expired (st j)"
    and "\<forall>j<k. \<not> clk_capped clk b (bo_Steps b - Suc j)"
    and "\<forall>e. fst (operation (st k)) = Err e \<longrightarrow> \<not> retr e" and "i \<le> k" and "k < bo_Steps b"
  shows "poll_backoff expired (clk_capped clk b) (clk_sleep clk b) (conditionFunc operation retr) (bo_Steps b - i) (st i)
     = operation (st k)"
  using \<open>i \<le> k\<close>
proof (induction "k - i" arbitrary: i)
  case 0
  then have "i = k" by simp
  obtain n where n: "bo_Steps b - k = Suc n" using \<open>k < bo_Steps b\<close> by (metis Suc_diff_Suc)
  obtain r s1 where r: "operation (st k) = (r, s1)" by (cases "operation (st k)")
  then show ?case
    using assms(3,5) \<open>i = k\<close> n
    by (cases r) (auto simp: conditionFunc_def go_simps)
next
  case (Suc d)
  then have "i < k" by simp
  then obtain n where n: "bo_Steps b - i = Suc n" "bo_Steps b - Suc i = n" "n \<noteq> 0"
    using \<open>k < bo_Steps b\<close> by (metis Suc_diff_Suc diff_is_0_eq less_trans not_less Suc_leI le_neq_implies_less not_less_eq)
  obtain e s1 where r: "operation (st i) = (Err e, s1)" "retr e"
    using assms(2) \<open>i < k\<close> by (metis prod.collapse)
  have "poll_backoff expired (clk_capped clk b) (clk_sleep clk b) (conditionFunc operation retr) n (st (Suc i)) = operation (st k)"
    using Suc.hyps(1) [of "Suc i"] Suc.hyps(2) \<open>i < k\<close> n(2) by simp
  moreover have "st (Suc i) = clk_sleep clk b n s1" using r n by (simp add: st_def)
  ultimately show ?case
    using r n assms(3,4) \<open>i < k\<close> by (auto simp: conditionFunc_def go_simps)
qed

lemma poll_backoff_count:
  assumes "\<And>s. cnt (snd (operation s)) \<le> Suc (cnt s)" and "\<And>n s. cnt (sleep n s) = cnt s"
  shows "cnt (snd (poll_backoff expired capped sleep (conditionFunc operation retr) n s)) \<le> cnt s + n"
proof (induction n arbitrary: s)
  case (Suc n)
  obtain r s1 where r: "operation s = (r, s1)" by (cases "operation s")
  have "cnt s1 \<le> Suc (cnt s)" using assms(1) [of s] r by simp
  moreover have "cnt (snd (poll_backoff expired capped sleep (conditionFunc operation retr) n
      (if n = 0 then s1 else sleep n s1))) \<le> cnt s1 + n"
    using Suc [of s1] Suc [of "sleep n s1"] assms(2) by (cases "n = 0") simp_all
  moreover have "cnt (sleep n s1) = cnt s1" by (rule assms(2))
  ultimately show ?case
    using r by (cases r) (auto simp: conditionFunc_def go_simps)
qed simp

lemma reads_wrapRetry:
  assumes "reads view m" and "\<And>b n s. view (clk_sleep clk b n s) = view s"
  shows "reads view (wrapRetry clk m retr settings)"
  unfolding reads_def
  by (intro allI, rule triple_conseq [OF wrapRetry_triple [OF reads_triple [OF assms(1)]]])
    (auto simp: assms(2))

definition az_keeps :: "'s AzureManager \<Rightarrow> ('s \<Rightarrow> bool) \<Rightarrow> bool" where
  "az_keeps az I \<longleftrightarrow>
     (\<forall>a b. keeps I (LoadBalancerClient_Get az a b)) \<and>
     (\<forall>a b c. keeps I (LoadBalancerClient_CreateOrUpdate az a b c)) \<and>
     (\<forall>a b. keeps I (LoadBalancerClient_Delete az a b)) \<and>
     (\<forall>a. keeps I (VmssClient_List az a)) \<and> (\<forall>a b. keeps I (VmssClient_Get az a b)) \<and>
     (\<forall>a b c. keeps I (VmssClient_CreateOrUpdate az a b c)) \<and>
     (\<forall>a b. keeps I (VmssVMClient_List az a b)) \<and> (\<forall>a b c. keeps I (VmssVMClient_Get az a b c)) \<and>
     (\<forall>a b c d. keeps I (VmssVMClient_Update az a b c d)) \<and>
     (\<forall>a. keeps I (VMClient_List az a)) \<and> (\<forall>a b. keeps I (VMClient_Get az a b)) \<and>
     (\<forall>a b. keeps I (PublicIPPrefixClient_Get az a b)) \<and>
     (\<forall>a b c. keeps I (PublicIPPrefixClient_CreateOrUpdate az a b c)) \<and>
     (\<forall>a b. keeps I (PublicIPPrefixClient_Delete az a b)) \<and>
     (\<forall>a b c. keeps I (PublicIPClient_CreateOrUpdate az a b c)) \<and>
     (\<forall>a b. keeps I (PublicIPClient_Delete az a b)) \<and>
     (\<forall>a b c d. keeps I (InterfaceClient_GetVMSS az a b c d)) \<and>
     (\<forall>a. keeps I (InterfaceClient_List az a)) \<and> (\<forall>a b. keeps I (InterfaceClient_Get az a b)) \<and>
     (\<forall>a b c. keeps I (InterfaceClient_CreateOrUpdate az a b c)) \<and>
     (\<forall>a b c. keeps I (SubnetClient_Get az a b c)) \<and>
     (\<forall>b n s. I s \<longrightarrow> I (clk_sleep (az_clock az) b n s))"

lemmas az_method_defs = GetLB_def CreateOrUpdateLB_def DeleteLB_def ListVMSS_def GetVMSS_def ListVMs_def
  GetVM_def CreateOrUpdateVMSS_def ListVMSSInstances_def GetVMSSInstance_def UpdateVMSSInstance_def
  GetPublicIPPrefix_def CreateOrUpdatePublicIPPrefix_def DeletePublicIPPrefix_def
  CreateOrUpdatePublicIP_def DeletePublicIP_def GetVMSSInterface_def ListNetworkInterfaces_def
  GetNetworkInterface_def CreateOrUpdateNetworkInterface_def GetSubnet_def

lemma az_keeps_calls:
  assumes "az_keeps az I"
  shows "keeps I (GetLB az)" "keeps I (CreateOrUpdateLB az lb)" "keeps I (DeleteLB az)"
    "keeps I (ListVMSS az)" "keeps I (GetVMSS az a b)" "keeps I (ListVMs az)" "keeps I (GetVM az a b)"
    "keeps I (CreateOrUpdateVMSS az a b vm)" "keeps I (ListVMSSInstances az a b)"
    "keeps I (GetVMSSInstance az a b c)" "keeps I (UpdateVMSSInstance az a b c vi)"
    "keeps I (GetPublicIPPrefix az a b)" "keeps I (CreateOrUpdatePublicIPPrefix az a b px)"
    "keeps I (DeletePublicIPPrefix az a b)" "keeps I (CreateOrUpdatePublicIP az a b pip)"
    "keeps I (DeletePublicIP az a b)" "keeps I (GetVMSSInterface az a b c d)"
    "keeps I (ListNetworkInterfaces az a)" "keeps I (GetNetworkInterface az a)"
    "keeps I (CreateOrUpdateNetworkInterface az a b nic)" "keeps I (GetSubnet az)"
  using assms unfolding az_method_defs az_keeps_def
  by (auto intro!: triple_if keeps_fail wrapRetry_keeps)

end
