(* ===== verification/Api_Types.thy ===== *)
theory Api_Types
  imports Azure_Types
begin

text \<open>
  The custom resources of src/api/v1alpha1, the core Kubernetes objects the program reads, the
  clients through which it reads and writes them, and the metrics of src/pkg/metrics.

  Kubernetes clients, the helpers of controller-runtime's \<open>controllerutil\<close>, the event recorder
  and the Prometheus counters are code outside this repository: they are fields of the
  records below, supplied by the caller. Writes return the object as the server sent it back,
  because the Go calls overwrite their argument with it.
\<close>

section \<open>Metadata\<close>

record owner_reference =
  or_Kind :: string
  or_Name :: string
  or_UID :: string

record ObjectMeta =
  om_Namespace :: string
  om_Name :: string
  om_UID :: string
  om_Labels :: "string \<rightharpoonup> string"
  om_Annotations :: "string \<rightharpoonup> string"
  om_Finalizers :: "string list"
  om_OwnerReferences :: "owner_reference list"
  om_DeletionTimestamp :: "int option"

definition new_meta :: "string \<Rightarrow> string \<Rightarrow> ObjectMeta" where
  "new_meta ns name = \<lparr>om_Namespace = ns, om_Name = name, om_UID = '''', om_Labels = Map.empty,
     om_Annotations = Map.empty, om_Finalizers = [], om_OwnerReferences = [], om_DeletionTimestamp = None\<rparr>"

definition deleting :: "ObjectMeta \<Rightarrow> bool" where
  "deleting m \<longleftrightarrow> om_DeletionTimestamp m \<noteq> None"

text \<open>\<open>fmt.Sprintf("%s/%s", ns, name)\<close>, the key of an object in messages and statuses.\<close>

definition slash_key :: "ObjectMeta \<Rightarrow> string" where
  "slash_key m = om_Namespace m @ ''/'' @ om_Name m"

section \<open>Custom resources\<close>

record GatewayVmssProfile =
  gvp_VmssResourceGroup :: string
  gvp_VmssName :: string
  gvp_PublicIpPrefixSize :: int32

datatype RouteType = RouteUnset | RouteStaticEgressGateway | RouteAzureNetworking | RouteOther string

record StaticGatewayConfigurationSpec =
  sgs_GatewayNodepoolName :: string
  sgs_GatewayVmssProfile :: GatewayVmssProfile
  sgs_DefaultRoute :: RouteType
  sgs_ProvisionPublicIps :: bool
  sgs_PublicIpPrefixId :: string
  sgs_ExcludeCidrs :: "string list"

record object_reference =
  obr_APIVersion :: string
  obr_Kind :: string
  obr_Name :: string
  obr_Namespace :: string

record GatewayServerProfile =
  gsp_Ip :: string
  gsp_Port :: int32
  gsp_PublicKey :: string
  gsp_PrivateKeySecretRef :: "object_reference option"

record StaticGatewayConfigurationStatus =
  sgt_EgressIpPrefix :: string
  sgt_GatewayServerProfile :: GatewayServerProfile

record StaticGatewayConfiguration =
  sgc_Meta :: ObjectMeta
  sgc_Spec :: StaticGatewayConfigurationSpec
  sgc_Status :: StaticGatewayConfigurationStatus

record GatewayLBConfigurationSpec =
  lbs_GatewayNodepoolName :: string
  lbs_GatewayVmssProfile :: GatewayVmssProfile
  lbs_ProvisionPublicIps :: bool
  lbs_PublicIpPrefixId :: string

record GatewayLBConfigurationStatus =
  lbt_FrontendIp :: string
  lbt_ServerPort :: int32
  lbt_EgressIpPrefix :: string

record GatewayLBConfiguration =
  lbc_Meta :: ObjectMeta
  lbc_Spec :: GatewayLBConfigurationSpec
  lbc_Status :: "GatewayLBConfigurationStatus option"

record GatewayVMConfigurationSpec =
  vms_GatewayNodepoolName :: string
  vms_GatewayVmssProfile :: GatewayVmssProfile
  vms_ProvisionPublicIps :: bool
  vms_PublicIpPrefixId :: string

record GatewayVMProfile =
  vpr_NodeName :: string
  vpr_PrimaryIP :: string
  vpr_SecondaryIP :: string

record GatewayVMConfigurationStatus =
  vmt_EgressIpPrefix :: string
  vmt_GatewayVMProfiles :: "GatewayVMProfile list"

record GatewayVMConfiguration =
  vmc_Meta :: ObjectMeta
  vmc_Spec :: GatewayVMConfigurationSpec
  vmc_Status :: "GatewayVMConfigurationStatus option"

record GatewayConfiguration =
  gwc_StaticGatewayConfiguration :: string
  gwc_InterfaceName :: string

record PeerConfiguration =
  peer_PodEndpoint :: string
  peer_InterfaceName :: string
  peer_PublicKey :: string

record GatewayStatusSpec =
  gss_ReadyGatewayConfigurations :: "GatewayConfiguration list"
  gss_ReadyPeerConfigurations :: "PeerConfiguration list"

record GatewayStatus =
  gws_Meta :: ObjectMeta
  gws_Spec :: GatewayStatusSpec

record PodEndpointSpec =
  pes_StaticGatewayConfiguration :: string
  pes_PodIpAddress :: string
  pes_PodPublicKey :: string

record PodEndpoint =
  pe_Meta :: ObjectMeta
  pe_Spec :: PodEndpointSpec

section \<open>Core objects\<close>

record Secret =
  sec_Meta :: ObjectMeta
  sec_Data :: "string \<rightharpoonup> string"

record ConfigMap =
  cm_Meta :: ObjectMeta
  cm_Data :: "string \<rightharpoonup> string"

record Taint =
  tnt_Key :: string
  tnt_Value :: string
  tnt_Effect :: string

record Node =
  node_Meta :: ObjectMeta
  node_Taints :: "Taint list"

record Pod =
  pod_Meta :: ObjectMeta

section \<open>Clients\<close>

record ('s, 'o) kclient =
  kGet :: "string \<Rightarrow> string \<Rightarrow> ('s, 'o) io"
  kList :: "('s, 'o list) io"
  kCreate :: "'o \<Rightarrow> ('s, 'o) io"
  kUpdate :: "'o \<Rightarrow> ('s, 'o) io"
  kStatusUpdate :: "'o \<Rightarrow> ('s, 'o) io"
  kDelete :: "'o \<Rightarrow> ('s, unit) io"
  kCreateOrPatch :: "'o \<Rightarrow> ('o \<Rightarrow> 'o res) \<Rightarrow> ('s, 'o) io"
  kCreateOrUpdate :: "'o \<Rightarrow> ('o \<Rightarrow> 'o res) \<Rightarrow> ('s, 'o) io"

record controllerutil =
  ContainsFinalizer :: "ObjectMeta \<Rightarrow> string \<Rightarrow> bool"
  AddFinalizer :: "ObjectMeta \<Rightarrow> string \<Rightarrow> ObjectMeta"
  RemoveFinalizer :: "ObjectMeta \<Rightarrow> string \<Rightarrow> ObjectMeta"
  SetControllerReference :: "ObjectMeta \<Rightarrow> ObjectMeta \<Rightarrow> ObjectMeta res"

record 's kube =
  k_SGC :: "('s, StaticGatewayConfiguration) kclient"
  k_LBC :: "('s, GatewayLBConfiguration) kclient"
  k_VMC :: "('s, GatewayVMConfiguration) kclient"
  k_GWS :: "('s, GatewayStatus) kclient"
  k_PE :: "('s, PodEndpoint) kclient"
  k_Secret :: "('s, Secret) kclient"
  k_ConfigMap :: "('s, ConfigMap) kclient"
  k_Node :: "('s, Node) kclient"
  k_Pod :: "('s, Pod) kclient"
  k_util :: controllerutil
  k_Getenv :: "string \<Rightarrow> string"
  k_Event :: "ObjectMeta \<Rightarrow> string \<Rightarrow> string \<Rightarrow> string \<Rightarrow> 's \<Rightarrow> 's"
  k_FailCountInc :: "string list \<Rightarrow> 's \<Rightarrow> 's"
  k_LatencyObserve :: "string list \<Rightarrow> 's \<Rightarrow> 's"

text \<open>An event of a watch, with the metadata of its object, or of the old and the new object.\<close>

datatype watch_event = CreateEvent ObjectMeta | UpdateEvent ObjectMeta ObjectMeta
  | DeleteEvent ObjectMeta | GenericEvent ObjectMeta

definition PodNamespaceEnvKey :: string where
  "PodNamespaceEnvKey = ''MY_POD_NAMESPACE''"

definition NodeNameEnvKey :: string where
  "NodeNameEnvKey = ''MY_NODE_NAME''"

text \<open>The documented effect of the finalizer helpers on the finalizer list.\<close>

definition finalizer_laws :: "controllerutil \<Rightarrow> bool" where
  "finalizer_laws cu \<longleftrightarrow>
     (\<forall>m f. ContainsFinalizer cu m f \<longleftrightarrow> f \<in> set (om_Finalizers m)) \<and>
     (\<forall>m f. AddFinalizer cu m f =
        (if f \<in> set (om_Finalizers m) then m else m\<lparr>om_Finalizers := om_Finalizers m @ [f]\<rparr>)) \<and>
     (\<forall>m f. RemoveFinalizer cu m f = m\<lparr>om_Finalizers := filter (\<lambda>g. g \<noteq> f) (om_Finalizers m)\<rparr>)"

section \<open>Metrics\<close>

definition NewMetricsContext :: "string \<Rightarrow> string \<Rightarrow> string \<Rightarrow> string \<Rightarrow> string \<Rightarrow> string list" where
  "NewMetricsContext namespace operation subscriptionID resourceGroup resource =
     [namespace, operation, subscriptionID, resourceGroup, resource]"

text \<open>The last label, the resource, is trimmed for the latency histogram.\<close>

definition ObserveControllerReconcileMetrics :: "'s kube \<Rightarrow> string list \<Rightarrow> bool \<Rightarrow> 's \<Rightarrow> 's" where
  "ObserveControllerReconcileMetrics k labels succeeded s =
     (let s1 = (if succeeded then s else k_FailCountInc k labels s)
      in k_LatencyObserve k (take 4 labels) s1)"

text \<open>
  The frame of a handler: \<open>succeeded\<close> is false at its start, is set where the handler ends
  without an error, and the deferred function observes it.
\<close>

definition with_metrics :: "'s kube \<Rightarrow> string list \<Rightarrow> ('s, 'a) io \<Rightarrow> ('s, 'a) io" where
  "with_metrics k labels m = finE m (\<lambda>r. ObserveControllerReconcileMetrics k labels (is_ok r))"

definition metrics_keep :: "'s kube \<Rightarrow> ('s \<Rightarrow> 'v) \<Rightarrow> bool" where
  "metrics_keep k view \<longleftrightarrow> (\<forall>l s. view (k_FailCountInc k l s) = view s) \<and>
     (\<forall>l s. view (k_LatencyObserve k l s) = view s)"

lemma metrics_keep_observe:
  "metrics_keep k view \<Longrightarrow> view (ObserveControllerReconcileMetrics k l b s) = view s"
  by (simp add: metrics_keep_def ObserveControllerReconcileMetrics_def Let_def)

end
