(* ===== verification/Contracts.thy ===== *)
theory Contracts
  imports GoStrings
begin

text \<open>
  Two interfaces that several components share.

  \<^item> \<open>keyed_list\<close>: a slice searched by a key. The program keeps load balancer rules, probes,
    VM profiles and node statuses in slices, finds an entry with a \<open>range\<close> loop, drops it by
    slicing and appends the new one. The locale fixes the key and the comparison of keys.
  \<^item> \<open>reconciler\<close>: a step that compares a resource with what it should be and reports whether it
    changed it. Its contract is that the step establishes the goal and leaves a resource that
    has it alone; that a second run changes nothing follows.
\<close>

section \<open>Slices with keys\<close>

fun has_key :: "('k \<Rightarrow> 'k \<Rightarrow> bool) \<Rightarrow> ('a \<Rightarrow> 'k) \<Rightarrow> 'k \<Rightarrow> 'a list \<Rightarrow> bool" where
  "has_key same key k [] \<longleftrightarrow> False"
| "has_key same key k (x # xs) \<longleftrightarrow> same (key x) k \<or> has_key same key k xs"

fun unique_keys :: "('k \<Rightarrow> 'k \<Rightarrow> bool) \<Rightarrow> ('a \<Rightarrow> 'k) \<Rightarrow> 'a list \<Rightarrow> bool" where
  "unique_keys same key [] \<longleftrightarrow> True"
| "unique_keys same key (x # xs) \<longleftrightarrow> \<not> has_key same key (key x) xs \<and> unique_keys same key xs"

lemma has_key_iff: "has_key same key k xs \<longleftrightarrow> (\<exists>x\<in>set xs. same (key x) k)"
  by (induction xs) auto

lemma has_key_append [simp]:
  "has_key same key k (xs @ ys) \<longleftrightarrow> has_key same key k xs \<or> has_key same key k ys"
  by (induction xs) auto

lemma has_key_drop_first: "has_key same key k (drop_first p xs) \<Longrightarrow> has_key same key k xs"
  using set_drop_first [of p xs] by (auto simp: has_key_iff)

lemma unique_keys_drop_first: "unique_keys same key xs \<Longrightarrow> unique_keys same key (drop_first p xs)"
  by (induction xs) (auto dest: has_key_drop_first)

lemma has_key_filter: "has_key same key k (filter p xs) \<Longrightarrow> has_key same key k xs"
  by (auto simp: has_key_iff)

lemma unique_keys_filter: "unique_keys same key xs \<Longrightarrow> unique_keys same key (filter p xs)"
  by (induction xs) (auto dest: has_key_filter)

lemma unique_keys_map_cong:
  "map key xs = map key' ys \<Longrightarrow> unique_keys same key xs \<longleftrightarrow> unique_keys same key' ys"
proof (induction xs arbitrary: ys)
  case (Cons x xs)
  then obtain y zs where ys: "ys = y # zs" "key x = key' y" "map key xs = map key' zs" by auto
  have "has_key same key k xs \<longleftrightarrow> (\<exists>z\<in>set (map key xs). same z k)" for k
    by (simp add: has_key_iff)
  moreover have "has_key same key' k zs \<longleftrightarrow> (\<exists>z\<in>set (map key' zs). same z k)" for k
    by (simp add: has_key_iff)
  ultimately show ?case using ys Cons.IH [of zs] by simp
qed simp

locale keyed_list =
  fixes same :: "'k \<Rightarrow> 'k \<Rightarrow> bool" and key :: "'a \<Rightarrow> 'k"
  assumes same_refl: "same k k"
    and same_sym: "same k l \<Longrightarrow> same l k"
    and same_trans: "same k l \<Longrightarrow> same l m \<Longrightarrow> same k m"
begin

lemma has_key_cong: "same k l \<Longrightarrow> has_key same key k xs \<longleftrightarrow> has_key same key l xs"
proof -
  assume "same k l"
  then have "same x k \<longleftrightarrow> same x l" for x by (metis same_sym same_trans)
  then show ?thesis by (simp add: has_key_iff)
qed

lemma unique_append:
  "unique_keys same key xs \<Longrightarrow> \<not> has_key same key (key y) xs \<Longrightarrow> unique_keys same key (xs @ [y])"
  by (induction xs) (auto dest: same_sym)

lemma unique_append_iff:
  "unique_keys same key (xs @ [y]) \<longleftrightarrow> unique_keys same key xs \<and> \<not> has_key same key (key y) xs"
  by (induction xs) (auto dest: same_sym)

lemma drop_first_gone:
  "unique_keys same key xs \<Longrightarrow> \<not> has_key same key k (drop_first (\<lambda>x. same (key x) k) xs)"
proof (induction xs)
  case (Cons x xs)
  then show ?case
    using has_key_cong [of "key x" k xs] by auto
qed simp

lemma unique_replace:
  assumes "unique_keys same key xs" and "same (key y) k"
  shows "unique_keys same key (drop_first (\<lambda>x. same (key x) k) xs @ [y])"
  using assms drop_first_gone [of xs k] has_key_cong [of "key y" k]
  by (auto simp: unique_append_iff unique_keys_drop_first)

lemma unique_eq:
  "unique_keys same key xs \<Longrightarrow> x \<in> set xs \<Longrightarrow> y \<in> set xs \<Longrightarrow> same (key x) (key y) \<Longrightarrow> x = y"
  by (induction xs) (auto simp: has_key_iff dest: same_sym)

lemma drop_first_filter:
  "unique_keys same key xs \<Longrightarrow>
     drop_first (\<lambda>x. same (key x) k) xs = filter (\<lambda>x. \<not> same (key x) k) xs"
proof (induction xs)
  case (Cons x xs)
  have "filter (\<lambda>x. \<not> same (key x) k) xs = xs" if "same (key x) k"
  proof -
    have "\<not> has_key same key k xs" using that Cons.prems has_key_cong [of "key x" k xs] by auto
    then show ?thesis by (auto simp: has_key_iff intro!: filter_True)
  qed
  with Cons show ?case by simp
qed simp

end

section \<open>Reconciling steps\<close>

locale reconciler =
  fixes inv :: "'a \<Rightarrow> bool" and step :: "'a \<Rightarrow> (bool \<times> 'a) res" and goal :: "'a \<Rightarrow> bool"
  assumes keeps_inv: "inv x \<Longrightarrow> step x = Ok (c, y) \<Longrightarrow> inv y"
    and establishes: "inv x \<Longrightarrow> step x = Ok (c, y) \<Longrightarrow> goal y"
    and leaves_alone: "inv x \<Longrightarrow> goal x \<Longrightarrow> step x = Ok (False, x)"
begin

lemma idempotent: "inv x \<Longrightarrow> step x = Ok (c, y) \<Longrightarrow> step y = Ok (False, y)"
  by (blast intro: leaves_alone keeps_inv dest: establishes)

lemma unchanged_iff: "inv x \<Longrightarrow> step x = Ok (False, x) \<longleftrightarrow> goal x"
  by (blast intro: leaves_alone dest: establishes)

end

text \<open>
  Two steps on the same resource, run one after the other, form a step again when the second
  keeps the goal of the first.
\<close>

definition seq_step :: "('a \<Rightarrow> (bool \<times> 'a) res) \<Rightarrow> ('a \<Rightarrow> (bool \<times> 'a) res) \<Rightarrow> 'a \<Rightarrow> (bool \<times> 'a) res" where
  "seq_step f g x = bindR (f x) (\<lambda>(c, y). bindR (g y) (\<lambda>(d, z). Ok (c \<or> d, z)))"

locale reconciler_pair = a: reconciler inv f A + b: reconciler inv g B
  for inv :: "'a \<Rightarrow> bool" and f A g B +
  assumes second_keeps_first: "inv x \<Longrightarrow> A x \<Longrightarrow> g x = Ok (c, y) \<Longrightarrow> A y"
begin

lemma seq_reconciler: "reconciler inv (seq_step f g) (\<lambda>x. A x \<and> B x)"
proof
  fix x y c
  assume "inv x" and "seq_step f g x = Ok (c, y)"
  then obtain c1 z c2 where "f x = Ok (c1, z)" "g z = Ok (c2, y)"
    by (auto simp: seq_step_def)
  moreover from this \<open>inv x\<close> have "inv z" by (blast intro: a.keeps_inv)
  ultimately show "inv y" and "A y \<and> B y"
    using \<open>inv x\<close> by (blast intro: b.keeps_inv a.establishes b.establishes second_keeps_first)+
qed (simp add: seq_step_def a.leaves_alone b.leaves_alone)

end

sublocale reconciler_pair \<subseteq> both: reconciler inv "seq_step f g" "\<lambda>x. A x \<and> B x"
  by (rule seq_reconciler)

end
