(* ===== verification/LB_Controller.thy ===== *)
theory LB_Controller
  imports AzManager Api_Types Contracts
begin

text \<open>
  The controller of \<open>GatewayLBConfiguration\<close> objects,
  src/controllers/manager/gatewaylbconfiguration_controller.go: it keeps one rule and one probe
  per gateway configuration, and one frontend and one backend pool per gateway node pool, in the
  internal load balancer of the cluster.

  The long function \<open>reconcileLBRule\<close> is split at its blank lines: one definition per block,
  composed in order. A block that only edits the in-memory load balancer is a pure function
  that returns whether it set \<open>updateLB\<close>. Go edits the rule and probe slices in place; every path
  that drops an element also stores the shortened slice or returns an error, so value semantics
  show the same results.
\<close>

section \<open>Names and gateway pools\<close>

record lbPropertyNames =
  frontendName :: string
  backendName :: string
  lbRuleName :: string
  probeName :: string

text \<open>
  The implementations of the Go interface \<open>GatewayPool\<close>: a scale set, or a pool of single
  machines known by its name. \<open>uuid.NewMD5\<close> is a parameter.
\<close>

datatype GatewayPool = AgentPoolVMSS vmss | AgentPoolVMs string

fun GetUniqueID :: "(string \<Rightarrow> string) \<Rightarrow> GatewayPool \<Rightarrow> string" where
  "GetUniqueID newMD5 (AgentPoolVMSS vm) =
     (case vs_Properties vm of None \<Rightarrow> '''' | Some p \<Rightarrow> valS (vsp_UniqueID p))"
| "GetUniqueID newMD5 (AgentPoolVMs agentPoolName) = newMD5 agentPoolName"

record 's GatewayLBConfigurationReconciler =
  lbr_Client :: "'s kube"
  lbr_AzureManager :: "'s AzureManager"
  lbr_LBProbePort :: int
  lbr_NewMD5 :: "string \<Rightarrow> string"

definition getLBPropertyName :: "(string \<Rightarrow> string) \<Rightarrow> GatewayLBConfiguration \<Rightarrow> GatewayPool \<Rightarrow> lbPropertyNames res" where
  "getLBPropertyName newMD5 lbConfig ap =
     (if GetUniqueID newMD5 ap = '''' then Err (ErrMsg ''gateway node pool does not have UID'')
      else Ok \<lparr>frontendName = GetUniqueID newMD5 ap, backendName = GetUniqueID newMD5 ap,
        lbRuleName = om_UID (lbc_Meta lbConfig), probeName = om_UID (lbc_Meta lbConfig)\<rparr>)"

definition isStatusNotFound :: "error \<Rightarrow> bool" where
  "isStatusNotFound err \<longleftrightarrow>
     (case as_resp_err err of None \<Rightarrow> False | Some (code, status) \<Rightarrow> status = 404)"

definition getGatewayLB :: "'s AzureManager \<Rightarrow> ('s, load_balancer option) io" where
  "getGatewayLB az = tryE (GetLB az) (\<lambda>lb. retE (Some lb))
     (\<lambda>err. if isStatusNotFound err then retE None else failE err)"

definition has_pool_tag :: "tags \<Rightarrow> string \<Rightarrow> bool" where
  "has_pool_tag tgs pool \<longleftrightarrow>
     (case tgs AKSNodepoolTagKey of None \<Rightarrow> False | Some v \<Rightarrow> EqualFold (valS v) pool)"

definition loadPool_LB :: "'s AzureManager \<Rightarrow> GatewayLBConfiguration \<Rightarrow> ('s, GatewayPool) io" where
  "loadPool_LB az lbConfig = (let spec = lbc_Spec lbConfig; pool = lbs_GatewayNodepoolName spec in
     if pool \<noteq> '''' then
       bindE (ListVMSS az) (\<lambda>vmssList. case find (\<lambda>v. has_pool_tag (vs_Tags v) pool) vmssList of
           Some v \<Rightarrow> retE (AgentPoolVMSS v)
         | None \<Rightarrow> bindE (ListVMs az) (\<lambda>vmsList. if \<exists>v\<in>set vmsList. has_pool_tag (vm_Tags v) pool
             then retE (AgentPoolVMs pool)
             else failE (ErrMsg ''gateway agent pool not found'')))
     else bindE (GetVMSS az (gvp_VmssResourceGroup (lbs_GatewayVmssProfile spec))
         (gvp_VmssName (lbs_GatewayVmssProfile spec))) (\<lambda>v. retE (AgentPoolVMSS v)))"

section \<open>Expected values\<close>

definition getExpectedLBRule ::
  "string \<Rightarrow> string option \<Rightarrow> string option \<Rightarrow> string option \<Rightarrow> lb_rule" where
  "getExpectedLBRule name frontendID backendID probeID = \<lparr>lr_Name = Some name,
     lr_Properties = Some \<lparr>lrp_Protocol = Some ''Udp'', lrp_EnableFloatingIP = Some True,
       lrp_FrontendIPConfiguration = Some \<lparr>sr_ID = frontendID\<rparr>,
       lrp_BackendAddressPool = Some \<lparr>sr_ID = backendID\<rparr>,
       lrp_Probe = Some \<lparr>sr_ID = probeID\<rparr>,
       lrp_FrontendPort = None, lrp_BackendPort = None\<rparr>\<rparr>"

definition getExpectedLBProbe :: "string \<Rightarrow> int \<Rightarrow> GatewayLBConfiguration \<Rightarrow> probe" where
  "getExpectedLBProbe name lbProbePort lbConfig =
     (let gatewayUID = (case find (\<lambda>refer. or_Name refer = om_Name (lbc_Meta lbConfig))
              (om_OwnerReferences (lbc_Meta lbConfig)) of None \<Rightarrow> '''' | Some refer \<Rightarrow> or_UID refer)
      in \<lparr>pb_Name = Some name, pb_Properties = Some \<lparr>
        pbp_RequestPath = Some (GatewayHealthProbeEndpoint @ gatewayUID),
        pbp_Protocol = Some ''Http'', pbp_Port = Some (word_of_int lbProbePort)\<rparr>\<rparr>)"

definition getExpectedFrontendConfig :: "string \<Rightarrow> string option \<Rightarrow> frontend" where
  "getExpectedFrontendConfig name subnetID = \<lparr>fe_Name = Some name, fe_ID = None,
     fe_Properties = Some \<lparr>fep_PrivateIPAddressVersion = Some ''IPv4'',
       fep_PrivateIPAllocationMethod = Some ''Dynamic'', fep_PrivateIPAddress = None,
       fep_Subnet = Some \<lparr>sn_ID = subnetID\<rparr>\<rparr>\<rparr>"

definition getExpectedBackendPool :: "string \<Rightarrow> backend_pool" where
  "getExpectedBackendPool name = \<lparr>bp_Name = Some name, bp_ID = None, bp_Properties = Some ()\<rparr>"

definition equalSubResource :: "sub_resource option \<Rightarrow> sub_resource option \<Rightarrow> bool" where
  "equalSubResource s t = (case (s, t) of
       (None, None) \<Rightarrow> True
     | (Some a, Some b) \<Rightarrow> EqualFold (valS (sr_ID a)) (valS (sr_ID b))
     | _ \<Rightarrow> False)"

definition sameLBRuleConfig :: "lb_rule \<Rightarrow> lb_rule \<Rightarrow> bool" where
  "sameLBRuleConfig lbRule1 lbRule2 = (case (lr_Properties lbRule1, lr_Properties lbRule2) of
       (None, None) \<Rightarrow> True
     | (Some p, Some q) \<Rightarrow>
         equalSubResource (lrp_FrontendIPConfiguration p) (lrp_FrontendIPConfiguration q) \<and>
         equalSubResource (lrp_BackendAddressPool p) (lrp_BackendAddressPool q) \<and>
         equalSubResource (lrp_Probe p) (lrp_Probe q) \<and>
         valS (lrp_Protocol p) = valS (lrp_Protocol q) \<and>
         valB (lrp_EnableFloatingIP p) = valB (lrp_EnableFloatingIP q)
     | _ \<Rightarrow> False)"

section \<open>Ports\<close>

definition uses_backend :: "lb_rule \<Rightarrow> string \<Rightarrow> bool" where
  "uses_backend rule backend \<longleftrightarrow> (case lr_Properties rule of None \<Rightarrow> False
     | Some p \<Rightarrow> (case lrp_BackendAddressPool p of None \<Rightarrow> False
       | Some b \<Rightarrow> EqualFold (valS (sr_ID b)) backend))"

definition rule_port :: "lb_rule \<Rightarrow> int32 option" where
  "rule_port rule = (case lr_Properties rule of None \<Rightarrow> None | Some p \<Rightarrow>
     (case (lrp_FrontendPort p, lrp_BackendPort p) of
        (Some f, Some b) \<Rightarrow> if f \<noteq> b \<or> sint b < sint WireguardPortStart \<or> sint b \<ge> sint WireguardPortEnd
          then None else Some b
      | _ \<Rightarrow> None))"

text \<open>The loop that marks the ports of the rules with the same backend pool.\<close>

fun markPorts :: "string \<Rightarrow> lb_rule list \<Rightarrow> bool list \<Rightarrow> bool list res" where
  "markPorts backend [] ports = Ok ports"
| "markPorts backend (rule # rules) ports =
     (if uses_backend rule backend then
        (case rule_port rule of
           None \<Rightarrow> Err (ErrMsg ''selectPortForLBRule: found rule with invalid LB port'')
         | Some p \<Rightarrow> (let i = unat (p - WireguardPortStart) in
             if i < length ports then markPorts backend rules (ports[i := True]) else Panic))
      else markPorts backend rules ports)"

text \<open>The loop that returns the first unmarked port.\<close>

fun firstFree :: "nat \<Rightarrow> bool list \<Rightarrow> nat option" where
  "firstFree i [] = None"
| "firstFree i (inUse # ports) = (if inUse then firstFree (Suc i) ports else Some i)"

definition targetBackend :: "lb_rule \<Rightarrow> string res" where
  "targetBackend rule = bindR (deref (lr_Properties rule)) (\<lambda>p.
     bindR (deref (lrp_BackendAddressPool p)) (\<lambda>b. Ok (valS (sr_ID b))))"

definition selectPortForLBRule :: "lb_rule \<Rightarrow> lb_rule list \<Rightarrow> int32 res" where
  "selectPortForLBRule targetRule lbRules = bindR (targetBackend targetRule) (\<lambda>backend.
     bindR (markPorts backend lbRules
       (replicate (unat (WireguardPortEnd - WireguardPortStart)) False)) (\<lambda>ports.
     case firstFree 0 ports of
       Some i \<Rightarrow> Ok (word_of_nat i + WireguardPortStart)
     | None \<Rightarrow> Err (ErrMsg ''selectPortForLBRule: No available ports'')))"

section \<open>The blocks of reconcileLBRule\<close>

definition frontendAddress :: "frontend \<Rightarrow> string res" where
  "frontendAddress frontendConfig =
     (let bad = Err (ErrMsg ''found frontend with unexpected configuration'') in
      case fe_Properties frontendConfig of None \<Rightarrow> bad
      | Some p \<Rightarrow> if fep_PrivateIPAddressVersion p \<noteq> Some ''IPv4'' then bad
          else (case fep_PrivateIPAddress p of None \<Rightarrow> bad | Some ip \<Rightarrow> Ok ip))"

fun findFrontendIP :: "frontend list \<Rightarrow> string \<Rightarrow> string res" where
  "findFrontendIP [] name = Ok ''''"
| "findFrontendIP (frontendConfig # rest) name = bindR (deref (fe_Name frontendConfig)) (\<lambda>n.
     if EqualFold n name then frontendAddress frontendConfig else findFrontendIP rest name)"

definition findFrontendIP_lb :: "load_balancer \<Rightarrow> string \<Rightarrow> string res" where
  "findFrontendIP_lb lb name = bindR (deref (lb_Properties lb))
     (\<lambda>p. findFrontendIP (lbp_FrontendIPConfigurations p) name)"

definition newLB :: "'s AzureManager \<Rightarrow> load_balancer" where
  "newLB az = \<lparr>lb_Name = Some (LoadBalancerName az), lb_Location = Some (Location az),
     lb_SKU = Some \<lparr>sku_Name = Some ''Standard'', sku_Tier = Some ''Regional''\<rparr>,
     lb_Properties = Some \<lparr>lbp_FrontendIPConfigurations = [], lbp_BackendAddressPools = [],
       lbp_LoadBalancingRules = [], lbp_Probes = []\<rparr>\<rparr>"

text \<open>Frontend: the address found, whether a frontend was appended, the new properties.\<close>

definition reconcileFrontend ::
  "'s AzureManager \<Rightarrow> string \<Rightarrow> bool \<Rightarrow> lb_props \<Rightarrow> ('s, string \<times> bool \<times> lb_props) io" where
  "reconcileFrontend az name needLB props =
     bindE (liftR (findFrontendIP (lbp_FrontendIPConfigurations props) name)) (\<lambda>frontendIP.
       if frontendIP = '''' \<and> needLB then
         bindE (GetSubnet az) (\<lambda>sn. retE (frontendIP, True,
           props\<lparr>lbp_FrontendIPConfigurations :=
             lbp_FrontendIPConfigurations props @ [getExpectedFrontendConfig name (sn_ID sn)]\<rparr>))
       else retE (frontendIP, False, props))"

definition isBackend :: "string \<Rightarrow> string \<Rightarrow> backend_pool \<Rightarrow> bool res" where
  "isBackend name backendID backendPool = bindR (deref (bp_Name backendPool)) (\<lambda>n.
     if EqualFold n name then bindR (deref (bp_ID backendPool)) (\<lambda>i. Ok (EqualFold i backendID))
     else Ok False)"

definition reconcileBackend :: "string \<Rightarrow> string \<Rightarrow> bool \<Rightarrow> lb_props \<Rightarrow> (bool \<times> lb_props) res" where
  "reconcileBackend name backendID needLB props =
     bindR (find_res (isBackend name backendID) (lbp_BackendAddressPools props)) (\<lambda>hit. case hit of
         Some _ \<Rightarrow> Ok (False, props)
       | None \<Rightarrow> if needLB then Ok (True, props\<lparr>lbp_BackendAddressPools :=
           lbp_BackendAddressPools props @ [getExpectedBackendPool name]\<rparr>) else Ok (False, props))"

definition nameIs :: "string option \<Rightarrow> string \<Rightarrow> bool res" where
  "nameIs p name = bindR (deref p) (\<lambda>n. Ok (EqualFold n name))"

text \<open>A new rule on the first free port, appended.\<close>

definition appendRule :: "lb_rule \<Rightarrow> lb_rule list \<Rightarrow> (int32 \<times> bool \<times> lb_rule list) res" where
  "appendRule expected lbRules = bindR (selectPortForLBRule expected lbRules) (\<lambda>port.
     Ok (port, True, lbRules @ [expected\<lparr>lr_Properties := map_option
       (\<lambda>p. p\<lparr>lrp_FrontendPort := Some port, lrp_BackendPort := Some port\<rparr>) (lr_Properties expected)\<rparr>]))"

text \<open>Rules, when the load balancer is needed: the port, whether a rule was appended, the rules.\<close>

definition reconcileRules :: "lb_rule \<Rightarrow> lb_rule list \<Rightarrow> (int32 \<times> bool \<times> lb_rule list) res" where
  "reconcileRules expected lbRules =
     bindR (find_res (\<lambda>r. nameIs (lr_Name r) (valS (lr_Name expected))) lbRules) (\<lambda>hit. case hit of
         None \<Rightarrow> appendRule expected lbRules
       | Some (i, lbRule) \<Rightarrow> (case lr_Properties lbRule of
             None \<Rightarrow> appendRule expected (remove_at i lbRules)
           | Some p \<Rightarrow> if \<not> sameLBRuleConfig lbRule expected
               then appendRule expected (remove_at i lbRules)
               else Ok (Val 0 (lrp_FrontendPort p), False, lbRules)))"

text \<open>
  Rules, when the load balancer is not needed, from the last to the first: the rules left,
  whether one was dropped, and how many rules left refer to the frontend.
\<close>

fun dropRules :: "string \<Rightarrow> string \<Rightarrow> lb_rule list \<Rightarrow> (lb_rule list \<times> bool \<times> nat) res" where
  "dropRules name frontendID [] = Ok ([], False, 0)"
| "dropRules name frontendID (lbRule # lbRules) =
     bindR (dropRules name frontendID lbRules) (\<lambda>(left, upd, ruleRefCnt).
     bindR (deref (lr_Name lbRule)) (\<lambda>n.
       if EqualFold n name then Ok (left, True, ruleRefCnt)
       else bindR (deref (lr_Properties lbRule)) (\<lambda>p.
         bindR (deref (lrp_FrontendIPConfiguration p)) (\<lambda>f.
           Ok (lbRule # left, upd,
             if EqualFold (valS (sr_ID f)) frontendID then Suc ruleRefCnt else ruleRefCnt)))))"

text \<open>
  Probes, when the load balancer is needed. A probe without properties is dropped and then
  dereferenced by the comparison that follows, which panics.
\<close>

definition probeDiffers :: "probe_props \<Rightarrow> probe_props \<Rightarrow> bool res" where
  "probeDiffers p q =
     (if valS (pbp_RequestPath p) \<noteq> valS (pbp_RequestPath q) \<or> Val 0 (pbp_Port p) \<noteq> Val 0 (pbp_Port q)
      then Ok True
      else bindR (deref (pbp_Protocol p)) (\<lambda>a. bindR (deref (pbp_Protocol q)) (\<lambda>b. Ok (a \<noteq> b))))"

definition reconcileProbes :: "probe \<Rightarrow> probe list \<Rightarrow> (bool \<times> probe list) res" where
  "reconcileProbes expected probes =
     bindR (find_res (\<lambda>p. nameIs (pb_Name p) (valS (pb_Name expected))) probes) (\<lambda>hit. case hit of
         None \<Rightarrow> Ok (True, probes @ [expected])
       | Some (i, pb) \<Rightarrow> bindR (deref (pb_Properties pb)) (\<lambda>p.
           bindR (deref (pb_Properties expected)) (\<lambda>q.
           bindR (probeDiffers p q) (\<lambda>differs.
             if differs then Ok (True, remove_at i probes @ [expected]) else Ok (False, probes)))))"

definition dropProbe :: "string \<Rightarrow> probe list \<Rightarrow> (bool \<times> probe list) res" where
  "dropProbe name probes =
     bindR (find_res (\<lambda>p. nameIs (pb_Name p) name) probes) (\<lambda>hit. case hit of
         None \<Rightarrow> Ok (False, probes)
       | Some (i, pb) \<Rightarrow> Ok (True, remove_at i probes))"

definition dropFrontendBackend :: "string \<Rightarrow> string \<Rightarrow> lb_props \<Rightarrow> bool \<times> lb_props" where
  "dropFrontendBackend frontendID backendID props =
     (let isF = (\<lambda>f. EqualFold (valS (fe_ID f)) frontendID);
          isB = (\<lambda>b. EqualFold (valS (bp_ID b)) backendID)
      in ((\<exists>f\<in>set (lbp_FrontendIPConfigurations props). isF f)
            \<or> (\<exists>b\<in>set (lbp_BackendAddressPools props). isB b),
          props\<lparr>lbp_FrontendIPConfigurations := drop_first isF (lbp_FrontendIPConfigurations props),
            lbp_BackendAddressPools := drop_first isB (lbp_BackendAddressPools props)\<rparr>))"

section \<open>reconcileLBRule\<close>

text \<open>The identifiers and expected values that the blocks compare with.\<close>

record lb_expected =
  ex_frontendName :: string
  ex_backendName :: string
  ex_frontendID :: string
  ex_backendID :: string
  ex_Rule :: lb_rule
  ex_Probe :: probe

definition expectedOf ::
  "'s GatewayLBConfigurationReconciler \<Rightarrow> GatewayLBConfiguration \<Rightarrow> lbPropertyNames \<Rightarrow> lb_expected" where
  "expectedOf r lbConfig names = (let az = lbr_AzureManager r;
       frontendID = GetLBFrontendIPConfigurationID az (frontendName names);
       backendID = GetLBBackendAddressPoolID az (backendName names);
       probeID = GetLBProbeID az (probeName names)
     in \<lparr>ex_frontendName = frontendName names, ex_backendName = backendName names,
         ex_frontendID = valS frontendID, ex_backendID = valS backendID,
         ex_Rule = getExpectedLBRule (lbRuleName names) frontendID backendID probeID,
         ex_Probe = getExpectedLBProbe (probeName names) (lbr_LBProbePort r) lbConfig\<rparr>)"

definition reconcileNeeded :: "lb_expected \<Rightarrow> lb_props \<Rightarrow> (int32 \<times> bool \<times> lb_props) res" where
  "reconcileNeeded ex props =
     bindR (reconcileBackend (ex_backendName ex) (ex_backendID ex) True props) (\<lambda>(u1, p1).
     bindR (reconcileRules (ex_Rule ex) (lbp_LoadBalancingRules p1)) (\<lambda>(port, u2, lbRules).
     bindR (reconcileProbes (ex_Probe ex) (lbp_Probes p1)) (\<lambda>(u3, probes).
       Ok (port, u1 \<or> u2 \<or> u3, p1\<lparr>lbp_LoadBalancingRules := lbRules, lbp_Probes := probes\<rparr>))))"

text \<open>The result says whether \<open>updateLB\<close> and whether \<open>deleteFrontend\<close> was set.\<close>

definition reconcileUnneeded :: "lb_expected \<Rightarrow> lb_props \<Rightarrow> (bool \<times> bool \<times> lb_props) res" where
  "reconcileUnneeded ex props =
     bindR (reconcileBackend (ex_backendName ex) (ex_backendID ex) False props) (\<lambda>(u1, p1).
     bindR (dropRules (valS (lr_Name (ex_Rule ex))) (ex_frontendID ex) (lbp_LoadBalancingRules p1))
       (\<lambda>(lbRules, u2, ruleRefCnt).
     bindR (dropProbe (valS (pb_Name (ex_Probe ex))) (lbp_Probes p1)) (\<lambda>(u3, probes).
       let p2 = p1\<lparr>lbp_LoadBalancingRules := lbRules, lbp_Probes := probes\<rparr> in
       if ruleRefCnt = 0 then
         (case dropFrontendBackend (ex_frontendID ex) (ex_backendID ex) p2 of
            (u4, p3) \<Rightarrow> Ok (u2 \<or> u3 \<or> u4, True, p3))
       else Ok (u2 \<or> u3, False, p2))))"

text \<open>From the loaded or new load balancer on; \<open>upd\<close> is \<open>updateLB\<close> so far.\<close>

definition reconcileLB ::
  "'s GatewayLBConfigurationReconciler \<Rightarrow> GatewayLBConfiguration \<Rightarrow> bool \<Rightarrow> bool \<Rightarrow> load_balancer
    \<Rightarrow> ('s, string \<times> int32) io" where
  "reconcileLB r lbConfig needLB upd lb = (let az = lbr_AzureManager r in
     bindE (loadPool_LB az lbConfig) (\<lambda>agentPool.
     bindE (liftR (getLBPropertyName (lbr_NewMD5 r) lbConfig agentPool)) (\<lambda>names.
     case lb_Properties lb of
       None \<Rightarrow> failE (ErrMsg ''lb property is empty'')
     | Some props \<Rightarrow> (let ex = expectedOf r lbConfig names in
         bindE (reconcileFrontend az (frontendName names) needLB props) (\<lambda>(frontendIP, u1, props1).
         if needLB then
           bindE (liftR (reconcileNeeded ex props1)) (\<lambda>(lbPort, u2, props2).
           if upd \<or> u1 \<or> u2 then
             bindE (CreateOrUpdateLB az (lb\<lparr>lb_Properties := Some props2\<rparr>)) (\<lambda>updatedLB.
             if frontendIP = '''' then
               bindE (liftR (findFrontendIP_lb updatedLB (frontendName names))) (\<lambda>ip.
               if ip = '''' then failE (ErrMsg ''frontend ip not found even after updating lb'')
               else retE (ip, lbPort))
             else retE (frontendIP, lbPort))
           else retE (frontendIP, lbPort))
         else
           bindE (liftR (reconcileUnneeded ex props1)) (\<lambda>(u2, deleteFrontend, props2).
           if deleteFrontend \<and> lbp_FrontendIPConfigurations props2 = [] then
             bindE (DeleteLB az) (\<lambda>_. retE ('''', 0))
           else if upd \<or> u1 \<or> u2 then
             bindE (CreateOrUpdateLB az (lb\<lparr>lb_Properties := Some props2\<rparr>)) (\<lambda>_. retE (frontendIP, 0))
           else retE (frontendIP, 0)))))))"

definition reconcileLBRule ::
  "'s GatewayLBConfigurationReconciler \<Rightarrow> GatewayLBConfiguration \<Rightarrow> bool \<Rightarrow> ('s, string \<times> int32) io" where
  "reconcileLBRule r lbConfig needLB =
     bindE (getGatewayLB (lbr_AzureManager r)) (\<lambda>found. case found of
         Some lb \<Rightarrow> reconcileLB r lbConfig needLB False lb
       | None \<Rightarrow> if \<not> needLB then retE ('''', 0)
           else reconcileLB r lbConfig needLB True (newLB (lbr_AzureManager r)))"

section \<open>The handlers\<close>

definition zeroVmssProfile :: GatewayVmssProfile where
  "zeroVmssProfile = \<lparr>gvp_VmssResourceGroup = '''', gvp_VmssName = '''', gvp_PublicIpPrefixSize = 0\<rparr>"

definition newVMConfig :: "string \<Rightarrow> string \<Rightarrow> GatewayVMConfiguration" where
  "newVMConfig ns name = \<lparr>vmc_Meta = new_meta ns name,
     vmc_Spec = \<lparr>vms_GatewayNodepoolName = '''', vms_GatewayVmssProfile = zeroVmssProfile,
       vms_ProvisionPublicIps = False, vms_PublicIpPrefixId = ''''\<rparr>,
     vmc_Status = None\<rparr>"

text \<open>The mutate function that is passed to \<open>controllerutil.CreateOrPatch\<close>.\<close>

definition mutateVMConfig ::
  "controllerutil \<Rightarrow> GatewayLBConfiguration \<Rightarrow> GatewayVMConfiguration \<Rightarrow> GatewayVMConfiguration res" where
  "mutateVMConfig cu lbConfig vmConfig = (let spec = lbc_Spec lbConfig in
     bindR (SetControllerReference cu (lbc_Meta lbConfig) (vmc_Meta vmConfig)) (\<lambda>m.
       Ok (vmConfig\<lparr>vmc_Meta := m, vmc_Spec := \<lparr>
         vms_GatewayNodepoolName = lbs_GatewayNodepoolName spec,
         vms_GatewayVmssProfile = lbs_GatewayVmssProfile spec,
         vms_ProvisionPublicIps = lbs_ProvisionPublicIps spec,
         vms_PublicIpPrefixId = lbs_PublicIpPrefixId spec\<rparr>\<rparr>)))"

definition zeroLBStatus :: GatewayLBConfigurationStatus where
  "zeroLBStatus = \<lparr>lbt_FrontendIp = '''', lbt_ServerPort = 0, lbt_EgressIpPrefix = ''''\<rparr>"

definition reconcileGatewayVMConfig ::
  "'s kube \<Rightarrow> GatewayLBConfiguration \<Rightarrow> ('s, GatewayLBConfiguration) io" where
  "reconcileGatewayVMConfig k lbConfig =
     bindE (kCreateOrPatch (k_VMC k) (newVMConfig (om_Namespace (lbc_Meta lbConfig)) (om_Name (lbc_Meta lbConfig)))
       (mutateVMConfig (k_util k) lbConfig)) (\<lambda>vmConfig.
     case vmc_Status vmConfig of
       Some st \<Rightarrow> if deleting (vmc_Meta vmConfig) then retE lbConfig
         else retE (lbConfig\<lparr>lbc_Status := Some ((Val zeroLBStatus (lbc_Status lbConfig))
           \<lparr>lbt_EgressIpPrefix := vmt_EgressIpPrefix st\<rparr>)\<rparr>)
     | None \<Rightarrow> retE lbConfig)"

definition lb_labels :: "'s GatewayLBConfigurationReconciler \<Rightarrow> string \<Rightarrow> GatewayLBConfiguration \<Rightarrow> string list" where
  "lb_labels r operation lbConfig = NewMetricsContext (k_Getenv (lbr_Client r) PodNamespaceEnvKey)
     operation (SubscriptionID (lbr_AzureManager r)) (LoadBalancerResourceGroup (lbr_AzureManager r))
     (ToLower (slash_key (lbc_Meta lbConfig)))"

definition reconcile_LB ::
  "'s GatewayLBConfigurationReconciler \<Rightarrow> GatewayLBConfiguration \<Rightarrow> ('s, unit) io" where
  "reconcile_LB r lbConfig0 = (let k = lbr_Client r; cu = k_util k in
     with_metrics k (lb_labels r ''reconcile_gateway_lb_configuration'' lbConfig0)
      (bindE (if ContainsFinalizer cu (lbc_Meta lbConfig0) LBConfigFinalizerName then retE lbConfig0
              else kUpdate (k_LBC k) (lbConfig0\<lparr>lbc_Meta :=
                AddFinalizer cu (lbc_Meta lbConfig0) LBConfigFinalizerName\<rparr>)) (\<lambda>existing.
       bindE (reconcileLBRule r existing True) (\<lambda>(ip, port).
       bindE (reconcileGatewayVMConfig k existing) (\<lambda>lbConfig1.
       let lbConfig = lbConfig1\<lparr>lbc_Status := Some ((Val zeroLBStatus (lbc_Status lbConfig1))
             \<lparr>lbt_FrontendIp := ip, lbt_ServerPort := port\<rparr>)\<rparr>
       in if existing \<noteq> lbConfig then
            tryE (kStatusUpdate (k_LBC k) lbConfig) (\<lambda>_. retE ()) (\<lambda>_. retE ())
          else retE ())))))"

definition ensureDeleted_LB ::
  "'s GatewayLBConfigurationReconciler \<Rightarrow> GatewayLBConfiguration \<Rightarrow> ('s, unit) io" where
  "ensureDeleted_LB r lbConfig = (let k = lbr_Client r; cu = k_util k in
     if \<not> ContainsFinalizer cu (lbc_Meta lbConfig) LBConfigFinalizerName then retE ()
     else with_metrics k (lb_labels r ''delete_gateway_lb_configuration'' lbConfig)
      (tryE (kDelete (k_VMC k) (newVMConfig (om_Namespace (lbc_Meta lbConfig)) (om_Name (lbc_Meta lbConfig))))
        (\<lambda>_. retE ())
        (\<lambda>err. if \<not> IsNotFound err then failE err
          else bindE (reconcileLBRule r lbConfig False) (\<lambda>_.
            bindE (kUpdate (k_LBC k) (lbConfig\<lparr>lbc_Meta :=
              RemoveFinalizer cu (lbc_Meta lbConfig) LBConfigFinalizerName\<rparr>)) (\<lambda>_. retE ())))))"

text \<open>An error of a handler is recorded as a warning on the gateway configuration and returned.\<close>

definition warn_on_error :: "'s kube \<Rightarrow> ObjectMeta \<Rightarrow> string \<Rightarrow> ('s, unit) io \<Rightarrow> ('s, unit) io \<Rightarrow> ('s, unit) io" where
  "warn_on_error k m reason handler onSuccess = tryE handler (\<lambda>_. onSuccess)
     (\<lambda>err. bindE (effE (k_Event k m ''Warning'' reason (error_text err))) (\<lambda>_. failE err))"

definition Reconcile_LB ::
  "'s GatewayLBConfigurationReconciler \<Rightarrow> string \<Rightarrow> string \<Rightarrow> ('s, unit) io" where
  "Reconcile_LB r ns name = (let k = lbr_Client r in
     tryE (kGet (k_LBC k) ns name)
      (\<lambda>lbConfig. bindE (kGet (k_SGC k) ns name) (\<lambda>gwConfig.
        if deleting (lbc_Meta lbConfig) then
          warn_on_error k (sgc_Meta gwConfig) ''EnsureDeleteGatewayLBConfigurationError''
            (ensureDeleted_LB r lbConfig) (retE ())
        else
          warn_on_error k (sgc_Meta gwConfig) ''ReconcileGatewayLBConfigurationError''
            (reconcile_LB r lbConfig)
            (effE (k_Event k (sgc_Meta gwConfig) ''Normal'' ''ReconcileGatewayLBConfigurationSuccess''
              ''GatewayLBConfiguration reconciled''))))
      (\<lambda>err. if IsNotFound err then retE () else failE err))"

end
