(* ===== verification/LB_Proofs.thy ===== *)
theory LB_Proofs
  imports LB_Controller
begin

text \<open>
  Lemmas on the load balancer controller: port selection, the invariant of rules and probes,
  the blocks of \<open>reconcileLBRule\<close> as reconciling steps, clean-up, and the effect of the whole
  function and of the deletion handler on a world whose Azure and Kubernetes clients behave as
  documented.
\<close>

section \<open>Port selection\<close>

lemma sint_port_consts [simp]:
  "sint WireguardPortStart = 6000" "sint WireguardPortEnd = 7000"
  "unat (WireguardPortEnd - WireguardPortStart) = 1000"
  by (simp_all add: WireguardPortStart_def WireguardPortEnd_def)

text \<open>The index into the array of ports, for a port in range.\<close>

lemma port_index:
  fixes p :: int32
  assumes "6000 \<le> sint p" and "sint p < 7000"
  shows "unat (p - WireguardPortStart) = nat (sint p - 6000)"
    and "unat (p - WireguardPortStart) < 1000"
proof -
  have u: "uint p = sint p"
    unfolding uint_sint by (rule take_bit_int_eq_self) (use assms in auto)
  have "6000 \<le> p" using assms(1) u by (simp add: word_le_def)
  then have "uint (p - 6000) = uint p - 6000" by (simp add: uint_sub_if' word_le_def)
  then show a: "unat (p - WireguardPortStart) = nat (sint p - 6000)"
    by (simp add: WireguardPortStart_def u unat_eq_nat_uint)
  with assms show "unat (p - WireguardPortStart) < 1000" by simp
qed

lemma port_of_index:
  assumes "i < 1000"
  shows "sint (word_of_nat i + WireguardPortStart) = int i + 6000"
proof -
  have "uint (word_of_nat i + WireguardPortStart :: int32) = int i + 6000"
    using assms by (simp add: WireguardPortStart_def uint_word_ariths unsigned_of_nat take_bit_nat_eq_self)
  then show ?thesis
    unfolding sint_uint using assms by (simp add: signed_take_bit_int_eq_self)
qed

lemma rule_port_range: "rule_port r = Some p \<Longrightarrow> 6000 \<le> sint p \<and> sint p < 7000"
  by (auto simp: rule_port_def split: option.splits if_splits)

lemma port_inj [simp]:
  fixes p q :: int32
  shows "unat (p - WireguardPortStart) = unat (q - WireguardPortStart) \<longleftrightarrow> p = q"
  by (simp flip: word_unat_eq_iff)

text \<open>The ports the rules of a backend pool use, as the controller reads them.\<close>

definition used_ports :: "string \<Rightarrow> lb_rule list \<Rightarrow> int32 option set" where
  "used_ports backend rules = rule_port ` {r \<in> set rules. uses_backend r backend}"

lemma used_ports_Cons [simp]:
  "used_ports backend (r # rules) = (if uses_backend r backend
     then insert (rule_port r) (used_ports backend rules) else used_ports backend rules)"
  by (auto simp: used_ports_def)

lemma markPorts_spec:
  assumes "length ports = 1000"
  shows "case markPorts backend rules ports of
      Ok ports' \<Rightarrow> None \<notin> used_ports backend rules \<and> length ports' = 1000 \<and>
        (\<forall>i<1000. ports' ! i \<longleftrightarrow> ports ! i \<or>
          (\<exists>p. Some p \<in> used_ports backend rules \<and> unat (p - WireguardPortStart) = i))
    | Err e \<Rightarrow> None \<in> used_ports backend rules
    | Panic \<Rightarrow> False"
  using assms
proof (induction rules arbitrary: ports)
  case (Cons r rules)
  show ?case
  proof (cases "uses_backend r backend")
    case True
    show ?thesis
    proof (cases "rule_port r")
      case (Some p)
      then have lt: "unat (p - WireguardPortStart) < 1000"
        using rule_port_range port_index(2) by blast
      from True Some lt Cons.prems Cons.IH [of "ports[unat (p - WireguardPortStart) := True]"]
      show ?thesis
        by (auto simp: Let_def nth_list_update split: res.splits)
    qed (use True in simp)
  next
    case False
    with Cons.IH [OF Cons.prems] show ?thesis by (simp split: res.splits)
  qed
qed (auto simp: used_ports_def)

lemma firstFree_spec:
  "case firstFree k ports of
      Some i \<Rightarrow> k \<le> i \<and> i < k + length ports \<and> \<not> ports ! (i - k) \<and> (\<forall>j<i - k. ports ! j)
    | None \<Rightarrow> (\<forall>j<length ports. ports ! j)"
proof (induction ports arbitrary: k)
  case (Cons u ports)
  show ?case
  proof (cases u)
    case True
    show ?thesis
    proof (cases "firstFree (Suc k) ports")
      case None
      with Cons [of "Suc k"] True show ?thesis by (auto simp: less_Suc_eq_0_disj)
    next
      case (Some i)
      with Cons [of "Suc k"] have "Suc k \<le> i" "i < Suc k + length ports" "\<not> ports ! (i - Suc k)"
        "\<forall>j<i - Suc k. ports ! j" by auto
      moreover have "i - k = Suc (i - Suc k)" using \<open>Suc k \<le> i\<close> by simp
      ultimately show ?thesis using True Some by (auto simp: less_Suc_eq_0_disj)
    qed
  qed simp
qed simp

text \<open>
  What \<open>selectPortForLBRule\<close> returns: the least port of the range that no rule of the backend
  uses, an error when a rule of the backend has no valid port or when all 1000 ports are used.
\<close>

lemma selectPort_cases:
  assumes "targetBackend target = Ok backend"
  shows "case selectPortForLBRule target rules of
      Ok port \<Rightarrow> 6000 \<le> sint port \<and> sint port < 7000 \<and> None \<notin> used_ports backend rules \<and>
        Some port \<notin> used_ports backend rules \<and>
        (\<forall>q. 6000 \<le> sint q \<and> sint q < sint port \<longrightarrow> Some q \<in> used_ports backend rules)
    | Err e \<Rightarrow> None \<in> used_ports backend rules \<or>
        (\<forall>q. 6000 \<le> sint q \<and> sint q < 7000 \<longrightarrow> Some q \<in> used_ports backend rules)
    | Panic \<Rightarrow> False"
proof (cases "markPorts backend rules (replicate 1000 False)")
  case (Ok ports)
  have *: "None \<notin> used_ports backend rules" "length ports = 1000"
    and marked: "\<And>i. i < 1000 \<Longrightarrow> ports ! i \<longleftrightarrow>
      (\<exists>p. Some p \<in> used_ports backend rules \<and> unat (p - WireguardPortStart) = i)"
    using markPorts_spec [of "replicate 1000 False" backend rules] Ok by auto
  have used: "ports ! unat (q - WireguardPortStart) \<longleftrightarrow> Some q \<in> used_ports backend rules"
    if "6000 \<le> sint q" "sint q < 7000" for q :: int32
    using marked [OF port_index(2) [OF that]] by simp
  show ?thesis
  proof (cases "firstFree 0 ports")
    case None
    have "Some q \<in> used_ports backend rules" if "6000 \<le> sint q" "sint q < 7000" for q
      using firstFree_spec [where k = 0 and ports = ports] None * used [OF that] port_index(2) [OF that] by auto
    with None Ok assms show ?thesis by (simp add: selectPortForLBRule_def)
  next
    case (Some i)
    let ?port = "word_of_nat i + WireguardPortStart :: int32"
    have i: "i < 1000" "\<not> ports ! i" "\<forall>j<i. ports ! j"
      using firstFree_spec [where k = 0 and ports = ports] Some * by auto
    have s: "sint ?port = int i + 6000" by (rule port_of_index [OF i(1)])
    then have idx: "unat (?port - WireguardPortStart) = i"
      using port_index(1) [of ?port] i(1) by simp
    have "Some q \<in> used_ports backend rules" if "6000 \<le> sint q" "sint q < sint ?port" for q
      using that used [of q] port_index(1) [of q] i s by auto
    moreover have "Some ?port \<notin> used_ports backend rules"
      using used [of ?port] s i idx by simp
    ultimately show ?thesis
      using Some Ok assms s i * by (simp add: selectPortForLBRule_def)
  qed
qed (use markPorts_spec [of "replicate 1000 False" backend rules] assms in
  \<open>auto simp: selectPortForLBRule_def\<close>)

section \<open>Searching by name\<close>

abbreviation rule_named :: "string \<Rightarrow> lb_rule \<Rightarrow> bool" where
  "rule_named n r \<equiv> EqualFold (valS (lr_Name r)) n"

abbreviation probe_named :: "string \<Rightarrow> probe \<Rightarrow> bool" where
  "probe_named n p \<equiv> EqualFold (valS (pb_Name p)) n"

lemma nameIs_Some: "p \<noteq> None \<Longrightarrow> nameIs p n = Ok (EqualFold (valS p) n)"
  by (auto simp: nameIs_def)

interpretation rule_list: keyed_list EqualFold "\<lambda>r. valS (lr_Name r)"
  by unfold_locales (auto simp: EqualFold_def)

interpretation probe_list: keyed_list EqualFold "\<lambda>p. valS (pb_Name p)"
  by unfold_locales (auto simp: EqualFold_def)

section \<open>The invariant of rules and probes\<close>

definition backend_of :: "lb_rule \<Rightarrow> string option" where
  "backend_of r = Option.bind (lr_Properties r) (\<lambda>p. map_option (\<lambda>b. valS (sr_ID b)) (lrp_BackendAddressPool p))"

definition shares_backend :: "lb_rule \<Rightarrow> lb_rule \<Rightarrow> bool" where
  "shares_backend r q \<longleftrightarrow> (case (backend_of r, backend_of q) of
     (Some a, Some b) \<Rightarrow> EqualFold a b | _ \<Rightarrow> False)"

text \<open>Rules of one backend pool have valid ports and no two of them the same.\<close>

fun ports_ok :: "lb_rule list \<Rightarrow> bool" where
  "ports_ok [] \<longleftrightarrow> True"
| "ports_ok (r # rs) \<longleftrightarrow> (backend_of r \<noteq> None \<longrightarrow> rule_port r \<noteq> None) \<and>
     (\<forall>q\<in>set rs. shares_backend r q \<longrightarrow> rule_port r \<noteq> rule_port q) \<and> ports_ok rs"

definition rules_inv :: "lb_rule list \<Rightarrow> bool" where
  "rules_inv rs \<longleftrightarrow> (\<forall>r\<in>set rs. lr_Name r \<noteq> None \<and> lr_Properties r \<noteq> None) \<and>
     unique_keys EqualFold (\<lambda>r. valS (lr_Name r)) rs \<and> ports_ok rs"

definition has_protocol :: "probe \<Rightarrow> bool" where
  "has_protocol p \<longleftrightarrow> (case pb_Properties p of None \<Rightarrow> False | Some q \<Rightarrow> pbp_Protocol q \<noteq> None)"

definition probes_inv :: "probe list \<Rightarrow> bool" where
  "probes_inv ps \<longleftrightarrow> (\<forall>p\<in>set ps. pb_Name p \<noteq> None \<and> has_protocol p) \<and>
     unique_keys EqualFold (\<lambda>p. valS (pb_Name p)) ps"

definition lb_inv :: "lb_props \<Rightarrow> bool" where
  "lb_inv props \<longleftrightarrow> rules_inv (lbp_LoadBalancingRules props) \<and> probes_inv (lbp_Probes props)"

lemma has_protocol_iff: "has_protocol p \<longleftrightarrow> (\<exists>q pr. pb_Properties p = Some q \<and> pbp_Protocol q = Some pr)"
  by (auto simp: has_protocol_def split: option.splits)

lemma uses_backend_alt: "uses_backend r b \<longleftrightarrow> (\<exists>a. backend_of r = Some a \<and> EqualFold a b)"
  by (auto simp: uses_backend_def backend_of_def split: option.splits)

lemma ports_ok_valid: "ports_ok rs \<Longrightarrow> r \<in> set rs \<Longrightarrow> backend_of r \<noteq> None \<Longrightarrow> rule_port r \<noteq> None"
  by (induction rs) auto

lemma ports_ok_drop_first: "ports_ok rs \<Longrightarrow> ports_ok (drop_first p rs)"
  by (induction rs) (auto dest: set_drop_first [THEN subsetD])

lemma ports_ok_append:
  assumes "ports_ok rs" and "backend_of r = Some b" and "rule_port r = Some port"
    and "Some port \<notin> used_ports b rs"
  shows "ports_ok (rs @ [r])"
  using assms
proof (induction rs)
  case (Cons q rs)
  have "rule_port q \<noteq> Some port" if "shares_backend q r"
    using that Cons.prems by (auto simp: shares_backend_def uses_backend_alt split: option.splits if_splits)
  moreover have "Some port \<notin> used_ports b rs" using Cons.prems(4) by (auto split: if_splits)
  ultimately show ?case using Cons by auto
qed simp

lemma rules_inv_drop_first: "rules_inv rs \<Longrightarrow> rules_inv (drop_first p rs)"
  using set_drop_first [of p rs] by (auto simp: rules_inv_def unique_keys_drop_first ports_ok_drop_first)

section \<open>The rule block\<close>

lemma targetBackend_expected [simp]:
  "targetBackend (getExpectedLBRule n f b p) = Ok (valS b)"
  by (simp add: targetBackend_def getExpectedLBRule_def)

lemma expected_rule_name [simp]: "lr_Name (getExpectedLBRule n f b p) = Some n"
  by (simp add: getExpectedLBRule_def)

definition with_port :: "int32 \<Rightarrow> lb_rule \<Rightarrow> lb_rule" where
  "with_port port r = r\<lparr>lr_Properties := map_option
     (\<lambda>p. p\<lparr>lrp_FrontendPort := Some port, lrp_BackendPort := Some port\<rparr>) (lr_Properties r)\<rparr>"

lemma with_port_expected:
  fixes n f b p port
  defines "r \<equiv> with_port port (getExpectedLBRule n f b p)"
  shows "lr_Name r = Some n" "lr_Properties r \<noteq> None" "backend_of r = Some (valS b)"
    "sameLBRuleConfig r (getExpectedLBRule n f b p)"
    "6000 \<le> sint port \<Longrightarrow> sint port < 7000 \<Longrightarrow> rule_port r = Some port"
    "\<exists>q. lr_Properties r = Some q \<and> lrp_FrontendPort q = Some port"
  by (simp_all add: r_def with_port_def getExpectedLBRule_def backend_of_def sameLBRuleConfig_def
      equalSubResource_def rule_port_def)

lemma appendRule_inv:
  assumes "rules_inv rs" and "\<not> has_key EqualFold (\<lambda>r. valS (lr_Name r)) n rs"
    and "appendRule (getExpectedLBRule n f b p) rs = Ok (port, u, rs')"
  shows "u \<and> rs' = rs @ [with_port port (getExpectedLBRule n f b p)] \<and> rules_inv rs'
    \<and> Some port \<notin> used_ports (valS b) rs \<and> 6000 \<le> sint port \<and> sint port < 7000"
proof -
  let ?ex = "getExpectedLBRule n f b p" and ?new = "with_port port (getExpectedLBRule n f b p)"
  from assms(3) have sel: "selectPortForLBRule ?ex rs = Ok port" "u" "rs' = rs @ [?new]"
    by (auto simp: appendRule_def with_port_def)
  with selectPort_cases [of ?ex "valS b" rs]
  have port: "6000 \<le> sint port" "sint port < 7000" "Some port \<notin> used_ports (valS b) rs" by auto
  moreover have "ports_ok (rs @ [?new])"
    using assms(1) port with_port_expected [of port n f b p]
    by (intro ports_ok_append) (auto simp: rules_inv_def)
  ultimately show ?thesis
    using assms(1,2) sel with_port_expected(1,2) [of port n f b p]
    by (auto simp: rules_inv_def rule_list.unique_append_iff)
qed

text \<open>The rule of the configuration is present with the expected properties.\<close>

definition rule_goal :: "lb_rule \<Rightarrow> lb_rule list \<Rightarrow> bool" where
  "rule_goal expected rs \<longleftrightarrow> (\<exists>r. find (rule_named (valS (lr_Name expected))) rs = Some r \<and>
     lr_Properties r \<noteq> None \<and> sameLBRuleConfig r expected)"

lemma reconcileRules_cases:
  assumes inv: "rules_inv rs"
    and run: "reconcileRules (getExpectedLBRule n f b p) rs = Ok (port, u, rs')"
  shows "\<not> u \<and> rs' = rs \<and> rule_goal (getExpectedLBRule n f b p) rs \<and>
      (\<exists>r q. find (rule_named n) rs = Some r \<and> lr_Properties r = Some q \<and> port = Val 0 (lrp_FrontendPort q))
    \<or> u \<and> rs' = drop_first (rule_named n) rs @ [with_port port (getExpectedLBRule n f b p)] \<and>
      rules_inv rs' \<and> Some port \<notin> used_ports (valS b) (drop_first (rule_named n) rs) \<and>
      6000 \<le> sint port \<and> sint port < 7000"
proof -
  let ?ex = "getExpectedLBRule n f b p"
  have n: "valS (lr_Name ?ex) = n" by (simp add: getExpectedLBRule_def)
  have gone: "\<not> has_key EqualFold (\<lambda>r. valS (lr_Name r)) n (drop_first (rule_named n) rs)"
    using inv by (intro rule_list.drop_first_gone) (simp add: rules_inv_def)
  note app = appendRule_inv [OF rules_inv_drop_first [OF inv] gone, of f b p port u rs']
  have "find_res (\<lambda>r. nameIs (lr_Name r) n) rs = Ok None \<and> find (rule_named n) rs = None \<or>
    (\<exists>i x. find_res (\<lambda>r. nameIs (lr_Name r) n) rs = Ok (Some (i, x)) \<and> find (rule_named n) rs = Some x \<and>
      remove_at i rs = drop_first (rule_named n) rs)"
    using inv by (intro find_res_cases) (auto simp: rules_inv_def nameIs_Some)
  then show ?thesis
  proof (elim disjE exE conjE)
    assume no: "find_res (\<lambda>r. nameIs (lr_Name r) n) rs = Ok None" "find (rule_named n) rs = None"
    then have "drop_first (rule_named n) rs = rs" by (simp add: find_None_iff_ex drop_first_none)
    with run no app show ?thesis by (auto simp: reconcileRules_def n)
  next
    fix i x
    assume hit: "find_res (\<lambda>r. nameIs (lr_Name r) n) rs = Ok (Some (i, x))"
      "find (rule_named n) rs = Some x" "remove_at i rs = drop_first (rule_named n) rs"
    obtain q where q: "lr_Properties x = Some q"
      using inv find_SomeD [OF hit(2)] by (auto simp: rules_inv_def)
    show ?thesis
    proof (cases "sameLBRuleConfig x ?ex")
      case True
      with run hit q show ?thesis by (auto simp: reconcileRules_def n rule_goal_def)
    next
      case False
      with run hit q app show ?thesis by (auto simp: reconcileRules_def n)
    qed
  qed
qed

lemma reconcileRules_step:
  assumes inv: "rules_inv rs"
    and run: "reconcileRules (getExpectedLBRule n f b p) rs = Ok (port, u, rs')"
  shows "rules_inv rs'" and "rule_goal (getExpectedLBRule n f b p) rs'"
proof -
  let ?ex = "getExpectedLBRule n f b p"
  have n: "valS (lr_Name ?ex) = n" by (simp add: getExpectedLBRule_def)
  have gone: "find (rule_named n) (drop_first (rule_named n) rs) = None"
    using inv rule_list.drop_first_gone [of rs n] by (simp add: rules_inv_def find_None_iff_ex has_key_iff)
  have "rule_goal ?ex (drop_first (rule_named n) rs @ [with_port port ?ex])"
    using find_after_replace [OF gone] with_port_expected [of port n f b p]
    by (simp add: rule_goal_def n)
  then show "rules_inv rs'" and "rule_goal ?ex rs'"
    using reconcileRules_cases [OF inv run] inv by auto
qed

lemma reconcileRules_goal:
  assumes inv: "rules_inv rs" and goal: "rule_goal (getExpectedLBRule n f b p) rs"
  shows "\<exists>r q. find (rule_named n) rs = Some r \<and> lr_Properties r = Some q \<and>
    reconcileRules (getExpectedLBRule n f b p) rs = Ok (Val 0 (lrp_FrontendPort q), False, rs)"
proof -
  let ?ex = "getExpectedLBRule n f b p"
  have n: "valS (lr_Name ?ex) = n" by (simp add: getExpectedLBRule_def)
  obtain r q where r: "find (rule_named n) rs = Some r" "lr_Properties r = Some q" "sameLBRuleConfig r ?ex"
    using goal by (auto simp: rule_goal_def n)
  have "find_res (\<lambda>r. nameIs (lr_Name r) n) rs = Ok None \<and> find (rule_named n) rs = None \<or>
    (\<exists>i x. find_res (\<lambda>r. nameIs (lr_Name r) n) rs = Ok (Some (i, x)) \<and> find (rule_named n) rs = Some x \<and>
      remove_at i rs = drop_first (rule_named n) rs)"
    using inv by (intro find_res_cases) (auto simp: rules_inv_def nameIs_Some)
  with r show ?thesis by (auto simp: reconcileRules_def n)
qed

section \<open>The probe block\<close>

text \<open>The probe of the configuration is present with the expected path, port and protocol.\<close>

definition same_probe :: "probe \<Rightarrow> probe \<Rightarrow> bool" where
  "same_probe p q \<longleftrightarrow> (case (pb_Properties p, pb_Properties q) of (Some a, Some b) \<Rightarrow>
       valS (pbp_RequestPath a) = valS (pbp_RequestPath b) \<and> Val 0 (pbp_Port a) = Val 0 (pbp_Port b) \<and>
       pbp_Protocol a \<noteq> None \<and> pbp_Protocol a = pbp_Protocol b
     | _ \<Rightarrow> False)"

definition probe_goal :: "probe \<Rightarrow> probe list \<Rightarrow> bool" where
  "probe_goal expected ps \<longleftrightarrow>
     (\<exists>p. find (probe_named (valS (pb_Name expected))) ps = Some p \<and> same_probe p expected)"

lemma expected_probe:
  fixes n port cfg
  defines "q \<equiv> getExpectedLBProbe n port cfg"
  shows "pb_Name q = Some n" "same_probe q q"
    "\<exists>pp. pb_Properties q = Some pp \<and> pbp_Protocol pp = Some ''Http''"
  by (simp_all add: q_def getExpectedLBProbe_def same_probe_def Let_def)

lemma reconcileProbes_cases:
  fixes n pt cfg
  defines "ex \<equiv> getExpectedLBProbe n pt cfg"
  assumes inv: "probes_inv ps"
  shows "reconcileProbes ex ps = (if probe_goal ex ps then Ok (False, ps)
    else Ok (True, drop_first (probe_named n) ps @ [ex]))"
proof -
  note ex = expected_probe [of n pt cfg, folded ex_def]
  have n: "valS (pb_Name ex) = n" using ex by simp
  have "find_res (\<lambda>p. nameIs (pb_Name p) n) ps = Ok None \<and> find (probe_named n) ps = None \<or>
    (\<exists>i x. find_res (\<lambda>p. nameIs (pb_Name p) n) ps = Ok (Some (i, x)) \<and> find (probe_named n) ps = Some x \<and>
      remove_at i ps = drop_first (probe_named n) ps)"
    using inv by (intro find_res_cases) (auto simp: probes_inv_def nameIs_Some)
  then show ?thesis
  proof (elim disjE exE conjE)
    assume no: "find_res (\<lambda>p. nameIs (pb_Name p) n) ps = Ok None" "find (probe_named n) ps = None"
    then have "drop_first (probe_named n) ps = ps" by (simp add: find_None_iff_ex drop_first_none)
    with no show ?thesis by (simp add: reconcileProbes_def n probe_goal_def)
  next
    fix i x
    assume hit: "find_res (\<lambda>p. nameIs (pb_Name p) n) ps = Ok (Some (i, x))"
      "find (probe_named n) ps = Some x" "remove_at i ps = drop_first (probe_named n) ps"
    have "has_protocol x" using inv find_SomeD [OF hit(2)] by (simp add: probes_inv_def)
    then obtain a pr where a: "pb_Properties x = Some a" "pbp_Protocol a = Some pr"
      unfolding has_protocol_iff by blast
    obtain b where b: "pb_Properties ex = Some b" "pbp_Protocol b = Some ''Http''"
      using ex(3) by blast
    have "probeDiffers a b = Ok (\<not> same_probe x ex)"
      using a b by (simp add: probeDiffers_def same_probe_def) blast
    then show ?thesis
      using hit a b by (simp add: reconcileProbes_def n probe_goal_def)
  qed
qed

lemma probes_inv_replace:
  "probes_inv ps \<Longrightarrow> probes_inv (drop_first (probe_named n) ps @ [getExpectedLBProbe n pt cfg])"
  using expected_probe [of n pt cfg] set_drop_first [of "probe_named n" ps]
    probe_list.unique_replace [of ps "getExpectedLBProbe n pt cfg" n]
  by (auto simp: probes_inv_def has_protocol_iff)

lemma probe_goal_replace:
  assumes "probes_inv ps"
  shows "probe_goal (getExpectedLBProbe n pt cfg) (drop_first (probe_named n) ps @ [getExpectedLBProbe n pt cfg])"
proof -
  have gone: "find (probe_named n) (drop_first (probe_named n) ps) = None"
    using assms probe_list.drop_first_gone [of ps n] by (simp add: probes_inv_def find_None_iff_ex has_key_iff)
  show ?thesis
    using expected_probe [of n pt cfg] find_after_replace [OF gone] by (simp add: probe_goal_def)
qed

section \<open>The blocks as reconciling steps\<close>

definition rule_step :: "lb_expected \<Rightarrow> lb_props \<Rightarrow> (bool \<times> lb_props) res" where
  "rule_step ex props = bindR (reconcileRules (ex_Rule ex) (lbp_LoadBalancingRules props))
     (\<lambda>(port, u, rs). Ok (u, props\<lparr>lbp_LoadBalancingRules := rs\<rparr>))"

definition probe_step :: "lb_expected \<Rightarrow> lb_props \<Rightarrow> (bool \<times> lb_props) res" where
  "probe_step ex props = bindR (reconcileProbes (ex_Probe ex) (lbp_Probes props))
     (\<lambda>(u, ps). Ok (u, props\<lparr>lbp_Probes := ps\<rparr>))"

lemma ex_Rule_expectedOf:
  "ex_Rule (expectedOf r cfg names) = getExpectedLBRule (lbRuleName names)
     (GetLBFrontendIPConfigurationID (lbr_AzureManager r) (frontendName names))
     (GetLBBackendAddressPoolID (lbr_AzureManager r) (backendName names))
     (GetLBProbeID (lbr_AzureManager r) (probeName names))"
  by (simp add: expectedOf_def Let_def)

lemma ex_Probe_expectedOf:
  "ex_Probe (expectedOf r cfg names) = getExpectedLBProbe (probeName names) (lbr_LBProbePort r) cfg"
  by (simp add: expectedOf_def Let_def)

lemmas expectedOf_parts = ex_Rule_expectedOf ex_Probe_expectedOf

interpretation lb_steps: reconciler_pair lb_inv
  "rule_step (expectedOf r cfg names)" "\<lambda>p. rule_goal (ex_Rule (expectedOf r cfg names)) (lbp_LoadBalancingRules p)"
  "probe_step (expectedOf r cfg names)" "\<lambda>p. probe_goal (ex_Probe (expectedOf r cfg names)) (lbp_Probes p)"
  for r :: "'s GatewayLBConfigurationReconciler" and cfg names
proof unfold_locales
  let ?ex = "expectedOf r cfg names"
  fix x y c
  assume inv: "lb_inv x"
  show "lb_inv y" and "rule_goal (ex_Rule ?ex) (lbp_LoadBalancingRules y)" if run: "rule_step ?ex x = Ok (c, y)"
    using run inv
    by (auto simp: rule_step_def lb_inv_def expectedOf_parts dest: reconcileRules_step)
  show "lb_inv y" and "probe_goal (ex_Probe ?ex) (lbp_Probes y)" if "probe_step ?ex x = Ok (c, y)"
    using that inv
    by (auto simp: probe_step_def lb_inv_def expectedOf_parts reconcileProbes_cases
        probes_inv_replace probe_goal_replace split: if_splits)
  show "rule_step ?ex x = Ok (False, x)" if "rule_goal (ex_Rule ?ex) (lbp_LoadBalancingRules x)"
    using that inv reconcileRules_goal by (fastforce simp: rule_step_def lb_inv_def expectedOf_parts)
  show "probe_step ?ex x = Ok (False, x)" if "probe_goal (ex_Probe ?ex) (lbp_Probes x)"
    using that inv by (simp add: probe_step_def lb_inv_def expectedOf_parts reconcileProbes_cases)
  show "rule_goal (ex_Rule ?ex) (lbp_LoadBalancingRules y)"
    if "rule_goal (ex_Rule ?ex) (lbp_LoadBalancingRules x)" "probe_step ?ex x = Ok (c, y)"
    using that by (auto simp: probe_step_def)
qed

lemma reconcileNeededE:
  assumes "reconcileNeeded ex props = Ok (port, u, q)"
  obtains u1 p1 u2 rs u3 ps where
    "reconcileBackend (ex_backendName ex) (ex_backendID ex) True props = Ok (u1, p1)"
    "reconcileRules (ex_Rule ex) (lbp_LoadBalancingRules p1) = Ok (port, u2, rs)"
    "reconcileProbes (ex_Probe ex) (lbp_Probes p1) = Ok (u3, ps)"
    "u = (u1 \<or> u2 \<or> u3)" "q = p1\<lparr>lbp_LoadBalancingRules := rs, lbp_Probes := ps\<rparr>"
    "seq_step (rule_step ex) (probe_step ex) p1 = Ok (u2 \<or> u3, q)"
proof -
  from assms obtain x y z where x: "reconcileBackend (ex_backendName ex) (ex_backendID ex) True props = Ok x"
    and y: "reconcileRules (ex_Rule ex) (lbp_LoadBalancingRules (snd x)) = Ok y"
    and z: "reconcileProbes (ex_Probe ex) (lbp_Probes (snd x)) = Ok z"
    and e: "(fst y, fst x \<or> fst (snd y) \<or> fst z,
      (snd x)\<lparr>lbp_LoadBalancingRules := snd (snd y), lbp_Probes := snd z\<rparr>) = (port, u, q)"
    unfolding reconcileNeeded_def bindR_Ok_iff split_beta res.inject by blast
  show thesis
    by (rule that [of "fst x" "snd x" "fst (snd y)" "snd (snd y)" "fst z" "snd z"])
      (use x y z e in \<open>auto simp: seq_step_def rule_step_def probe_step_def split_beta\<close>)
qed

lemma reconcileBackend_frame:
  assumes "reconcileBackend n i b props = Ok (u, q)"
  shows "lbp_LoadBalancingRules q = lbp_LoadBalancingRules props" "lbp_Probes q = lbp_Probes props"
    "lbp_FrontendIPConfigurations q = lbp_FrontendIPConfigurations props"
    "lb_inv q = lb_inv props" "\<not> u \<Longrightarrow> q = props"
  using assms by (auto simp: reconcileBackend_def lb_inv_def split: option.splits if_splits)

section \<open>What Azure stores\<close>

text \<open>
  Azure derives the identifiers of frontends and backend pools from their names and gives a
  dynamic IPv4 frontend an address. \<open>lb_stored\<close> is the shape of a load balancer that was stored,
  and \<open>lb_echo\<close> relates what is sent to what is stored and returned.
\<close>

definition has_address :: "frontend \<Rightarrow> bool" where
  "has_address f \<longleftrightarrow> (case frontendAddress f of Ok ip \<Rightarrow> ip \<noteq> '''' | _ \<Rightarrow> False)"

definition arm_frontends :: "'s AzureManager \<Rightarrow> lb_props \<Rightarrow> bool" where
  "arm_frontends az p \<longleftrightarrow>
     (\<forall>f\<in>set (lbp_FrontendIPConfigurations p). fe_Name f \<noteq> None \<and> has_address f \<and>
        fe_ID f = GetLBFrontendIPConfigurationID az (valS (fe_Name f)))"

definition arm_backends :: "'s AzureManager \<Rightarrow> lb_props \<Rightarrow> bool" where
  "arm_backends az p \<longleftrightarrow>
     (\<forall>b\<in>set (lbp_BackendAddressPools p). bp_Name b \<noteq> None \<and>
        bp_ID b = GetLBBackendAddressPoolID az (valS (bp_Name b)))"

definition frontend_echo :: "frontend \<Rightarrow> frontend \<Rightarrow> bool" where
  "frontend_echo f g \<longleftrightarrow> fe_Name g = fe_Name f \<and>
     (case frontendAddress f of Ok a \<Rightarrow> frontendAddress g = Ok a | _ \<Rightarrow> True)"

definition props_echo :: "'s AzureManager \<Rightarrow> lb_props \<Rightarrow> lb_props \<Rightarrow> bool" where
  "props_echo az p q \<longleftrightarrow> arm_frontends az q \<and> arm_backends az q \<and>
     lbp_LoadBalancingRules q = lbp_LoadBalancingRules p \<and> lbp_Probes q = lbp_Probes p \<and>
     list_all2 frontend_echo (lbp_FrontendIPConfigurations p) (lbp_FrontendIPConfigurations q) \<and>
     map bp_Name (lbp_BackendAddressPools q) = map bp_Name (lbp_BackendAddressPools p)"

definition lb_echo :: "'s AzureManager \<Rightarrow> load_balancer \<Rightarrow> load_balancer \<Rightarrow> bool" where
  "lb_echo az sent stored \<longleftrightarrow> lb_Name stored = lb_Name sent \<and>
     (case (lb_Properties sent, lb_Properties stored) of
        (Some p, Some q) \<Rightarrow> props_echo az p q | _ \<Rightarrow> False)"

definition lb_stored :: "'s AzureManager \<Rightarrow> load_balancer \<Rightarrow> bool" where
  "lb_stored az lb \<longleftrightarrow> lb_Name lb = Some (LoadBalancerName az) \<and>
     (case lb_Properties lb of None \<Rightarrow> False | Some p \<Rightarrow> arm_frontends az p \<and> arm_backends az p \<and> lb_inv p)"

definition has_backend :: "lb_expected \<Rightarrow> lb_props \<Rightarrow> bool" where
  "has_backend ex p \<longleftrightarrow> (\<exists>b\<in>set (lbp_BackendAddressPools p).
     EqualFold (valS (bp_Name b)) (ex_backendName ex) \<and> EqualFold (valS (bp_ID b)) (ex_backendID ex))"

lemma LBSubresourceID_fold:
  "EqualFold (valS (LBSubresourceID c az m)) (valS (LBSubresourceID c az n)) \<longleftrightarrow> EqualFold m n"
  by (simp add: LBSubresourceID_def EqualFold_def ToLower_def)

lemma LBSubresourceID_not_None: "LBSubresourceID c az n \<noteq> None"
  by (simp add: LBSubresourceID_def Ptr_def)

lemma isBackend_arm:
  assumes "arm_backends az p" and "b \<in> set (lbp_BackendAddressPools p)"
  shows "isBackend n i b = Ok (EqualFold (valS (bp_Name b)) n \<and> EqualFold (valS (bp_ID b)) i)"
proof -
  have "bp_Name b \<noteq> None" "bp_ID b \<noteq> None"
    using assms by (auto simp: arm_backends_def GetLBBackendAddressPoolID_def LBSubresourceID_not_None)
  then show ?thesis by (auto simp: isBackend_def)
qed

lemma reconcileBackend_arm:
  assumes "arm_backends az p"
  shows "reconcileBackend (ex_backendName ex) (ex_backendID ex) True p = (if has_backend ex p then Ok (False, p)
    else Ok (True, p\<lparr>lbp_BackendAddressPools := lbp_BackendAddressPools p @ [getExpectedBackendPool (ex_backendName ex)]\<rparr>))"
proof -
  let ?q = "\<lambda>b. EqualFold (valS (bp_Name b)) (ex_backendName ex) \<and> EqualFold (valS (bp_ID b)) (ex_backendID ex)"
  let ?bs = "lbp_BackendAddressPools p"
  have "find_res (isBackend (ex_backendName ex) (ex_backendID ex)) ?bs = Ok None \<and> find ?q ?bs = None \<or>
    (\<exists>i x. find_res (isBackend (ex_backendName ex) (ex_backendID ex)) ?bs = Ok (Some (i, x)) \<and>
      find ?q ?bs = Some x \<and> remove_at i ?bs = drop_first ?q ?bs)"
    using isBackend_arm [OF assms] by (intro find_res_cases) simp
  then show ?thesis
    by (auto simp: reconcileBackend_def has_backend_def find_None_iff_ex dest: find_SomeD)
qed

lemma has_backend_echo:
  assumes arm: "arm_backends az p" "props_echo az q s" and r: "lbr_AzureManager r = az"
    and run: "reconcileBackend (ex_backendName (expectedOf r cfg names))
      (ex_backendID (expectedOf r cfg names)) True p = Ok (u, q0)"
    and q: "lbp_BackendAddressPools q = lbp_BackendAddressPools q0"
  shows "has_backend (expectedOf r cfg names) s"
proof -
  let ?ex = "expectedOf r cfg names"
  have ex: "ex_backendName ?ex = backendName names"
    "ex_backendID ?ex = valS (GetLBBackendAddressPoolID az (backendName names))"
    using r by (simp_all add: expectedOf_def Let_def)
  have "\<exists>b\<in>set (lbp_BackendAddressPools q0). EqualFold (valS (bp_Name b)) (backendName names)"
    using reconcileBackend_arm [OF arm(1), of ?ex] run ex
    by (auto simp: has_backend_def getExpectedBackendPool_def split: if_splits)
  then obtain m where m: "m \<in> set (map bp_Name (lbp_BackendAddressPools q0))" "EqualFold (valS m) (backendName names)"
    by auto
  have "map bp_Name (lbp_BackendAddressPools s) = map bp_Name (lbp_BackendAddressPools q0)"
    using arm(2) q by (simp add: props_echo_def)
  with m(1) have "m \<in> bp_Name ` set (lbp_BackendAddressPools s)" by (metis set_map)
  with m(2) obtain b where b: "b \<in> set (lbp_BackendAddressPools s)" "EqualFold (valS (bp_Name b)) (backendName names)"
    by auto
  moreover have "bp_ID b = GetLBBackendAddressPoolID az (valS (bp_Name b))"
    using b arm(2) by (simp add: props_echo_def arm_backends_def)
  ultimately show ?thesis
    by (auto simp: has_backend_def ex GetLBBackendAddressPoolID_def LBSubresourceID_fold)
qed

lemma reconcileRules_again:
  assumes inv: "rules_inv rs"
    and run: "reconcileRules (getExpectedLBRule n f b p) rs = Ok (port, u, rs')"
  shows "reconcileRules (getExpectedLBRule n f b p) rs' = Ok (port, False, rs')"
proof -
  let ?ex = "getExpectedLBRule n f b p"
  obtain r q where r: "find (rule_named n) rs' = Some r" "lr_Properties r = Some q"
    "reconcileRules ?ex rs' = Ok (Val 0 (lrp_FrontendPort q), False, rs')"
    using reconcileRules_goal reconcileRules_step [OF inv run] by blast
  have gone: "find (rule_named n) (drop_first (rule_named n) rs) = None"
    using inv rule_list.drop_first_gone [of rs n] by (simp add: rules_inv_def find_None_iff_ex has_key_iff)
  have "Val 0 (lrp_FrontendPort q) = port"
    using reconcileRules_cases [OF inv run] r(1,2) find_after_replace [OF gone]
      with_port_expected(1,6) [of port n f b p] by auto
  with r(3) show ?thesis by simp
qed

lemma needed_again:
  fixes r :: "'s GatewayLBConfigurationReconciler" and cfg names
  defines "ex \<equiv> expectedOf r cfg names" and "az \<equiv> lbr_AzureManager r"
  assumes p: "arm_backends az p" "lb_inv p" and run: "reconcileNeeded ex p = Ok (port, u, q)"
    and echo: "props_echo az q s"
  shows "reconcileNeeded ex s = Ok (port, False, s)" and "lb_inv s"
    and "rule_goal (ex_Rule ex) (lbp_LoadBalancingRules s)" and "probe_goal (ex_Probe ex) (lbp_Probes s)"
    and "has_backend ex s"
proof -
  from run obtain u1 p1 u2 rs u3 ps where
    b: "reconcileBackend (ex_backendName ex) (ex_backendID ex) True p = Ok (u1, p1)" and
    rl: "reconcileRules (ex_Rule ex) (lbp_LoadBalancingRules p1) = Ok (port, u2, rs)" and
    q: "q = p1\<lparr>lbp_LoadBalancingRules := rs, lbp_Probes := ps\<rparr>" and
    st: "seq_step (rule_step ex) (probe_step ex) p1 = Ok (u2 \<or> u3, q)"
    by (elim reconcileNeededE)
  have inv1: "lb_inv p1" using reconcileBackend_frame(4) [OF b] p(2) by simp
  have inv: "lb_inv q" and goals: "rule_goal (ex_Rule ex) (lbp_LoadBalancingRules q)"
    "probe_goal (ex_Probe ex) (lbp_Probes q)"
    using lb_steps.both.keeps_inv [OF inv1] lb_steps.both.establishes [OF inv1] st
    unfolding ex_def by blast+
  have same: "lbp_LoadBalancingRules s = rs" "lbp_Probes s = lbp_Probes q" "lbp_LoadBalancingRules q = rs"
    using echo q by (simp_all add: props_echo_def)
  then show inv_s: "lb_inv s" and g: "rule_goal (ex_Rule ex) (lbp_LoadBalancingRules s)"
    "probe_goal (ex_Probe ex) (lbp_Probes s)"
    using inv goals by (simp_all add: lb_inv_def)
  show hb: "has_backend ex s"
    unfolding ex_def
    by (rule has_backend_echo [OF p(1) echo _ b [unfolded ex_def]])
      (simp_all add: az_def q)
  have "reconcileBackend (ex_backendName ex) (ex_backendID ex) True s = Ok (False, s)"
    using reconcileBackend_arm [of az s ex] hb echo by (simp add: props_echo_def)
  moreover have "reconcileRules (ex_Rule ex) (lbp_LoadBalancingRules s) = Ok (port, False, lbp_LoadBalancingRules s)"
    using reconcileRules_again [OF _ rl [unfolded ex_def ex_Rule_expectedOf]] inv1 same
    by (simp add: ex_def ex_Rule_expectedOf lb_inv_def)
  moreover have "reconcileProbes (ex_Probe ex) (lbp_Probes s) = Ok (False, lbp_Probes s)"
    using inv_s g(2) by (simp add: ex_def ex_Probe_expectedOf reconcileProbes_cases lb_inv_def)
  ultimately show "reconcileNeeded ex s = Ok (port, False, s)"
    by (simp add: reconcileNeeded_def)
qed

section \<open>Clean-up\<close>

definition refers :: "string \<Rightarrow> lb_rule \<Rightarrow> bool" where
  "refers frontendID r \<longleftrightarrow> (case lr_Properties r of None \<Rightarrow> False
     | Some p \<Rightarrow> (case lrp_FrontendIPConfiguration p of None \<Rightarrow> False
       | Some f \<Rightarrow> EqualFold (valS (sr_ID f)) frontendID))"

lemma dropRules_spec:
  assumes "dropRules n fid rs = Ok (left, upd, cnt)"
  shows "left = filter (\<lambda>r. \<not> rule_named n r) rs \<and> (upd \<longleftrightarrow> (\<exists>r\<in>set rs. rule_named n r)) \<and>
    cnt = length (filter (\<lambda>r. \<not> rule_named n r \<and> refers fid r) rs)"
  using assms
proof (induction rs arbitrary: left upd cnt)
  case (Cons r rs)
  from Cons.prems obtain left0 upd0 cnt0 m where
    IH: "dropRules n fid rs = Ok (left0, upd0, cnt0)" and m: "lr_Name r = Some m" by auto
  note Cons.IH [OF IH]
  moreover have "refers fid r \<longleftrightarrow> EqualFold (valS (sr_ID f)) fid"
    if "lr_Properties r = Some p" "lrp_FrontendIPConfiguration p = Some f" for p f
    using that by (simp add: refers_def)
  ultimately show ?case
    using Cons.prems IH m by (auto split: if_splits)
qed simp

lemma dropProbe_spec:
  assumes "probes_inv ps"
  shows "dropProbe n ps = Ok (\<exists>p\<in>set ps. probe_named n p, drop_first (probe_named n) ps)"
proof -
  have "find_res (\<lambda>p. nameIs (pb_Name p) n) ps = Ok None \<and> find (probe_named n) ps = None \<or>
    (\<exists>i x. find_res (\<lambda>p. nameIs (pb_Name p) n) ps = Ok (Some (i, x)) \<and> find (probe_named n) ps = Some x \<and>
      remove_at i ps = drop_first (probe_named n) ps)"
    using assms by (intro find_res_cases) (auto simp: probes_inv_def nameIs_Some)
  then show ?thesis
  proof (elim disjE exE conjE)
    fix i x
    assume hit: "find_res (\<lambda>p. nameIs (pb_Name p) n) ps = Ok (Some (i, x))"
      "find (probe_named n) ps = Some x" "remove_at i ps = drop_first (probe_named n) ps"
    have "\<exists>p\<in>set ps. probe_named n p" using find_SomeD [OF hit(2)] by blast
    with hit show ?thesis by (simp add: dropProbe_def)
  qed (simp add: dropProbe_def find_None_iff_ex drop_first_none)
qed

abbreviation frontend_is :: "string \<Rightarrow> frontend \<Rightarrow> bool" where
  "frontend_is i f \<equiv> EqualFold (valS (fe_ID f)) i"

abbreviation backend_is :: "string \<Rightarrow> backend_pool \<Rightarrow> bool" where
  "backend_is i b \<equiv> EqualFold (valS (bp_ID b)) i"

lemma reconcileBackend_unneeded:
  "reconcileBackend n i False p = Ok (u, q) \<Longrightarrow> \<not> u \<and> q = p"
  by (auto simp: reconcileBackend_def split: option.splits)

lemma lb_props_update_eq:
  "p\<lparr>lbp_FrontendIPConfigurations := a, lbp_BackendAddressPools := b,
     lbp_LoadBalancingRules := c, lbp_Probes := d\<rparr> = p \<longleftrightarrow>
   a = lbp_FrontendIPConfigurations p \<and> b = lbp_BackendAddressPools p \<and>
   c = lbp_LoadBalancingRules p \<and> d = lbp_Probes p"
  by (cases p) auto

text \<open>The whole clean-up as one equation, for a load balancer that satisfies the invariant.\<close>

lemma unneeded_eq:
  assumes inv: "lb_inv p" and run: "reconcileUnneeded ex p = Ok (u, del, q)"
  defines "n \<equiv> valS (lr_Name (ex_Rule ex))" and "m \<equiv> valS (pb_Name (ex_Probe ex))"
    and "rs \<equiv> filter (\<lambda>r. \<not> rule_named (valS (lr_Name (ex_Rule ex))) r) (lbp_LoadBalancingRules p)"
  shows "del \<longleftrightarrow> \<not> (\<exists>r\<in>set rs. refers (ex_frontendID ex) r)"
    and "q = p\<lparr>
      lbp_FrontendIPConfigurations := (if del then drop_first (frontend_is (ex_frontendID ex))
        (lbp_FrontendIPConfigurations p) else lbp_FrontendIPConfigurations p),
      lbp_BackendAddressPools := (if del then drop_first (backend_is (ex_backendID ex))
        (lbp_BackendAddressPools p) else lbp_BackendAddressPools p),
      lbp_LoadBalancingRules := rs, lbp_Probes := drop_first (probe_named m) (lbp_Probes p)\<rparr>"
    and "u \<longleftrightarrow> (\<exists>r\<in>set (lbp_LoadBalancingRules p). rule_named n r) \<or>
      (\<exists>a\<in>set (lbp_Probes p). probe_named m a) \<or>
      del \<and> ((\<exists>f\<in>set (lbp_FrontendIPConfigurations p). frontend_is (ex_frontendID ex) f) \<or>
        (\<exists>b\<in>set (lbp_BackendAddressPools p). backend_is (ex_backendID ex) b))"
proof -
  from run obtain x y where
    b: "reconcileBackend (ex_backendName ex) (ex_backendID ex) False p = Ok x" and
    y: "dropRules n (ex_frontendID ex) (lbp_LoadBalancingRules (snd x)) = Ok y"
    unfolding reconcileUnneeded_def bindR_Ok_iff split_beta n_def by blast
  have x: "x = (False, p)"
    using reconcileBackend_unneeded [of "ex_backendName ex" "ex_backendID ex" p "fst x" "snd x"] b
    by (cases x) simp
  obtain left upd cnt where yy: "y = (left, upd, cnt)" by (cases y)
  have dr: "left = rs" "upd \<longleftrightarrow> (\<exists>r\<in>set (lbp_LoadBalancingRules p). rule_named n r)"
    "cnt = 0 \<longleftrightarrow> \<not> (\<exists>r\<in>set rs. refers (ex_frontendID ex) r)"
    using dropRules_spec [OF y [unfolded yy x snd_conv]] by (auto simp: rs_def n_def filter_empty_conv)
  have probes: "dropProbe m (lbp_Probes p) =
      Ok (\<exists>a\<in>set (lbp_Probes p). probe_named m a, drop_first (probe_named m) (lbp_Probes p))"
    using inv by (intro dropProbe_spec) (simp add: lb_inv_def)
  note eqs = b [unfolded x] y [unfolded yy x snd_conv n_def] probes [unfolded m_def]
  show "del \<longleftrightarrow> \<not> (\<exists>r\<in>set rs. refers (ex_frontendID ex) r)"
    and "q = p\<lparr>
      lbp_FrontendIPConfigurations := (if del then drop_first (frontend_is (ex_frontendID ex))
        (lbp_FrontendIPConfigurations p) else lbp_FrontendIPConfigurations p),
      lbp_BackendAddressPools := (if del then drop_first (backend_is (ex_backendID ex))
        (lbp_BackendAddressPools p) else lbp_BackendAddressPools p),
      lbp_LoadBalancingRules := rs, lbp_Probes := drop_first (probe_named m) (lbp_Probes p)\<rparr>"
    and "u \<longleftrightarrow> (\<exists>r\<in>set (lbp_LoadBalancingRules p). rule_named n r) \<or>
      (\<exists>a\<in>set (lbp_Probes p). probe_named m a) \<or>
      del \<and> ((\<exists>f\<in>set (lbp_FrontendIPConfigurations p). frontend_is (ex_frontendID ex) f) \<or>
        (\<exists>b\<in>set (lbp_BackendAddressPools p). backend_is (ex_backendID ex) b))"
    using run dr
    by (simp_all add: reconcileUnneeded_def eqs Let_def dropFrontendBackend_def m_def split: if_splits)
      (cases p, auto)
qed

lemma unneeded_changes:
  assumes "lb_inv p" and "reconcileUnneeded ex p = Ok (u, del, q)"
  shows "u \<longleftrightarrow> q \<noteq> p"
  unfolding unneeded_eq(2,3) [OF assms] lb_props_update_eq
  by (auto simp: drop_first_changes filter_changes)

section \<open>The load balancer in the world\<close>

text \<open>
  The documented behaviour of the clients, for a function \<open>view\<close> that reads the gateway load
  balancer from the world: a read returns it or reports that it does not exist, a write that
  succeeds stores what was sent with identifiers and addresses filled in, and the calls that
  read other resources leave it alone.
\<close>

definition lb_laws :: "'s AzureManager \<Rightarrow> ('s \<Rightarrow> load_balancer option) \<Rightarrow> bool" where
  "lb_laws az view \<longleftrightarrow>
     (\<forall>v. triple (\<lambda>s. view s = v)
        (LoadBalancerClient_Get az (LoadBalancerResourceGroup az) (LoadBalancerName az))
        (\<lambda>lb s. v = Some lb \<and> view s = v)
        (\<lambda>e s. view s = v \<and> (isStatusNotFound e \<longrightarrow> v = None)) (\<lambda>_. False)) \<and>
     (\<forall>lb. triple (\<lambda>_. True)
        (LoadBalancerClient_CreateOrUpdate az (LoadBalancerResourceGroup az) (LoadBalancerName az) lb)
        (\<lambda>stored s. view s = Some stored \<and> lb_echo az lb stored) (\<lambda>_ _. True) (\<lambda>_. False)) \<and>
     triple (\<lambda>_. True)
        (LoadBalancerClient_Delete az (LoadBalancerResourceGroup az) (LoadBalancerName az))
        (\<lambda>_ s. view s = None) (\<lambda>_ _. True) (\<lambda>_. False) \<and>
     (\<forall>rg. reads view (VmssClient_List az rg)) \<and>
     (\<forall>rg n. reads view (VmssClient_Get az rg n)) \<and>
     (\<forall>rg. reads view (VMClient_List az rg)) \<and>
     (\<forall>rg v n. reads view (SubnetClient_Get az rg v n)) \<and>
     (\<forall>b n s. view (clk_sleep (az_clock az) b n s) = view s)"

lemma lb_laws_reads:
  assumes "lb_laws az view"
  shows "reads view (ListVMSS az)" "reads view (GetVMSS az rg n)" "reads view (ListVMs az)" "reads view (GetSubnet az)"
  using assms
  by (auto simp: lb_laws_def ListVMSS_def GetVMSS_def ListVMs_def GetSubnet_def intro!: reads_rules reads_wrapRetry)

lemma loadPool_LB_reads: "lb_laws az view \<Longrightarrow> reads view (loadPool_LB az cfg)"
  unfolding loadPool_LB_def Let_def
  by (intro reads_rules lb_laws_reads) assumption+

lemma lb_laws_calls:
  assumes "lb_laws az view"
  shows "triple (\<lambda>s. view s = v)
      (LoadBalancerClient_Get az (LoadBalancerResourceGroup az) (LoadBalancerName az))
      (\<lambda>lb s. v = Some lb \<and> view s = v)
      (\<lambda>e s. view s = v \<and> (isStatusNotFound e \<longrightarrow> v = None)) (\<lambda>_. False)"
    and "triple (\<lambda>_. True)
      (LoadBalancerClient_CreateOrUpdate az (LoadBalancerResourceGroup az) (LoadBalancerName az) lb)
      (\<lambda>stored s. view s = Some stored \<and> lb_echo az lb stored) (\<lambda>_ _. True) (\<lambda>_. False)"
    and "triple (\<lambda>_. True)
      (LoadBalancerClient_Delete az (LoadBalancerResourceGroup az) (LoadBalancerName az))
      (\<lambda>_ s. view s = None) (\<lambda>_ _. True) (\<lambda>_. False)"
    and "view (clk_sleep (az_clock az) b n s) = view s"
  using assms by (simp_all add: lb_laws_def)

lemma GetLB_triple:
  assumes "lb_laws az view"
  shows "triple (\<lambda>s. view s = v) (GetLB az) (\<lambda>lb s. v = Some lb \<and> view s = v)
    (\<lambda>e s. view s = v \<and> (isStatusNotFound e \<longrightarrow> v = None)) (\<lambda>_. False)"
  unfolding GetLB_def
  by (rule triple_conseq [OF wrapRetry_triple [OF lb_laws_calls(1) [OF assms]]])
    (auto simp: lb_laws_calls(4) [OF assms] retry_errors_def isStatusNotFound_def)

lemma CreateOrUpdateLB_triple:
  assumes "lb_laws az view" and "lb_Name lb = Some (LoadBalancerName az)"
  shows "triple (\<lambda>_. True) (CreateOrUpdateLB az lb)
    (\<lambda>stored s. view s = Some stored \<and> lb_echo az lb stored) (\<lambda>_ _. True) (\<lambda>_. False)"
  unfolding CreateOrUpdateLB_def assms(2) Val_simps
  by (rule triple_conseq [OF wrapRetry_triple [OF lb_laws_calls(2) [OF assms(1)]]]) auto

lemma DeleteLB_triple:
  assumes "lb_laws az view"
  shows "triple (\<lambda>_. True) (DeleteLB az) (\<lambda>_ s. view s = None) (\<lambda>_ _. True) (\<lambda>_. False)"
  unfolding DeleteLB_def
  by (rule triple_conseq [OF wrapRetry_triple [OF lb_laws_calls(3) [OF assms]]]) auto

text \<open>
  What a gateway configuration needs from the load balancer: its rule on \<open>port\<close>, its probe, the
  backend pool and the frontend of its node pool, the frontend with address \<open>ip\<close>.
\<close>

definition lb_serves :: "lb_expected \<Rightarrow> string \<Rightarrow> int32 \<Rightarrow> lb_props \<Rightarrow> bool" where
  "lb_serves ex ip port p \<longleftrightarrow>
     rule_goal (ex_Rule ex) (lbp_LoadBalancingRules p) \<and> probe_goal (ex_Probe ex) (lbp_Probes p) \<and>
     has_backend ex p \<and> findFrontendIP (lbp_FrontendIPConfigurations p) (ex_frontendName ex) = Ok ip \<and>
     ip \<noteq> '''' \<and> map_option rule_port
       (find (rule_named (valS (lr_Name (ex_Rule ex)))) (lbp_LoadBalancingRules p)) = Some (Some port)"

lemma needed_port:
  fixes r :: "'s GatewayLBConfigurationReconciler" and cfg names
  defines "ex \<equiv> expectedOf r cfg names"
  assumes inv: "lb_inv s" and again: "reconcileNeeded ex s = Ok (port, False, s)"
    and goal: "rule_goal (ex_Rule ex) (lbp_LoadBalancingRules s)"
  shows "map_option rule_port (find (rule_named (valS (lr_Name (ex_Rule ex)))) (lbp_LoadBalancingRules s))
     = Some (Some port)"
proof -
  from again obtain u1 p1 u2 rs where
    b: "reconcileBackend (ex_backendName ex) (ex_backendID ex) True s = Ok (u1, p1)" "\<not> u1" and
    rl: "reconcileRules (ex_Rule ex) (lbp_LoadBalancingRules p1) = Ok (port, u2, rs)"
    by (elim reconcileNeededE) blast
  have p1: "p1 = s" using reconcileBackend_frame(5) [OF b] .
  have rinv: "rules_inv (lbp_LoadBalancingRules s)" using inv by (simp add: lb_inv_def)
  obtain x q where x: "find (rule_named (valS (lr_Name (ex_Rule ex)))) (lbp_LoadBalancingRules s) = Some x"
    "lr_Properties x = Some q" "sameLBRuleConfig x (ex_Rule ex)"
    and port: "port = Val 0 (lrp_FrontendPort q)"
    using reconcileRules_goal [OF rinv goal [unfolded ex_def ex_Rule_expectedOf]] goal rl p1
    by (auto simp: ex_def ex_Rule_expectedOf rule_goal_def)
  have "backend_of x \<noteq> None"
    using x(2,3) by (auto simp: ex_def ex_Rule_expectedOf getExpectedLBRule_def sameLBRuleConfig_def
        equalSubResource_def backend_of_def split: option.splits)
  moreover have "ports_ok (lbp_LoadBalancingRules s)" using rinv by (simp add: rules_inv_def)
  ultimately have "rule_port x \<noteq> None"
    using find_SomeD [OF x(1)] ports_ok_valid by blast
  then have "rule_port x = Some port"
    using x(2) port by (auto simp: rule_port_def split: option.splits if_splits)
  with x(1) show ?thesis by simp
qed

lemma findFrontendIP_names:
  assumes "list_all2 frontend_echo gs fs" and "\<forall>f\<in>set fs. fe_Name f \<noteq> None \<and> has_address f"
    and "\<exists>g\<in>set gs. EqualFold (valS (fe_Name g)) n"
  shows "\<exists>ip. findFrontendIP fs n = Ok ip \<and> ip \<noteq> ''''"
  using assms
proof (induction fs arbitrary: gs rule: list.induct)
  case (Cons f fs)
  from Cons.prems(1) obtain g gs' where
    g: "gs = g # gs'" "frontend_echo g f" "list_all2 frontend_echo gs' fs" by (cases gs) auto
  obtain y where y: "fe_Name f = Some y" and a: "has_address f" using Cons.prems(2) by auto
  with g(2) have gy: "fe_Name g = Some y" by (simp add: frontend_echo_def)
  show ?case
  proof (cases "EqualFold y n")
    case True
    with a y show ?thesis by (simp add: has_address_def split: res.splits)
  next
    case False
    then have "\<exists>ip. findFrontendIP fs n = Ok ip \<and> ip \<noteq> ''''"
      using Cons.prems(2,3) g(1,3) y gy by (intro Cons.IH [of gs']) auto
    with False y show ?thesis by simp
  qed
qed simp

lemma getGatewayLB_triple:
  assumes "lb_laws az view"
  shows "triple (\<lambda>s. view s = v) (getGatewayLB az) (\<lambda>found s. view s = v \<and> found = v)
    (\<lambda>_ s. view s = v) (\<lambda>_. False)"
  unfolding getGatewayLB_def
  by (rule triple_try [OF GetLB_triple [OF assms]]) (auto intro!: triple_rules)

lemma newLB_stored_like:
  "lb_Name (newLB az) = Some (LoadBalancerName az)"
  "\<exists>p. lb_Properties (newLB az) = Some p \<and> arm_frontends az p \<and> arm_backends az p \<and> lb_inv p"
  by (auto simp: newLB_def arm_frontends_def arm_backends_def lb_inv_def rules_inv_def probes_inv_def)

text \<open>The frontend block: an address that was found, or a frontend with the name appended.\<close>

lemma reconcileFrontend_cases:
  assumes "lb_laws az view"
    and "reconcileFrontend az n needLB p s = (r, s')"
  shows "view s' = view s" and "r = Ok (ip, u, q) \<Longrightarrow>
      \<not> u \<and> q = p \<and> findFrontendIP (lbp_FrontendIPConfigurations p) n = Ok ip \<and> (needLB \<longrightarrow> ip \<noteq> '''') \<or>
      u \<and> needLB \<and> ip = '''' \<and> (\<exists>sn. q = p\<lparr>lbp_FrontendIPConfigurations :=
        lbp_FrontendIPConfigurations p @ [getExpectedFrontendConfig n sn]\<rparr>)"
proof -
  obtain r1 s1 where g: "GetSubnet az s = (r1, s1)" by (cases "GetSubnet az s")
  then have v: "view s1 = view s" using reads_view [OF lb_laws_reads(4) [OF assms(1)]] by blast
  show "view s' = view s"
    using assms(2) g v by (auto simp: reconcileFrontend_def go_simps split: res.splits if_splits prod.splits)
  show "\<not> u \<and> q = p \<and> findFrontendIP (lbp_FrontendIPConfigurations p) n = Ok ip \<and> (needLB \<longrightarrow> ip \<noteq> '''') \<or>
      u \<and> needLB \<and> ip = '''' \<and> (\<exists>sn. q = p\<lparr>lbp_FrontendIPConfigurations :=
        lbp_FrontendIPConfigurations p @ [getExpectedFrontendConfig n sn]\<rparr>)" if "r = Ok (ip, u, q)"
    using assms(2) g that by (auto simp: reconcileFrontend_def go_simps split: res.splits if_splits prod.splits)
qed

lemma findFrontendIP_echo:
  assumes "list_all2 frontend_echo fs gs" and "findFrontendIP fs n = Ok ip" and "ip \<noteq> ''''"
  shows "findFrontendIP gs n = Ok ip"
  using assms
proof (induction rule: list_all2_induct)
  case (Cons f fs g gs)
  then obtain y where "fe_Name f = Some y" "fe_Name g = Some y" by (auto simp: frontend_echo_def)
  with Cons show ?case by (auto simp: frontend_echo_def split: if_splits res.splits)
qed simp

lemma frontend_echo_refl: "list_all2 frontend_echo fs fs"
  by (auto simp: list_all2_refl frontend_echo_def split: res.splits)

lemma needed_unchanged:
  fixes r :: "'s GatewayLBConfigurationReconciler" and cfg names
  assumes inv: "lb_inv p" and run: "reconcileNeeded (expectedOf r cfg names) p = Ok (port, False, q)"
  shows "q = p"
proof -
  let ?ex = "expectedOf r cfg names"
  from run obtain u1 p1 u2 rs u3 ps where
    b: "reconcileBackend (ex_backendName ?ex) (ex_backendID ?ex) True p = Ok (u1, p1)" and
    rl: "reconcileRules (ex_Rule ?ex) (lbp_LoadBalancingRules p1) = Ok (port, u2, rs)" and
    pr: "reconcileProbes (ex_Probe ?ex) (lbp_Probes p1) = Ok (u3, ps)" and
    u: "\<not> u1" "\<not> u2" "\<not> u3" and
    q: "q = p1\<lparr>lbp_LoadBalancingRules := rs, lbp_Probes := ps\<rparr>"
    by (elim reconcileNeededE) blast
  have "p1 = p" using reconcileBackend_frame(5) [OF b u(1)] .
  moreover have "rs = lbp_LoadBalancingRules p"
    using reconcileRules_cases [OF _ rl [unfolded ex_Rule_expectedOf]] inv u(2) \<open>p1 = p\<close>
    by (auto simp: lb_inv_def)
  moreover have "ps = lbp_Probes p"
    using pr inv u(3) \<open>p1 = p\<close>
    by (simp add: ex_Probe_expectedOf lb_inv_def reconcileProbes_cases split: if_splits)
  ultimately show ?thesis using q by simp
qed

text \<open>
  Once the in-memory properties are what Azure stores, the configuration is served, whichever
  frontend the first block found or appended.
\<close>

lemma needed_serves:
  fixes r :: "'s GatewayLBConfigurationReconciler" and cfg names
  defines "ex \<equiv> expectedOf r cfg names" and "az \<equiv> lbr_AzureManager r"
  assumes p: "arm_backends az p" "lb_inv p" and run: "reconcileNeeded ex p = Ok (port, u, q)"
    and echo: "props_echo az q s"
    and ip: "findFrontendIP (lbp_FrontendIPConfigurations s) (ex_frontendName ex) = Ok ip" "ip \<noteq> ''''"
  shows "lb_serves ex ip port s \<and> lb_inv s \<and> arm_frontends az s \<and> arm_backends az s"
proof -
  note again = needed_again [of r p cfg names port u q s, folded ex_def az_def, OF p run echo]
  have "map_option rule_port (find (rule_named (valS (lr_Name (ex_Rule ex)))) (lbp_LoadBalancingRules s))
     = Some (Some port)"
    using needed_port [of s r cfg names port, folded ex_def] again by blast
  with again ip echo show ?thesis by (simp add: lb_serves_def props_echo_def)
qed

lemma reconcileLB_needed_serves:
  fixes r :: "'s GatewayLBConfigurationReconciler"
  defines "az \<equiv> lbr_AzureManager r"
  assumes laws: "lb_laws az view" and nm: "lb_Name lb = Some (LoadBalancerName az)"
    and p: "lb_Properties lb = Some p" "arm_frontends az p" "arm_backends az p" "lb_inv p"
    and known: "\<not> upd \<Longrightarrow> view s = Some lb"
    and run: "reconcileLB r cfg True upd lb s = (Ok (ip, port), s')"
  shows "\<exists>pool names lb' p'. getLBPropertyName (lbr_NewMD5 r) cfg pool = Ok names \<and>
    view s' = Some lb' \<and> lb_stored az lb' \<and> lb_Properties lb' = Some p' \<and>
    lb_serves (expectedOf r cfg names) ip port p'"
proof -
  from run obtain pool names s1 fip u1 p1 s2 u2 p2 where
    pool: "loadPool_LB az cfg s = (Ok pool, s1)" and
    names: "getLBPropertyName (lbr_NewMD5 r) cfg pool = Ok names" and
    fr: "reconcileFrontend az (frontendName names) True p s1 = (Ok (fip, u1, p1), s2)" and
    nd: "reconcileNeeded (expectedOf r cfg names) p1 = Ok (port, u2, p2)" and
    rest: "(if upd \<or> u1 \<or> u2 then
        bindE (CreateOrUpdateLB az (lb\<lparr>lb_Properties := Some p2\<rparr>)) (\<lambda>updatedLB.
          if fip = '''' then
            bindE (liftR (findFrontendIP_lb updatedLB (frontendName names))) (\<lambda>ip.
            if ip = '''' then failE (ErrMsg ''frontend ip not found even after updating lb'')
            else retE (ip, port))
          else retE (fip, port))
        else retE (fip, port)) s2 = (Ok (ip, port), s')"
    unfolding reconcileLB_def Let_def az_def [symmetric]
    by (auto simp: bindE_Ok_iff p(1) split: if_splits)
  let ?ex = "expectedOf r cfg names"
  have fn: "ex_frontendName ?ex = frontendName names" by (simp add: expectedOf_def Let_def)
  have v2: "view s2 = view s"
    using reads_view [OF loadPool_LB_reads [OF laws] pool] reconcileFrontend_cases(1) [OF laws fr] by simp
  note front = reconcileFrontend_cases(2) [OF laws fr refl]
  have p1: "arm_backends az p1" "lb_inv p1" using front p by (auto simp: arm_backends_def lb_inv_def)
  have fronts2: "lbp_FrontendIPConfigurations p2 = lbp_FrontendIPConfigurations p1"
    using nd by (elim reconcileNeededE) (auto dest: reconcileBackend_frame(3))
  have found: "findFrontendIP (lbp_FrontendIPConfigurations p2) (frontendName names) = Ok fip" if "fip \<noteq> ''''"
    using front that fronts2 by auto
  show ?thesis
  proof (cases "upd \<or> u1 \<or> u2")
    case False
    then have same: "p1 = p" "p2 = p" "ip = fip" "s' = s2" "fip \<noteq> ''''"
      using rest front needed_unchanged [of p1 r cfg names port p2] nd p1 by auto
    have echo: "props_echo az p2 p" using same p by (simp add: props_echo_def frontend_echo_refl)
    have "lb_serves ?ex ip port p \<and> lb_inv p \<and> arm_frontends az p \<and> arm_backends az p"
      using needed_serves [of r p1 cfg names port u2 p2 p ip, folded az_def] p1 nd echo found same fn by simp
    then show ?thesis
      using names same known False v2 p(1) nm
      by (intro exI [of _ pool] exI [of _ names] exI [of _ lb] exI [of _ p]) (simp add: lb_stored_def)
  next
    case True
    with rest obtain st s3 where cu: "CreateOrUpdateLB az (lb\<lparr>lb_Properties := Some p2\<rparr>) s2 = (Ok st, s3)"
      and s3: "s' = s3" and ip: "if fip = '''' then findFrontendIP_lb st (frontendName names) = Ok ip \<and> ip \<noteq> ''''
        else ip = fip"
      by (auto simp: bindE_Ok_iff split: if_splits)
    have st: "view s3 = Some st" "lb_echo az (lb\<lparr>lb_Properties := Some p2\<rparr>) st"
      using triple_OkD [OF CreateOrUpdateLB_triple [OF laws] _ cu] nm by auto
    then obtain q where q: "lb_Properties st = Some q" "props_echo az p2 q" "lb_Name st = Some (LoadBalancerName az)"
      using nm by (auto simp: lb_echo_def split: option.splits)
    have "findFrontendIP (lbp_FrontendIPConfigurations q) (frontendName names) = Ok ip" "ip \<noteq> ''''"
      using ip q findFrontendIP_echo found by (auto simp: findFrontendIP_lb_def props_echo_def split: if_splits)
    then have "lb_serves ?ex ip port q \<and> lb_inv q \<and> arm_frontends az q \<and> arm_backends az q"
      using needed_serves [of r p1 cfg names port u2 p2 q ip, folded az_def] p1 nd q(2) fn by simp
    then show ?thesis
      using names st s3 q
      by (intro exI [of _ pool] exI [of _ names] exI [of _ st] exI [of _ q]) (simp add: lb_stored_def)
  qed
qed

lemma reconcileLBRule_serves:
  fixes r :: "'s GatewayLBConfigurationReconciler"
  defines "az \<equiv> lbr_AzureManager r"
  assumes laws: "lb_laws az view" and st: "pred_option (lb_stored az) (view s)"
    and run: "reconcileLBRule r cfg True s = (Ok (ip, port), s')"
  shows "\<exists>pool names lb p. getLBPropertyName (lbr_NewMD5 r) cfg pool = Ok names \<and>
    view s' = Some lb \<and> lb_stored az lb \<and> lb_Properties lb = Some p \<and>
    lb_serves (expectedOf r cfg names) ip port p"
proof -
  from run obtain found s1 where g: "getGatewayLB az s = (Ok found, s1)"
    and rest: "(case found of Some lb \<Rightarrow> reconcileLB r cfg True False lb
       | None \<Rightarrow> reconcileLB r cfg True True (newLB az)) s1 = (Ok (ip, port), s')"
    unfolding reconcileLBRule_def az_def [symmetric] by (auto simp: bindE_Ok_iff)
  have v: "view s1 = view s" "found = view s"
    using triple_OkD [OF getGatewayLB_triple [OF laws, of "view s"] refl g] by auto
  show ?thesis
  proof (cases found)
    case None
    obtain p where p: "lb_Properties (newLB az) = Some p" "arm_frontends az p" "arm_backends az p" "lb_inv p"
      using newLB_stored_like(2) [of az] by blast
    show ?thesis
      using reconcileLB_needed_serves [of r view "newLB az" p True s1 cfg ip port s', folded az_def]
        laws newLB_stored_like(1) [of az] p rest None by simp
  next
    case (Some lb)
    then have "lb_stored az lb" using st v by simp
    then obtain p where p: "lb_Name lb = Some (LoadBalancerName az)" "lb_Properties lb = Some p"
      "arm_frontends az p" "arm_backends az p" "lb_inv p"
      by (auto simp: lb_stored_def split: option.splits)
    show ?thesis
      using reconcileLB_needed_serves [of r view lb p False s1 cfg ip port s', folded az_def]
        laws p rest Some v by simp
  qed
qed

lemma ports_ok_filter: "ports_ok rs \<Longrightarrow> ports_ok (filter q rs)"
  by (induction rs) auto

lemma unneeded_inv:
  assumes "lb_inv p" and "reconcileUnneeded ex p = Ok (u, del, q)"
  shows "lb_inv q"
  using assms(1) set_drop_first [of "probe_named (valS (pb_Name (ex_Probe ex)))" "lbp_Probes p"]
  unfolding unneeded_eq(2) [OF assms]
  by (auto simp: lb_inv_def rules_inv_def probes_inv_def unique_keys_filter unique_keys_drop_first
      ports_ok_filter)

lemma unneeded_gone:
  assumes "lb_inv p" and "reconcileUnneeded ex p = Ok (u, del, q)"
  shows "\<not> has_key EqualFold (\<lambda>r. valS (lr_Name r)) (valS (lr_Name (ex_Rule ex))) (lbp_LoadBalancingRules q)"
    and "\<not> has_key EqualFold (\<lambda>p. valS (pb_Name p)) (valS (pb_Name (ex_Probe ex))) (lbp_Probes q)"
  using assms(1) unfolding unneeded_eq(2) [OF assms]
  by (auto simp: has_key_iff lb_inv_def probes_inv_def
      dest: probe_list.drop_first_gone [of _ "valS (pb_Name (ex_Probe ex))"])

text \<open>
  What clean-up leaves of the load balancer \<open>p\<close>: every rule of another configuration and no
  rule or probe of this one.
\<close>

definition lb_cleaned :: "string \<Rightarrow> lb_props \<Rightarrow> lb_props \<Rightarrow> bool" where
  "lb_cleaned uid p q \<longleftrightarrow>
     lbp_LoadBalancingRules q = filter (\<lambda>r. \<not> rule_named uid r) (lbp_LoadBalancingRules p) \<and>
     lbp_Probes q = filter (\<lambda>b. \<not> probe_named uid b) (lbp_Probes p)"

text \<open>No rule but this configuration's and no frontend but its pool's is left to serve.\<close>

definition lb_unused :: "string \<Rightarrow> string \<Rightarrow> lb_props \<Rightarrow> bool" where
  "lb_unused uid frontendID p \<longleftrightarrow>
     (\<forall>r\<in>set (lbp_LoadBalancingRules p). refers frontendID r \<longrightarrow> rule_named uid r) \<and>
     drop_first (frontend_is frontendID) (lbp_FrontendIPConfigurations p) = []"

lemma unneeded_cleaned:
  assumes "lb_inv p" and "reconcileUnneeded ex p = Ok (u, del, q)"
    and "valS (lr_Name (ex_Rule ex)) = uid" and "valS (pb_Name (ex_Probe ex)) = uid"
  shows "lb_cleaned uid p q"
  using assms(1,3,4) unfolding unneeded_eq(2) [OF assms(1,2)]
  by (simp add: lb_cleaned_def lb_inv_def probes_inv_def probe_list.drop_first_filter)

lemma getLBPropertyName_names:
  "getLBPropertyName md5 cfg pool = Ok names \<Longrightarrow> lbRuleName names = om_UID (lbc_Meta cfg) \<and>
     probeName names = om_UID (lbc_Meta cfg) \<and> frontendName names = GetUniqueID md5 pool \<and>
     backendName names = GetUniqueID md5 pool \<and> GetUniqueID md5 pool \<noteq> ''''"
  by (auto simp: getLBPropertyName_def split: if_splits)

lemma reconcileLBRule_cleans:
  fixes r :: "'s GatewayLBConfigurationReconciler" and cfg
  defines "az \<equiv> lbr_AzureManager r" and "uid \<equiv> om_UID (lbc_Meta cfg)"
  assumes laws: "lb_laws az view" and st: "view s = Some lb" "lb_stored az lb" "lb_Properties lb = Some p"
    and run: "reconcileLBRule r cfg False s = (Ok res, s')"
  shows "view s' = None \<and> (\<exists>pool. lb_unused uid (valS (GetLBFrontendIPConfigurationID az (GetUniqueID (lbr_NewMD5 r) pool))) p)
    \<or> (\<exists>lb' q. view s' = Some lb' \<and> lb_stored az lb' \<and> lb_Properties lb' = Some q \<and> lb_cleaned uid p q)"
proof -
  from run obtain found s1 where g: "getGatewayLB az s = (Ok found, s1)"
    and rest1: "(case found of Some lb \<Rightarrow> reconcileLB r cfg False False lb | None \<Rightarrow> retE ('''', 0)) s1 = (Ok res, s')"
    unfolding reconcileLBRule_def az_def [symmetric] by (auto simp: bindE_Ok_iff)
  have v1: "view s1 = Some lb" "found = Some lb"
    using triple_OkD [OF getGatewayLB_triple [OF laws, of "view s"] refl g] st by auto
  have p: "arm_frontends az p" "arm_backends az p" "lb_inv p" "lb_Name lb = Some (LoadBalancerName az)"
    using st by (auto simp: lb_stored_def)
  from rest1 obtain pool names s2 fip u1 p1 s3 u2 del q where
    pool: "loadPool_LB az cfg s1 = (Ok pool, s2)" and
    names: "getLBPropertyName (lbr_NewMD5 r) cfg pool = Ok names" and
    fr: "reconcileFrontend az (frontendName names) False p s2 = (Ok (fip, u1, p1), s3)" and
    un: "reconcileUnneeded (expectedOf r cfg names) p1 = Ok (u2, del, q)" and
    rest: "(if del \<and> lbp_FrontendIPConfigurations q = [] then bindE (DeleteLB az) (\<lambda>_. retE ('''', 0))
      else if u1 \<or> u2 then
        bindE (CreateOrUpdateLB az (lb\<lparr>lb_Properties := Some q\<rparr>)) (\<lambda>_. retE (fip, 0))
      else retE (fip, 0)) s3 = (Ok res, s')"
    unfolding v1 option.case reconcileLB_def Let_def az_def [symmetric]
    by (auto simp: bindE_Ok_iff st(3) split: if_splits)
  let ?ex = "expectedOf r cfg names"
  have p1: "p1 = p" "\<not> u1" using reconcileFrontend_cases(2) [OF laws fr refl] by auto
  have v3: "view s3 = Some lb"
    using reads_view [OF loadPool_LB_reads [OF laws] pool] reconcileFrontend_cases(1) [OF laws fr] v1 by simp
  have uid: "valS (lr_Name (ex_Rule ?ex)) = uid" "valS (pb_Name (ex_Probe ?ex)) = uid"
    using getLBPropertyName_names [OF names] expected_probe(1)
    by (simp_all add: expectedOf_parts uid_def)
  have fid: "ex_frontendID ?ex = valS (GetLBFrontendIPConfigurationID az (GetUniqueID (lbr_NewMD5 r) pool))"
    using getLBPropertyName_names [OF names] by (simp add: expectedOf_def Let_def az_def)
  note un = un [unfolded p1(1)]
  have q: "lb_cleaned uid p q" "lb_inv q" using unneeded_cleaned [OF p(3) un uid] unneeded_inv [OF p(3) un] by auto
  show ?thesis
  proof (cases "del \<and> lbp_FrontendIPConfigurations q = []")
    case True
    then obtain s4 where d: "DeleteLB az s3 = (Ok (), s4)" "s' = s4"
      using rest by (auto simp: bindE_Ok_iff)
    have "view s4 = None" using triple_OkD [OF DeleteLB_triple [OF laws] _ d(1)] by simp
    moreover have "lb_unused uid (ex_frontendID ?ex) p"
      using True unneeded_eq(1,2) [OF p(3) un] uid by (auto simp: lb_unused_def)
    ultimately show ?thesis using d(2) fid by auto
  next
    case False
    show ?thesis
    proof (cases u2)
      case True
      with False rest p1 obtain st' s4 where
        cu: "CreateOrUpdateLB az (lb\<lparr>lb_Properties := Some q\<rparr>) s3 = (Ok st', s4)" "s' = s4"
        by (auto simp: bindE_Ok_iff)
      have "view s4 = Some st'" "lb_echo az (lb\<lparr>lb_Properties := Some q\<rparr>) st'"
        using triple_OkD [OF CreateOrUpdateLB_triple [OF laws] _ cu(1)] p(4) by auto
      then show ?thesis
        using cu(2) p(4) q by (auto simp: lb_echo_def lb_stored_def lb_cleaned_def props_echo_def lb_inv_def
            split: option.splits)
    next
      case nowrite: False
      then have "q = p" using unneeded_changes [OF p(3) un] by simp
      moreover have "s' = s3" using rest False nowrite p1 by simp
      ultimately show ?thesis using v3 st q by auto
    qed
  qed
qed

lemma reconcileLBRule_keeps:
  assumes "az_keeps (lbr_AzureManager r) I"
  shows "keeps I (reconcileLBRule r cfg needLB)"
  unfolding reconcileLBRule_def reconcileLB_def loadPool_LB_def getGatewayLB_def reconcileFrontend_def Let_def
  by (intro keeps_rules az_keeps_calls assms)

section \<open>Release of the finalizer\<close>

text \<open>
  The Kubernetes side of the world during a deletion: \<open>fin\<close> reads whether the stored
  \<open>GatewayLBConfiguration\<close> still carries the controller's finalizer, \<open>vmx\<close> whether the
  \<open>GatewayVMConfiguration\<close> object still exists. An update stores the finalizers it is given,
  deleting an object reports \<open>NotFound\<close> only when there is none, Azure calls, events and metrics
  touch neither.
\<close>

definition lb_delete_laws ::
  "'s GatewayLBConfigurationReconciler \<Rightarrow> ('s \<Rightarrow> load_balancer option) \<Rightarrow> ('s \<Rightarrow> bool) \<Rightarrow> ('s \<Rightarrow> bool) \<Rightarrow> bool"
where
  "lb_delete_laws r view fin vmx \<longleftrightarrow> (let k = lbr_Client r; az = lbr_AzureManager r in
     lb_laws az view \<and> (\<forall>f x. az_keeps az (\<lambda>s. fin s = f \<and> vmx s = x)) \<and>
     finalizer_laws (k_util k) \<and> metrics_keep k (\<lambda>s. (view s, fin s, vmx s)) \<and>
     (\<forall>obj v f x. triple (\<lambda>s. view s = v \<and> fin s = f \<and> vmx s = x) (kUpdate (k_LBC k) obj)
        (\<lambda>_ s. view s = v \<and> vmx s = x \<and>
          (fin s \<longleftrightarrow> LBConfigFinalizerName \<in> set (om_Finalizers (lbc_Meta obj))))
        (\<lambda>_ s. view s = v \<and> fin s = f \<and> vmx s = x) (\<lambda>_. False)) \<and>
     (\<forall>obj v f. triple (\<lambda>s. view s = v \<and> fin s = f) (kDelete (k_VMC k) obj)
        (\<lambda>_ s. view s = v \<and> fin s = f)
        (\<lambda>e s. view s = v \<and> fin s = f \<and> (IsNotFound e \<longrightarrow> \<not> vmx s)) (\<lambda>_. False)))"

definition lb_released :: "'s AzureManager \<Rightarrow> string \<Rightarrow> load_balancer option \<Rightarrow> bool" where
  "lb_released az uid v \<longleftrightarrow> (case v of None \<Rightarrow> True | Some lb \<Rightarrow>
     (case lb_Properties lb of None \<Rightarrow> False | Some q \<Rightarrow>
       \<not> has_key EqualFold (\<lambda>r. valS (lr_Name r)) uid (lbp_LoadBalancingRules q) \<and>
       \<not> has_key EqualFold (\<lambda>p. valS (pb_Name p)) uid (lbp_Probes q)))"

lemma lb_cleaned_released:
  "lb_cleaned uid p q \<Longrightarrow> lb_Properties lb = Some q \<Longrightarrow> lb_released az uid (Some lb)"
  by (auto simp: lb_released_def lb_cleaned_def has_key_iff)

lemma reconcileLBRule_released:
  fixes r :: "'s GatewayLBConfigurationReconciler"
  defines "az \<equiv> lbr_AzureManager r"
  assumes laws: "lb_laws az view" and st: "pred_option (lb_stored az) (view s)"
    and run: "reconcileLBRule r cfg False s = (Ok res, s')"
  shows "lb_released az (om_UID (lbc_Meta cfg)) (view s')"
proof (cases "view s")
  case None
  from run obtain found s1 where g: "getGatewayLB az s = (Ok found, s1)"
    and rest: "(case found of Some lb \<Rightarrow> reconcileLB r cfg False False lb | None \<Rightarrow> retE ('''', 0)) s1 = (Ok res, s')"
    unfolding reconcileLBRule_def az_def [symmetric] by (auto simp: bindE_Ok_iff)
  have "view s1 = None" "found = None"
    using triple_OkD [OF getGatewayLB_triple [OF laws, of "view s"] refl g] None by auto
  with rest show ?thesis by (simp add: lb_released_def)
next
  case (Some lb)
  then have sl: "lb_stored az lb" using st by simp
  then obtain p where p: "lb_Properties lb = Some p" by (auto simp: lb_stored_def split: option.splits)
  show ?thesis
    using reconcileLBRule_cleans [of r view s lb p cfg res s', folded az_def, OF laws Some sl p run]
      lb_cleaned_released by (auto simp: lb_released_def)
qed

lemma lb_release_rule:
  fixes r :: "'s GatewayLBConfigurationReconciler"
  defines "az \<equiv> lbr_AzureManager r"
  assumes laws: "lb_laws az view" and keep: "az_keeps az (\<lambda>s. fin s \<and> \<not> vmx s)"
  shows "triple (\<lambda>s. pred_option (lb_stored az) (view s) \<and> fin s \<and> \<not> vmx s) (reconcileLBRule r cfg False)
    (\<lambda>_ s. lb_released az (om_UID (lbc_Meta cfg)) (view s) \<and> fin s \<and> \<not> vmx s) (\<lambda>_. fin) fin"
proof -
  have "triple (\<lambda>s. pred_option (lb_stored az) (view s)) (reconcileLBRule r cfg False)
      (\<lambda>_ s. lb_released az (om_UID (lbc_Meta cfg)) (view s)) (\<lambda>_ _. True) (\<lambda>_. True)"
    using reconcileLBRule_released [of r view _ cfg, folded az_def, OF laws]
    by (auto simp: triple_def split: res.splits)
  from triple_both [OF this reconcileLBRule_keeps [OF keep [unfolded az_def]]]
  show ?thesis by (rule triple_conseq) auto
qed

lemma ensureDeleted_LB_triple:
  fixes r :: "'s GatewayLBConfigurationReconciler" and cfg
  defines "az \<equiv> lbr_AzureManager r"
  assumes laws: "lb_delete_laws r view fin vmx"
  shows "triple (\<lambda>s. pred_option (lb_stored az) (view s) \<and> fin s) (ensureDeleted_LB r cfg)
    (\<lambda>_ s. fin s \<or> \<not> vmx s \<and> lb_released az (om_UID (lbc_Meta cfg)) (view s)) (\<lambda>_. fin) fin"
proof -
  let ?k = "lbr_Client r" and ?uid = "om_UID (lbc_Meta cfg)"
  let ?S = "\<lambda>s. pred_option (lb_stored az) (view s)"
  have keep: "\<And>f x. az_keeps az (\<lambda>s. fin s = f \<and> vmx s = x)" and lbl: "lb_laws az view"
    and met: "metrics_keep ?k (\<lambda>s. (view s, fin s, vmx s))"
    using laws by (simp_all add: lb_delete_laws_def Let_def az_def)
  have upd: "triple (\<lambda>s. view s = v \<and> fin s = f \<and> vmx s = x) (kUpdate (k_LBC ?k) obj)
        (\<lambda>_ s. view s = v \<and> vmx s = x \<and>
          (fin s \<longleftrightarrow> LBConfigFinalizerName \<in> set (om_Finalizers (lbc_Meta obj))))
        (\<lambda>_ s. view s = v \<and> fin s = f \<and> vmx s = x) (\<lambda>_. False)"
    and del: "triple (\<lambda>s. view s = v \<and> fin s = f) (kDelete (k_VMC ?k) vm)
        (\<lambda>_ s. view s = v \<and> fin s = f)
        (\<lambda>e s. view s = v \<and> fin s = f \<and> (IsNotFound e \<longrightarrow> \<not> vmx s)) (\<lambda>_. False)" for v f x obj vm
    using laws unfolding lb_delete_laws_def Let_def by blast+
  have D: "triple (\<lambda>s. ?S s \<and> fin s) (kDelete (k_VMC ?k) vm) (\<lambda>_ s. fin s)
      (\<lambda>e s. ?S s \<and> fin s \<and> (IsNotFound e \<longrightarrow> \<not> vmx s)) fin" for vm
    by (rule triple_ghost2 [of "\<lambda>v f. pred_option (lb_stored az) v \<and> f" view fin], rule triple_conseq, rule del) auto
  have U: "triple (\<lambda>s. lb_released az ?uid (view s) \<and> fin s \<and> \<not> vmx s) (kUpdate (k_LBC ?k) obj)
      (\<lambda>_ s. fin s \<or> \<not> vmx s \<and> lb_released az ?uid (view s)) (\<lambda>_. fin) fin" for obj
    by (rule triple_ghost3 [of "\<lambda>v f x. lb_released az ?uid v \<and> f \<and> \<not> x" view fin vmx], rule triple_conseq, rule upd)
      auto
  have R: "triple (\<lambda>s. ?S s \<and> fin s \<and> \<not> vmx s) (reconcileLBRule r cfg False)
      (\<lambda>_ s. lb_released az ?uid (view s) \<and> fin s \<and> \<not> vmx s) (\<lambda>_. fin) fin"
    using lb_release_rule [of r view fin vmx cfg] lbl keep [of True False] by (simp add: az_def)
  have H: "triple (\<lambda>s. ?S s \<and> fin s \<and> (IsNotFound e \<longrightarrow> \<not> vmx s))
      (if \<not> IsNotFound e then failE e else bindE (reconcileLBRule r cfg False) (\<lambda>_.
        bindE (kUpdate (k_LBC ?k) obj) (\<lambda>_. retE ())))
      (\<lambda>_ s. fin s \<or> \<not> vmx s \<and> lb_released az ?uid (view s)) (\<lambda>_. fin) fin" for e obj
  proof (cases "IsNotFound e")
    case True
    with triple_bind [OF R triple_bind [OF U triple_ret]] show ?thesis by simp
  qed (auto intro!: triple_fail)
  note body = triple_try [OF D _ H, where f = "\<lambda>_. retE ()", OF triple_ret]
  show ?thesis
    unfolding ensureDeleted_LB_def Let_def with_metrics_def
    using metrics_keep_observe [OF met]
    by (intro triple_if triple_fin triple_conseq [OF body] triple_ret) auto
qed

lemma needed_frame:
  fixes r :: "'s GatewayLBConfigurationReconciler" and cfg names
  assumes inv: "lb_inv p" and run: "reconcileNeeded (expectedOf r cfg names) p = Ok (port, u, q)"
  shows "lb_inv q"
    and "filter (\<lambda>x. \<not> rule_named (lbRuleName names) x) (lbp_LoadBalancingRules q)
      = filter (\<lambda>x. \<not> rule_named (lbRuleName names) x) (lbp_LoadBalancingRules p)"
    and "filter (\<lambda>x. \<not> probe_named (probeName names) x) (lbp_Probes q)
      = filter (\<lambda>x. \<not> probe_named (probeName names) x) (lbp_Probes p)"
proof -
  let ?ex = "expectedOf r cfg names"
  from run obtain u1 p1 u2 rs u3 ps where
    b: "reconcileBackend (ex_backendName ?ex) (ex_backendID ?ex) True p = Ok (u1, p1)" and
    rl: "reconcileRules (ex_Rule ?ex) (lbp_LoadBalancingRules p1) = Ok (port, u2, rs)" and
    pr: "reconcileProbes (ex_Probe ?ex) (lbp_Probes p1) = Ok (u3, ps)" and
    q: "q = p1\<lparr>lbp_LoadBalancingRules := rs, lbp_Probes := ps\<rparr>" and
    st: "seq_step (rule_step ?ex) (probe_step ?ex) p1 = Ok (u2 \<or> u3, q)"
    by (elim reconcileNeededE)
  note fr = reconcileBackend_frame(1,2,4) [OF b]
  show "lb_inv q" using lb_steps.both.keeps_inv [OF _ st] fr(3) inv by simp
  show "filter (\<lambda>x. \<not> rule_named (lbRuleName names) x) (lbp_LoadBalancingRules q)
      = filter (\<lambda>x. \<not> rule_named (lbRuleName names) x) (lbp_LoadBalancingRules p)"
    using reconcileRules_cases [OF _ rl [unfolded ex_Rule_expectedOf]] inv q fr
    by (auto simp: lb_inv_def filter_drop_first with_port_def)
  show "filter (\<lambda>x. \<not> probe_named (probeName names) x) (lbp_Probes q)
      = filter (\<lambda>x. \<not> probe_named (probeName names) x) (lbp_Probes p)"
    using pr inv q fr expected_probe(1) [of "probeName names"]
    by (auto simp: ex_Probe_expectedOf lb_inv_def reconcileProbes_cases filter_drop_first split: if_splits)
qed

end
