(* ===== verification/LB_World.thy ===== *)
theory LB_World
  imports LB_Proofs
begin

text \<open>
  A concrete world for the load balancer controller: one load balancer, the finalizer of one
  \<open>GatewayLBConfiguration\<close> and the existence of its \<open>GatewayVMConfiguration\<close>. Its clients satisfy
  the laws under which the controller is verified.
\<close>

record lb_world =
  w_lb :: "load_balancer option"
  w_fin :: bool
  w_vm :: bool

definition demo_cloud :: CloudConfig where
  "demo_cloud = \<lparr>cc_Cloud = ''AzurePublicCloud'', cc_TenantID = '''', cc_UserAgent = ''ua'',
     cc_UserAssignedIdentityID = '''', cc_UseManagedIdentityExtension = True, cc_AADClientID = '''',
     cc_AADClientSecret = '''', cc_RateLimitConfig = Some False, cc_Location = ''eastus'',
     cc_SubscriptionID = ''sub'', cc_ResourceGroup = ''rg'', cc_LoadBalancerName = '''',
     cc_LoadBalancerResourceGroup = ''rg'', cc_VnetName = ''vnet'', cc_VnetResourceGroup = ''rg'',
     cc_SubnetName = ''subnet''\<rparr>"

definition no_call :: "('s, 'a) io" where
  "no_call = failE (ErrMsg ''not available'')"

definition demo_clock :: "'s clock" where
  "demo_clock = \<lparr>clk_expired = (\<lambda>_ _ _. False), clk_sleep = (\<lambda>_ _ s. s), clk_capped = (\<lambda>_ _. False)\<rparr>"

text \<open>A manager all of whose calls fail; the worlds of the development replace some of them.\<close>

definition offline_az :: "'s AzureManager" where
  "offline_az = \<lparr>az_CloudConfig = demo_cloud, az_clock = demo_clock,
     LoadBalancerClient_Get = (\<lambda>_ _. no_call), LoadBalancerClient_CreateOrUpdate = (\<lambda>_ _ _. no_call),
     LoadBalancerClient_Delete = (\<lambda>_ _. no_call), VmssClient_List = (\<lambda>_. no_call),
     VmssClient_Get = (\<lambda>_ _. no_call), VmssClient_CreateOrUpdate = (\<lambda>_ _ _. no_call),
     VmssVMClient_List = (\<lambda>_ _. no_call), VmssVMClient_Get = (\<lambda>_ _ _. no_call),
     VmssVMClient_Update = (\<lambda>_ _ _ _. no_call), VMClient_List = (\<lambda>_. no_call),
     VMClient_Get = (\<lambda>_ _. no_call), PublicIPPrefixClient_Get = (\<lambda>_ _. no_call),
     PublicIPPrefixClient_CreateOrUpdate = (\<lambda>_ _ _. no_call), PublicIPPrefixClient_Delete = (\<lambda>_ _. no_call),
     PublicIPClient_CreateOrUpdate = (\<lambda>_ _ _. no_call), PublicIPClient_Delete = (\<lambda>_ _. no_call),
     InterfaceClient_GetVMSS = (\<lambda>_ _ _ _. no_call), InterfaceClient_List = (\<lambda>_. no_call),
     InterfaceClient_Get = (\<lambda>_ _. no_call), InterfaceClient_CreateOrUpdate = (\<lambda>_ _ _. no_call),
     SubnetClient_Get = (\<lambda>_ _ _. no_call)\<rparr>"

definition offline_client :: "('s, 'o) kclient" where
  "offline_client = \<lparr>kGet = (\<lambda>_ _. no_call), kList = no_call, kCreate = (\<lambda>_. no_call),
     kUpdate = (\<lambda>_. no_call), kStatusUpdate = (\<lambda>_. no_call), kDelete = (\<lambda>_. no_call),
     kCreateOrPatch = (\<lambda>_ _. no_call), kCreateOrUpdate = (\<lambda>_ _. no_call)\<rparr>"

definition demo_util :: controllerutil where
  "demo_util = \<lparr>ContainsFinalizer = (\<lambda>m f. f \<in> set (om_Finalizers m)),
     AddFinalizer = (\<lambda>m f. if f \<in> set (om_Finalizers m) then m else m\<lparr>om_Finalizers := om_Finalizers m @ [f]\<rparr>),
     RemoveFinalizer = (\<lambda>m f. m\<lparr>om_Finalizers := filter (\<lambda>g. g \<noteq> f) (om_Finalizers m)\<rparr>),
     SetControllerReference = (\<lambda>owner m. Ok (m\<lparr>om_OwnerReferences :=
       [\<lparr>or_Kind = '''', or_Name = om_Name owner, or_UID = om_UID owner\<rparr>]\<rparr>))\<rparr>"

definition offline_kube :: "'s kube" where
  "offline_kube = \<lparr>k_SGC = offline_client, k_LBC = offline_client, k_VMC = offline_client,
     k_GWS = offline_client, k_PE = offline_client, k_Secret = offline_client, k_ConfigMap = offline_client,
     k_Node = offline_client, k_Pod = offline_client, k_util = demo_util, k_Getenv = (\<lambda>_. ''''),
     k_Event = (\<lambda>_ _ _ _ s. s), k_FailCountInc = (\<lambda>_ s. s), k_LatencyObserve = (\<lambda>_ s. s)\<rparr>"

section \<open>Azure stores a load balancer\<close>

definition fill_frontend :: "frontend \<Rightarrow> frontend" where
  "fill_frontend f = f\<lparr>fe_ID := GetLBFrontendIPConfigurationID (offline_az :: unit AzureManager) (valS (fe_Name f)),
     fe_Properties := (if has_address f then fe_Properties f
       else Some \<lparr>fep_PrivateIPAddressVersion = Some ''IPv4'', fep_PrivateIPAllocationMethod = Some ''Dynamic'',
         fep_PrivateIPAddress = Some ''10.0.0.4'', fep_Subnet = None\<rparr>)\<rparr>"

definition fill_backend :: "backend_pool \<Rightarrow> backend_pool" where
  "fill_backend b = b\<lparr>bp_ID := GetLBBackendAddressPoolID (offline_az :: unit AzureManager) (valS (bp_Name b))\<rparr>"

definition storable :: "lb_props \<Rightarrow> bool" where
  "storable p \<longleftrightarrow> (\<forall>f\<in>set (lbp_FrontendIPConfigurations p). fe_Name f \<noteq> None \<and> frontendAddress f \<noteq> Ok '''') \<and>
     (\<forall>b\<in>set (lbp_BackendAddressPools p). bp_Name b \<noteq> None)"

definition store_lb :: "load_balancer \<Rightarrow> load_balancer option" where
  "store_lb lb = (case lb_Properties lb of None \<Rightarrow> None | Some p \<Rightarrow> if storable p
     then Some (lb\<lparr>lb_Properties := Some (p\<lparr>
       lbp_FrontendIPConfigurations := map fill_frontend (lbp_FrontendIPConfigurations p),
       lbp_BackendAddressPools := map fill_backend (lbp_BackendAddressPools p)\<rparr>)\<rparr>)
     else None)"

definition demo_vmss :: vmss where
  "demo_vmss = \<lparr>vs_Name = Some ''vmss'', vs_Location = Some ''eastus'', vs_Tags = Map.empty,
     vs_Properties = Some \<lparr>vsp_UniqueID = Some ''pool'', vsp_VirtualMachineProfile = None\<rparr>\<rparr>"

definition demo_az :: "lb_world AzureManager" where
  "demo_az = offline_az\<lparr>
     LoadBalancerClient_Get := (\<lambda>_ _ s. case w_lb s of Some lb \<Rightarrow> (Ok lb, s)
       | None \<Rightarrow> (Err (RespErr ''NotFound'' 404 ''not found''), s)),
     LoadBalancerClient_CreateOrUpdate := (\<lambda>_ _ lb s. case store_lb lb of Some st \<Rightarrow> (Ok st, s\<lparr>w_lb := Some st\<rparr>)
       | None \<Rightarrow> (Err (RespErr ''InvalidResource'' 400 ''bad request''), s)),
     LoadBalancerClient_Delete := (\<lambda>_ _ s. (Ok (), s\<lparr>w_lb := None\<rparr>)),
     VmssClient_Get := (\<lambda>_ _. retE demo_vmss),
     SubnetClient_Get := (\<lambda>_ _ _. retE \<lparr>sn_ID = Some ''subnet-id''\<rparr>)\<rparr>"

definition demo_kube :: "lb_world kube" where
  "demo_kube = offline_kube\<lparr>
     k_LBC := offline_client\<lparr>kUpdate := (\<lambda>obj s.
       (Ok obj, s\<lparr>w_fin := LBConfigFinalizerName \<in> set (om_Finalizers (lbc_Meta obj))\<rparr>))\<rparr>,
     k_VMC := offline_client\<lparr>kDelete := (\<lambda>_ s. if w_vm s then (Ok (), s\<lparr>w_vm := False\<rparr>)
       else (Err (StatusErr ''NotFound'' ''not found''), s))\<rparr>\<rparr>"

definition demo_lbr :: "lb_world GatewayLBConfigurationReconciler" where
  "demo_lbr = \<lparr>lbr_Client = demo_kube, lbr_AzureManager = demo_az, lbr_LBProbePort = 8082,
     lbr_NewMD5 = (\<lambda>s. s)\<rparr>"

lemma demo_ids [simp]:
  "SubscriptionID demo_az = ''sub''" "LoadBalancerResourceGroup demo_az = ''rg''"
  "LoadBalancerName demo_az = ''kubeegressgateway-ilb''" "az_clock demo_az = demo_clock"
  "SubscriptionID offline_az = ''sub''" "LoadBalancerResourceGroup offline_az = ''rg''"
  "LoadBalancerName offline_az = ''kubeegressgateway-ilb''"
  by (simp_all add: demo_az_def offline_az_def SubscriptionID_def LoadBalancerResourceGroup_def
      LoadBalancerName_def demo_cloud_def DefaultGatewayLBName_def)

lemma demo_subresource [simp]: "LBSubresourceID c offline_az n = LBSubresourceID c demo_az n"
  by (simp add: LBSubresourceID_def)

lemma has_address_fill: "frontendAddress f \<noteq> Ok '''' \<Longrightarrow> has_address (fill_frontend f)"
  by (auto simp: fill_frontend_def has_address_def frontendAddress_def Let_def split: option.splits)

lemma frontend_echo_fill: "frontendAddress f \<noteq> Ok '''' \<Longrightarrow> frontend_echo f (fill_frontend f)"
  by (auto simp: fill_frontend_def frontend_echo_def has_address_def frontendAddress_def Let_def
      split: option.splits)

lemma store_lb_echo: "store_lb lb = Some st \<Longrightarrow> lb_echo demo_az lb st"
  using has_address_fill frontend_echo_fill
  by (auto simp: store_lb_def lb_echo_def props_echo_def arm_frontends_def arm_backends_def storable_def
      list_all2_map2 list_all2_same fill_backend_def fill_frontend_def
      GetLBFrontendIPConfigurationID_def GetLBBackendAddressPoolID_def split: option.splits if_splits)

lemma demo_lb_laws: "lb_laws demo_az w_lb"
  unfolding lb_laws_def
  by (auto simp: demo_az_def offline_az_def demo_clock_def no_call_def triple_def reads_def go_simps
      isStatusNotFound_def dest: store_lb_echo [unfolded demo_az_def offline_az_def] split: option.splits)

end
