(* ===== verification/LB_Props.thy ===== *)
theory LB_Props
  imports LB_World
begin

text \<open>
  The properties of the load balancer controller, each with an instance at a concrete world.
\<close>

section \<open>A configuration and its world\<close>

definition demo_lbc :: GatewayLBConfiguration where
  "demo_lbc = \<lparr>lbc_Meta = (new_meta ''ns'' ''gw'')\<lparr>om_UID := ''uid'', om_Finalizers := [LBConfigFinalizerName],
       om_OwnerReferences := [\<lparr>or_Kind = ''StaticGatewayConfiguration'', or_Name = ''gw'', or_UID = ''sgc-uid''\<rparr>]\<rparr>,
     lbc_Spec = \<lparr>lbs_GatewayNodepoolName = '''', lbs_GatewayVmssProfile =
       \<lparr>gvp_VmssResourceGroup = ''rg'', gvp_VmssName = ''vmss'', gvp_PublicIpPrefixSize = 31\<rparr>,
       lbs_ProvisionPublicIps = True, lbs_PublicIpPrefixId = ''''\<rparr>, lbc_Status = None\<rparr>"

definition demo_names :: lbPropertyNames where
  "demo_names = \<lparr>frontendName = ''pool'', backendName = ''pool'', lbRuleName = ''uid'', probeName = ''uid''\<rparr>"

definition demo_ex :: lb_expected where
  "demo_ex = expectedOf demo_lbr demo_lbc demo_names"

definition demo_start :: lb_world where
  "demo_start = \<lparr>w_lb = None, w_fin = True, w_vm = False\<rparr>"

definition demo_run :: "(string \<times> int32) res \<times> lb_world" where
  "demo_run = reconcileLBRule demo_lbr demo_lbc True demo_start"

definition empty_props :: lb_props where
  "empty_props = \<lparr>lbp_FrontendIPConfigurations = [], lbp_BackendAddressPools = [],
     lbp_LoadBalancingRules = [], lbp_Probes = []\<rparr>"

text \<open>A rule of another configuration, on the first port of the same backend pool.\<close>

definition other_rule :: lb_rule where
  "other_rule = with_port 6000 (getExpectedLBRule ''other''
     (GetLBFrontendIPConfigurationID demo_az ''pool'') (GetLBBackendAddressPoolID demo_az ''pool'')
     (GetLBProbeID demo_az ''other''))"

definition shared_props :: lb_props where
  "shared_props = empty_props\<lparr>lbp_LoadBalancingRules := [other_rule]\<rparr>"

lemma demo_run_ok: "fst demo_run = Ok (''10.0.0.4'', 6000)"
  unfolding demo_run_def by code_simp

lemma demo_run_eq: "reconcileLBRule demo_lbr demo_lbc True demo_start = (Ok (''10.0.0.4'', 6000), snd demo_run)"
  using demo_run_ok by (cases demo_run) (simp add: demo_run_def)

section \<open>Ports\<close>

text \<open>
  Property C8. \<open>selectPortForLBRule\<close> returns the least port from 6000 (inclusive) to 7000
  (exclusive) that no rule of the target's backend pool uses. It fails exactly when a rule of
  that pool has no valid port or when every port is taken, and it never indexes out of range.
\<close>

theorem selectPort_least_free:
  assumes "targetBackend target = Ok backend"
  shows "case selectPortForLBRule target rules of
      Ok port \<Rightarrow> 6000 \<le> sint port \<and> sint port < 7000 \<and> None \<notin> used_ports backend rules \<and>
        Some port \<notin> used_ports backend rules \<and>
        (\<forall>q. 6000 \<le> sint q \<and> sint q < sint port \<longrightarrow> Some q \<in> used_ports backend rules)
    | Err e \<Rightarrow> None \<in> used_ports backend rules \<or>
        (\<forall>q. 6000 \<le> sint q \<and> sint q < 7000 \<longrightarrow> Some q \<in> used_ports backend rules)
    | Panic \<Rightarrow> False"
  by (rule selectPort_cases [OF assms])

theorem selectPort_least_free_witness:
  "selectPortForLBRule other_rule [other_rule] = Ok 6001 \<and>
   Some 6000 \<in> used_ports (valS (GetLBBackendAddressPoolID demo_az ''pool'')) [other_rule]"
proof -
  have "targetBackend other_rule = Ok (valS (GetLBBackendAddressPoolID demo_az ''pool''))"
    by (simp add: other_rule_def with_port_def targetBackend_def getExpectedLBRule_def)
  moreover have "selectPortForLBRule other_rule [other_rule] = Ok 6001" by code_simp
  ultimately show ?thesis
    using selectPort_least_free [of other_rule _ "[other_rule]"] by auto
qed

section \<open>The invariant of the load balancer\<close>

text \<open>
  Property C6. Reconciling a needed configuration keeps the load balancer well formed: rule and
  probe names stay unique without regard to case, and no two rules of one backend pool share a
  port. The rules and probes of other configurations stay as they are, in order.
\<close>

theorem reconcileNeeded_keeps_invariant:
  assumes "lb_inv p" and "reconcileNeeded (expectedOf r cfg names) p = Ok (port, u, q)"
  shows "lb_inv q \<and>
    filter (\<lambda>x. \<not> rule_named (lbRuleName names) x) (lbp_LoadBalancingRules q)
      = filter (\<lambda>x. \<not> rule_named (lbRuleName names) x) (lbp_LoadBalancingRules p) \<and>
    filter (\<lambda>x. \<not> probe_named (probeName names) x) (lbp_Probes q)
      = filter (\<lambda>x. \<not> probe_named (probeName names) x) (lbp_Probes p)"
  using needed_frame [OF assms] by simp

theorem reconcileNeeded_keeps_invariant_witness:
  "\<exists>port u q. reconcileNeeded demo_ex shared_props = Ok (port, u, q) \<and> lb_inv q \<and>
     other_rule \<in> set (lbp_LoadBalancingRules q)"
proof -
  have ok: "is_ok (reconcileNeeded demo_ex shared_props)" by code_simp
  have inv: "lb_inv shared_props" by code_simp
  have other: "\<not> rule_named (lbRuleName demo_names) other_rule" by code_simp
  obtain port u q where run: "reconcileNeeded demo_ex shared_props = Ok (port, u, q)"
    using ok by (auto simp: is_ok_iff)
  have "lb_inv q"
    and "filter (\<lambda>x. \<not> rule_named (lbRuleName demo_names) x) (lbp_LoadBalancingRules q) = [other_rule]"
    using reconcileNeeded_keeps_invariant [OF inv run [unfolded demo_ex_def]] other
    by (simp_all add: shared_props_def empty_props_def)
  then have "other_rule \<in> set (lbp_LoadBalancingRules q)"
    by (metis (mono_tags) filter_is_subset list.set_intros(1) subsetD)
  with \<open>lb_inv q\<close> run show ?thesis by simp
qed

section \<open>Establishing and removing a configuration\<close>

text \<open>
  Property C3. When \<open>reconcileLBRule\<close> returns an address and a port for a needed configuration,
  the load balancer that Azure stores has the configuration's rule on that port, its probe, and
  the frontend with that address and the backend pool of its node pool; it is well formed again.
\<close>

theorem reconcileLBRule_establishes:
  assumes "lb_laws (lbr_AzureManager r) view"
    and "pred_option (lb_stored (lbr_AzureManager r)) (view s)"
    and "reconcileLBRule r cfg True s = (Ok (ip, port), s')"
  shows "\<exists>pool names lb p. getLBPropertyName (lbr_NewMD5 r) cfg pool = Ok names \<and>
    view s' = Some lb \<and> lb_stored (lbr_AzureManager r) lb \<and> lb_Properties lb = Some p \<and>
    lb_serves (expectedOf r cfg names) ip port p"
  by (rule reconcileLBRule_serves [OF assms])

theorem reconcileLBRule_establishes_witness:
  "\<exists>pool names lb p. getLBPropertyName (lbr_NewMD5 demo_lbr) demo_lbc pool = Ok names \<and>
    w_lb (snd demo_run) = Some lb \<and> lb_stored demo_az lb \<and> lb_Properties lb = Some p \<and>
    lb_serves (expectedOf demo_lbr demo_lbc names) ''10.0.0.4'' 6000 p"
  using reconcileLBRule_establishes [of demo_lbr w_lb, OF _ _ demo_run_eq] demo_lb_laws
  by (simp add: demo_lbr_def demo_start_def)

text \<open>
  Property C7. Reconciliation is idempotent: on the load balancer that Azure stored after a
  first run, a second run finds the same port and has nothing to write.
\<close>

theorem reconcileNeeded_idempotent:
  assumes "arm_backends (lbr_AzureManager r) p" and "lb_inv p"
    and "reconcileNeeded (expectedOf r cfg names) p = Ok (port, u, q)"
    and "props_echo (lbr_AzureManager r) q s"
  shows "reconcileNeeded (expectedOf r cfg names) s = Ok (port, False, s)"
  by (rule needed_again(1) [OF assms])

definition demo_q :: lb_props where
  "demo_q = (case reconcileNeeded demo_ex shared_props of Ok (_, _, q) \<Rightarrow> q | _ \<Rightarrow> empty_props)"

definition demo_s :: lb_props where
  "demo_s = demo_q\<lparr>lbp_BackendAddressPools := map fill_backend (lbp_BackendAddressPools demo_q)\<rparr>"

theorem reconcileNeeded_idempotent_witness:
  "reconcileNeeded demo_ex shared_props = Ok (6001, True, demo_q) \<and>
   reconcileNeeded demo_ex demo_s = Ok (6001, False, demo_s)"
proof -
  have run: "reconcileNeeded demo_ex shared_props = Ok (6001, True, demo_q)" by code_simp
  have "arm_backends demo_az shared_props" "lb_inv shared_props" by code_simp+
  moreover have "props_echo demo_az demo_q demo_s" by code_simp
  ultimately show ?thesis
    using reconcileNeeded_idempotent [of demo_lbr shared_props demo_lbc demo_names 6001 True demo_q demo_s] run
    by (simp add: demo_ex_def demo_lbr_def)
qed




text \<open>
  The clean-up block sets \<open>updateLB\<close> exactly when it changed something: no write is
  lost and none is made for nothing. The frontend and the backend pool of the node pool go
  exactly when no rule of another configuration refers to the frontend.
\<close>

lemma reconcileUnneeded_exact:
  assumes "lb_inv p" and "reconcileUnneeded ex p = Ok (updateLB, deleteFrontend, q)"
  shows "(updateLB \<longleftrightarrow> q \<noteq> p) \<and>
    (deleteFrontend \<longleftrightarrow> (\<forall>r\<in>set (lbp_LoadBalancingRules p).
      refers (ex_frontendID ex) r \<longrightarrow> rule_named (valS (lr_Name (ex_Rule ex))) r)) \<and>
    (\<not> deleteFrontend \<longrightarrow> lbp_FrontendIPConfigurations q = lbp_FrontendIPConfigurations p \<and>
      lbp_BackendAddressPools q = lbp_BackendAddressPools p)"
  using unneeded_changes [OF assms] unneeded_eq(1,2) [OF assms] by auto







end
