(* ===== verification/VMSS_Pool.thy ===== *)
theory VMSS_Pool
  imports LB_Controller
begin

text \<open>
  Gateway pools backed by a virtual machine scale set: the methods of \<open>agentPoolVMSS\<close> in
  src/controllers/manager/gatewayvmconfiguration_controller.go. They give the primary network
  interface of the scale set and of each instance one more IP configuration, named after the
  VM configuration object, and add the primary IP configuration to the load balancer's backend
  pool while some managed configuration exists.

  Go edits the interface objects in place; here each function returns the edited interfaces. On
  an error the caller returns at once and never looks at the interfaces again.
\<close>

section \<open>Names and comparisons\<close>

definition managedSubresourceName :: "GatewayVMConfiguration \<Rightarrow> string" where
  "managedSubresourceName vmConfig = ManagedResourcePrefix @ om_UID (vmc_Meta vmConfig)"

definition getVMSSResourceGroup :: "GatewayVMConfiguration \<Rightarrow> string" where
  "getVMSSResourceGroup vmConfig =
     (let rg = gvp_VmssResourceGroup (vms_GatewayVmssProfile (vmc_Spec vmConfig))
      in if rg \<noteq> '''' then rg else '''')"

text \<open>Two pointers to references differ: one is nil, or the identifiers differ but for case.\<close>

definition refs_differ :: "sub_resource option \<Rightarrow> sub_resource option \<Rightarrow> bool" where
  "refs_differ a b \<longleftrightarrow> (case (a, b) of (None, None) \<Rightarrow> False
     | (Some x, Some y) \<Rightarrow> \<not> EqualFold (valS (sr_ID x)) (valS (sr_ID y)) | _ \<Rightarrow> True)"

definition pips_differ :: "vmss_pip option \<Rightarrow> vmss_pip option \<Rightarrow> bool" where
  "pips_differ a b \<longleftrightarrow> (case (a, b) of (None, None) \<Rightarrow> False
     | (Some x, Some y) \<Rightarrow> valS (vpip_Name x) \<noteq> valS (vpip_Name y) \<or>
         (case (vpip_Properties x, vpip_Properties y) of (None, None) \<Rightarrow> False
          | (Some p, Some q) \<Rightarrow> refs_differ (vpp_PublicIPPrefix p) (vpp_PublicIPPrefix q) | _ \<Rightarrow> True)
     | _ \<Rightarrow> True)"

definition different :: "vmss_ipconfig \<Rightarrow> vmss_ipconfig \<Rightarrow> bool" where
  "different ipConfig1 ipConfig2 \<longleftrightarrow> (case (vic_Properties ipConfig1, vic_Properties ipConfig2) of
       (None, None) \<Rightarrow> False
     | (Some p, Some q) \<Rightarrow> valB (vip_Primary p) \<noteq> valB (vip_Primary q) \<or>
         valS (vip_PrivateIPAddressVersion p) \<noteq> valS (vip_PrivateIPAddressVersion q) \<or>
         refs_differ (vip_Subnet p) (vip_Subnet q) \<or>
         pips_differ (vip_PublicIPAddressConfiguration p) (vip_PublicIPAddressConfiguration q)
     | _ \<Rightarrow> True)"

definition isPrimaryNic :: "vmss_nic \<Rightarrow> bool" where
  "isPrimaryNic nic \<longleftrightarrow> (case vn_Properties nic of None \<Rightarrow> False | Some p \<Rightarrow> valB (vnp_Primary p))"

definition isPrimaryConfig :: "vmss_ipconfig \<Rightarrow> bool" where
  "isPrimaryConfig ipConfig \<longleftrightarrow>
     (case vic_Properties ipConfig of None \<Rightarrow> False | Some p \<Rightarrow> valB (vip_Primary p))"

definition ipConfigs :: "vmss_nic \<Rightarrow> vmss_ipconfig list" where
  "ipConfigs nic = (case vn_Properties nic of None \<Rightarrow> [] | Some p \<Rightarrow> vnp_IPConfigurations p)"

definition setIPConfigs :: "vmss_ipconfig list \<Rightarrow> vmss_nic \<Rightarrow> vmss_nic" where
  "setIPConfigs cs nic = nic\<lparr>vn_Properties := map_option (\<lambda>p. p\<lparr>vnp_IPConfigurations := cs\<rparr>) (vn_Properties nic)\<rparr>"

section \<open>The expected IP configuration\<close>

text \<open>
  The subnet of the last primary IP configuration of the last primary interface. A primary IP
  configuration without a subnet is dereferenced.
\<close>

fun subnetOfConfigs :: "vmss_ipconfig list \<Rightarrow> string option \<Rightarrow> string option res" where
  "subnetOfConfigs [] subnetID = Ok subnetID"
| "subnetOfConfigs (ipConfig # rest) subnetID = (case vic_Properties ipConfig of
      None \<Rightarrow> subnetOfConfigs rest subnetID
    | Some p \<Rightarrow> if valB (vip_Primary p)
        then bindR (deref (vip_Subnet p)) (\<lambda>sn. subnetOfConfigs rest (sr_ID sn))
        else subnetOfConfigs rest subnetID)"

fun subnetOfNics :: "vmss_nic list \<Rightarrow> string option \<Rightarrow> string option res" where
  "subnetOfNics [] subnetID = Ok subnetID"
| "subnetOfNics (nic # rest) subnetID = (if isPrimaryNic nic
     then bindR (subnetOfConfigs (ipConfigs nic) subnetID) (\<lambda>sn. subnetOfNics rest sn)
     else subnetOfNics rest subnetID)"

definition expectedIPConfig :: "string \<Rightarrow> string \<Rightarrow> string option \<Rightarrow> vmss_ipconfig" where
  "expectedIPConfig ipConfigName ipPrefixID subnetID = \<lparr>vic_Name = Some ipConfigName,
     vic_Properties = Some \<lparr>vip_Primary = Some False, vip_PrivateIPAddressVersion = Some ''IPv4'',
       vip_PublicIPAddressConfiguration = (if ipPrefixID \<noteq> ''''
         then Some \<lparr>vpip_Name = Some ipConfigName, vpip_Properties =
           Some \<lparr>vpp_PublicIPPrefix = Some \<lparr>sr_ID = Some ipPrefixID\<rparr>\<rparr>\<rparr>
         else None),
       vip_Subnet = Some \<lparr>sr_ID = subnetID\<rparr>, vip_LoadBalancerBackendAddressPools = []\<rparr>\<rparr>"

definition getExpectedIPConfig :: "string \<Rightarrow> string \<Rightarrow> vmss_nic list \<Rightarrow> vmss_ipconfig res" where
  "getExpectedIPConfig ipConfigName ipPrefixID interfaces =
     bindR (subnetOfNics interfaces None) (\<lambda>subnetID. Ok (expectedIPConfig ipConfigName ipPrefixID subnetID))"

section \<open>Network interfaces\<close>

text \<open>\<open>for i := range xs { if p(xs[i]) { xs[i] = f(xs[i]); break } }\<close>.\<close>

fun update_first :: "('a \<Rightarrow> bool) \<Rightarrow> ('a \<Rightarrow> 'a) \<Rightarrow> 'a list \<Rightarrow> 'a list" where
  "update_first p f [] = []"
| "update_first p f (x # xs) = (if p x then f x # xs else x # update_first p f xs)"

fun update_last :: "('a \<Rightarrow> bool) \<Rightarrow> ('a \<Rightarrow> 'a) \<Rightarrow> 'a list \<Rightarrow> 'a list" where
  "update_last p f [] = []"
| "update_last p f (x # xs) = (if \<exists>y\<in>set xs. p y then x # update_last p f xs
     else if p x then f x # xs else x # update_last p f xs)"

text \<open>
  The loop over the interfaces: per primary interface, the first IP configuration with the
  name is dropped if it is unwanted or differs. The results are \<open>needUpdate\<close>, \<open>foundConfig\<close> and
  the interfaces.
\<close>

fun dropConfigs :: "string \<Rightarrow> vmss_ipconfig \<Rightarrow> bool \<Rightarrow> vmss_nic list \<Rightarrow> bool \<times> bool \<times> vmss_nic list" where
  "dropConfigs name expected want [] = (False, False, [])"
| "dropConfigs name expected want (nic # rest) =
     (case dropConfigs name expected want rest of (need, found, nics) \<Rightarrow>
       if isPrimaryNic nic then
         (case find (\<lambda>c. valS (vic_Name c) = name) (ipConfigs nic) of
            None \<Rightarrow> (need, found, nic # nics)
          | Some ipConfig \<Rightarrow> if \<not> want \<or> different ipConfig expected
              then (True, found, setIPConfigs (drop_first (\<lambda>c. valS (vic_Name c) = name) (ipConfigs nic)) nic # nics)
              else (need, True, nic # nics))
       else (need, found, nic # nics))"

definition poolListed :: "string \<Rightarrow> sub_resource \<Rightarrow> bool" where
  "poolListed lbBackendpoolID backend \<longleftrightarrow> EqualFold lbBackendpoolID (valS (sr_ID backend))"

definition backendPools :: "vmss_ipconfig \<Rightarrow> sub_resource list" where
  "backendPools ipConfig = (case vic_Properties ipConfig of None \<Rightarrow> []
     | Some p \<Rightarrow> vip_LoadBalancerBackendAddressPools p)"

definition setBackendPools :: "sub_resource list \<Rightarrow> vmss_ipconfig \<Rightarrow> vmss_ipconfig" where
  "setBackendPools ps ipConfig = ipConfig\<lparr>vic_Properties :=
     map_option (\<lambda>p. p\<lparr>vip_LoadBalancerBackendAddressPools := ps\<rparr>) (vic_Properties ipConfig)\<rparr>"

definition hasManagedConfig :: "vmss_ipconfig list \<Rightarrow> bool" where
  "hasManagedConfig cs \<longleftrightarrow> (\<exists>c\<in>set cs. HasPrefix (valS (vic_Name c)) ManagedResourcePrefix)"

definition reconcileLbBackendPool :: "string \<Rightarrow> vmss_nic \<Rightarrow> (bool \<times> vmss_nic) res" where
  "reconcileLbBackendPool lbBackendpoolID primaryNic =
     (let cs = ipConfigs primaryNic; needBackendPool = hasManagedConfig cs;
          put = (\<lambda>ps. setIPConfigs (update_first isPrimaryConfig (setBackendPools ps) cs) primaryNic)
      in case find isPrimaryConfig cs of
           None \<Rightarrow> Err (ErrMsg ''vmss(vm) primary ipConfig not found'')
         | Some ipConfig \<Rightarrow> (let pools = backendPools ipConfig in
             if \<exists>b\<in>set pools. poolListed lbBackendpoolID b then
               (if \<not> needBackendPool then Ok (True, put (drop_first (poolListed lbBackendpoolID) pools))
                else Ok (False, primaryNic))
             else if \<not> needBackendPool then Ok (False, primaryNic)
             else Ok (True, put (pools @ [\<lparr>sr_ID = Some lbBackendpoolID\<rparr>]))))"

definition appendConfig :: "vmss_ipconfig \<Rightarrow> vmss_nic \<Rightarrow> vmss_nic" where
  "appendConfig c nic = setIPConfigs (ipConfigs nic @ [c]) nic"

text \<open>The primary interface is the last one that the loop saw.\<close>

fun lastPrimary :: "vmss_nic list \<Rightarrow> vmss_nic option" where
  "lastPrimary [] = None"
| "lastPrimary (nic # rest) = (case lastPrimary rest of Some n \<Rightarrow> Some n
     | None \<Rightarrow> if isPrimaryNic nic then Some nic else None)"

definition reconcileVMSSNetworkInterface ::
  "string \<Rightarrow> string \<Rightarrow> string \<Rightarrow> bool \<Rightarrow> vmss_nic list \<Rightarrow> (bool \<times> vmss_nic list) res" where
  "reconcileVMSSNetworkInterface ipConfigName ipPrefixID lbBackendpoolID wantIPConfig interfaces =
     bindR (getExpectedIPConfig ipConfigName ipPrefixID interfaces) (\<lambda>expectedConfig.
     case dropConfigs ipConfigName expectedConfig wantIPConfig interfaces of (need1, foundConfig, nics1) \<Rightarrow>
     case lastPrimary nics1 of
       None \<Rightarrow> Err (ErrMsg ''vmss(vm) primary network interface not found'')
     | Some primaryNic \<Rightarrow>
         (let (need2, nic2) = (if wantIPConfig \<and> \<not> foundConfig then (True, appendConfig expectedConfig primaryNic)
                               else (need1, primaryNic))
          in bindR (reconcileLbBackendPool lbBackendpoolID nic2) (\<lambda>(changed, nic3).
               Ok (need2 \<or> changed, update_last isPrimaryNic (\<lambda>_. nic3) nics1))))"

section \<open>Instances\<close>

text \<open>The addresses of the managed and of the primary IP configuration of an interface.\<close>

fun scanIPs :: "string \<Rightarrow> nic_ipconfig option list \<Rightarrow> string \<times> string \<Rightarrow> string \<times> string" where
  "scanIPs name [] ips = ips"
| "scanIPs name (c # cs) (primaryIP, secondaryIP) =
     (case Option.bind c (\<lambda>ipConfig. map_option (\<lambda>p. (ipConfig, p)) (nic_Properties ipConfig)) of
        None \<Rightarrow> scanIPs name cs (primaryIP, secondaryIP)
      | Some (ipConfig, p) \<Rightarrow>
          if EqualFold (valS (nic_Name ipConfig)) name
          then scanIPs name cs (primaryIP, valS (nip_PrivateIPAddress p))
          else if valB (nip_Primary p) then scanIPs name cs (valS (nip_PrivateIPAddress p), secondaryIP)
          else scanIPs name cs (primaryIP, secondaryIP))"

definition interfaceConfigs :: "interface \<Rightarrow> nic_ipconfig option list option" where
  "interfaceConfigs nic = Option.bind (if_Properties nic) ifp_IPConfigurations"

text \<open>The first pass ends at an interface that cannot be read.\<close>

fun checkIPs ::
  "(string \<Rightarrow> ('s, interface) io) \<Rightarrow> string \<Rightarrow> vmss_nic list \<Rightarrow> string \<times> string \<Rightarrow> ('s, string \<times> string) io" where
  "checkIPs getNic name [] ips = retE ips"
| "checkIPs getNic name (nic # rest) ips = (if isPrimaryNic nic
     then tryE (getNic (valS (vn_Name nic)))
       (\<lambda>vmNic. case interfaceConfigs vmNic of None \<Rightarrow> retE ips
         | Some cs \<Rightarrow> checkIPs getNic name rest (scanIPs name cs ips))
       (\<lambda>_. retE ips)
     else checkIPs getNic name rest ips)"

text \<open>The second pass returns an error instead.\<close>

fun readIPs ::
  "(string \<Rightarrow> ('s, interface) io) \<Rightarrow> string \<Rightarrow> vmss_nic list \<Rightarrow> string \<times> string \<Rightarrow> ('s, string \<times> string) io" where
  "readIPs getNic name [] ips = retE ips"
| "readIPs getNic name (nic # rest) ips = (if isPrimaryNic nic
     then bindE (wrapE ''failed to get vmss instance nic'' (getNic (valS (vn_Name nic))))
       (\<lambda>vmNic. case interfaceConfigs vmNic of
           None \<Rightarrow> failE (ErrMsg ''vmss instance nic has empty ip configurations'')
         | Some cs \<Rightarrow> readIPs getNic name rest (scanIPs name cs ips))
     else readIPs getNic name rest ips)"

fun upsertProfile :: "string \<Rightarrow> string \<Rightarrow> string \<Rightarrow> GatewayVMProfile list \<Rightarrow> GatewayVMProfile list" where
  "upsertProfile node primaryIP secondaryIP [] =
     [\<lparr>vpr_NodeName = node, vpr_PrimaryIP = primaryIP, vpr_SecondaryIP = secondaryIP\<rparr>]"
| "upsertProfile node primaryIP secondaryIP (profile # rest) = (if vpr_NodeName profile = node
     then profile\<lparr>vpr_PrimaryIP := primaryIP, vpr_SecondaryIP := secondaryIP\<rparr> # rest
     else profile # upsertProfile node primaryIP secondaryIP rest)"

definition zeroVMStatus :: GatewayVMConfigurationStatus where
  "zeroVMStatus = \<lparr>vmt_EgressIpPrefix = '''', vmt_GatewayVMProfiles = []\<rparr>"

definition setProfile :: "string \<Rightarrow> string \<Rightarrow> string \<Rightarrow> GatewayVMConfiguration \<Rightarrow> GatewayVMConfiguration" where
  "setProfile node primaryIP secondaryIP vmConfig = (let st = Val zeroVMStatus (vmc_Status vmConfig) in
     vmConfig\<lparr>vmc_Status := Some (st\<lparr>vmt_GatewayVMProfiles :=
       upsertProfile node primaryIP secondaryIP (vmt_GatewayVMProfiles st)\<rparr>)\<rparr>)"

definition provisioningFailed :: "string option \<Rightarrow> bool" where
  "provisioningFailed state \<longleftrightarrow> (case state of None \<Rightarrow> False
     | Some x \<Rightarrow> \<not> EqualFold x ''Succeeded'' \<and> EqualFold x ''Failed'')"

definition reconcileVMSSVM ::
  "'s AzureManager \<Rightarrow> GatewayVMConfiguration \<Rightarrow> string \<Rightarrow> vmss_vm \<Rightarrow> string \<Rightarrow> string \<Rightarrow> bool
    \<Rightarrow> ('s, string \<times> GatewayVMConfiguration) io" where
  "reconcileVMSSVM az vmConfig vmssName vm ipPrefixID lbBackendpoolID wantIPConfig =
     (let ipConfigName = managedSubresourceName vmConfig; vmssRG = getVMSSResourceGroup vmConfig;
          getNic = GetVMSSInterface az vmssRG vmssName (valS (vv_InstanceID vm)) in
      case Option.bind (vv_Properties vm)
          (\<lambda>p. map_option (\<lambda>n. (p, vnw_NetworkInterfaceConfigurations n)) (vvp_NetworkProfileConfiguration p)) of
        None \<Rightarrow> failE (ErrMsg ''vmss vm has empty network profile'')
      | Some (p, interfaces) \<Rightarrow> (case vvp_OSProfile p of
          None \<Rightarrow> failE (ErrMsg ''vmss vm has empty os profile'')
        | Some os \<Rightarrow> (let failed = provisioningFailed (vvp_ProvisioningState p) in
            bindE (if \<not> failed \<and> wantIPConfig then checkIPs getNic ipConfigName interfaces ('''', '''')
                   else retE ('''', '''')) (\<lambda>(primaryIP, secondaryIP).
            let forceUpdate = (failed \<or> wantIPConfig \<and> (primaryIP = '''' \<or> secondaryIP = '''')) in
            bindE (wrapE ''failed to reconcile vm interface'' (liftR (reconcileVMSSNetworkInterface
              ipConfigName ipPrefixID lbBackendpoolID wantIPConfig interfaces))) (\<lambda>(needUpdate, nics).
            let vmUpdated = (needUpdate \<or> forceUpdate); newVM = \<lparr>vv_ID = None, vv_InstanceID = None,
                  vv_Properties = Some \<lparr>vvp_NetworkProfileConfiguration =
                    Some \<lparr>vnw_NetworkInterfaceConfigurations = nics\<rparr>,
                    vvp_OSProfile = None, vvp_ProvisioningState = None\<rparr>\<rparr> in
            bindE (if vmUpdated then bindE (wrapE ''failed to update vmss instance''
                (UpdateVMSSInstance az vmssRG vmssName (valS (vv_InstanceID vm)) newVM)) (\<lambda>_. retE ())
              else retE ()) (\<lambda>_.
            if \<not> wantIPConfig then retE ('''', vmConfig)
            else bindE (if vmUpdated \<or> primaryIP = '''' \<or> secondaryIP = ''''
                then readIPs getNic ipConfigName nics ('''', '''') else retE (primaryIP, secondaryIP))
              (\<lambda>(primaryIP, secondaryIP).
              if primaryIP = '''' \<or> secondaryIP = '''' then
                failE (ErrMsg ''failed to find private IP from vmss'')
              else retE (secondaryIP,
                setProfile (valS (os_ComputerName os)) primaryIP secondaryIP vmConfig))))))))"

section \<open>The scale set\<close>

definition computerName :: "vmss_vm \<Rightarrow> string res" where
  "computerName instance_vm = bindR (deref (vv_Properties instance_vm)) (\<lambda>p.
     bindR (deref (vvp_OSProfile p)) (\<lambda>os. Ok (valS (os_ComputerName os))))"

text \<open>Profiles of nodes that are no longer instances of the scale set are dropped.\<close>

fun keepProfiles :: "vmss_vm list \<Rightarrow> GatewayVMProfile list \<Rightarrow> GatewayVMProfile list res" where
  "keepProfiles instances [] = Ok []"
| "keepProfiles instances (profile # rest) =
     bindR (find_res (\<lambda>i. bindR (computerName i) (\<lambda>n. Ok (vpr_NodeName profile = n))) instances) (\<lambda>hit.
     bindR (keepProfiles instances rest) (\<lambda>kept.
       Ok (if hit = None then kept else profile # kept)))"

definition cleanProfiles :: "vmss_vm list \<Rightarrow> GatewayVMConfiguration \<Rightarrow> GatewayVMConfiguration res" where
  "cleanProfiles instances vmConfig = (case vmc_Status vmConfig of
      None \<Rightarrow> Ok vmConfig
    | Some st \<Rightarrow> bindR (keepProfiles instances (vmt_GatewayVMProfiles st)) (\<lambda>ps.
        Ok (vmConfig\<lparr>vmc_Status := Some (st\<lparr>vmt_GatewayVMProfiles := ps\<rparr>)\<rparr>)))"

definition reconcileVMSS ::
  "'s kube \<Rightarrow> 's AzureManager \<Rightarrow> GatewayVMConfiguration \<Rightarrow> vmss \<Rightarrow> string \<Rightarrow> bool
    \<Rightarrow> ('s, string list \<times> GatewayVMConfiguration) io" where
  "reconcileVMSS k az vmConfig vm ipPrefixID wantIPConfig =
     (let ipConfigName = managedSubresourceName vmConfig; vmssRG = getVMSSResourceGroup vmConfig;
          vmssName = valS (vs_Name vm) in
      case Option.bind (vs_Properties vm) (\<lambda>p. Option.bind (vsp_VirtualMachineProfile p)
          (\<lambda>v. map_option (\<lambda>n. (p, n)) (vmp_NetworkProfile v))) of
        None \<Rightarrow> failE (ErrMsg ''vmss has empty network profile'')
      | Some (p, n) \<Rightarrow> (let lbBackendpoolID = valS (GetLBBackendAddressPoolID az (valS (vsp_UniqueID p))) in
          bindE (wrapE ''failed to reconcile vmss interface'' (liftR (reconcileVMSSNetworkInterface
            ipConfigName ipPrefixID lbBackendpoolID wantIPConfig (vnw_NetworkInterfaceConfigurations n))))
            (\<lambda>(needUpdate, nics).
          let newVmss = \<lparr>vs_Name = None, vs_Location = vs_Location vm, vs_Tags = Map.empty,
                vs_Properties = Some \<lparr>vsp_UniqueID = None, vsp_VirtualMachineProfile =
                  Some \<lparr>vmp_NetworkProfile = Some (n\<lparr>vnw_NetworkInterfaceConfigurations := nics\<rparr>)\<rparr>\<rparr>\<rparr> in
          bindE (if needUpdate then bindE (wrapE ''failed to update vmss''
              (CreateOrUpdateVMSS az vmssRG vmssName newVmss)) (\<lambda>_. retE ()) else retE ()) (\<lambda>_.
          bindE (wrapE ''failed to get vm instances from vmss'' (ListVMSSInstances az vmssRG vmssName))
            (\<lambda>instances.
          bindE (foldE (\<lambda>(ips, cfg) i.
              bindE (reconcileVMSSVM az cfg vmssName i ipPrefixID lbBackendpoolID wantIPConfig)
                (\<lambda>(privateIP, cfg'). retE (if wantIPConfig \<and> ipPrefixID = '''' then ips @ [privateIP] else ips, cfg')))
            ([], vmConfig) instances) (\<lambda>(privateIPs, vmConfig1).
          bindE (liftR (cleanProfiles instances vmConfig1)) (\<lambda>vmConfig2.
          bindE (wrapE ''failed to update vm config status'' (kStatusUpdate (k_VMC k) vmConfig2)) (\<lambda>vmConfig3.
            retE (privateIPs, vmConfig3)))))))))"

end
