(* ===== verification/VMs_Pool.thy ===== *)
theory VMs_Pool
  imports VMSS_Pool
begin

text \<open>
  Gateway pools of single virtual machines, src/controllers/manager/agentpoolvms.go. The pool's
  network interfaces carry tags; each gets one more IP configuration and, for public egress, a
  public IP address out of the prefix. \<open>arm.ParseResourceID\<close> and \<open>uuid.NewMD5\<close> are parameters;
  the hash in the name of a public IP is FNV-1a of the standard library, on 64-bit words.
\<close>

unbundle bit_operations_syntax

section \<open>Names\<close>

definition fnv1a :: "string \<Rightarrow> 64 word" where
  "fnv1a s = fold (\<lambda>c h. (h XOR of_char c) * 1099511628211) s 14695981039346656037"

definition hex_digit :: "nat \<Rightarrow> char" where
  "hex_digit d = (if d < 10 then digit_char d else char_of (87 + d))"

fun hex_str :: "nat \<Rightarrow> string" where
  "hex_str n = (if n < 16 then [hex_digit n] else hex_str (n div 16) @ [hex_digit (n mod 16)])"

declare hex_str.simps [simp del]

definition buildPublicIPName :: "(string \<Rightarrow> string res) \<Rightarrow> string \<Rightarrow> string \<Rightarrow> string res" where
  "buildPublicIPName parseResourceID i val = bindR (parseResourceID i) (\<lambda>name.
     Ok (name @ ''-'' @ hex_str (unat (fnv1a val))))"

section \<open>Comparison and addresses\<close>

record gatewayIPConfig =
  gic_primaryIP :: string
  gic_secondaryIP :: string
  gic_subnetID :: string

fun scanGatewayIPConfig :: "string \<Rightarrow> nic_ipconfig option list \<Rightarrow> gatewayIPConfig \<Rightarrow> gatewayIPConfig" where
  "scanGatewayIPConfig name [] result = result"
| "scanGatewayIPConfig name (c # cs) result =
     (case Option.bind c (\<lambda>ipConfig. map_option (\<lambda>p. (ipConfig, p)) (nic_Properties ipConfig)) of
        None \<Rightarrow> scanGatewayIPConfig name cs result
      | Some (ipConfig, p) \<Rightarrow> scanGatewayIPConfig name cs (
          if EqualFold (valS (nic_Name ipConfig)) name
          then result\<lparr>gic_secondaryIP := valS (nip_PrivateIPAddress p)\<rparr>
          else if valB (nip_Primary p) then result\<lparr>gic_primaryIP := valS (nip_PrivateIPAddress p),
            gic_subnetID := (case nip_Subnet p of None \<Rightarrow> gic_subnetID result | Some sn \<Rightarrow> valS (sn_ID sn))\<rparr>
          else result))"

definition nicConfigs :: "interface_props \<Rightarrow> nic_ipconfig option list" where
  "nicConfigs p = Val [] (ifp_IPConfigurations p)"

definition getGatewayIPConfig :: "interface_props \<Rightarrow> string \<Rightarrow> gatewayIPConfig" where
  "getGatewayIPConfig p name = scanGatewayIPConfig name (nicConfigs p)
     \<lparr>gic_primaryIP = '''', gic_secondaryIP = '''', gic_subnetID = ''''\<rparr>"

definition subnets_differ :: "subnet option \<Rightarrow> subnet option \<Rightarrow> bool" where
  "subnets_differ a b \<longleftrightarrow> (case (a, b) of (None, None) \<Rightarrow> False
     | (Some x, Some y) \<Rightarrow> \<not> EqualFold (valS (sn_ID x)) (valS (sn_ID y)) | _ \<Rightarrow> True)"

definition public_ips_differ :: "public_ip option \<Rightarrow> public_ip option \<Rightarrow> bool" where
  "public_ips_differ a b \<longleftrightarrow> (case (a, b) of (None, None) \<Rightarrow> False
     | (Some x, Some y) \<Rightarrow> valS (pip_Name x) \<noteq> valS (pip_Name y) \<or>
         (case (pip_Properties x, pip_Properties y) of (None, None) \<Rightarrow> False
          | (Some p, Some q) \<Rightarrow> refs_differ (pipp_PublicIPPrefix p) (pipp_PublicIPPrefix q) | _ \<Rightarrow> True)
     | _ \<Rightarrow> True)"

definition differentNIC :: "nic_ipconfig \<Rightarrow> nic_ipconfig \<Rightarrow> bool" where
  "differentNIC a b \<longleftrightarrow> (case (nic_Properties a, nic_Properties b) of
       (None, None) \<Rightarrow> False
     | (Some p, Some q) \<Rightarrow> valB (nip_Primary p) \<noteq> valB (nip_Primary q) \<or>
         valS (nip_PrivateIPAddressVersion p) \<noteq> valS (nip_PrivateIPAddressVersion q) \<or>
         subnets_differ (nip_Subnet p) (nip_Subnet q) \<or>
         public_ips_differ (nip_PublicIPAddress p) (nip_PublicIPAddress q)
     | _ \<Rightarrow> True)"

section \<open>One interface\<close>

definition expectedPublicIP :: "string \<Rightarrow> string \<Rightarrow> public_ip" where
  "expectedPublicIP location ipPrefixID = \<lparr>pip_ID = None, pip_Name = None, pip_Location = Some location,
     pip_SKU = Some \<lparr>sku_Name = Some ''Standard'', sku_Tier = Some ''Regional''\<rparr>,
     pip_Properties = Some \<lparr>pipp_PublicIPAddressVersion = Some ''IPv4'',
       pipp_PublicIPPrefix = Some \<lparr>sr_ID = Some ipPrefixID\<rparr>, pipp_PublicIPAllocationMethod = Some ''Static''\<rparr>\<rparr>"

definition expectedNICConfig :: "string \<Rightarrow> string \<Rightarrow> public_ip option \<Rightarrow> nic_ipconfig" where
  "expectedNICConfig ipConfigName subnetID pip = \<lparr>nic_Name = Some ipConfigName,
     nic_Properties = Some \<lparr>nip_Primary = Some False, nip_PrivateIPAddressVersion = Some ''IPv4'',
       nip_PrivateIPAddress = None, nip_Subnet = Some \<lparr>sn_ID = Some subnetID\<rparr>,
       nip_PublicIPAddress = pip, nip_LoadBalancerBackendAddressPools = []\<rparr>\<rparr>"

text \<open>
  The loop that drops configurations: after a removal the index still advances, so the element
  that moves into the freed place is not looked at. The results are \<open>needUpdate\<close>, \<open>found\<close> and the
  configurations.
\<close>

fun dropNICConfigs :: "string \<Rightarrow> nic_ipconfig \<Rightarrow> bool \<Rightarrow> nic_ipconfig option list
    \<Rightarrow> bool \<times> bool \<times> nic_ipconfig option list" where
  "dropNICConfigs name expected want [] = (False, False, [])"
| "dropNICConfigs name expected want (c # cs) =
     (case Option.bind c (\<lambda>ipConfig. map_option (\<lambda>_. ipConfig) (nic_Properties ipConfig)) of
        None \<Rightarrow> (case dropNICConfigs name expected want cs of (need, found, cs') \<Rightarrow> (need, found, c # cs'))
      | Some ipConfig \<Rightarrow>
          if EqualFold (valS (nic_Name ipConfig)) name then
            (if \<not> want \<or> differentNIC ipConfig expected then
               (case cs of [] \<Rightarrow> (True, False, [])
                | d # ds \<Rightarrow> (case dropNICConfigs name expected want ds of (need, found, ds') \<Rightarrow>
                    (True, found, d # ds')))
             else (False, True, c # cs))
          else (case dropNICConfigs name expected want cs of (need, found, cs') \<Rightarrow> (need, found, c # cs')))"

definition isPrimaryNICConfig :: "nic_ipconfig option \<Rightarrow> bool" where
  "isPrimaryNICConfig c \<longleftrightarrow> (case Option.bind c nic_Properties of None \<Rightarrow> False
     | Some p \<Rightarrow> valB (nip_Primary p))"

definition nicPools :: "nic_ipconfig \<Rightarrow> backend_pool option list" where
  "nicPools c = (case nic_Properties c of None \<Rightarrow> [] | Some p \<Rightarrow> nip_LoadBalancerBackendAddressPools p)"

definition addNICPool :: "string \<Rightarrow> nic_ipconfig \<Rightarrow> nic_ipconfig" where
  "addNICPool lbBackendpoolID c = c\<lparr>nic_Properties := map_option (\<lambda>p. p\<lparr>nip_LoadBalancerBackendAddressPools :=
     nip_LoadBalancerBackendAddressPools p @ [Some \<lparr>bp_Name = None, bp_ID = Some lbBackendpoolID, bp_Properties = None\<rparr>]\<rparr>)
     (nic_Properties c)\<rparr>"

text \<open>The loop over the primary configurations; \<open>missingLB\<close> is never set back to true.\<close>

fun ensureNICPools :: "string \<Rightarrow> bool \<Rightarrow> nic_ipconfig option list \<Rightarrow> bool \<times> nic_ipconfig option list" where
  "ensureNICPools lbBackendpoolID missingLB [] = (missingLB, [])"
| "ensureNICPools lbBackendpoolID missingLB (c # cs) = (if isPrimaryNICConfig c then
     (let missing = (missingLB \<and> \<not> (\<exists>p\<in>set (nicPools (the c)). case p of None \<Rightarrow> False
            | Some b \<Rightarrow> EqualFold (valS (bp_ID b)) lbBackendpoolID));
          c' = (if missing then map_option (addNICPool lbBackendpoolID) c else c)
      in (case ensureNICPools lbBackendpoolID missing cs of (m, cs') \<Rightarrow> (m, c' # cs')))
   else (case ensureNICPools lbBackendpoolID missingLB cs of (m, cs') \<Rightarrow> (m, c # cs')))"

definition editNIC :: "string \<Rightarrow> nic_ipconfig \<Rightarrow> string \<Rightarrow> bool \<Rightarrow> nic_ipconfig option list
    \<Rightarrow> bool \<times> nic_ipconfig option list" where
  "editNIC ipConfigName expected lbBackendpoolID wantIPConfig cs =
     (case dropNICConfigs ipConfigName expected wantIPConfig cs of (need, found, cs1) \<Rightarrow>
      let (need2, cs2) = (if wantIPConfig \<and> \<not> found then (True, cs1 @ [Some expected]) else (need, cs1))
      in case ensureNICPools lbBackendpoolID True cs2 of (missingLB, cs3) \<Rightarrow> (need2 \<or> missingLB, cs3))"

definition reconcileNIC ::
  "(string \<Rightarrow> string res) \<Rightarrow> 's AzureManager \<Rightarrow> GatewayVMConfiguration \<Rightarrow> interface \<Rightarrow> string \<Rightarrow> string \<Rightarrow> bool
    \<Rightarrow> ('s, string \<times> GatewayVMConfiguration) io" where
  "reconcileNIC parseResourceID az vmConfig nic ipPrefixID lbBackendpoolID wantIPConfig =
     (let ipConfigName = managedSubresourceName vmConfig in
      case if_Properties nic of
        None \<Rightarrow> failE (ErrMsg ''nic has empty properties'')
      | Some p \<Rightarrow> (let failed = (valS (ifp_ProvisioningState p) \<noteq> ''Succeeded'' \<and>
              valS (ifp_ProvisioningState p) = ''Failed'');
            ipCfg = getGatewayIPConfig p ipConfigName;
            forceUpdate = (failed \<or> wantIPConfig \<and> (gic_primaryIP ipCfg = '''' \<or> gic_secondaryIP ipCfg = '''')) in
          if gic_subnetID ipCfg = '''' then failE (ErrMsg ''no subnetID found for NIC'')
          else bindE (if ipPrefixID \<noteq> '''' \<and> wantIPConfig then
              bindE (liftR (buildPublicIPName parseResourceID ipPrefixID (valS (if_Name nic)))) (\<lambda>pipName.
              bindE (CreateOrUpdatePublicIP az '''' pipName (expectedPublicIP (Location az) ipPrefixID))
                (\<lambda>pip. retE (Some pip)))
            else retE None) (\<lambda>pip.
          let expected = expectedNICConfig ipConfigName (gic_subnetID ipCfg) pip;
              (changed, cs) = editNIC ipConfigName expected lbBackendpoolID wantIPConfig (nicConfigs p) in
          bindE (if changed \<or> forceUpdate then
              bindE (wrapE ''failed to update nic'' (CreateOrUpdateNetworkInterface az '''' (valS (if_Name nic))
                (nic\<lparr>if_Properties := Some (p\<lparr>ifp_IPConfigurations := Some cs\<rparr>)\<rparr>))) (\<lambda>nic2.
              bindE (liftR (deref (if_Properties nic2))) (\<lambda>p2.
                retE (valS (if_Name nic2), getGatewayIPConfig p2 ipConfigName)))
            else retE (valS (if_Name nic), ipCfg)) (\<lambda>(nicName, ipCfg).
          if \<not> wantIPConfig then retE ('''', vmConfig)
          else retE (gic_secondaryIP ipCfg,
            setProfile nicName (gic_primaryIP ipCfg) (gic_secondaryIP ipCfg) vmConfig)))))"

section \<open>The pool\<close>

definition isGatewayNIC :: "string \<Rightarrow> interface \<Rightarrow> bool" where
  "isGatewayNIC pool nic \<longleftrightarrow> if_Tags nic AKSStaticGatewayNICTagKey \<noteq> None \<and>
     (case if_Tags nic AKSNodepoolTagKey of None \<Rightarrow> False | Some val \<Rightarrow> EqualFold pool (valS val))"

definition gatewayNICs :: "string \<Rightarrow> interface option list \<Rightarrow> interface list" where
  "gatewayNICs pool nics = filter (isGatewayNIC pool) (map the (filter (\<lambda>n. n \<noteq> None) nics))"

definition reconcileVMs ::
  "(string \<Rightarrow> string) \<Rightarrow> (string \<Rightarrow> string res) \<Rightarrow> 's AzureManager \<Rightarrow> string \<Rightarrow> GatewayVMConfiguration
    \<Rightarrow> string \<Rightarrow> bool \<Rightarrow> ('s, string list \<times> GatewayVMConfiguration) io" where
  "reconcileVMs newMD5 parseResourceID az agentPoolName vmConfig ipPrefixID wantIPConfig =
     (let backendLBPoolID = valS (GetLBBackendAddressPoolID az (GetUniqueID newMD5 (AgentPoolVMs agentPoolName))) in
      bindE (ListNetworkInterfaces az '''') (\<lambda>nics.
      foldE (\<lambda>(ips, cfg) nic.
          bindE (reconcileNIC parseResourceID az cfg nic ipPrefixID backendLBPoolID wantIPConfig)
            (\<lambda>(ip, cfg'). retE (ips @ [ip], cfg')))
        ([], vmConfig) (gatewayNICs (vms_GatewayNodepoolName (vmc_Spec vmConfig)) nics)))"

end
