(* ===== verification/VM_Controller.thy ===== *)
theory VM_Controller
  imports VMs_Pool
begin

text \<open>
  The controller of \<open>GatewayVMConfiguration\<close> objects,
  src/controllers/manager/gatewayvmconfiguration_controller.go: it provisions the public IP
  prefix, has the gateway pool reconciled and records the egress addresses in the status.
\<close>

record 's GatewayVMConfigurationReconciler =
  vmr_Client :: "'s kube"
  vmr_AzureManager :: "'s AzureManager"
  vmr_NewMD5 :: "string \<Rightarrow> string"
  vmr_ParseResourceID :: "string \<Rightarrow> string res"

section \<open>Node events\<close>

definition AKSNodepoolNameLabel :: string where
  "AKSNodepoolNameLabel = ''kubernetes.azure.com/agentpool''"

definition AKSNodepoolModeLabel :: string where
  "AKSNodepoolModeLabel = ''kubernetes.azure.com/mode''"

definition UpstreamNodepoolModeLabel :: string where
  "UpstreamNodepoolModeLabel = ''kubeegressgateway.azure.com/mode''"

definition AKSNodepoolModeValue :: string where
  "AKSNodepoolModeValue = ''gateway''"

text \<open>The wanted labels are a Go map; the list is the order in which the loop sees its entries.\<close>

fun anyLabelMatches :: "(string \<rightharpoonup> string) \<Rightarrow> (string \<times> string) list \<Rightarrow> bool" where
  "anyLabelMatches labels [] \<longleftrightarrow> False"
| "anyLabelMatches labels ((labelKey, labelValue) # m) \<longleftrightarrow> labelKey = '''' \<or>
     (case labels labelKey of None \<Rightarrow> False | Some v \<Rightarrow> labelValue = '''' \<or> EqualFold v labelValue) \<or>
     anyLabelMatches labels m"

definition ifLabelMatch :: "(string \<rightharpoonup> string) \<Rightarrow> (string \<times> string) list \<Rightarrow> bool" where
  "ifLabelMatch labels m \<longleftrightarrow> m = [] \<or> anyLabelMatches labels m"

fun resourceHasFilterLabel :: "(string \<times> string) list \<Rightarrow> watch_event \<Rightarrow> bool" where
  "resourceHasFilterLabel m (UpdateEvent _ _) = False"
| "resourceHasFilterLabel m (CreateEvent obj) = ifLabelMatch (om_Labels obj) m"
| "resourceHasFilterLabel m (DeleteEvent obj) = ifLabelMatch (om_Labels obj) m"
| "resourceHasFilterLabel m (GenericEvent _) = False"

text \<open>The labels that \<open>SetupWithManager\<close> passes.\<close>

definition gatewayNodeLabels :: "(string \<times> string) list" where
  "gatewayNodeLabels = [(AKSNodepoolModeLabel, AKSNodepoolModeValue), (UpstreamNodepoolModeLabel, ''true'')]"

section \<open>The pool of a configuration\<close>

definition poolPrefixSize :: "tags \<Rightarrow> int32 res" where
  "poolPrefixSize tgs = (case tgs AKSNodepoolIPPrefixSizeTagKey of
      None \<Rightarrow> Err (ErrMsg ''nodepool does not have IP prefix size'')
    | Some prefixLenStr \<Rightarrow> (case Atoi (valS prefixLenStr) of
        Ok prefixLen \<Rightarrow> if 0 < prefixLen \<and> prefixLen \<le> 2 ^ 31 - 1 then Ok (word_of_int prefixLen)
          else Err (ErrMsg ''failed to parse nodepool IP prefix size'')
      | _ \<Rightarrow> Err (ErrMsg ''failed to parse nodepool IP prefix size'')))"

definition loadPool_VM :: "'s AzureManager \<Rightarrow> GatewayVMConfiguration \<Rightarrow> ('s, GatewayPool \<times> int32) io" where
  "loadPool_VM az vmConfig = (let spec = vmc_Spec vmConfig; pool = vms_GatewayNodepoolName spec in
     if pool \<noteq> '''' then
       bindE (ListVMs az) (\<lambda>vmsList. case find (\<lambda>v. has_pool_tag (vm_Tags v) pool) vmsList of
           Some v \<Rightarrow> bindE (liftR (poolPrefixSize (vm_Tags v))) (\<lambda>n. retE (AgentPoolVMs pool, n))
         | None \<Rightarrow> bindE (ListVMSS az) (\<lambda>vmssList. case find (\<lambda>v. has_pool_tag (vs_Tags v) pool) vmssList of
             Some v \<Rightarrow> bindE (liftR (poolPrefixSize (vs_Tags v))) (\<lambda>n. retE (AgentPoolVMSS v, n))
           | None \<Rightarrow> failE (ErrMsg ''gateway VMSS not found'')))
     else bindE (GetVMSS az (gvp_VmssResourceGroup (vms_GatewayVmssProfile spec))
         (gvp_VmssName (vms_GatewayVmssProfile spec)))
       (\<lambda>v. retE (AgentPoolVMSS v, gvp_PublicIpPrefixSize (vms_GatewayVmssProfile spec))))"

text \<open>\<open>pool.Reconcile\<close>, by the implementation behind the interface.\<close>

definition poolReconcile ::
  "'s GatewayVMConfigurationReconciler \<Rightarrow> GatewayPool \<Rightarrow> GatewayVMConfiguration \<Rightarrow> string \<Rightarrow> bool
    \<Rightarrow> ('s, string list \<times> GatewayVMConfiguration) io" where
  "poolReconcile r pool vmConfig ipPrefixID wantIPConfig = (case pool of
      AgentPoolVMSS v \<Rightarrow> reconcileVMSS (vmr_Client r) (vmr_AzureManager r) vmConfig v ipPrefixID wantIPConfig
    | AgentPoolVMs name \<Rightarrow> reconcileVMs (vmr_NewMD5 r) (vmr_ParseResourceID r) (vmr_AzureManager r) name
        vmConfig ipPrefixID wantIPConfig)"

section \<open>Public IP prefixes\<close>

text \<open>
  A matcher for the part of Go's regular expressions that \<open>publicIPPrefixRE\<close> uses: literals
  without regard to case, \<open>.\<close>, \<open>.*\<close> and the group \<open>(.+)\<close>. Repetition is greedy, as in Go, and
  no dot matches a line feed. The result is the list of captured groups.
\<close>

datatype re_item = RLit string | RAny | RStar | RGroup

definition line_feed :: char where
  "line_feed = char_of (10 :: nat)"

fun first_some :: "'a option list \<Rightarrow> 'a option" where
  "first_some [] = None"
| "first_some (x # xs) = (case x of None \<Rightarrow> first_some xs | Some y \<Rightarrow> Some y)"

text \<open>The lengths a repetition may take, the longest first.\<close>

definition dot_lengths :: "string \<Rightarrow> nat list" where
  "dot_lengths s = rev [0..<Suc (length (takeWhile (\<lambda>c. c \<noteq> line_feed) s))]"

fun match_re :: "re_item list \<Rightarrow> string \<Rightarrow> string list option" where
  "match_re [] s = Some []"
| "match_re (RLit l # rs) s = (if EqualFold (take (length l) s) l then match_re rs (drop (length l) s) else None)"
| "match_re (RAny # rs) s = (case s of [] \<Rightarrow> None | c # s' \<Rightarrow> if c = line_feed then None else match_re rs s')"
| "match_re (RStar # rs) s = first_some (map (\<lambda>n. match_re rs (drop n s)) (dot_lengths s))"
| "match_re (RGroup # rs) s = first_some (map (\<lambda>n. if n = 0 then None
     else map_option ((#) (take n s)) (match_re rs (drop n s))) (dot_lengths s))"

text \<open>The leftmost match.\<close>

fun search_re :: "re_item list \<Rightarrow> string \<Rightarrow> string list option" where
  "search_re rs [] = match_re rs []"
| "search_re rs (c # s) = (case match_re rs (c # s) of None \<Rightarrow> search_re rs s | Some gs \<Rightarrow> Some gs)"

definition publicIPPrefixRE :: "re_item list" where
  "publicIPPrefixRE = [RStar, RLit ''/subscriptions/'', RGroup, RLit ''/resourceGroups/'', RGroup,
     RLit ''/providers/Microsoft'', RAny, RLit ''Network/publicIPPrefixes/'', RGroup]"

definition isErrorNotFound :: "error \<Rightarrow> bool" where
  "isErrorNotFound err \<longleftrightarrow>
     (case as_resp_err err of None \<Rightarrow> False | Some (code, status) \<Rightarrow> status = 404)"

definition newIPPrefix :: "string \<Rightarrow> string \<Rightarrow> int32 \<Rightarrow> ip_prefix" where
  "newIPPrefix name location ipPrefixLength = \<lparr>ipx_ID = None, ipx_Name = Some name, ipx_Location = Some location,
     ipx_SKU = Some \<lparr>sku_Name = Some ''Standard'', sku_Tier = Some ''Regional''\<rparr>,
     ipx_Properties = Some \<lparr>ipp_PrefixLength = Some ipPrefixLength,
       ipp_PublicIPAddressVersion = Some ''IPv4'', ipp_IPPrefix = None, ipp_PublicIPAddresses = []\<rparr>\<rparr>"

text \<open>A prefix that the user names; it has to have the required length.\<close>

definition unmanagedIPPrefix :: "'s AzureManager \<Rightarrow> int32 \<Rightarrow> string \<Rightarrow> ('s, string \<times> string \<times> bool) io" where
  "unmanagedIPPrefix az ipPrefixLength prefixId = (case search_re publicIPPrefixRE prefixId of
      Some [subscriptionID, resourceGroupName, publicIpPrefixName] \<Rightarrow>
        if subscriptionID \<noteq> SubscriptionID az
        then failE (ErrMsg ''public ip prefix subscription is not in the same subscription'')
        else bindE (wrapE ''failed to get public ip prefix''
            (GetPublicIPPrefix az resourceGroupName publicIpPrefixName)) (\<lambda>ipPrefix.
          case ipx_Properties ipPrefix of
            None \<Rightarrow> failE (ErrMsg ''public ip prefix has empty properties'')
          | Some p \<Rightarrow> if Val 0 (ipp_PrefixLength p) \<noteq> ipPrefixLength
              then failE (ErrMsg ''provided public ip prefix has invalid length'')
              else retE (valS (ipp_IPPrefix p), valS (ipx_ID ipPrefix), False))
    | _ \<Rightarrow> failE (ErrMsg ''failed to parse public ip prefix id''))"

text \<open>A prefix that the controller creates, named after the configuration.\<close>

definition managedIPPrefix :: "'s AzureManager \<Rightarrow> int32 \<Rightarrow> string \<Rightarrow> ('s, string \<times> string \<times> bool) io" where
  "managedIPPrefix az ipPrefixLength name =
     tryE (GetPublicIPPrefix az '''' name)
      (\<lambda>ipPrefix. case ipx_Properties ipPrefix of
          None \<Rightarrow> failE (ErrMsg ''managed public ip prefix has empty properties'')
        | Some p \<Rightarrow> retE (valS (ipp_IPPrefix p), valS (ipx_ID ipPrefix), True))
      (\<lambda>err. if \<not> isErrorNotFound err then failE (Wrap ''failed to get managed public ip prefix'' err)
        else bindE (wrapE ''failed to create managed public ip prefix''
            (CreateOrUpdatePublicIPPrefix az '''' name (newIPPrefix name (Location az) ipPrefixLength)))
          (\<lambda>ipPrefix. bindE (liftR (deref (ipx_Properties ipPrefix)))
            (\<lambda>p. retE (valS (ipp_IPPrefix p), valS (ipx_ID ipPrefix), True))))"

definition ensurePublicIPPrefix ::
  "'s AzureManager \<Rightarrow> int32 \<Rightarrow> GatewayVMConfiguration \<Rightarrow> ('s, string \<times> string \<times> bool) io" where
  "ensurePublicIPPrefix az ipPrefixLength vmConfig = (let spec = vmc_Spec vmConfig in
     if \<not> vms_ProvisionPublicIps spec then retE ('''', '''', False)
     else if vms_PublicIpPrefixId spec \<noteq> '''' then unmanagedIPPrefix az ipPrefixLength (vms_PublicIpPrefixId spec)
     else managedIPPrefix az ipPrefixLength (managedSubresourceName vmConfig))"

definition deletePrefixIPs ::
  "(string \<Rightarrow> string res) \<Rightarrow> 's AzureManager \<Rightarrow> sub_resource option list \<Rightarrow> ('s, unit) io" where
  "deletePrefixIPs parseResourceID az pips = foldE (\<lambda>_ pip.
     case Option.bind pip sr_ID of None \<Rightarrow> retE ()
     | Some pipID \<Rightarrow> bindE (wrapE ''failed to parse managed public ip prefix'' (liftR (parseResourceID pipID))) (\<lambda>name.
         tryE (DeletePublicIP az '''' name) (\<lambda>_. retE ())
          (\<lambda>err. if isErrorNotFound err then retE ()
            else failE (Wrap ''failed to delete managed public ip prefix'' err)))) () pips"

definition ensurePublicIPPrefixDeleted ::
  "(string \<Rightarrow> string res) \<Rightarrow> 's AzureManager \<Rightarrow> GatewayVMConfiguration \<Rightarrow> ('s, unit) io" where
  "ensurePublicIPPrefixDeleted parseResourceID az vmConfig = (let name = managedSubresourceName vmConfig in
     tryE (GetPublicIPPrefix az '''' name)
      (\<lambda>prefix. bindE (case ipx_Properties prefix of None \<Rightarrow> retE ()
          | Some p \<Rightarrow> deletePrefixIPs parseResourceID az (ipp_PublicIPAddresses p)) (\<lambda>_.
        wrapE ''failed to delete public ip prefix'' (DeletePublicIPPrefix az '''' name)))
      (\<lambda>err. if isErrorNotFound err then retE () else failE (Wrap ''failed to get public ip prefix'' err)))"

section \<open>The handlers\<close>

definition vm_labels :: "'s GatewayVMConfigurationReconciler \<Rightarrow> string \<Rightarrow> GatewayVMConfiguration \<Rightarrow> string list" where
  "vm_labels r operation vmConfig = NewMetricsContext (k_Getenv (vmr_Client r) PodNamespaceEnvKey)
     operation (SubscriptionID (vmr_AzureManager r)) (ResourceGroup (vmr_AzureManager r))
     (ToLower (slash_key (vmc_Meta vmConfig)))"

definition reconcile_VM ::
  "'s GatewayVMConfigurationReconciler \<Rightarrow> GatewayVMConfiguration \<Rightarrow> ('s, unit) io" where
  "reconcile_VM r vmConfig0 = (let k = vmr_Client r; cu = k_util k; az = vmr_AzureManager r in
     with_metrics k (vm_labels r ''reconcile_gateway_vm_configuration'' vmConfig0)
      (bindE (if ContainsFinalizer cu (vmc_Meta vmConfig0) VMConfigFinalizerName then retE vmConfig0
              else kUpdate (k_VMC k) (vmConfig0\<lparr>vmc_Meta :=
                AddFinalizer cu (vmc_Meta vmConfig0) VMConfigFinalizerName\<rparr>)) (\<lambda>existing.
       bindE (loadPool_VM az existing) (\<lambda>(pool, ipPrefixLength).
       bindE (ensurePublicIPPrefix az ipPrefixLength existing) (\<lambda>(ipPrefix, ipPrefixID, isManaged).
       bindE (poolReconcile r pool existing ipPrefixID True) (\<lambda>(privateIPs, vmConfig1).
       bindE (if \<not> isManaged then ensurePublicIPPrefixDeleted (vmr_ParseResourceID r) az vmConfig1 else retE ()) (\<lambda>_.
       let st = Val zeroVMStatus (vmc_Status vmConfig1);
           egress = (if vms_ProvisionPublicIps (vmc_Spec vmConfig1) then ipPrefix else Join privateIPs '','');
           vmConfig = vmConfig1\<lparr>vmc_Status := Some (st\<lparr>vmt_EgressIpPrefix := egress\<rparr>)\<rparr>
       in if existing \<noteq> vmConfig then
            tryE (kStatusUpdate (k_VMC k) vmConfig) (\<lambda>_. retE ()) (\<lambda>_. retE ())
          else retE ())))))))"

definition ensureDeleted_VM ::
  "'s GatewayVMConfigurationReconciler \<Rightarrow> GatewayVMConfiguration \<Rightarrow> ('s, unit) io" where
  "ensureDeleted_VM r vmConfig0 = (let k = vmr_Client r; cu = k_util k; az = vmr_AzureManager r in
     if \<not> ContainsFinalizer cu (vmc_Meta vmConfig0) VMConfigFinalizerName then retE ()
     else with_metrics k (vm_labels r ''delete_gateway_vm_configuration'' vmConfig0)
      (bindE (loadPool_VM az vmConfig0) (\<lambda>(pool, _).
       bindE (poolReconcile r pool vmConfig0 '''' False) (\<lambda>(_, vmConfig).
       bindE (ensurePublicIPPrefixDeleted (vmr_ParseResourceID r) az vmConfig) (\<lambda>_.
       bindE (kUpdate (k_VMC k) (vmConfig\<lparr>vmc_Meta :=
         RemoveFinalizer cu (vmc_Meta vmConfig) VMConfigFinalizerName\<rparr>)) (\<lambda>_. retE ()))))))"

text \<open>Which configurations a node event reconciles.\<close>

definition skipForNode :: "Node \<Rightarrow> GatewayVMConfiguration \<Rightarrow> bool" where
  "skipForNode node vmConfig \<longleftrightarrow> deleting (vmc_Meta vmConfig) \<or>
     (case om_Labels (node_Meta node) AKSNodepoolNameLabel of None \<Rightarrow> False
      | Some v \<Rightarrow> (let npName = vms_GatewayNodepoolName (vmc_Spec vmConfig)
          in npName \<noteq> '''' \<and> \<not> EqualFold v npName))"

definition joinErrors :: "error option \<Rightarrow> error \<Rightarrow> error" where
  "joinErrors aggregateError err = (case aggregateError of None \<Rightarrow> err | Some e \<Rightarrow> Joined e err)"

definition reconcileNodeEvent :: "'s GatewayVMConfigurationReconciler \<Rightarrow> string \<Rightarrow> ('s, unit) io" where
  "reconcileNodeEvent r name = (let k = vmr_Client r in
     tryE (kGet (k_Node k) '''' name)
      (\<lambda>node. bindE (kList (k_VMC k)) (\<lambda>items.
        bindE (foldE (\<lambda>agg vmConfig. if skipForNode node vmConfig then retE agg
            else tryE (reconcile_VM r vmConfig) (\<lambda>_. retE agg) (\<lambda>err. retE (Some (joinErrors agg err))))
          None items) (\<lambda>agg. case agg of None \<Rightarrow> retE () | Some e \<Rightarrow> failE e)))
      (\<lambda>err. if IsNotFound err then retE () else failE err))"

definition Reconcile_VM :: "'s GatewayVMConfigurationReconciler \<Rightarrow> string \<Rightarrow> string \<Rightarrow> ('s, unit) io" where
  "Reconcile_VM r ns name = (let k = vmr_Client r in
     if ns = '''' \<and> name \<noteq> '''' then reconcileNodeEvent r name
     else tryE (kGet (k_VMC k) ns name)
      (\<lambda>vmConfig. bindE (kGet (k_SGC k) ns name) (\<lambda>gwConfig.
        if deleting (vmc_Meta vmConfig) then
          warn_on_error k (sgc_Meta gwConfig) ''EnsureDeleteGatewayVMConfigurationError''
            (ensureDeleted_VM r vmConfig) (retE ())
        else
          warn_on_error k (sgc_Meta gwConfig) ''ReconcileGatewayVMConfigurationError''
            (reconcile_VM r vmConfig)
            (effE (k_Event k (sgc_Meta gwConfig) ''Normal'' ''ReconcileGatewayVMConfigurationSuccess''
              ''GatewayVMConfiguration reconciled''))))
      (\<lambda>err. if IsNotFound err then retE () else failE err))"

end
