(* ===== verification/VMSS_Proofs.thy ===== *)
theory VMSS_Proofs
  imports VM_Controller
begin

text \<open>
  Network interfaces of scale sets: \<open>reconcileVMSSNetworkInterface\<close> acts on the IP configurations
  of the primary interface as \<open>config_step\<close> below, a reference definition without the loops, and
  is a reconciler in the sense of \<open>Contracts\<close>. Profiles of instances: the table of node profiles
  in the status, keyed by the node's name.
\<close>

section \<open>The reference step\<close>

definition config_named :: "string \<Rightarrow> vmss_ipconfig \<Rightarrow> bool" where
  "config_named name c \<longleftrightarrow> valS (vic_Name c) = name"

definition named_step :: "string \<Rightarrow> vmss_ipconfig \<Rightarrow> bool \<Rightarrow> vmss_ipconfig list \<Rightarrow> bool \<times> vmss_ipconfig list" where
  "named_step name expected want cs = (case find (config_named name) cs of
      None \<Rightarrow> if want then (True, cs @ [expected]) else (False, cs)
    | Some c \<Rightarrow> if \<not> want then (True, drop_first (config_named name) cs)
        else if different c expected then (True, drop_first (config_named name) cs @ [expected])
        else (False, cs))"

definition pool_listed :: "string \<Rightarrow> vmss_ipconfig \<Rightarrow> bool" where
  "pool_listed pool c \<longleftrightarrow> (\<exists>b\<in>set (backendPools c). poolListed pool b)"

definition toggle_pool :: "string \<Rightarrow> vmss_ipconfig \<Rightarrow> vmss_ipconfig" where
  "toggle_pool pool c = setBackendPools (if pool_listed pool c then drop_first (poolListed pool) (backendPools c)
     else backendPools c @ [\<lparr>sr_ID = Some pool\<rparr>]) c"

definition pool_step :: "string \<Rightarrow> vmss_ipconfig list \<Rightarrow> (bool \<times> vmss_ipconfig list) res" where
  "pool_step pool cs = (case find isPrimaryConfig cs of
      None \<Rightarrow> Err (ErrMsg ''vmss(vm) primary ipConfig not found'')
    | Some c \<Rightarrow> if pool_listed pool c = hasManagedConfig cs then Ok (False, cs)
        else Ok (True, update_first isPrimaryConfig (toggle_pool pool) cs))"

definition config_step ::
  "string \<Rightarrow> string \<Rightarrow> string \<Rightarrow> bool \<Rightarrow> vmss_ipconfig list \<Rightarrow> (bool \<times> vmss_ipconfig list) res" where
  "config_step name prefix pool want cs = bindR (subnetOfConfigs cs None) (\<lambda>sn.
     case named_step name (expectedIPConfig name prefix sn) want cs of (need, cs1) \<Rightarrow>
       bindR (pool_step pool cs1) (\<lambda>(changed, cs2). Ok (need \<or> changed, cs2)))"

section \<open>Loops over the interfaces\<close>

lemma ipConfigs_setIPConfigs [simp]: "isPrimaryNic nic \<Longrightarrow> ipConfigs (setIPConfigs cs nic) = cs"
  by (auto simp: isPrimaryNic_def ipConfigs_def setIPConfigs_def split: option.splits)

lemma isPrimaryNic_setIPConfigs [simp]: "isPrimaryNic (setIPConfigs cs nic) = isPrimaryNic nic"
  by (auto simp: isPrimaryNic_def setIPConfigs_def split: option.splits)

lemma setIPConfigs_twice [simp]: "setIPConfigs ds (setIPConfigs cs nic) = setIPConfigs ds nic"
  by (simp add: setIPConfigs_def option.map_comp comp_def)

lemma setIPConfigs_same [simp]: "setIPConfigs (ipConfigs nic) nic = nic"
  by (cases "vn_Properties nic") (simp_all add: setIPConfigs_def ipConfigs_def)

lemma subnetOfNics_skip:
  "\<forall>n\<in>set nics. \<not> isPrimaryNic n \<Longrightarrow> subnetOfNics (nics @ rest) sn = subnetOfNics rest sn"
  by (induction nics) auto

lemma subnetOfNics_one:
  assumes "\<forall>n\<in>set pre \<union> set post. \<not> isPrimaryNic n" and "isPrimaryNic nic"
  shows "subnetOfNics (pre @ nic # post) None = subnetOfConfigs (ipConfigs nic) None"
proof -
  have "bindR r (\<lambda>sn. subnetOfNics post sn) = r" for r
    using subnetOfNics_skip [of post "[]"] assms(1) by (cases r) auto
  then show ?thesis using assms by (simp add: subnetOfNics_skip)
qed

lemma lastPrimary_one:
  assumes "\<forall>n\<in>set pre \<union> set post. \<not> isPrimaryNic n" and "isPrimaryNic nic"
  shows "lastPrimary (pre @ nic # post) = Some nic"
    and "update_last isPrimaryNic f (pre @ nic # post) = pre @ f nic # post"
proof -
  have "lastPrimary post = None" using assms(1) by (induction post) auto
  then show "lastPrimary (pre @ nic # post) = Some nic" using assms by (induction pre) auto
  show "update_last isPrimaryNic f (pre @ nic # post) = pre @ f nic # post"
    using assms by (induction pre) auto
qed

lemma dropConfigs_skip:
  "\<forall>n\<in>set nics. \<not> isPrimaryNic n \<Longrightarrow> dropConfigs name e want (nics @ rest) =
     (case dropConfigs name e want rest of (need, found, rest') \<Rightarrow> (need, found, nics @ rest'))"
  by (induction nics) (auto split: prod.splits)

lemma dropConfigs_one:
  assumes "\<forall>n\<in>set pre \<union> set post. \<not> isPrimaryNic n" and "isPrimaryNic nic"
  shows "dropConfigs name e want (pre @ nic # post) = (case find (config_named name) (ipConfigs nic) of
      None \<Rightarrow> (False, False, pre @ nic # post)
    | Some c \<Rightarrow> if \<not> want \<or> different c e
        then (True, False, pre @ setIPConfigs (drop_first (config_named name) (ipConfigs nic)) nic # post)
        else (False, True, pre @ nic # post))"
  using assms dropConfigs_skip [of post name e want "[]"]
  by (auto simp: dropConfigs_skip config_named_def [abs_def] split: option.splits)

lemma reconcileLbBackendPool_step:
  assumes "isPrimaryNic nic"
  shows "reconcileLbBackendPool pool nic =
    bindR (pool_step pool (ipConfigs nic)) (\<lambda>(u, cs). Ok (u, setIPConfigs cs nic))"
proof (cases "find isPrimaryConfig (ipConfigs nic)")
  case (Some c)
  have "update_first isPrimaryConfig f cs = update_first isPrimaryConfig g cs"
    if "find isPrimaryConfig cs = Some c" and "f c = g c" for f g :: "vmss_ipconfig \<Rightarrow> vmss_ipconfig" and cs
    using that by (induction cs) (auto split: if_splits)
  then have "update_first isPrimaryConfig (setBackendPools ps) (ipConfigs nic)
      = update_first isPrimaryConfig (toggle_pool pool) (ipConfigs nic)"
    if "setBackendPools ps c = toggle_pool pool c" for ps
    using Some that by blast
  with Some show ?thesis
    by (simp add: reconcileLbBackendPool_def pool_step_def Let_def toggle_pool_def pool_listed_def)
qed (simp add: reconcileLbBackendPool_def pool_step_def Let_def)

lemma reconcileVMSS_nic_step:
  assumes "\<forall>n\<in>set pre \<union> set post. \<not> isPrimaryNic n" and "isPrimaryNic nic"
  shows "reconcileVMSSNetworkInterface name prefix pool want (pre @ nic # post) =
    bindR (config_step name prefix pool want (ipConfigs nic)) (\<lambda>(u, cs). Ok (u, pre @ setIPConfigs cs nic # post))"
proof (cases "subnetOfConfigs (ipConfigs nic) None")
  case (Ok sn)
  show ?thesis
    using assms
    by (auto simp: reconcileVMSSNetworkInterface_def getExpectedIPConfig_def config_step_def Ok Let_def
        subnetOfNics_one dropConfigs_one lastPrimary_one reconcileLbBackendPool_step appendConfig_def
        named_step_def bindR_assoc case_prod_beta split: option.splits)
qed (simp_all add: reconcileVMSSNetworkInterface_def getExpectedIPConfig_def config_step_def subnetOfNics_one [OF assms])

section \<open>The step is a reconciler\<close>

interpretation config_names: keyed_list "(=)" "\<lambda>c. valS (vic_Name c)"
  by unfold_locales auto

interpretation pool_ids: keyed_list EqualFold "\<lambda>b. valS (sr_ID b)"
  by unfold_locales (auto simp: EqualFold_def)

text \<open>
  What Azure guarantees of the IP configurations of an interface: one is primary, the names are
  unique, and no backend pool is listed twice.
\<close>

definition configs_inv :: "vmss_ipconfig list \<Rightarrow> bool" where
  "configs_inv cs \<longleftrightarrow> length (filter isPrimaryConfig cs) = 1 \<and> unique_keys (=) (\<lambda>c. valS (vic_Name c)) cs \<and>
     (\<forall>c\<in>set cs. unique_keys EqualFold (\<lambda>b. valS (sr_ID b)) (backendPools c))"

text \<open>
  The goal: the named configuration is there as expected or is absent, and the primary one is in
  the backend pool exactly if some managed configuration exists.
\<close>

definition config_goal :: "string \<Rightarrow> string \<Rightarrow> string \<Rightarrow> bool \<Rightarrow> vmss_ipconfig list \<Rightarrow> bool" where
  "config_goal name prefix pool want cs \<longleftrightarrow>
     (case find isPrimaryConfig cs of None \<Rightarrow> False | Some c \<Rightarrow> pool_listed pool c = hasManagedConfig cs) \<and>
     (case subnetOfConfigs cs None of Err _ \<Rightarrow> False | Panic \<Rightarrow> False
      | Ok sn \<Rightarrow> if want then \<exists>c\<in>set cs. config_named name c \<and> \<not> different c (expectedIPConfig name prefix sn)
          else \<not> (\<exists>c\<in>set cs. config_named name c))"

lemma subnetOfConfigs_primary: "subnetOfConfigs cs sn = subnetOfConfigs (filter isPrimaryConfig cs) sn"
  by (induction cs arbitrary: sn) (auto simp: isPrimaryConfig_def split: option.splits intro!: bindR_cong)

lemma find_filter_Nil: "find p xs = None \<longleftrightarrow> filter p xs = []"
  by (induction xs) auto

lemma filter_drop_first_cases:
  "filter p (drop_first q xs) = filter p xs \<or> Suc (length (filter p (drop_first q xs))) = length (filter p xs)"
  by (induction xs) auto

lemma expected_not_primary [simp]: "\<not> isPrimaryConfig (expectedIPConfig name prefix sn)"
  by (simp add: isPrimaryConfig_def expectedIPConfig_def)

lemma expected_named [simp]: "config_named name (expectedIPConfig name prefix sn)"
  and expected_pools [simp]: "backendPools (expectedIPConfig name prefix sn) = []"
  by (simp_all add: config_named_def expectedIPConfig_def backendPools_def)


lemma different_refl [simp]: "\<not> different c c"
  by (auto simp: different_def refs_differ_def pips_differ_def split: option.splits)

lemma different_primary: "isPrimaryConfig c \<Longrightarrow> different c (expectedIPConfig name prefix sn)"
  by (auto simp: different_def isPrimaryConfig_def expectedIPConfig_def split: option.splits)

lemma config_named_drop_gone:
  "unique_keys (=) (\<lambda>c. valS (vic_Name c)) cs \<Longrightarrow> c \<in> set (drop_first (config_named name) cs) \<Longrightarrow> \<not> config_named name c"
  using config_names.drop_first_gone [of cs name]
  by (auto simp: has_key_iff config_named_def [abs_def])

text \<open>The first half of the step, as long as it leaves a primary configuration.\<close>

lemma named_step_spec:
  assumes "configs_inv cs" and "e = expectedIPConfig name prefix sn"
    and "named_step name e want cs = (need, cs1)" and "find isPrimaryConfig cs1 \<noteq> None"
  shows "configs_inv cs1" and "filter isPrimaryConfig cs1 = filter isPrimaryConfig cs"
    and "if want then \<exists>c\<in>set cs1. config_named name c \<and> \<not> different c e else \<not> (\<exists>c\<in>set cs1. config_named name c)"
    and "filter (\<lambda>c. \<not> config_named name c) cs1 = filter (\<lambda>c. \<not> config_named name c) cs"
proof -
  let ?d = "drop_first (config_named name) cs"
  have inv: "length (filter isPrimaryConfig cs) = 1" "unique_keys (=) (\<lambda>c. valS (vic_Name c)) cs"
    using assms(1) by (simp_all add: configs_inv_def)
  have cases: "cs1 = cs \<or> cs1 = ?d \<or> (cs1 = cs @ [e] \<and> find (config_named name) cs = None) \<or> cs1 = ?d @ [e]"
    using assms(3) by (auto simp: named_step_def split: option.splits if_splits)
  have d: "filter isPrimaryConfig ?d = filter isPrimaryConfig cs" if "filter isPrimaryConfig ?d \<noteq> []"
    using that filter_drop_first_cases [of isPrimaryConfig "config_named name" cs] inv(1) by auto
  have "filter isPrimaryConfig cs1 \<noteq> []" using assms(4) by (simp add: find_filter_Nil)
  with cases d show prim: "filter isPrimaryConfig cs1 = filter isPrimaryConfig cs" by (auto simp: assms(2))
  have uniq: "unique_keys (=) (\<lambda>c. valS (vic_Name c)) cs1"
    using cases inv(2) config_named_drop_gone [OF inv(2)]
    by (auto simp: config_names.unique_append_iff unique_keys_drop_first has_key_iff find_None_iff_ex
        assms(2) config_named_def expectedIPConfig_def)
  have "set cs1 \<subseteq> set cs \<union> {e}" using cases set_drop_first [of "config_named name" cs] by auto
  then have "\<forall>c\<in>set cs1. unique_keys EqualFold (\<lambda>b. valS (sr_ID b)) (backendPools c)"
    using assms(1) by (auto simp: configs_inv_def assms(2))
  with prim uniq inv(1) show "configs_inv cs1" by (simp add: configs_inv_def)
  show "if want then \<exists>c\<in>set cs1. config_named name c \<and> \<not> different c e else \<not> (\<exists>c\<in>set cs1. config_named name c)"
    using assms(3) config_named_drop_gone [OF inv(2)]
    by (auto simp: named_step_def assms(2) find_None_iff_ex split: option.splits if_splits dest!: find_SomeD)
  have "filter (\<lambda>c. \<not> q c) (drop_first q xs) = filter (\<lambda>c. \<not> q c) xs" for q and xs :: "vmss_ipconfig list"
    by (induction xs) auto
  with cases show "filter (\<lambda>c. \<not> config_named name c) cs1 = filter (\<lambda>c. \<not> config_named name c) cs"
    by (auto simp: assms(2))
qed

lemma toggle_pool_frame [simp]:
  "vic_Name (toggle_pool pool c) = vic_Name c" "isPrimaryConfig (toggle_pool pool c) = isPrimaryConfig c"
  by (auto simp: toggle_pool_def setBackendPools_def isPrimaryConfig_def split: option.splits)

lemma toggle_pool_pools:
  assumes "isPrimaryConfig c" and "unique_keys EqualFold (\<lambda>b. valS (sr_ID b)) (backendPools c)"
  shows "pool_listed pool (toggle_pool pool c) = (\<not> pool_listed pool c)"
    and "unique_keys EqualFold (\<lambda>b. valS (sr_ID b)) (backendPools (toggle_pool pool c))"
proof -
  have pools: "backendPools (toggle_pool pool c) = (if pool_listed pool c
      then drop_first (poolListed pool) (backendPools c) else backendPools c @ [\<lparr>sr_ID = Some pool\<rparr>])"
    using assms(1)
    by (auto simp: toggle_pool_def setBackendPools_def isPrimaryConfig_def backendPools_def split: option.splits)
  have flip: "poolListed pool = (\<lambda>b. EqualFold (valS (sr_ID b)) pool)"
    by (auto simp: poolListed_def fun_eq_iff EqualFold_sym)
  show "pool_listed pool (toggle_pool pool c) = (\<not> pool_listed pool c)"
    using pool_ids.drop_first_gone [OF assms(2), of pool] pools
    by (auto simp: pool_listed_def has_key_iff flip)
  show "unique_keys EqualFold (\<lambda>b. valS (sr_ID b)) (backendPools (toggle_pool pool c))"
    using assms(2) pools
    by (auto simp: pool_ids.unique_append_iff unique_keys_drop_first has_key_iff pool_listed_def flip)
qed

lemma update_first_split:
  "find p xs = Some x \<Longrightarrow> \<exists>pre post. xs = pre @ x # post \<and> (\<forall>y\<in>set pre. \<not> p y) \<and>
     update_first p f xs = pre @ f x # post"
proof (induction xs)
  case (Cons y ys)
  show ?case
  proof (cases "p y")
    case True
    with Cons.prems show ?thesis by (intro exI [of _ "[]"] exI [of _ ys]) auto
  next
    case False
    with Cons obtain pre post where "ys = pre @ x # post" "\<forall>y\<in>set pre. \<not> p y"
      "update_first p f ys = pre @ f x # post" by auto
    with False show ?thesis by (intro exI [of _ "y # pre"] exI [of _ post]) auto
  qed
qed simp

lemma subnet_toggle:
  "subnetOfConfigs [toggle_pool pool c] sn = subnetOfConfigs [c] sn"
  by (auto simp: toggle_pool_def setBackendPools_def split: option.splits)

text \<open>The second half, on a list with one primary configuration.\<close>

lemma pool_step_spec:
  assumes "configs_inv cs" and "pool_step pool cs = Ok (changed, cs2)"
  shows "configs_inv cs2" and "subnetOfConfigs cs2 sn = subnetOfConfigs cs sn"
    and "\<exists>c. find isPrimaryConfig cs2 = Some c \<and> pool_listed pool c = hasManagedConfig cs2"
    and "filter (\<lambda>c. \<not> isPrimaryConfig c) cs2 = filter (\<lambda>c. \<not> isPrimaryConfig c) cs"
    and "map vic_Name cs2 = map vic_Name cs"
proof -
  obtain c where c: "find isPrimaryConfig cs = Some c"
    using assms(2) by (auto simp: pool_step_def split: option.splits)
  then have prim: "isPrimaryConfig c" and "c \<in> set cs" by (auto dest: find_SomeD)
  obtain pre post where split: "cs = pre @ c # post" "\<forall>y\<in>set pre. \<not> isPrimaryConfig y"
    "update_first isPrimaryConfig (toggle_pool pool) cs = pre @ toggle_pool pool c # post"
    using update_first_split [OF c] by blast
  let ?new = "pre @ toggle_pool pool c # post"
  have only: "filter isPrimaryConfig cs = [c]" "filter isPrimaryConfig pre = []" "filter isPrimaryConfig post = []"
    using assms(1) split(1) prim by (auto simp: configs_inv_def)
  have cases: "(cs2 = cs \<and> pool_listed pool c = hasManagedConfig cs) \<or>
      (cs2 = ?new \<and> pool_listed pool c \<noteq> hasManagedConfig cs)"
    using assms(2) c split(3) by (auto simp: pool_step_def split: if_splits)
  have uniq: "unique_keys EqualFold (\<lambda>b. valS (sr_ID b)) (backendPools c)"
    using assms(1) \<open>c \<in> set cs\<close> by (simp add: configs_inv_def)
  show names: "map vic_Name cs2 = map vic_Name cs" using cases split(1) by auto
  then have names': "map (\<lambda>c. valS (vic_Name c)) cs2 = map (\<lambda>c. valS (vic_Name c)) cs"
    by (metis (mono_tags, lifting) list.map_comp comp_def map_eq_conv)
  have managed: "hasManagedConfig cs2 = hasManagedConfig cs"
    using cases split(1) by (auto simp: hasManagedConfig_def)
  show "subnetOfConfigs cs2 sn = subnetOfConfigs cs sn"
    using cases only prim subnet_toggle [of pool c sn]
    by (auto simp: subnetOfConfigs_primary [of cs] subnetOfConfigs_primary [of ?new])
  show "\<exists>c. find isPrimaryConfig cs2 = Some c \<and> pool_listed pool c = hasManagedConfig cs2"
    using cases c prim split(2) toggle_pool_pools(1) [OF prim uniq, of pool]
    by (auto simp: managed find_append_None find_None_iff_ex)
  show "filter (\<lambda>c. \<not> isPrimaryConfig c) cs2 = filter (\<lambda>c. \<not> isPrimaryConfig c) cs"
    using cases split(1) prim by auto
  have "unique_keys (=) (\<lambda>c. valS (vic_Name c)) cs2"
    using assms(1) unique_keys_map_cong [OF names'] by (simp add: configs_inv_def)
  moreover have "length (filter isPrimaryConfig cs2) = 1" using cases only prim by auto
  moreover have "\<forall>c\<in>set cs2. unique_keys EqualFold (\<lambda>b. valS (sr_ID b)) (backendPools c)"
    using cases assms(1) split(1) toggle_pool_pools(2) [OF prim uniq, of pool] by (auto simp: configs_inv_def)
  ultimately show "configs_inv cs2" by (simp add: configs_inv_def)
qed

lemma named_kept:
  assumes "filter (\<lambda>c. \<not> isPrimaryConfig c) cs2 = filter (\<lambda>c. \<not> isPrimaryConfig c) cs1"
    and "map vic_Name cs2 = map vic_Name cs1"
    and "if want then \<exists>c\<in>set cs1. config_named name c \<and> \<not> different c (expectedIPConfig name prefix sn)
      else \<not> (\<exists>c\<in>set cs1. config_named name c)"
  shows "if want then \<exists>c\<in>set cs2. config_named name c \<and> \<not> different c (expectedIPConfig name prefix sn)
    else \<not> (\<exists>c\<in>set cs2. config_named name c)"
proof (cases want)
  case True
  with assms(3) obtain c where c: "c \<in> set cs1" "config_named name c" "\<not> different c (expectedIPConfig name prefix sn)"
    by auto
  then have "c \<in> set (filter (\<lambda>c. \<not> isPrimaryConfig c) cs1)" using different_primary by auto
  then have "c \<in> set cs2" unfolding assms(1) [symmetric] by simp
  with c True show ?thesis by auto
next
  case False
  have "vic_Name ` set cs2 = vic_Name ` set cs1" using assms(2) by (metis list.set_map)
  then have "\<forall>c\<in>set cs2. \<exists>d\<in>set cs1. vic_Name c = vic_Name d" by (auto simp: set_eq_iff image_iff)
  then show ?thesis using False assms(3) by (fastforce simp: config_named_def)
qed

lemma config_step_establishes:
  assumes inv: "configs_inv cs" and run: "config_step name prefix pool want cs = Ok (u, cs2)"
  shows "configs_inv cs2 \<and> config_goal name prefix pool want cs2 \<and>
    filter (\<lambda>c. \<not> config_named name c \<and> \<not> isPrimaryConfig c) cs2
      = filter (\<lambda>c. \<not> config_named name c \<and> \<not> isPrimaryConfig c) cs"
proof -
  obtain sn where sn: "subnetOfConfigs cs None = Ok sn" using run by (auto simp: config_step_def)
  obtain need cs1 where first: "named_step name (expectedIPConfig name prefix sn) want cs = (need, cs1)"
    by fastforce
  obtain changed where second: "pool_step pool cs1 = Ok (changed, cs2)"
    using run by (auto simp: config_step_def sn first)
  have "find isPrimaryConfig cs1 \<noteq> None" using second by (auto simp: pool_step_def split: option.splits)
  note one = named_step_spec [OF inv refl first this]
  note two = pool_step_spec [OF one(1) second]
  have "subnetOfConfigs cs2 None = Ok sn"
    using two(2) one(2) sn by (metis subnetOfConfigs_primary)
  then have "config_goal name prefix pool want cs2"
    using two(3) named_kept [OF two(4,5) one(3)] by (auto simp: config_goal_def)
  moreover have "filter (\<lambda>c. \<not> config_named name c \<and> \<not> isPrimaryConfig c) cs2
      = filter (\<lambda>c. \<not> config_named name c \<and> \<not> isPrimaryConfig c) cs"
    using arg_cong [OF two(4), of "filter (\<lambda>c. \<not> config_named name c)"]
      arg_cong [OF one(4), of "filter (\<lambda>c. \<not> isPrimaryConfig c)"]
    by (simp add: conj_commute)
  ultimately show ?thesis using two(1) by simp
qed

lemma config_step_leaves:
  assumes inv: "configs_inv cs" and goal: "config_goal name prefix pool want cs"
  shows "config_step name prefix pool want cs = Ok (False, cs)"
proof -
  obtain sn where sn: "subnetOfConfigs cs None = Ok sn"
    using goal by (auto simp: config_goal_def split: res.splits)
  have "named_step name (expectedIPConfig name prefix sn) want cs = (False, cs)"
  proof (cases want)
    case True
    then obtain c where c: "c \<in> set cs" "config_named name c" "\<not> different c (expectedIPConfig name prefix sn)"
      using goal sn by (auto simp: config_goal_def)
    then obtain d where d: "find (config_named name) cs = Some d"
      by (cases "find (config_named name) cs") (auto simp: find_None_iff_ex)
    then have "d = c"
      using c config_names.unique_eq [of cs d c] inv find_SomeD [OF d]
      by (simp add: configs_inv_def config_named_def)
    with d c True show ?thesis by (simp add: named_step_def)
  next
    case False
    then have "find (config_named name) cs = None"
      using goal sn by (simp add: config_goal_def find_None_iff_ex)
    with False show ?thesis by (simp add: named_step_def)
  qed
  moreover have "pool_step pool cs = Ok (False, cs)"
    using goal by (auto simp: config_goal_def pool_step_def split: option.splits)
  ultimately show ?thesis by (simp add: config_step_def sn)
qed

section \<open>The interfaces of a machine\<close>

definition nics_inv :: "vmss_nic list \<Rightarrow> bool" where
  "nics_inv nics \<longleftrightarrow> length (filter isPrimaryNic nics) = 1 \<and>
     list_all (\<lambda>nic. configs_inv (ipConfigs nic)) (filter isPrimaryNic nics)"

definition nics_goal :: "string \<Rightarrow> string \<Rightarrow> string \<Rightarrow> bool \<Rightarrow> vmss_nic list \<Rightarrow> bool" where
  "nics_goal name prefix pool want nics \<longleftrightarrow>
     list_all (\<lambda>nic. config_goal name prefix pool want (ipConfigs nic)) (filter isPrimaryNic nics)"

text \<open>Everything but the named and the primary IP configuration of the primary interface.\<close>

definition nics_frame :: "string \<Rightarrow> vmss_nic list \<Rightarrow> vmss_nic list" where
  "nics_frame name nics = map (\<lambda>nic. if isPrimaryNic nic then setIPConfigs
     (filter (\<lambda>c. \<not> config_named name c \<and> \<not> isPrimaryConfig c) (ipConfigs nic)) nic else nic) nics"

lemma one_primary:
  assumes "nics_inv nics"
  obtains pre nic post where "nics = pre @ nic # post" "isPrimaryNic nic"
    "\<forall>n\<in>set pre \<union> set post. \<not> isPrimaryNic n"
proof -
  have "\<exists>pre nic post. nics = pre @ nic # post \<and> isPrimaryNic nic \<and> (\<forall>n\<in>set pre \<union> set post. \<not> isPrimaryNic n)"
    if "length (filter isPrimaryNic nics) = 1"
    using that
  proof (induction nics)
    case (Cons n nics)
    show ?case
    proof (cases "isPrimaryNic n")
      case True
      with Cons.prems show ?thesis by (intro exI [of _ "[]"] exI [of _ n] exI [of _ nics]) (auto simp: filter_empty_conv)
    next
      case False
      with Cons obtain pre nic post where "nics = pre @ nic # post" "isPrimaryNic nic"
        "\<forall>n\<in>set pre \<union> set post. \<not> isPrimaryNic n" by auto
      with False show ?thesis by (intro exI [of _ "n # pre"] exI [of _ nic] exI [of _ post]) auto
    qed
  qed simp
  with assms that show thesis by (auto simp: nics_inv_def)
qed

lemma nics_split:
  assumes "\<forall>n\<in>set pre \<union> set post. \<not> isPrimaryNic n" and "isPrimaryNic nic"
  shows "nics_inv (pre @ setIPConfigs cs nic # post) \<longleftrightarrow> configs_inv cs"
    and "nics_goal name prefix pool want (pre @ setIPConfigs cs nic # post) \<longleftrightarrow> config_goal name prefix pool want cs"
proof -
  have "filter isPrimaryNic pre = []" "filter isPrimaryNic post = []"
    using assms(1) by (auto simp: filter_empty_conv)
  then show "nics_inv (pre @ setIPConfigs cs nic # post) \<longleftrightarrow> configs_inv cs"
    and "nics_goal name prefix pool want (pre @ setIPConfigs cs nic # post) \<longleftrightarrow> config_goal name prefix pool want cs"
    using assms(2) by (simp_all add: nics_inv_def nics_goal_def)
qed

lemma reconcile_nics_step:
  assumes "nics_inv nics" and "reconcileVMSSNetworkInterface name prefix pool want nics = Ok (u, nics')"
  shows "nics_inv nics' \<and> nics_goal name prefix pool want nics' \<and> nics_frame name nics' = nics_frame name nics"
proof -
  obtain pre nic post where sp: "nics = pre @ nic # post" "isPrimaryNic nic"
    "\<forall>n\<in>set pre \<union> set post. \<not> isPrimaryNic n" by (rule one_primary [OF assms(1)])
  obtain cs where cs: "config_step name prefix pool want (ipConfigs nic) = Ok (u, cs)"
    "nics' = pre @ setIPConfigs cs nic # post"
    using assms(2) unfolding sp(1) reconcileVMSS_nic_step [OF sp(3,2)] by (auto split: prod.splits)
  have "configs_inv (ipConfigs nic)"
    using assms(1) nics_split(1) [OF sp(3,2), of "ipConfigs nic"] by (simp add: sp(1))
  from config_step_establishes [OF this cs(1)] show ?thesis
    by (simp add: cs(2) nics_split [OF sp(3,2)] nics_frame_def sp(1,2))
qed

interpretation vmss_nic: reconciler nics_inv "reconcileVMSSNetworkInterface name prefix pool want"
  "nics_goal name prefix pool want" for name prefix pool want
proof
  fix nics :: "vmss_nic list" and u nics'
  assume inv: "nics_inv nics"
  show "nics_inv nics'" and "nics_goal name prefix pool want nics'"
    if "reconcileVMSSNetworkInterface name prefix pool want nics = Ok (u, nics')"
    using reconcile_nics_step [OF inv that] by simp_all
  show "reconcileVMSSNetworkInterface name prefix pool want nics = Ok (False, nics)"
    if "nics_goal name prefix pool want nics"
  proof -
    obtain pre nic post where sp: "nics = pre @ nic # post" "isPrimaryNic nic"
      "\<forall>n\<in>set pre \<union> set post. \<not> isPrimaryNic n" by (rule one_primary [OF inv])
    have "configs_inv (ipConfigs nic)" "config_goal name prefix pool want (ipConfigs nic)"
      using inv that nics_split [OF sp(3,2), where cs = "ipConfigs nic"] by (simp_all add: sp(1))
    then show ?thesis
      unfolding sp(1) reconcileVMSS_nic_step [OF sp(3,2)] by (simp add: config_step_leaves)
  qed
qed

end
