(* ===== verification/VM_Proofs.thy ===== *)
theory VM_Proofs
  imports VMSS_Proofs
begin

text \<open>
  Gateway pools as the VM controller sees them. The table of node profiles in the status is keyed
  by the node's name; \<open>gateway_pool\<close> is the contract of the Go interface \<open>GatewayPool\<close>, which both
  kinds of pools satisfy.
\<close>

section \<open>Node profiles\<close>

interpretation profiles: keyed_list "(=)" vpr_NodeName
  by unfold_locales auto

definition profilesOf :: "GatewayVMConfiguration \<Rightarrow> GatewayVMProfile list" where
  "profilesOf cfg = (case vmc_Status cfg of None \<Rightarrow> [] | Some st \<Rightarrow> vmt_GatewayVMProfiles st)"

definition profile_of :: "string \<Rightarrow> GatewayVMProfile list \<Rightarrow> GatewayVMProfile option" where
  "profile_of node ps = find (\<lambda>p. vpr_NodeName p = node) ps"

definition profiles_ok :: "GatewayVMConfiguration \<Rightarrow> bool" where
  "profiles_ok cfg \<longleftrightarrow> unique_keys (=) vpr_NodeName (profilesOf cfg)"

lemma upsertProfile_lookup:
  "profile_of m (upsertProfile node ip1 ip2 ps) = (if m = node
     then Some \<lparr>vpr_NodeName = node, vpr_PrimaryIP = ip1, vpr_SecondaryIP = ip2\<rparr> else profile_of m ps)"
  by (induction ps) (auto simp: profile_of_def)

lemma upsertProfile_keys:
  "has_key (=) vpr_NodeName m (upsertProfile node ip1 ip2 ps) \<longleftrightarrow> m = node \<or> has_key (=) vpr_NodeName m ps"
  by (induction ps) auto

lemma upsertProfile_unique:
  "unique_keys (=) vpr_NodeName ps \<Longrightarrow> unique_keys (=) vpr_NodeName (upsertProfile node ip1 ip2 ps)"
  by (induction ps) (auto simp: upsertProfile_keys)

lemma profilesOf_setProfile [simp]:
  "profilesOf (setProfile node ip1 ip2 cfg) = upsertProfile node ip1 ip2 (profilesOf cfg)"
  by (auto simp: profilesOf_def setProfile_def Let_def zeroVMStatus_def split: option.splits)

lemma setProfile_frame [simp]:
  "vmc_Meta (setProfile node ip1 ip2 cfg) = vmc_Meta cfg" "vmc_Spec (setProfile node ip1 ip2 cfg) = vmc_Spec cfg"
  by (simp_all add: setProfile_def Let_def)

lemma profiles_ok_setProfile: "profiles_ok cfg \<Longrightarrow> profiles_ok (setProfile node ip1 ip2 cfg)"
  by (simp add: profiles_ok_def upsertProfile_unique)

lemma find_res_hit:
  "find_res p xs = Ok hit \<Longrightarrow> hit \<noteq> None \<longleftrightarrow> (\<exists>x\<in>set xs. p x = Ok True)"
  using find_res_Some [of p xs] find_res_None [of p xs] by (cases hit) (auto dest: nth_mem)

lemma keepProfiles_eq:
  "keepProfiles instances ps = Ok qs \<Longrightarrow>
     qs = filter (\<lambda>p. \<exists>i\<in>set instances. computerName i = Ok (vpr_NodeName p)) ps"
proof (induction ps arbitrary: qs)
  case (Cons p ps)
  from Cons.prems obtain hit kept
    where hit: "find_res (\<lambda>i. bindR (computerName i) (\<lambda>n. Ok (vpr_NodeName p = n))) instances = Ok hit"
      and kept: "keepProfiles instances ps = Ok kept" and qs: "qs = (if hit = None then kept else p # kept)"
    by auto
  have "hit \<noteq> None \<longleftrightarrow> (\<exists>i\<in>set instances. computerName i = Ok (vpr_NodeName p))"
    using find_res_hit [OF hit] by auto
  with Cons.IH [OF kept] qs show ?case by auto
qed simp

lemma cleanProfiles_spec:
  assumes "cleanProfiles instances cfg = Ok cfg'"
  shows "profilesOf cfg' = filter (\<lambda>p. \<exists>i\<in>set instances. computerName i = Ok (vpr_NodeName p)) (profilesOf cfg)"
    and "vmc_Meta cfg' = vmc_Meta cfg" and "vmc_Spec cfg' = vmc_Spec cfg"
  using assms keepProfiles_eq [of instances "profilesOf cfg" "profilesOf cfg'"]
  by (auto simp: cleanProfiles_def profilesOf_def split: option.splits)

section \<open>Instances of a scale set\<close>

lemma reconcileVMSSVM_Ok:
  assumes "reconcileVMSSVM az cfg vmssName vm prefix pool want s = (Ok (ip, cfg'), s')"
  shows "if want then \<exists>node ip1. computerName vm = Ok node \<and> ip1 \<noteq> '''' \<and> ip \<noteq> '''' \<and> cfg' = setProfile node ip1 ip cfg
    else ip = '''' \<and> cfg' = cfg"
  using assms unfolding reconcileVMSSVM_def Let_def
  by (auto simp: bindE_Ok_iff computerName_def bind_eq_Some_conv split: option.splits if_splits)

text \<open>The loop over the instances, as the list of profiles it writes.\<close>

definition vmss_loop where
  "vmss_loop az vmssName prefix pool want acc instances = foldE (\<lambda>(ips, cfg) i.
     bindE (reconcileVMSSVM az cfg vmssName i prefix pool want)
       (\<lambda>(privateIP, cfg'). retE (if want \<and> prefix = '''' then ips @ [privateIP] else ips, cfg'))) acc instances"

definition profile_written :: "vmss_vm \<Rightarrow> string \<times> string \<times> string \<Rightarrow> bool" where
  "profile_written i w \<longleftrightarrow> (case w of (node, ip1, ip2) \<Rightarrow> computerName i = Ok node \<and> ip1 \<noteq> '''' \<and> ip2 \<noteq> '''')"

lemma vmss_loop_wanted:
  assumes "vmss_loop az vmssName prefix pool True (ips, cfg) instances s = (Ok (ips', cfg'), s')"
  shows "\<exists>ws. list_all2 profile_written instances ws \<and>
    cfg' = fold (\<lambda>(node, ip1, ip2). setProfile node ip1 ip2) ws cfg \<and>
    ips' = (if prefix = '''' then ips @ map (\<lambda>(node, ip1, ip2). ip2) ws else ips)"
  using assms
proof (induction instances arbitrary: ips cfg s)
  case (Cons i instances)
  from Cons.prems obtain ip cfg1 s1 ips1
    where one: "reconcileVMSSVM az cfg vmssName i prefix pool True s = (Ok (ip, cfg1), s1)"
      and ips1: "ips1 = (if prefix = '''' then ips @ [ip] else ips)"
      and rest: "vmss_loop az vmssName prefix pool True (ips1, cfg1) instances s1 = (Ok (ips', cfg'), s')"
    by (auto simp: vmss_loop_def bindE_Ok_iff split: prod.splits)
  from Cons.IH [OF rest] obtain ws where ws: "list_all2 profile_written instances ws"
    "cfg' = fold (\<lambda>(node, ip1, ip2). setProfile node ip1 ip2) ws cfg1"
    "ips' = (if prefix = '''' then ips1 @ map (\<lambda>(node, ip1, ip2). ip2) ws else ips1)" by auto
  from reconcileVMSSVM_Ok [OF one] obtain node ip1 where
    "computerName i = Ok node" "ip1 \<noteq> ''''" "ip \<noteq> ''''" "cfg1 = setProfile node ip1 ip cfg" by auto
  with ws ips1 show ?case
    by (intro exI [of _ "(node, ip1, ip) # ws"]) (simp add: profile_written_def [of i])
qed (auto simp: vmss_loop_def)

lemma vmss_loop_frame:
  assumes "vmss_loop az vmssName prefix pool want (ips, cfg) instances s = (Ok (ips', cfg'), s')"
  shows "vmc_Meta cfg' = vmc_Meta cfg \<and> vmc_Spec cfg' = vmc_Spec cfg \<and> (profiles_ok cfg \<longrightarrow> profiles_ok cfg')"
  using assms
proof (induction instances arbitrary: ips cfg s)
  case (Cons i instances)
  from Cons.prems obtain ip cfg1 s1 ips1
    where one: "reconcileVMSSVM az cfg vmssName i prefix pool want s = (Ok (ip, cfg1), s1)"
      and rest: "vmss_loop az vmssName prefix pool want (ips1, cfg1) instances s1 = (Ok (ips', cfg'), s')"
    by (auto simp: vmss_loop_def bindE_Ok_iff split: prod.splits)
  have "vmc_Meta cfg1 = vmc_Meta cfg \<and> vmc_Spec cfg1 = vmc_Spec cfg \<and> (profiles_ok cfg \<longrightarrow> profiles_ok cfg1)"
    using reconcileVMSSVM_Ok [OF one] by (auto simp: profiles_ok_setProfile split: if_splits)
  with Cons.IH [OF rest] show ?case by auto
qed (auto simp: vmss_loop_def)

text \<open>A successful run of the scale set's reconciliation, step by step.\<close>

lemma reconcileVMSS_Ok:
  assumes "reconcileVMSS k az cfg vm prefix want s = (Ok (ips, cfg'), s')"
  obtains p n pool nics instances cfg1 cfg2 s1 s2 s3 s4 need where
    "vs_Properties vm = Some p" "pool = valS (GetLBBackendAddressPoolID az (valS (vsp_UniqueID p)))"
    "Option.bind (vsp_VirtualMachineProfile p) vmp_NetworkProfile = Some n"
    "reconcileVMSSNetworkInterface (managedSubresourceName cfg) prefix pool want
       (vnw_NetworkInterfaceConfigurations n) = Ok (need, nics)"
    "if need then \<exists>x. CreateOrUpdateVMSS az (getVMSSResourceGroup cfg) (valS (vs_Name vm))
       \<lparr>vs_Name = None, vs_Location = vs_Location vm, vs_Tags = Map.empty,
          vs_Properties = Some \<lparr>vsp_UniqueID = None, vsp_VirtualMachineProfile =
            Some \<lparr>vmp_NetworkProfile = Some (n\<lparr>vnw_NetworkInterfaceConfigurations := nics\<rparr>)\<rparr>\<rparr>\<rparr> s = (Ok x, s1)
     else s1 = s"
    "ListVMSSInstances az (getVMSSResourceGroup cfg) (valS (vs_Name vm)) s1 = (Ok instances, s2)"
    "vmss_loop az (valS (vs_Name vm)) prefix pool want ([], cfg) instances s2 = (Ok (ips, cfg1), s3)"
    "cleanProfiles instances cfg1 = Ok cfg2" "kStatusUpdate (k_VMC k) cfg2 s3 = (Ok cfg', s4)" "s' = s4"
proof -
  let ?opt = "Option.bind (vs_Properties vm) (\<lambda>p. Option.bind (vsp_VirtualMachineProfile p)
      (\<lambda>v. map_option (\<lambda>n. (p, n)) (vmp_NetworkProfile v)))"
  obtain p n where opt: "?opt = Some (p, n)"
    using assms by (cases ?opt) (auto simp: reconcileVMSS_def Let_def)
  let ?pool = "valS (GetLBBackendAddressPoolID az (valS (vsp_UniqueID p)))"
  obtain need nics where nics: "reconcileVMSSNetworkInterface (managedSubresourceName cfg) prefix ?pool want
       (vnw_NetworkInterfaceConfigurations n) = Ok (need, nics)"
    using assms by (auto simp: reconcileVMSS_def Let_def opt bindE_Ok_iff wrapE_Ok_iff)
  show thesis
    using assms that [of p ?pool n need nics] opt
    by (auto simp: reconcileVMSS_def Let_def bindE_Ok_iff wrapE_Ok_iff nics vmss_loop_def
        bind_eq_Some_conv split: if_splits)
qed

section \<open>The contract of a gateway pool\<close>

text \<open>\<open>law\<close> collects what the pool relies on; the other parameter is \<open>Reconcile\<close>.\<close>

locale gateway_pool =
  fixes law :: bool
    and reconcile :: "GatewayVMConfiguration \<Rightarrow> string \<Rightarrow> bool \<Rightarrow> ('s, string list \<times> GatewayVMConfiguration) io"
  assumes keeps_object: "law \<Longrightarrow> reconcile cfg prefix want s = (Ok (ips, cfg'), s')
      \<Longrightarrow> vmc_Meta cfg' = vmc_Meta cfg \<and> vmc_Spec cfg' = vmc_Spec cfg"
    and keeps_profiles: "law \<Longrightarrow> reconcile cfg prefix want s = (Ok (ips, cfg'), s')
      \<Longrightarrow> profiles_ok cfg \<Longrightarrow> profiles_ok cfg'"
begin

text \<open>The names of the managed resources that the handlers use afterwards are those of before.\<close>

lemma same_names:
  assumes "law" and "reconcile cfg prefix want s = (Ok (ips, cfg'), s')"
  shows "managedSubresourceName cfg' = managedSubresourceName cfg" and "getVMSSResourceGroup cfg' = getVMSSResourceGroup cfg"
  using keeps_object [OF assms] by (simp_all add: managedSubresourceName_def getVMSSResourceGroup_def)

end

text \<open>The status client returns the object that it stored.\<close>

definition status_echo :: "'s kube \<Rightarrow> bool" where
  "status_echo k \<longleftrightarrow> (\<forall>obj s obj' s'. kStatusUpdate (k_VMC k) obj s = (Ok obj', s') \<longrightarrow> obj' = obj)"

lemma reconcileVMSS_frame:
  assumes "status_echo k" and run: "reconcileVMSS k az cfg vm prefix want s = (Ok (ips, cfg'), s')"
  shows "vmc_Meta cfg' = vmc_Meta cfg \<and> vmc_Spec cfg' = vmc_Spec cfg \<and> (profiles_ok cfg \<longrightarrow> profiles_ok cfg')"
proof (rule reconcileVMSS_Ok [OF run])
  fix pool instances cfg1 cfg2 s2 s3 s4
  assume loop: "vmss_loop az (valS (vs_Name vm)) prefix pool want ([], cfg) instances s2 = (Ok (ips, cfg1), s3)"
    and clean: "cleanProfiles instances cfg1 = Ok cfg2" and upd: "kStatusUpdate (k_VMC k) cfg2 s3 = (Ok cfg', s4)"
  have "cfg' = cfg2" using assms(1) upd unfolding status_echo_def by blast
  with vmss_loop_frame [OF loop] cleanProfiles_spec [OF clean] show ?thesis
    by (auto simp: profiles_ok_def unique_keys_filter)
qed

interpretation vmss_pool: gateway_pool "status_echo k" "\<lambda>cfg. reconcileVMSS k az cfg vm" for k az vm
  by unfold_locales (auto dest: reconcileVMSS_frame)

lemma reconcileNIC_yields:
  "yields (\<lambda>(ip, cfg'). if want then \<exists>node ip1. cfg' = setProfile node ip1 ip cfg else ip = '''' \<and> cfg' = cfg)
     (reconcileNIC parse az cfg nic prefix pool want)"
  unfolding reconcileNIC_def by (intro yields_rules) auto

lemma reconcileNIC_Ok:
  assumes "reconcileNIC parse az cfg nic prefix pool want s = (Ok (ip, cfg'), s')"
  shows "cfg' = cfg \<or> (\<exists>node ip1 ip2. cfg' = setProfile node ip1 ip2 cfg)"
  using yieldsD [OF reconcileNIC_yields assms] by (auto split: if_splits)

lemma reconcileVMs_frame:
  assumes "reconcileVMs md5 parse az name cfg prefix want s = (Ok (ips, cfg'), s')"
  shows "vmc_Meta cfg' = vmc_Meta cfg \<and> vmc_Spec cfg' = vmc_Spec cfg \<and> (profiles_ok cfg \<longrightarrow> profiles_ok cfg')"
proof -
  have "vmc_Meta d' = vmc_Meta d \<and> vmc_Spec d' = vmc_Spec d \<and> (profiles_ok d \<longrightarrow> profiles_ok d')"
    if "foldE (\<lambda>(ips, cfg) nic. bindE (reconcileNIC parse az cfg nic prefix pool want)
        (\<lambda>(ip, cfg'). retE (ips @ [ip], cfg'))) (a, d) nics s = (Ok (b, d'), s')" for a d nics s b d' s' pool
    using that
  proof (induction nics arbitrary: a d s)
    case (Cons nic nics)
    from Cons.prems obtain ip d1 s1 a1 where one: "reconcileNIC parse az d nic prefix pool want s = (Ok (ip, d1), s1)"
      and rest: "foldE (\<lambda>(ips, cfg) nic. bindE (reconcileNIC parse az cfg nic prefix pool want)
        (\<lambda>(ip, cfg'). retE (ips @ [ip], cfg'))) (a1, d1) nics s1 = (Ok (b, d'), s')"
      by (auto simp: bindE_Ok_iff split: prod.splits)
    from reconcileNIC_Ok [OF one] Cons.IH [OF rest] show ?case by (auto simp: profiles_ok_setProfile)
  qed auto
  with assms show ?thesis by (auto simp: reconcileVMs_def Let_def bindE_Ok_iff)
qed

interpretation vms_pool: gateway_pool True "reconcileVMs md5 parse az name" for md5 parse az name
  by unfold_locales (auto dest: reconcileVMs_frame)

interpretation pool: gateway_pool "status_echo (vmr_Client r)" "poolReconcile r p" for r p
proof (unfold_locales, goal_cases)
  case (1 cfg prefix want s ips cfg' s')
  then show ?case
    using vmss_pool.keeps_object [of "vmr_Client r"] vms_pool.keeps_object [OF TrueI]
    by (cases p) (simp_all add: poolReconcile_def)
next
  case (2 cfg prefix want s ips cfg' s')
  then show ?case
    using vmss_pool.keeps_profiles [of "vmr_Client r"] vms_pool.keeps_profiles [OF TrueI]
    by (cases p) (simp_all add: poolReconcile_def)
qed

section \<open>The profiles that a scale set reports\<close>

definition node_IP :: "GatewayVMProfile list \<Rightarrow> vmss_vm \<Rightarrow> string" where
  "node_IP ps i = (case computerName i of Ok n \<Rightarrow>
      (case profile_of n ps of Some p \<Rightarrow> vpr_SecondaryIP p | None \<Rightarrow> '''') | _ \<Rightarrow> '''')"

text \<open>One profile per instance, with both addresses.\<close>

definition profiles_match :: "vmss_vm list \<Rightarrow> GatewayVMProfile list \<Rightarrow> bool" where
  "profiles_match instances ps \<longleftrightarrow> unique_keys (=) vpr_NodeName ps \<and>
     list_all (\<lambda>p. vpr_PrimaryIP p \<noteq> '''' \<and> vpr_SecondaryIP p \<noteq> '''') ps \<and>
     set (map (\<lambda>p. Ok (vpr_NodeName p)) ps) = set (map computerName instances)"

lemma fold_setProfile_lookup:
  "profile_of m (profilesOf (fold (\<lambda>(node, ip1, ip2). setProfile node ip1 ip2) ws cfg)) =
     (case map_of (rev ws) m of Some (ip1, ip2) \<Rightarrow>
        Some \<lparr>vpr_NodeName = m, vpr_PrimaryIP = ip1, vpr_SecondaryIP = ip2\<rparr>
      | None \<Rightarrow> profile_of m (profilesOf cfg))"
proof (induction ws arbitrary: cfg)
  case (Cons w ws)
  obtain node ip1 ip2 where "w = (node, ip1, ip2)" by (cases w)
  with Cons show ?case
    by (auto simp: upsertProfile_lookup map_add_def split: option.splits)
qed simp

lemma profile_of_member:
  "unique_keys (=) vpr_NodeName ps \<Longrightarrow> p \<in> set ps \<longleftrightarrow> profile_of (vpr_NodeName p) ps = Some p"
proof -
  assume u: "unique_keys (=) vpr_NodeName ps"
  have "profile_of (vpr_NodeName p) ps \<noteq> None" if "p \<in> set ps"
    using that by (auto simp: profile_of_def find_None_iff_ex)
  moreover have "q = p" if "p \<in> set ps" "profile_of (vpr_NodeName p) ps = Some q" for q
    using find_SomeD [OF that(2) [unfolded profile_of_def]] profiles.unique_eq [OF u, of q p] that(1) by simp
  ultimately show ?thesis
    using find_SomeD [of _ ps p] by (fastforce simp: profile_of_def)
qed

lemma profile_of_filter:
  "profile_of n (filter P ps) = profile_of n ps" if "\<And>p. vpr_NodeName p = n \<Longrightarrow> P p"
  using that by (induction ps) (auto simp: profile_of_def)

lemma written_map:
  "list_all2 profile_written instances ws \<Longrightarrow> map computerName instances = map (Ok \<circ> fst) ws \<and>
     list_all (\<lambda>(node, ip1, ip2). ip1 \<noteq> '''' \<and> ip2 \<noteq> '''') ws"
  by (induction rule: list_all2_induct) (auto simp: profile_written_def split: prod.splits)

lemma written_values:
  assumes "list_all2 profile_written instances ws"
    and "\<And>i n ip1 ip2. computerName i = Ok n \<Longrightarrow> (n, ip1, ip2) \<in> set ws \<Longrightarrow> f i = ip2"
  shows "map f instances = map (\<lambda>(node, ip1, ip2). ip2) ws"
  using assms
proof (induction rule: list_all2_induct)
  case (Cons i vms w ws)
  obtain n ip1 ip2 where w: "w = (n, ip1, ip2)" by (cases w)
  with Cons.hyps have "computerName i = Ok n" by (simp add: profile_written_def)
  then have "f i = ip2" using Cons.prems [of i n ip1 ip2] by (simp add: w)
  moreover have "map f vms = map (\<lambda>(node, ip1, ip2). ip2) ws"
    by (rule Cons.IH, rule Cons.prems) auto
  ultimately show ?case by (simp add: w)
qed simp

lemma loop_profiles:
  assumes ok: "profiles_ok cfg" and ws: "list_all2 profile_written instances ws"
    and dist: "distinct (map computerName instances)"
    and cfg1: "cfg1 = fold (\<lambda>(node, ip1, ip2). setProfile node ip1 ip2) ws cfg" "profiles_ok cfg1"
    and clean: "cleanProfiles instances cfg1 = Ok cfg2"
  shows "profiles_match instances (profilesOf cfg2)"
    and "map (node_IP (profilesOf cfg2)) instances = map (\<lambda>(node, ip1, ip2). ip2) ws"
proof -
  let ?ps = "profilesOf cfg2"
  have names: "map computerName instances = map (Ok \<circ> fst) ws"
    and ips: "list_all (\<lambda>(node, ip1, ip2). ip1 \<noteq> '''' \<and> ip2 \<noteq> '''') ws"
    using written_map [OF ws] by auto
  have d: "distinct (map fst ws)" using dist by (simp add: names distinct_map inj_on_def)
  have ps: "?ps = filter (\<lambda>p. \<exists>i\<in>set instances. computerName i = Ok (vpr_NodeName p)) (profilesOf cfg1)"
    by (rule cleanProfiles_spec(1) [OF clean])
  have nodes: "(\<exists>i\<in>set instances. computerName i = Ok m) \<longleftrightarrow> m \<in> fst ` set ws" for m
  proof -
    have "(\<exists>i\<in>set instances. computerName i = Ok m) \<longleftrightarrow> Ok m \<in> set (map computerName instances)"
      by (simp add: image_iff eq_commute [of "Ok m"])
    also have "\<dots> \<longleftrightarrow> m \<in> fst ` set ws" by (simp add: names image_iff)
    finally show ?thesis .
  qed
  have rev_ws: "map_of (rev ws) = map_of ws"
    using d by (simp add: map_of_inject_set rev_map [symmetric])
  have uniq: "unique_keys (=) vpr_NodeName ?ps"
    using cfg1(2) by (simp add: ps profiles_ok_def unique_keys_filter)
  have look: "profile_of m ?ps = (case map_of ws m of Some (ip1, ip2) \<Rightarrow>
      Some \<lparr>vpr_NodeName = m, vpr_PrimaryIP = ip1, vpr_SecondaryIP = ip2\<rparr> | None \<Rightarrow> None)" for m
  proof (cases "m \<in> fst ` set ws")
    case True
    then have "profile_of m ?ps = profile_of m (profilesOf cfg1)"
      unfolding ps by (intro profile_of_filter) (auto simp: nodes)
    with True show ?thesis
      by (auto simp: cfg1(1) fold_setProfile_lookup rev_ws map_of_eq_None_iff split: option.splits)
  next
    case False
    then have "profile_of m ?ps = None" unfolding ps by (auto simp: profile_of_def find_None_iff_ex nodes)
    with False show ?thesis by (simp add: map_of_eq_None_iff [symmetric])
  qed
  have mem: "p \<in> set ?ps \<longleftrightarrow> (vpr_NodeName p, vpr_PrimaryIP p, vpr_SecondaryIP p) \<in> set ws" for p :: GatewayVMProfile
    unfolding profile_of_member [OF uniq] look map_of_eq_Some_iff [OF d, symmetric]
    by (cases p) (auto split: option.splits)
  have "set (map (\<lambda>p. Ok (vpr_NodeName p)) ?ps) = set (map computerName instances)"
  proof (rule set_eqI)
    fix x
    have "x \<in> set (map (\<lambda>p. Ok (vpr_NodeName p)) ?ps) \<longleftrightarrow> (\<exists>w\<in>set ws. x = Ok (fst w))"
    proof
      assume "\<exists>w\<in>set ws. x = Ok (fst w)"
      then obtain n a b where w: "(n, a, b) \<in> set ws" "x = Ok n" by auto
      then have "\<lparr>vpr_NodeName = n, vpr_PrimaryIP = a, vpr_SecondaryIP = b\<rparr> \<in> set ?ps" by (simp add: mem)
      with w show "x \<in> set (map (\<lambda>p. Ok (vpr_NodeName p)) ?ps)" by force
    qed (force simp: mem)
    then show "x \<in> set (map (\<lambda>p. Ok (vpr_NodeName p)) ?ps) \<longleftrightarrow> x \<in> set (map computerName instances)"
      unfolding names by auto
  qed
  with uniq ips show "profiles_match instances ?ps"
    by (auto simp: profiles_match_def list_all_iff mem)
  have "node_IP ?ps i = ip2" if "computerName i = Ok n" "(n, ip1, ip2) \<in> set ws" for i n ip1 ip2
    using that d by (simp add: node_IP_def look)
  then show "map (node_IP ?ps) instances = map (\<lambda>(node, ip1, ip2). ip2) ws"
    by (rule written_values [OF ws])
qed

end
