(* ===== verification/VMSS_State.thy ===== *)
theory VMSS_State
  imports VM_Proofs
begin

text \<open>
  The scale set as Azure stores it: what a successful \<open>reconcileVMSS\<close> leaves in the model of the
  scale set and in each of its instances.
\<close>

section \<open>The stored scale set\<close>

definition nicsOf_vmss :: "vmss \<Rightarrow> vmss_nic list" where
  "nicsOf_vmss x = (case Option.bind (vs_Properties x) (\<lambda>p. Option.bind (vsp_VirtualMachineProfile p) vmp_NetworkProfile)
     of None \<Rightarrow> [] | Some n \<Rightarrow> vnw_NetworkInterfaceConfigurations n)"

definition nicsOf_vm :: "vmss_vm \<Rightarrow> vmss_nic list" where
  "nicsOf_vm x = (case Option.bind (vv_Properties x) vvp_NetworkProfileConfiguration
     of None \<Rightarrow> [] | Some n \<Rightarrow> vnw_NetworkInterfaceConfigurations n)"

definition vm_id :: "vmss_vm \<Rightarrow> string" where
  "vm_id x = valS (vv_InstanceID x)"

definition insts_ok :: "(string \<Rightarrow> vmss_nic list option) \<Rightarrow> bool" where
  "insts_ok f \<longleftrightarrow> (\<forall>i nics. f i = Some nics \<longrightarrow> nics_inv nics)"

text \<open>
  What the reconciliation relies on of Azure: a write of the scale set stores its model, and the
  instances stay well formed whatever the upgrade policy makes of it; a write of an instance
  stores that instance and nothing else; the list of instances is the stored one; reading an
  interface, waiting and writing the status in Kubernetes leave the scale set alone.
\<close>

definition vmss_laws ::
  "'s AzureManager \<Rightarrow> 's kube \<Rightarrow> string \<Rightarrow> string \<Rightarrow> ('s \<Rightarrow> vmss_nic list) \<Rightarrow> ('s \<Rightarrow> string \<Rightarrow> vmss_nic list option) \<Rightarrow> bool"
where
  "vmss_laws az k rg name model inst \<longleftrightarrow>
     (\<forall>x. triple (\<lambda>s. insts_ok (inst s)) (VmssClient_CreateOrUpdate az (defaultRG az rg) name x)
        (\<lambda>_ s. model s = nicsOf_vmss x \<and> insts_ok (inst s)) (\<lambda>_ s. insts_ok (inst s)) (\<lambda>_. False)) \<and>
     (\<forall>i x m f. triple (\<lambda>s. model s = m \<and> (\<forall>j. j \<noteq> i \<longrightarrow> inst s j = f j))
        (VmssVMClient_Update az (defaultRG az rg) name i x)
        (\<lambda>_ s. model s = m \<and> inst s = f(i \<mapsto> nicsOf_vm x))
        (\<lambda>_ s. model s = m \<and> (\<forall>j. j \<noteq> i \<longrightarrow> inst s j = f j)) (\<lambda>_. False)) \<and>
     (\<forall>m f. triple (\<lambda>s. model s = m \<and> inst s = f) (VmssVMClient_List az (defaultRG az rg) name)
        (\<lambda>xs s. model s = m \<and> inst s = f \<and> f = map_of (map (\<lambda>x. (vm_id x, nicsOf_vm x)) xs) \<and> distinct (map vm_id xs))
        (\<lambda>_ s. model s = m \<and> inst s = f) (\<lambda>_. False)) \<and>
     (\<forall>i n. reads (\<lambda>s. (model s, inst s)) (InterfaceClient_GetVMSS az (defaultRG az rg) name i n)) \<and>
     (\<forall>obj. reads (\<lambda>s. (model s, inst s)) (kStatusUpdate (k_VMC k) obj)) \<and>
     (\<forall>b n s. model (clk_sleep (az_clock az) b n s) = model s \<and> inst (clk_sleep (az_clock az) b n s) = inst s)"

lemma vmss_laws_calls:
  assumes "vmss_laws az k rg name model inst"
  shows "triple (\<lambda>s. insts_ok (inst s)) (CreateOrUpdateVMSS az rg name x)
      (\<lambda>_ s. model s = nicsOf_vmss x \<and> insts_ok (inst s)) (\<lambda>_ _. True) (\<lambda>_. False)"
    and "triple (\<lambda>s. model s = m \<and> inst s = f) (UpdateVMSSInstance az rg name i y)
      (\<lambda>_ s. model s = m \<and> inst s = f(i \<mapsto> nicsOf_vm y)) (\<lambda>_ _. True) (\<lambda>_. False)"
    and "triple (\<lambda>s. model s = m \<and> inst s = f) (ListVMSSInstances az rg name)
      (\<lambda>xs s. model s = m \<and> inst s = f \<and> f = map_of (map (\<lambda>x. (vm_id x, nicsOf_vm x)) xs) \<and> distinct (map vm_id xs))
      (\<lambda>_ _. True) (\<lambda>_. False)"
    and "reads (\<lambda>s. (model s, inst s)) (GetVMSSInterface az rg name i n)"
    and "reads (\<lambda>s. (model s, inst s)) (kStatusUpdate (k_VMC k) obj)"
proof -
  have sleep: "model (clk_sleep (az_clock az) b n s) = model s" "inst (clk_sleep (az_clock az) b n s) = inst s" for b n s
    using assms by (simp_all add: vmss_laws_def)
  have put: "triple (\<lambda>s. insts_ok (inst s)) (VmssClient_CreateOrUpdate az (defaultRG az rg) name x)
        (\<lambda>_ s. model s = nicsOf_vmss x \<and> insts_ok (inst s)) (\<lambda>_ s. insts_ok (inst s)) (\<lambda>_. False)"
    and upd: "triple (\<lambda>s. model s = m \<and> (\<forall>j. j \<noteq> i \<longrightarrow> inst s j = f j))
        (VmssVMClient_Update az (defaultRG az rg) name i y)
        (\<lambda>_ s. model s = m \<and> inst s = f(i \<mapsto> nicsOf_vm y))
        (\<lambda>_ s. model s = m \<and> (\<forall>j. j \<noteq> i \<longrightarrow> inst s j = f j)) (\<lambda>_. False)"
    and lst: "triple (\<lambda>s. model s = m \<and> inst s = f) (VmssVMClient_List az (defaultRG az rg) name)
        (\<lambda>xs s. model s = m \<and> inst s = f \<and> f = map_of (map (\<lambda>x. (vm_id x, nicsOf_vm x)) xs) \<and> distinct (map vm_id xs))
        (\<lambda>_ s. model s = m \<and> inst s = f) (\<lambda>_. False)"
    using assms unfolding vmss_laws_def by blast+
  show "triple (\<lambda>s. insts_ok (inst s)) (CreateOrUpdateVMSS az rg name x)
      (\<lambda>_ s. model s = nicsOf_vmss x \<and> insts_ok (inst s)) (\<lambda>_ _. True) (\<lambda>_. False)"
    unfolding CreateOrUpdateVMSS_def
    by (intro triple_if triple_fail triple_conseq [OF wrapRetry_triple [OF put]]) (auto simp: sleep)
  show "triple (\<lambda>s. model s = m \<and> inst s = f) (UpdateVMSSInstance az rg name i y)
      (\<lambda>_ s. model s = m \<and> inst s = f(i \<mapsto> nicsOf_vm y)) (\<lambda>_ _. True) (\<lambda>_. False)"
    unfolding UpdateVMSSInstance_def
    by (intro triple_if triple_fail triple_conseq [OF wrapRetry_triple [OF upd]]) (auto simp: sleep)
  show "triple (\<lambda>s. model s = m \<and> inst s = f) (ListVMSSInstances az rg name)
      (\<lambda>xs s. model s = m \<and> inst s = f \<and> f = map_of (map (\<lambda>x. (vm_id x, nicsOf_vm x)) xs) \<and> distinct (map vm_id xs))
      (\<lambda>_ _. True) (\<lambda>_. False)"
    unfolding ListVMSSInstances_def
    by (intro triple_if triple_fail triple_conseq [OF wrapRetry_triple [OF lst]]) (auto simp: sleep)
  show "reads (\<lambda>s. (model s, inst s)) (GetVMSSInterface az rg name i n)"
    using assms unfolding GetVMSSInterface_def vmss_laws_def
    by (intro reads_rules reads_wrapRetry) auto
  show "reads (\<lambda>s. (model s, inst s)) (kStatusUpdate (k_VMC k) obj)"
    using assms by (simp add: vmss_laws_def)
qed

section \<open>One instance\<close>

lemma config_step_False:
  "config_step name prefix pool want cs = Ok (False, cs') \<Longrightarrow> cs' = cs"
  by (auto simp: config_step_def named_step_def pool_step_def split: option.splits if_splits prod.splits)

lemma reconcile_nics_False:
  assumes "nics_inv nics" and "reconcileVMSSNetworkInterface name prefix pool want nics = Ok (False, nics')"
  shows "nics' = nics"
proof -
  obtain pre nic post where sp: "nics = pre @ nic # post" "isPrimaryNic nic"
    "\<forall>n\<in>set pre \<union> set post. \<not> isPrimaryNic n" by (rule one_primary [OF assms(1)])
  obtain cs where cs: "config_step name prefix pool want (ipConfigs nic) = Ok (False, cs)"
    "nics' = pre @ setIPConfigs cs nic # post"
    using assms(2) unfolding sp(1) reconcileVMSS_nic_step [OF sp(3,2)] by (auto split: prod.splits)
  show ?thesis using config_step_False [OF cs(1)] by (simp add: cs(2) sp(1))
qed

lemma checkIPs_reads: "(\<And>n. reads view (getNic n)) \<Longrightarrow> reads view (checkIPs getNic name nics ips)"
proof (induction nics arbitrary: ips)
  case (Cons nic nics)
  have "reads view (tryE (getNic n) f (\<lambda>_. retE ips))" if "\<And>a. reads view (f a)" for n f
    using that Cons.prems unfolding reads_def by (blast intro: triple_try triple_ret)
  with Cons show ?case by (simp add: reads_if reads_case_option reads_ret)
qed (simp add: reads_ret)

lemma reads_wrap: "reads view m \<Longrightarrow> reads view (wrapE msg m)"
  unfolding reads_def by (blast intro: triple_wrap)

lemma readIPs_reads: "(\<And>n. reads view (getNic n)) \<Longrightarrow> reads view (readIPs getNic name nics ips)"
  by (induction nics arbitrary: ips) (simp_all add: reads_rules reads_wrap)

text \<open>The states that a successful run of an instance's reconciliation passes through.\<close>

lemma reconcileVMSSVM_steps:
  fixes az :: "'s AzureManager"
  assumes run: "reconcileVMSSVM az cfg vmssName vm prefix pool want s = (Ok res, s')"
  obtains s1 s2 need nics y where
    "s1 = s \<or> (\<exists>x. checkIPs (GetVMSSInterface az (getVMSSResourceGroup cfg) vmssName (vm_id vm))
       (managedSubresourceName cfg) (nicsOf_vm vm) ('''', '''') s = (Ok x, s1))"
    "reconcileVMSSNetworkInterface (managedSubresourceName cfg) prefix pool want (nicsOf_vm vm) = Ok (need, nics)"
    "nicsOf_vm y = nics"
    "s2 = s1 \<and> \<not> need \<or>
       (\<exists>x. UpdateVMSSInstance az (getVMSSResourceGroup cfg) vmssName (vm_id vm) y s1 = (Ok x, s2))"
    "s' = s2 \<or> (\<exists>x. readIPs (GetVMSSInterface az (getVMSSResourceGroup cfg) vmssName (vm_id vm))
       (managedSubresourceName cfg) nics ('''', '''') s2 = (Ok x, s'))"
proof -
  let ?get = "GetVMSSInterface az (getVMSSResourceGroup cfg) vmssName (vm_id vm)"
  let ?name = "managedSubresourceName cfg"
  let ?opt = "Option.bind (vv_Properties vm)
    (\<lambda>p. map_option (\<lambda>n. (p, vnw_NetworkInterfaceConfigurations n)) (vvp_NetworkProfileConfiguration p))"
  obtain p ifs where opt: "?opt = Some (p, ifs)"
    using run by (cases ?opt) (auto simp: reconcileVMSSVM_def Let_def)
  then have ifs: "nicsOf_vm vm = ifs" by (auto simp: nicsOf_vm_def bind_eq_Some_conv)
  obtain os where os: "vvp_OSProfile p = Some os"
    using run by (cases "vvp_OSProfile p") (auto simp: reconcileVMSSVM_def Let_def opt)
  let ?failed = "provisioningFailed (vvp_ProvisioningState p)"
  let ?upd = "\<lambda>need ip1 ip2. need \<or> ?failed \<or> want \<and> (ip1 = '''' \<or> ip2 = '''')"
  let ?y = "\<lambda>nics. \<lparr>vv_ID = None, vv_InstanceID = None, vv_Properties = Some \<lparr>vvp_NetworkProfileConfiguration =
    Some \<lparr>vnw_NetworkInterfaceConfigurations = nics\<rparr>, vvp_OSProfile = None, vvp_ProvisioningState = None\<rparr>\<rparr>"
  from run obtain ip1 ip2 s1 need nics s2
    where c: "(if \<not> ?failed \<and> want then checkIPs ?get ?name ifs ('''', '''') else retE ('''', '''')) s = (Ok (ip1, ip2), s1)"
      and n: "reconcileVMSSNetworkInterface ?name prefix pool want ifs = Ok (need, nics)"
      and u: "(if ?upd need ip1 ip2 then bindE (wrapE ''failed to update vmss instance''
        (UpdateVMSSInstance az (getVMSSResourceGroup cfg) vmssName (vm_id vm) (?y nics))) (\<lambda>_. retE ()) else retE ()) s1 = (Ok (), s2)"
      and t: "(if \<not> want then retE ('''', cfg)
        else bindE (if ?upd need ip1 ip2 \<or> ip1 = '''' \<or> ip2 = '''' then readIPs ?get ?name nics ('''', '''') else retE (ip1, ip2))
          (\<lambda>(ip1, ip2). if ip1 = '''' \<or> ip2 = '''' then failE (ErrMsg ''failed to find private IP from vmss'')
            else retE (ip2, setProfile (valS (os_ComputerName os)) ip1 ip2 cfg))) s2 = (Ok res, s')"
    unfolding reconcileVMSSVM_def Let_def vm_id_def
    by (auto simp: opt os bindE_Ok_iff [where m = "if a then b else c" for a b c]
        bindE_Ok_iff [where m = "wrapE a b" for a b] wrapE_Ok_iff)
  have r: "s' = s2 \<or> (\<exists>x. readIPs ?get ?name nics ('''', '''') s2 = (Ok x, s'))"
    using t by (auto simp: bindE_Ok_iff split: if_splits)
  show thesis
  proof (rule that [of s1 need nics "?y nics" s2])
    show "s1 = s \<or> (\<exists>x. checkIPs ?get ?name (nicsOf_vm vm) ('''', '''') s = (Ok x, s1))"
      using c by (auto simp: ifs split: if_splits)
    show "s2 = s1 \<and> \<not> need \<or>
        (\<exists>x. UpdateVMSSInstance az (getVMSSResourceGroup cfg) vmssName (vm_id vm) (?y nics) s1 = (Ok x, s2))"
      using u by (auto simp: bindE_Ok_iff wrapE_Ok_iff split: if_splits)
    show "nicsOf_vm (?y nics) = nics" by (simp add: nicsOf_vm_def)
  qed (use n r in \<open>simp_all add: ifs\<close>)
qed

text \<open>A successful run leaves the instance as wanted, the model and the other instances alone.\<close>

lemma reconcileVMSSVM_establishes:
  fixes az :: "'s AzureManager"
  assumes laws: "vmss_laws az k (getVMSSResourceGroup cfg) vmssName model inst"
    and run: "reconcileVMSSVM az cfg vmssName vm prefix pool want s = (Ok res, s')"
    and inv: "nics_inv (nicsOf_vm vm)" and here: "inst s (vm_id vm) = Some (nicsOf_vm vm)"
  shows "model s' = model s \<and> (\<exists>nics. inst s' = (inst s)(vm_id vm \<mapsto> nics) \<and> nics_inv nics \<and>
    nics_goal (managedSubresourceName cfg) prefix pool want nics)"
proof (rule reconcileVMSSVM_steps [OF run])
  fix s1 s2 need nics y
  let ?get = "GetVMSSInterface az (getVMSSResourceGroup cfg) vmssName (vm_id vm)"
  assume c: "s1 = s \<or> (\<exists>x. checkIPs ?get (managedSubresourceName cfg) (nicsOf_vm vm) ('''', '''') s = (Ok x, s1))"
    and n: "reconcileVMSSNetworkInterface (managedSubresourceName cfg) prefix pool want (nicsOf_vm vm) = Ok (need, nics)"
    and y: "nicsOf_vm y = nics"
    and u: "s2 = s1 \<and> \<not> need \<or> (\<exists>x. UpdateVMSSInstance az (getVMSSResourceGroup cfg) vmssName (vm_id vm) y s1 = (Ok x, s2))"
    and r: "s' = s2 \<or> (\<exists>x. readIPs ?get (managedSubresourceName cfg) nics ('''', '''') s2 = (Ok x, s'))"
  have get: "\<And>n. reads (\<lambda>s. (model s, inst s)) (?get n)" by (rule vmss_laws_calls(4) [OF laws])
  have v1: "model s1 = model s" "inst s1 = inst s"
    using c reads_view [OF checkIPs_reads [of "\<lambda>s. (model s, inst s)" ?get, OF get]] by auto
  have v3: "model s' = model s2" "inst s' = inst s2"
    using r reads_view [OF readIPs_reads [of "\<lambda>s. (model s, inst s)" ?get, OF get]] by auto
  have goal: "nics_inv nics \<and> nics_goal (managedSubresourceName cfg) prefix pool want nics"
    using reconcile_nics_step [OF inv n] by simp
  have "model s2 = model s \<and> inst s2 = (inst s)(vm_id vm \<mapsto> nics)"
    using u
  proof
    assume no: "s2 = s1 \<and> \<not> need"
    then have "nics = nicsOf_vm vm"
      using n reconcile_nics_False [OF inv, of "managedSubresourceName cfg" prefix pool want nics] by simp
    with no here v1 show ?thesis by (simp add: fun_upd_idem)
  next
    assume "\<exists>x. UpdateVMSSInstance az (getVMSSResourceGroup cfg) vmssName (vm_id vm) y s1 = (Ok x, s2)"
    then obtain x where "UpdateVMSSInstance az (getVMSSResourceGroup cfg) vmssName (vm_id vm) y s1 = (Ok x, s2)" by blast
    from triple_OkD [OF vmss_laws_calls(2) [OF laws, of "model s1" "inst s1"] _ this] v1 y show ?thesis by simp
  qed
  with goal v3 show ?thesis by auto
qed

section \<open>The scale set\<close>

definition insts_goal :: "string \<Rightarrow> string \<Rightarrow> string \<Rightarrow> bool \<Rightarrow> (string \<Rightarrow> vmss_nic list option) \<Rightarrow> bool" where
  "insts_goal name prefix pool want f \<longleftrightarrow> (\<forall>i nics. f i = Some nics \<longrightarrow> nics_goal name prefix pool want nics)"

lemma vmss_loop_establishes:
  fixes az :: "'s AzureManager"
  assumes "vmss_laws az k (getVMSSResourceGroup cfg) vmssName model inst"
    and "vmss_loop az vmssName prefix pool want (ips, cfg) xs s = (Ok res, s')"
    and "distinct (map vm_id xs)"
    and "\<forall>x\<in>set xs. inst s (vm_id x) = Some (nicsOf_vm x) \<and> nics_inv (nicsOf_vm x)"
  shows "model s' = model s \<and> (\<forall>i. i \<notin> vm_id ` set xs \<longrightarrow> inst s' i = inst s i) \<and>
    (\<forall>x\<in>set xs. \<exists>nics. inst s' (vm_id x) = Some nics \<and> nics_goal (managedSubresourceName cfg) prefix pool want nics)"
  using assms
proof (induction xs arbitrary: ips cfg s)
  case (Cons x xs)
  from Cons.prems(2) obtain ip cfg1 s1 ips1
    where one: "reconcileVMSSVM az cfg vmssName x prefix pool want s = (Ok (ip, cfg1), s1)"
      and rest: "vmss_loop az vmssName prefix pool want (ips1, cfg1) xs s1 = (Ok res, s')"
    by (auto simp: vmss_loop_def bindE_Ok_iff split: prod.splits)
  have meta: "vmc_Meta cfg1 = vmc_Meta cfg" "vmc_Spec cfg1 = vmc_Spec cfg"
    using reconcileVMSSVM_Ok [OF one] by (auto split: if_splits)
  then have names: "managedSubresourceName cfg1 = managedSubresourceName cfg"
    "getVMSSResourceGroup cfg1 = getVMSSResourceGroup cfg"
    by (simp_all add: managedSubresourceName_def getVMSSResourceGroup_def)
  obtain nics where s1: "model s1 = model s" "inst s1 = (inst s)(vm_id x \<mapsto> nics)"
    "nics_goal (managedSubresourceName cfg) prefix pool want nics"
    using reconcileVMSSVM_establishes [OF Cons.prems(1) one] Cons.prems(4) by auto
  have "\<forall>y\<in>set xs. inst s1 (vm_id y) = Some (nicsOf_vm y) \<and> nics_inv (nicsOf_vm y)"
    using Cons.prems(3,4) s1(2) by (auto simp: image_iff)
  with Cons.IH [of cfg1 ips1 s1] Cons.prems(1,3) rest
  have IH: "model s' = model s1" "\<forall>i. i \<notin> vm_id ` set xs \<longrightarrow> inst s' i = inst s1 i"
    "\<forall>y\<in>set xs. \<exists>nics. inst s' (vm_id y) = Some nics \<and> nics_goal (managedSubresourceName cfg) prefix pool want nics"
    by (auto simp: names)
  moreover have "inst s' (vm_id x) = Some nics" using IH(2) Cons.prems(3) s1(2) by simp
  ultimately show ?case using s1 by auto
qed (auto simp: vmss_loop_def)

lemma reconcileVMSS_stores:
  fixes az :: "'s AzureManager"
  assumes laws: "vmss_laws az k (getVMSSResourceGroup cfg) (valS (vs_Name vm)) model inst"
    and run: "reconcileVMSS k az cfg vm prefix want s = (Ok res, s')"
    and st: "model s = nicsOf_vmss vm" "nics_inv (model s)" "insts_ok (inst s)"
  shows "\<exists>p. vs_Properties vm = Some p \<and> (let pool = valS (GetLBBackendAddressPoolID az (valS (vsp_UniqueID p)))
    in nics_goal (managedSubresourceName cfg) prefix pool want (model s') \<and>
       insts_goal (managedSubresourceName cfg) prefix pool want (inst s'))"
proof -
  obtain ips cfg' where res: "res = (ips, cfg')" by (cases res)
  show ?thesis
  proof (rule reconcileVMSS_Ok [OF run [unfolded res]])
    fix p n pool nics instances cfg1 cfg2 s1 s2 s3 s4 need
    let ?rg = "getVMSSResourceGroup cfg" and ?name = "valS (vs_Name vm)" and ?sub = "managedSubresourceName cfg"
    assume p: "vs_Properties vm = Some p" "pool = valS (GetLBBackendAddressPoolID az (valS (vsp_UniqueID p)))"
      and n: "Option.bind (vsp_VirtualMachineProfile p) vmp_NetworkProfile = Some n"
      and step: "reconcileVMSSNetworkInterface ?sub prefix pool want (vnw_NetworkInterfaceConfigurations n) = Ok (need, nics)"
      and put: "if need then \<exists>x. CreateOrUpdateVMSS az ?rg ?name
          \<lparr>vs_Name = None, vs_Location = vs_Location vm, vs_Tags = Map.empty,
            vs_Properties = Some \<lparr>vsp_UniqueID = None, vsp_VirtualMachineProfile =
              Some \<lparr>vmp_NetworkProfile = Some (n\<lparr>vnw_NetworkInterfaceConfigurations := nics\<rparr>)\<rparr>\<rparr>\<rparr> s = (Ok x, s1)
        else s1 = s"
      and lst: "ListVMSSInstances az ?rg ?name s1 = (Ok instances, s2)"
      and loop: "vmss_loop az ?name prefix pool want ([], cfg) instances s2 = (Ok (ips, cfg1), s3)"
      and upd: "kStatusUpdate (k_VMC k) cfg2 s3 = (Ok cfg', s4)" "s' = s4"
    have nics0: "vnw_NetworkInterfaceConfigurations n = model s" using st(1) p(1) n by (simp add: nicsOf_vmss_def)
    have goal: "nics_goal ?sub prefix pool want nics"
      using reconcile_nics_step [of _ ?sub prefix pool want need nics] step st(2) by (simp add: nics0)
    have s1: "model s1 = nics" "insts_ok (inst s1)"
    proof -
      have "model s1 = nics \<and> insts_ok (inst s1)"
      proof (cases need)
        case True
        with put obtain x y where "CreateOrUpdateVMSS az ?rg ?name y s = (Ok x, s1)" "nicsOf_vmss y = nics"
          by (auto simp: nicsOf_vmss_def)
        with triple_OkD [OF vmss_laws_calls(1) [OF laws] st(3)] show ?thesis by simp
      next
        case False
        with put step st(3) reconcile_nics_False [OF st(2), of ?sub prefix pool want nics] show ?thesis
          by (simp add: nics0)
      qed
      then show "model s1 = nics" "insts_ok (inst s1)" by auto
    qed
    have s2: "model s2 = nics" "inst s2 = inst s1" "inst s1 = map_of (map (\<lambda>x. (vm_id x, nicsOf_vm x)) instances)"
      "distinct (map vm_id instances)"
      using triple_OkD [OF vmss_laws_calls(3) [OF laws, of "model s1" "inst s1"] _ lst] s1 by auto
    have each: "\<forall>x\<in>set instances. inst s2 (vm_id x) = Some (nicsOf_vm x) \<and> nics_inv (nicsOf_vm x)"
    proof
      fix x assume "x \<in> set instances"
      then have "inst s1 (vm_id x) = Some (nicsOf_vm x)"
        using s2(4) by (simp add: s2(3) map_of_eq_Some_iff comp_def)
      with s1(2) s2(2) show "inst s2 (vm_id x) = Some (nicsOf_vm x) \<and> nics_inv (nicsOf_vm x)"
        by (auto simp: insts_ok_def)
    qed
    note looped = vmss_loop_establishes [OF laws loop s2(4) each]
    have outside: "inst s2 i = None" if "i \<notin> vm_id ` set instances" for i
      using that by (auto simp: s2(2,3) map_of_eq_None_iff image_image)
    have "insts_goal ?sub prefix pool want (inst s3)"
      unfolding insts_goal_def
    proof (intro allI impI)
      fix i nics assume "inst s3 i = Some nics"
      with looped outside show "nics_goal ?sub prefix pool want nics"
        by (cases "i \<in> vm_id ` set instances") auto
    qed
    moreover have "model s4 = model s3" "inst s4 = inst s3"
      using reads_view [OF vmss_laws_calls(5) [OF laws] upd(1)] by auto
    ultimately show ?thesis using p goal s2(1) looped upd(2) by (simp add: Let_def)
  qed
qed

end
