(* ===== verification/VM_Prefix.thy ===== *)
theory VM_Prefix
  imports VMSS_State
begin

text \<open>
  Public IP prefixes of the VM controller, and its deletion handler: the finalizer of a
  configuration is released only after the scale set, its instances and the managed prefix are
  clean.
\<close>

section \<open>The stored prefixes\<close>

text \<open>
  What the controller relies on: a read returns the stored prefix, and the error of status 404
  means that there is none; a write stores a prefix of the requested length; a deletion that
  succeeds removes the prefix. Keys are resource groups with names.
\<close>

type_synonym prefix_store = "string \<times> string \<Rightarrow> ip_prefix option"

definition prefix_echo :: "ip_prefix \<Rightarrow> ip_prefix \<Rightarrow> bool" where
  "prefix_echo x y \<longleftrightarrow> (case (ipx_Properties x, ipx_Properties y) of
     (Some p, Some q) \<Rightarrow> ipp_PrefixLength q = ipp_PrefixLength p | _ \<Rightarrow> False)"

definition prefix_laws :: "'s AzureManager \<Rightarrow> ('s \<Rightarrow> prefix_store) \<Rightarrow> bool" where
  "prefix_laws az view \<longleftrightarrow>
     (\<forall>rg n v. triple (\<lambda>s. view s = v) (PublicIPPrefixClient_Get az rg n)
        (\<lambda>x s. view s = v \<and> v (rg, n) = Some x)
        (\<lambda>e s. view s = v \<and> (isErrorNotFound e \<longrightarrow> v (rg, n) = None)) (\<lambda>_. False)) \<and>
     (\<forall>rg n x v. triple (\<lambda>s. \<forall>k. k \<noteq> (rg, n) \<longrightarrow> view s k = v k) (PublicIPPrefixClient_CreateOrUpdate az rg n x)
        (\<lambda>y s. view s = v((rg, n) \<mapsto> y) \<and> prefix_echo x y)
        (\<lambda>_ s. \<forall>k. k \<noteq> (rg, n) \<longrightarrow> view s k = v k) (\<lambda>_. False)) \<and>
     (\<forall>rg n v. triple (\<lambda>s. \<forall>k. k \<noteq> (rg, n) \<longrightarrow> view s k = v k) (PublicIPPrefixClient_Delete az rg n)
        (\<lambda>_ s. view s = v((rg, n) := None))
        (\<lambda>_ s. \<forall>k. k \<noteq> (rg, n) \<longrightarrow> view s k = v k) (\<lambda>_. False)) \<and>
     (\<forall>b n s. view (clk_sleep (az_clock az) b n s) = view s)"

lemma prefix_laws_calls:
  assumes "prefix_laws az view"
  shows "triple (\<lambda>s. view s = v) (GetPublicIPPrefix az rg n)
      (\<lambda>x s. view s = v \<and> v (defaultRG az rg, n) = Some x)
      (\<lambda>e s. view s = v \<and> (isErrorNotFound e \<longrightarrow> v (defaultRG az rg, n) = None)) (\<lambda>_. False)"
    and "triple (\<lambda>s. view s = v) (CreateOrUpdatePublicIPPrefix az rg n x)
      (\<lambda>y s. view s = v((defaultRG az rg, n) \<mapsto> y) \<and> prefix_echo x y) (\<lambda>_ _. True) (\<lambda>_. False)"
    and "triple (\<lambda>s. view s = v) (DeletePublicIPPrefix az rg n)
      (\<lambda>_ s. view s = v((defaultRG az rg, n) := None)) (\<lambda>_ _. True) (\<lambda>_. False)"
proof -
  have sleep: "view (clk_sleep (az_clock az) b n s) = view s" for b n s
    using assms by (simp add: prefix_laws_def)
  have get: "triple (\<lambda>s. view s = v) (PublicIPPrefixClient_Get az g n)
        (\<lambda>x s. view s = v \<and> v (g, n) = Some x)
        (\<lambda>e s. view s = v \<and> (isErrorNotFound e \<longrightarrow> v (g, n) = None)) (\<lambda>_. False)"
    and put: "triple (\<lambda>s. \<forall>k. k \<noteq> (g, n) \<longrightarrow> view s k = v k) (PublicIPPrefixClient_CreateOrUpdate az g n x)
        (\<lambda>y s. view s = v((g, n) \<mapsto> y) \<and> prefix_echo x y)
        (\<lambda>_ s. \<forall>k. k \<noteq> (g, n) \<longrightarrow> view s k = v k) (\<lambda>_. False)"
    and del: "triple (\<lambda>s. \<forall>k. k \<noteq> (g, n) \<longrightarrow> view s k = v k) (PublicIPPrefixClient_Delete az g n)
        (\<lambda>_ s. view s = v((g, n) := None))
        (\<lambda>_ s. \<forall>k. k \<noteq> (g, n) \<longrightarrow> view s k = v k) (\<lambda>_. False)" for g n x v
    using assms unfolding prefix_laws_def by blast+
  have nf: "\<not> isErrorNotFound (ErrMsg m)" "e \<in> retry_errors \<Longrightarrow> \<not> isErrorNotFound e" for e m
    by (auto simp: retry_errors_def isErrorNotFound_def)
  show "triple (\<lambda>s. view s = v) (GetPublicIPPrefix az rg n)
      (\<lambda>x s. view s = v \<and> v (defaultRG az rg, n) = Some x)
      (\<lambda>e s. view s = v \<and> (isErrorNotFound e \<longrightarrow> v (defaultRG az rg, n) = None)) (\<lambda>_. False)"
    unfolding GetPublicIPPrefix_def
    by (intro triple_if triple_fail triple_conseq [OF wrapRetry_triple [OF get]]) (auto simp: sleep nf)
  show "triple (\<lambda>s. view s = v) (CreateOrUpdatePublicIPPrefix az rg n x)
      (\<lambda>y s. view s = v((defaultRG az rg, n) \<mapsto> y) \<and> prefix_echo x y) (\<lambda>_ _. True) (\<lambda>_. False)"
    unfolding CreateOrUpdatePublicIPPrefix_def
    by (intro triple_if triple_fail triple_conseq [OF wrapRetry_triple [OF put]]) (auto simp: sleep)
  show "triple (\<lambda>s. view s = v) (DeletePublicIPPrefix az rg n)
      (\<lambda>_ s. view s = v((defaultRG az rg, n) := None)) (\<lambda>_ _. True) (\<lambda>_. False)"
    unfolding DeletePublicIPPrefix_def
    by (intro triple_if triple_fail triple_conseq [OF wrapRetry_triple [OF del]]) (auto simp: sleep)
qed

section \<open>Provisioning\<close>

text \<open>The prefix that is returned, by the three ways in which a configuration asks for one.\<close>

definition prefix_values :: "ip_prefix \<Rightarrow> string \<Rightarrow> string \<Rightarrow> bool" where
  "prefix_values px ipPrefix ipPrefixID \<longleftrightarrow> (case ipx_Properties px of None \<Rightarrow> False
     | Some p \<Rightarrow> ipPrefix = valS (ipp_IPPrefix p) \<and> ipPrefixID = valS (ipx_ID px))"

definition prefix_length :: "ip_prefix \<Rightarrow> int32" where
  "prefix_length px = (case ipx_Properties px of None \<Rightarrow> 0 | Some p \<Rightarrow> Val 0 (ipp_PrefixLength p))"

definition prefix_provided :: "'s AzureManager \<Rightarrow> int32 \<Rightarrow> GatewayVMConfiguration \<Rightarrow> prefix_store \<Rightarrow> prefix_store
    \<Rightarrow> string \<times> string \<times> bool \<Rightarrow> bool" where
  "prefix_provided az len cfg v v' res \<longleftrightarrow> (case res of (ipPrefix, ipPrefixID, isManaged) \<Rightarrow>
     if \<not> vms_ProvisionPublicIps (vmc_Spec cfg) then ipPrefix = '''' \<and> ipPrefixID = '''' \<and> \<not> isManaged \<and> v' = v
     else if vms_PublicIpPrefixId (vmc_Spec cfg) \<noteq> '''' then \<not> isManaged \<and> v' = v \<and>
       (\<exists>rg n px. search_re publicIPPrefixRE (vms_PublicIpPrefixId (vmc_Spec cfg)) = Some [SubscriptionID az, rg, n] \<and>
          v (defaultRG az rg, n) = Some px \<and> prefix_values px ipPrefix ipPrefixID \<and> prefix_length px = len)
     else isManaged \<and> (\<exists>px. v' = v((ResourceGroup az, managedSubresourceName cfg) \<mapsto> px) \<and>
       prefix_values px ipPrefix ipPrefixID \<and>
       (case v (ResourceGroup az, managedSubresourceName cfg) of Some old \<Rightarrow> px = old | None \<Rightarrow> prefix_length px = len)))"

lemma triple_frame_pure:
  "triple P m Q E N \<Longrightarrow> triple (\<lambda>s. P s \<and> c) m (\<lambda>a s. Q a s \<and> c) E N"
  by (cases c) (auto simp: triple_def)

lemma keeps_case_app: "(\<And>a b. keeps I (f a b x)) \<Longrightarrow> keeps I ((case p of (a, b) \<Rightarrow> f a b) x)"
  by (cases p) simp

lemma triple_case_list3:
  assumes "\<And>a b c. gs = Some [a, b, c] \<Longrightarrow> triple P (f a b c) Q E N" and "triple P m Q E N"
  shows "triple P (case gs of Some [a, b, c] \<Rightarrow> f a b c | _ \<Rightarrow> m) Q E N"
  using assms by (auto split: option.splits list.splits)

lemma defaultRG_Nil [simp]: "defaultRG az '''' = ResourceGroup az"
  by (simp add: defaultRG_def)

lemma unmanagedIPPrefix_triple:
  assumes "prefix_laws az view"
  shows "triple (\<lambda>s. view s = v) (unmanagedIPPrefix az len i)
    (\<lambda>(ipPrefix, ipPrefixID, isManaged) s. \<not> isManaged \<and> view s = v \<and>
       (\<exists>rg n px. search_re publicIPPrefixRE i = Some [SubscriptionID az, rg, n] \<and>
          v (defaultRG az rg, n) = Some px \<and> prefix_values px ipPrefix ipPrefixID \<and> prefix_length px = len))
    (\<lambda>_ s. view s = v) (\<lambda>_. False)"
  unfolding unmanagedIPPrefix_def
proof (intro triple_case_list3 triple_fail)
  fix sub rg n assume re: "search_re publicIPPrefixRE i = Some [sub, rg, n]"
  have get: "triple (\<lambda>s. view s = v) (wrapE m (GetPublicIPPrefix az rg n))
      (\<lambda>x s. view s = v \<and> v (defaultRG az rg, n) = Some x) (\<lambda>_ s. view s = v) (\<lambda>_. False)" for m
    by (rule triple_wrap, rule triple_conseq [OF prefix_laws_calls(1) [OF assms]]) auto
  show "triple (\<lambda>s. view s = v)
     (if sub \<noteq> SubscriptionID az then failE (ErrMsg ''public ip prefix subscription is not in the same subscription'')
      else bindE (wrapE ''failed to get public ip prefix'' (GetPublicIPPrefix az rg n)) (\<lambda>ipPrefix.
        case ipx_Properties ipPrefix of None \<Rightarrow> failE (ErrMsg ''public ip prefix has empty properties'')
        | Some p \<Rightarrow> if Val 0 (ipp_PrefixLength p) \<noteq> len
            then failE (ErrMsg ''provided public ip prefix has invalid length'')
            else retE (valS (ipp_IPPrefix p), valS (ipx_ID ipPrefix), False)))
    (\<lambda>(ipPrefix, ipPrefixID, isManaged) s. \<not> isManaged \<and> view s = v \<and>
       (\<exists>rg n px. search_re publicIPPrefixRE i = Some [SubscriptionID az, rg, n] \<and>
          v (defaultRG az rg, n) = Some px \<and> prefix_values px ipPrefix ipPrefixID \<and> prefix_length px = len))
    (\<lambda>_ s. view s = v) (\<lambda>_. False)"
    by (intro triple_if triple_bind [OF get] triple_case_option triple_fail triple_ret)
      (auto simp: re prefix_values_def prefix_length_def)
qed auto

lemma managedIPPrefix_triple:
  fixes az :: "'s AzureManager" and n :: string
  assumes "prefix_laws az view"
  defines "key \<equiv> (ResourceGroup az, n)"
  shows "triple (\<lambda>s. view s = v) (managedIPPrefix az len n)
    (\<lambda>(ipPrefix, ipPrefixID, isManaged) s. isManaged \<and> (\<exists>px. view s = v(key \<mapsto> px) \<and>
       prefix_values px ipPrefix ipPrefixID \<and>
       (case v key of Some old \<Rightarrow> px = old | None \<Rightarrow> prefix_length px = len))) (\<lambda>_ _. True) (\<lambda>_. False)"
proof -
  have get: "triple (\<lambda>s. view s = v) (GetPublicIPPrefix az '''' n) (\<lambda>x s. view s = v \<and> v key = Some x)
      (\<lambda>e s. view s = v \<and> (isErrorNotFound e \<longrightarrow> v key = None)) (\<lambda>_. False)"
    using prefix_laws_calls(1) [OF assms(1), of v "''''" n] by (simp add: key_def)
  have put: "triple (\<lambda>s. view s = v \<and> (isErrorNotFound e \<longrightarrow> v key = None))
      (wrapE m (CreateOrUpdatePublicIPPrefix az '''' n (newIPPrefix n (Location az) len)))
      (\<lambda>y s. (view s = v(key \<mapsto> y) \<and> prefix_length y = len \<and> ipx_Properties y \<noteq> None) \<and>
         (isErrorNotFound e \<longrightarrow> v key = None)) (\<lambda>_ _. True) (\<lambda>_. False)" for e m
  proof -
    have "triple (\<lambda>s. view s = v) (CreateOrUpdatePublicIPPrefix az '''' n (newIPPrefix n (Location az) len))
        (\<lambda>y s. view s = v(key \<mapsto> y) \<and> prefix_length y = len \<and> ipx_Properties y \<noteq> None) (\<lambda>_ _. True) (\<lambda>_. False)"
      by (rule triple_conseq [OF prefix_laws_calls(2) [OF assms(1), of v "''''" n]])
        (auto simp: key_def prefix_echo_def newIPPrefix_def prefix_length_def split: option.splits)
    then show ?thesis by (rule triple_frame_pure [OF triple_wrap])
  qed
  show ?thesis
    unfolding managedIPPrefix_def
    by (intro triple_try [OF get] triple_case_option triple_if triple_bind [OF put] triple_bind [OF triple_lift]
        triple_fail triple_ret)
      (auto simp: prefix_values_def fun_upd_idem split: option.splits)
qed

lemma ensurePublicIPPrefix_triple:
  assumes "prefix_laws az view"
  shows "triple (\<lambda>s. view s = v) (ensurePublicIPPrefix az len cfg)
    (\<lambda>res s. prefix_provided az len cfg v (view s) res) (\<lambda>_ _. True) (\<lambda>_. False)"
  unfolding ensurePublicIPPrefix_def Let_def
  by (intro triple_if triple_ret triple_conseq [OF unmanagedIPPrefix_triple [OF assms]]
      triple_conseq [OF managedIPPrefix_triple [OF assms]])
    (auto simp: prefix_provided_def split: prod.splits)

section \<open>Deletion\<close>

lemma checkIPs_keeps:
  assumes "\<And>n. keeps I (getNic n)"
  shows "keeps I (checkIPs getNic name nics ips)" and "keeps I (readIPs getNic name nics ips)"
proof -
  show "keeps I (checkIPs getNic name nics ips)"
  proof (induction nics arbitrary: ips)
    case (Cons nic nics)
    show ?case unfolding checkIPs.simps by (intro keeps_rules Cons assms)
  qed (simp add: keeps_ret)
  show "keeps I (readIPs getNic name nics ips)"
  proof (induction nics arbitrary: ips)
    case (Cons nic nics)
    show ?case unfolding readIPs.simps by (intro keeps_rules Cons assms)
  qed (simp add: keeps_ret)
qed

lemma reconcileVMSSVM_keeps: "az_keeps az I \<Longrightarrow> keeps I (reconcileVMSSVM az cfg n vm prefix pool want)"
  unfolding reconcileVMSSVM_def
  by (intro keeps_rules checkIPs_keeps az_keeps_calls) assumption+

lemma reconcileNIC_keeps: "az_keeps az I \<Longrightarrow> keeps I (reconcileNIC parse az cfg nic prefix pool want)"
  unfolding reconcileNIC_def
  by (intro keeps_rules az_keeps_calls) assumption+

lemma poolReconcile_keeps:
  assumes "az_keeps (vmr_AzureManager r) I" and "\<And>obj. keeps I (kStatusUpdate (k_VMC (vmr_Client r)) obj)"
  shows "keeps I (poolReconcile r p cfg prefix want)"
proof (cases p)
  case (AgentPoolVMSS vm)
  then show ?thesis
    unfolding poolReconcile_def reconcileVMSS_def
    by (simp, intro keeps_rules keeps_case_app reconcileVMSSVM_keeps az_keeps_calls assms)
next
  case (AgentPoolVMs n)
  then show ?thesis
    unfolding poolReconcile_def reconcileVMs_def
    by (simp, intro keeps_rules keeps_case_app reconcileNIC_keeps az_keeps_calls assms)
qed

lemma loadPool_VM_keeps: "az_keeps az I \<Longrightarrow> keeps I (loadPool_VM az cfg)"
  unfolding loadPool_VM_def
  by (intro keeps_rules az_keeps_calls) assumption+

lemma ensurePublicIPPrefixDeleted_keeps:
  "az_keeps az I \<Longrightarrow> keeps I (ensurePublicIPPrefixDeleted parse az cfg)"
  unfolding ensurePublicIPPrefixDeleted_def deletePrefixIPs_def
  by (intro keeps_rules az_keeps_calls) assumption+

text \<open>However the deletion of a prefix got there, once it succeeds the prefix is gone.\<close>

lemma ensurePublicIPPrefixDeleted_triple:
  assumes "prefix_laws az view"
  shows "triple (\<lambda>_. True) (ensurePublicIPPrefixDeleted parse az cfg)
    (\<lambda>_ s. view s (ResourceGroup az, managedSubresourceName cfg) = None) (\<lambda>_ _. True) (\<lambda>_. True)"
proof -
  let ?n = "managedSubresourceName cfg"
  have get: "triple (\<lambda>_. True) (GetPublicIPPrefix az '''' ?n) (\<lambda>_ _. True)
      (\<lambda>e s. isErrorNotFound e \<longrightarrow> view s (ResourceGroup az, ?n) = None) (\<lambda>_. True)"
    by (rule triple_ghost [of "\<lambda>_. True" view],
        rule triple_conseq [OF prefix_laws_calls(1) [OF assms, of _ "''''" ?n]]) auto
  have del: "triple (\<lambda>_. True) (wrapE m (DeletePublicIPPrefix az '''' ?n))
      (\<lambda>_ s. view s (ResourceGroup az, ?n) = None) (\<lambda>_ _. True) (\<lambda>_. True)" for m
    by (rule triple_wrap, rule triple_ghost [of "\<lambda>_. True" view],
        rule triple_conseq [OF prefix_laws_calls(3) [OF assms, of _ "''''" ?n]]) auto
  have any: "triple (\<lambda>_. True) m (\<lambda>_ _. True) (\<lambda>_ _. True) (\<lambda>_. True)" for m :: "('a, 'b) io"
    by (auto simp: triple_def split: prod.splits res.splits)
  show ?thesis
    unfolding ensurePublicIPPrefixDeleted_def Let_def
    by (intro triple_try [OF get] triple_bind [OF any] del triple_if triple_ret triple_fail) auto
qed

section \<open>The deletion handler\<close>

text \<open>
  \<open>fin\<close> says whether the stored configuration has the finalizer. The configuration names its
  scale set by resource group and name; \<open>uid\<close> is the unique identifier of the scale set.
\<close>

definition vmss_is :: "string \<Rightarrow> string \<Rightarrow> vmss \<Rightarrow> bool" where
  "vmss_is name uid vm \<longleftrightarrow> valS (vs_Name vm) = name \<and>
     (case vs_Properties vm of None \<Rightarrow> True | Some p \<Rightarrow> valS (vsp_UniqueID p) = uid)"

definition vm_delete_laws ::
  "'s GatewayVMConfigurationReconciler \<Rightarrow> string \<Rightarrow> string \<Rightarrow> string \<Rightarrow> ('s \<Rightarrow> prefix_store) \<Rightarrow> ('s \<Rightarrow> vmss_nic list)
    \<Rightarrow> ('s \<Rightarrow> string \<Rightarrow> vmss_nic list option) \<Rightarrow> ('s \<Rightarrow> bool) \<Rightarrow> bool"
where
  "vm_delete_laws r rg name uid view model inst fin \<longleftrightarrow> (let k = vmr_Client r; az = vmr_AzureManager r;
       scale = (\<lambda>s. (model s, inst s)) in
     prefix_laws az view \<and> vmss_laws az k rg name model inst \<and> status_echo k \<and> finalizer_laws (k_util k) \<and>
     az_keeps az fin \<and> (\<forall>obj. keeps fin (kStatusUpdate (k_VMC k) obj)) \<and>
     metrics_keep k (\<lambda>s. (view s, model s, inst s, fin s)) \<and>
     (\<forall>m f. triple (\<lambda>s. model s = m \<and> inst s = f) (VmssClient_Get az (defaultRG az rg) name)
        (\<lambda>vm s. model s = m \<and> inst s = f \<and> nicsOf_vmss vm = m \<and> vmss_is name uid vm)
        (\<lambda>_ s. model s = m \<and> inst s = f) (\<lambda>_. False)) \<and>
     (\<forall>g n. reads scale (PublicIPPrefixClient_Get az g n)) \<and> (\<forall>g n. reads scale (PublicIPPrefixClient_Delete az g n)) \<and>
     (\<forall>g n. reads scale (PublicIPClient_Delete az g n)) \<and>
     (\<forall>obj v m f. triple (\<lambda>s. view s = v \<and> (model s, inst s) = (m, f) \<and> fin s) (kUpdate (k_VMC k) obj)
        (\<lambda>_ s. view s = v \<and> (model s, inst s) = (m, f) \<and>
           (fin s \<longleftrightarrow> VMConfigFinalizerName \<in> set (om_Finalizers (vmc_Meta obj))))
        (\<lambda>_. fin) (\<lambda>_. False)))"

text \<open>The scale set and its instances no longer carry anything of the configuration.\<close>

definition scale_clean :: "GatewayVMConfiguration \<Rightarrow> string \<Rightarrow> vmss_nic list \<times> (string \<Rightarrow> vmss_nic list option) \<Rightarrow> bool" where
  "scale_clean cfg pool sc \<longleftrightarrow> nics_goal (managedSubresourceName cfg) '''' pool False (fst sc) \<and>
     insts_goal (managedSubresourceName cfg) '''' pool False (snd sc)"

lemma prefix_calls_read_scale:
  assumes "vm_delete_laws r rg name uid view model inst fin"
  shows "reads (\<lambda>s. (model s, inst s)) (GetPublicIPPrefix (vmr_AzureManager r) g n)"
    and "reads (\<lambda>s. (model s, inst s)) (DeletePublicIPPrefix (vmr_AzureManager r) g n)"
    and "reads (\<lambda>s. (model s, inst s)) (DeletePublicIP (vmr_AzureManager r) g n)"
proof -
  have sleep: "(model (clk_sleep (az_clock (vmr_AzureManager r)) b n s),
      inst (clk_sleep (az_clock (vmr_AzureManager r)) b n s)) = (model s, inst s)" for b n s
    using assms by (simp add: vm_delete_laws_def Let_def vmss_laws_def)
  show "reads (\<lambda>s. (model s, inst s)) (GetPublicIPPrefix (vmr_AzureManager r) g n)"
    "reads (\<lambda>s. (model s, inst s)) (DeletePublicIPPrefix (vmr_AzureManager r) g n)"
    "reads (\<lambda>s. (model s, inst s)) (DeletePublicIP (vmr_AzureManager r) g n)"
    using assms unfolding vm_delete_laws_def Let_def GetPublicIPPrefix_def DeletePublicIPPrefix_def DeletePublicIP_def
    by (intro reads_rules reads_wrapRetry sleep; simp)+
qed

lemma reads_keeps: "reads view m \<Longrightarrow> keeps (\<lambda>s. P (view s)) m"
  by (rule keepsI) (auto dest: reads_view)

lemma prefix_deleted_keeps_scale:
  assumes "vm_delete_laws r rg name uid view model inst fin"
  shows "keeps (\<lambda>s. P (model s, inst s)) (ensurePublicIPPrefixDeleted parse (vmr_AzureManager r) cfg)"
  unfolding ensurePublicIPPrefixDeleted_def deletePrefixIPs_def
  by (intro keeps_rules reads_keeps prefix_calls_read_scale [OF assms])

lemma GetVMSS_stored:
  assumes laws: "vm_delete_laws r rg name uid view model inst fin"
  defines "az \<equiv> vmr_AzureManager r"
  shows "triple (\<lambda>s. (nics_inv (model s) \<and> insts_ok (inst s)) \<and> fin s) (GetVMSS az rg name)
    (\<lambda>vm s. (nicsOf_vmss vm = model s \<and> vmss_is name uid vm \<and> nics_inv (model s) \<and> insts_ok (inst s)) \<and> fin s)
    (\<lambda>_. fin) fin"
proof -
  have get: "triple (\<lambda>s. model s = m \<and> inst s = f) (VmssClient_Get az (defaultRG az rg) name)
        (\<lambda>vm s. model s = m \<and> inst s = f \<and> nicsOf_vmss vm = m \<and> vmss_is name uid vm)
        (\<lambda>_ s. model s = m \<and> inst s = f) (\<lambda>_. False)" for m f
    using laws by (simp add: vm_delete_laws_def Let_def az_def)
  have sleep: "model (clk_sleep (az_clock az) b n s) = model s" "inst (clk_sleep (az_clock az) b n s) = inst s" for b n s
    using laws by (simp_all add: vm_delete_laws_def Let_def vmss_laws_def az_def)
  have fixed: "triple (\<lambda>s. model s = m \<and> inst s = f) (GetVMSS az rg name)
      (\<lambda>vm s. model s = m \<and> inst s = f \<and> nicsOf_vmss vm = m \<and> vmss_is name uid vm) (\<lambda>_ _. True) (\<lambda>_. True)" for m f
    unfolding GetVMSS_def
    by (intro triple_if triple_fail triple_conseq [OF wrapRetry_triple [OF get]]) (auto simp: sleep)
  have "triple (\<lambda>s. nics_inv (model s) \<and> insts_ok (inst s)) (GetVMSS az rg name)
      (\<lambda>vm s. nicsOf_vmss vm = model s \<and> vmss_is name uid vm \<and> nics_inv (model s) \<and> insts_ok (inst s))
      (\<lambda>_ _. True) (\<lambda>_. True)"
    by (rule triple_ghost2 [of "\<lambda>m f. nics_inv m \<and> insts_ok f" model inst], rule triple_conseq, rule fixed) auto
  moreover have "keeps fin (GetVMSS az rg name)"
    using laws by (intro az_keeps_calls) (simp add: vm_delete_laws_def Let_def az_def)
  ultimately have "triple (\<lambda>s. (nics_inv (model s) \<and> insts_ok (inst s)) \<and> fin s) (GetVMSS az rg name)
      (\<lambda>vm s. (nicsOf_vmss vm = model s \<and> vmss_is name uid vm \<and> nics_inv (model s) \<and> insts_ok (inst s)) \<and> fin s)
      (\<lambda>_ s. True \<and> fin s) (\<lambda>s. True \<and> fin s)"
    by (rule triple_both)
  then show ?thesis by simp
qed

lemma poolReconcile_cleans:
  assumes laws: "vm_delete_laws r rg name uid view model inst fin"
    and spec: "getVMSSResourceGroup cfg = rg" and vm: "vmss_is name uid vm"
  defines "az \<equiv> vmr_AzureManager r"
  shows "triple (\<lambda>s. (nicsOf_vmss vm = model s \<and> nics_inv (model s) \<and> insts_ok (inst s)) \<and> fin s)
    (poolReconcile r (AgentPoolVMSS vm) cfg '''' False)
    (\<lambda>(_, cfg') s. vmc_Meta cfg' = vmc_Meta cfg \<and>
       scale_clean cfg (valS (GetLBBackendAddressPoolID az uid)) (model s, inst s) \<and> fin s)
    (\<lambda>_. fin) fin"
proof -
  have sl: "vmss_laws az (vmr_Client r) rg name model inst" and echo: "status_echo (vmr_Client r)"
    and keep: "az_keeps az fin" "\<And>obj. keeps fin (kStatusUpdate (k_VMC (vmr_Client r)) obj)"
    using laws by (simp_all add: vm_delete_laws_def Let_def az_def)
  let ?pool = "valS (GetLBBackendAddressPoolID az uid)"
  have "vmc_Meta cfg' = vmc_Meta cfg \<and> scale_clean cfg ?pool (model s', inst s')"
    if run: "poolReconcile r (AgentPoolVMSS vm) cfg '''' False s = (Ok (ips, cfg'), s')"
      and st: "nicsOf_vmss vm = model s" "nics_inv (model s)" "insts_ok (inst s)" for s s' ips cfg'
  proof -
    have "reconcileVMSS (vmr_Client r) az cfg vm '''' False s = (Ok (ips, cfg'), s')"
      using run by (simp add: poolReconcile_def az_def)
    from reconcileVMSS_stores [OF _ this, of model inst] sl spec vm st
    have "scale_clean cfg ?pool (model s', inst s')"
      by (auto simp: scale_clean_def vmss_is_def Let_def split: option.splits)
    with pool.keeps_object [OF echo run] show ?thesis by simp
  qed
  then have "triple (\<lambda>s. nicsOf_vmss vm = model s \<and> nics_inv (model s) \<and> insts_ok (inst s))
      (poolReconcile r (AgentPoolVMSS vm) cfg '''' False)
      (\<lambda>(_, cfg') s. vmc_Meta cfg' = vmc_Meta cfg \<and> scale_clean cfg ?pool (model s, inst s)) (\<lambda>_ _. True) (\<lambda>_. True)"
    by (auto simp: triple_def split: prod.splits res.splits)
  from triple_both [OF this poolReconcile_keeps [OF keep [unfolded az_def], unfolded az_def [symmetric]]] show ?thesis
    by (rule triple_conseq) (auto split: prod.splits)
qed

lemma ensureDeleted_VM_triple:
  assumes laws: "vm_delete_laws r rg name uid view model inst fin"
    and spec: "vms_GatewayNodepoolName (vmc_Spec cfg) = ''''"
      "gvp_VmssResourceGroup (vms_GatewayVmssProfile (vmc_Spec cfg)) = rg"
      "gvp_VmssName (vms_GatewayVmssProfile (vmc_Spec cfg)) = name"
  defines "az \<equiv> vmr_AzureManager r"
  defines "clean \<equiv> (\<lambda>s. scale_clean cfg (valS (GetLBBackendAddressPoolID az uid)) (model s, inst s))"
  shows "triple (\<lambda>s. (nics_inv (model s) \<and> insts_ok (inst s)) \<and> fin s) (ensureDeleted_VM r cfg)
    (\<lambda>_ s. fin s \<or> clean s \<and> view s (ResourceGroup az, managedSubresourceName cfg) = None) (\<lambda>_. fin) fin"
proof -
  let ?k = "vmr_Client r" and ?key = "(ResourceGroup az, managedSubresourceName cfg)"
  have pl: "prefix_laws az view" and keep: "az_keeps az fin"
    and met: "metrics_keep ?k (\<lambda>s. (view s, model s, inst s, fin s))"
    using laws by (simp_all add: vm_delete_laws_def Let_def az_def)
  have upd: "triple (\<lambda>s. view s = v \<and> (model s, inst s) = sc \<and> fin s) (kUpdate (k_VMC ?k) obj)
      (\<lambda>_ s. view s = v \<and> (model s, inst s) = sc \<and>
         (fin s \<longleftrightarrow> VMConfigFinalizerName \<in> set (om_Finalizers (vmc_Meta obj)))) (\<lambda>_. fin) (\<lambda>_. False)" for obj v sc
    using laws by (cases sc) (simp add: vm_delete_laws_def Let_def)
  have rg: "getVMSSResourceGroup cfg = rg" using spec(2) by (auto simp: getVMSSResourceGroup_def)
  have L: "triple (\<lambda>s. (nics_inv (model s) \<and> insts_ok (inst s)) \<and> fin s) (loadPool_VM az cfg)
      (\<lambda>(p, _) s. \<exists>vm. p = AgentPoolVMSS vm \<and> vmss_is name uid vm \<and>
         (nicsOf_vmss vm = model s \<and> nics_inv (model s) \<and> insts_ok (inst s)) \<and> fin s) (\<lambda>_. fin) fin"
  proof -
    have load: "loadPool_VM az cfg = bindE (GetVMSS az rg name) (\<lambda>v. retE (AgentPoolVMSS v,
        gvp_PublicIpPrefixSize (vms_GatewayVmssProfile (vmc_Spec cfg))))"
      by (simp add: loadPool_VM_def Let_def spec)
    show ?thesis
      unfolding load by (rule triple_bind [OF GetVMSS_stored [OF laws, folded az_def]], rule triple_ret) auto
  qed
  have P: "triple (\<lambda>s. \<exists>vm. p = AgentPoolVMSS vm \<and> vmss_is name uid vm \<and>
        (nicsOf_vmss vm = model s \<and> nics_inv (model s) \<and> insts_ok (inst s)) \<and> fin s)
      (poolReconcile r p cfg '''' False) (\<lambda>(_, cfg') s. vmc_Meta cfg' = vmc_Meta cfg \<and> clean s \<and> fin s) (\<lambda>_. fin) fin" for p
    using poolReconcile_cleans [OF laws rg, folded az_def]
    by (cases p) (auto simp: triple_def clean_def)
  have D: "triple (\<lambda>s. vmc_Meta cfg' = vmc_Meta cfg \<and> clean s \<and> fin s)
      (ensurePublicIPPrefixDeleted (vmr_ParseResourceID r) az cfg')
      (\<lambda>_ s. view s ?key = None \<and> clean s \<and> fin s) (\<lambda>_. fin) fin" for cfg'
  proof (cases "vmc_Meta cfg' = vmc_Meta cfg")
    case True
    then have same: "managedSubresourceName cfg' = managedSubresourceName cfg" by (simp add: managedSubresourceName_def)
    show ?thesis
      using triple_both [OF triple_both [OF ensurePublicIPPrefixDeleted_triple [OF pl, of "vmr_ParseResourceID r" cfg']
          prefix_deleted_keeps_scale [OF laws, folded az_def]] ensurePublicIPPrefixDeleted_keeps [OF keep]]
      by (rule triple_conseq) (auto simp: same clean_def)
  qed (simp add: triple_def)
  have U: "triple (\<lambda>s. view s ?key = None \<and> clean s \<and> fin s) (kUpdate (k_VMC ?k) obj)
      (\<lambda>_ s. fin s \<or> clean s \<and> view s ?key = None) (\<lambda>_. fin) fin" for obj
    unfolding clean_def
    by (rule triple_ghost3 [of "\<lambda>v sc f. v ?key = None \<and> scale_clean cfg (valS (GetLBBackendAddressPoolID az uid)) sc \<and> f"
          view "\<lambda>s. (model s, inst s)" fin], rule triple_conseq, rule upd) auto
  let ?Q = "\<lambda>_ s. fin s \<or> clean s \<and> view s ?key = None"
  have DU: "triple (\<lambda>s. vmc_Meta cfg' = vmc_Meta cfg \<and> clean s \<and> fin s)
      (bindE (ensurePublicIPPrefixDeleted (vmr_ParseResourceID r) az cfg')
        (\<lambda>_. bindE (kUpdate (k_VMC ?k) obj) (\<lambda>_. retE ()))) ?Q (\<lambda>_. fin) fin" for cfg' obj
    by (rule triple_bind [OF D triple_bind [OF U triple_ret]]) auto
  have body: "triple (\<lambda>s. (nics_inv (model s) \<and> insts_ok (inst s)) \<and> fin s)
      (bindE (loadPool_VM az cfg) (\<lambda>(pool, _). bindE (poolReconcile r pool cfg '''' False) (\<lambda>(_, cfg').
        bindE (ensurePublicIPPrefixDeleted (vmr_ParseResourceID r) az cfg')
          (\<lambda>_. bindE (kUpdate (k_VMC ?k) (obj cfg')) (\<lambda>_. retE ()))))) ?Q (\<lambda>_. fin) fin" for obj
    by (rule triple_bind [OF L], unfold case_prod_beta, rule triple_bind [OF P], unfold case_prod_beta, rule DU)
  show ?thesis
    unfolding ensureDeleted_VM_def Let_def with_metrics_def az_def [symmetric]
    using metrics_keep_observe [OF met]
    by (intro triple_if triple_fin triple_ret triple_conseq [OF body]) (auto simp: clean_def)
qed

end
