(* ===== verification/VM_World.thy ===== *)
theory VM_World
  imports VM_Prefix LB_World
begin

text \<open>
  A concrete Azure for the VM controller: one scale set with two instances, the public IP
  prefixes of a subscription, and the finalizer of one \<open>GatewayVMConfiguration\<close>. It satisfies the
  laws under which the controller is verified.
\<close>

record vm_world =
  vw_model :: "vmss_nic list"
  vw_0 :: "vmss_nic list"
  vw_1 :: "vmss_nic list"
  vw_prefixes :: prefix_store
  vw_fin :: bool

definition vw_inst :: "vm_world \<Rightarrow> string \<Rightarrow> vmss_nic list option" where
  "vw_inst s i = (if i = ''0'' then Some (vw_0 s) else if i = ''1'' then Some (vw_1 s) else None)"

section \<open>Resources\<close>

definition primary_config :: vmss_ipconfig where
  "primary_config = \<lparr>vic_Name = Some ''ipconfig1'', vic_Properties = Some \<lparr>vip_Primary = Some True,
     vip_PrivateIPAddressVersion = Some ''IPv4'', vip_PublicIPAddressConfiguration = None,
     vip_Subnet = Some \<lparr>sr_ID = Some ''subnet-id''\<rparr>, vip_LoadBalancerBackendAddressPools = []\<rparr>\<rparr>"

definition plain_nic :: vmss_nic where
  "plain_nic = \<lparr>vn_Name = Some ''nic0'', vn_Properties = Some \<lparr>vnp_Primary = Some True,
     vnp_IPConfigurations = [primary_config]\<rparr>\<rparr>"

definition second_nic :: vmss_nic where
  "second_nic = \<lparr>vn_Name = Some ''nic1'', vn_Properties = Some \<lparr>vnp_Primary = Some False,
     vnp_IPConfigurations = []\<rparr>\<rparr>"

definition world_vmss :: "vm_world \<Rightarrow> vmss" where
  "world_vmss s = \<lparr>vs_Name = Some ''vmss'', vs_Location = Some ''eastus'', vs_Tags = Map.empty,
     vs_Properties = Some \<lparr>vsp_UniqueID = Some ''pool'', vsp_VirtualMachineProfile = Some \<lparr>vmp_NetworkProfile =
       Some \<lparr>vnw_NetworkInterfaceConfigurations = vw_model s\<rparr>\<rparr>\<rparr>\<rparr>"

definition world_vm :: "string \<Rightarrow> vmss_nic list \<Rightarrow> vmss_vm" where
  "world_vm i nics = \<lparr>vv_ID = None, vv_InstanceID = Some i, vv_Properties = Some \<lparr>
     vvp_NetworkProfileConfiguration = Some \<lparr>vnw_NetworkInterfaceConfigurations = nics\<rparr>,
     vvp_OSProfile = Some \<lparr>os_ComputerName = Some (''node'' @ i)\<rparr>, vvp_ProvisioningState = Some ''Succeeded''\<rparr>\<rparr>"

definition world_vms :: "vm_world \<Rightarrow> vmss_vm list" where
  "world_vms s = [world_vm ''0'' (vw_0 s), world_vm ''1'' (vw_1 s)]"

definition ip_config :: "string \<Rightarrow> bool \<Rightarrow> string \<Rightarrow> nic_ipconfig option" where
  "ip_config name prim ip = Some \<lparr>nic_Name = Some name, nic_Properties = Some \<lparr>nip_Primary = Some prim,
     nip_PrivateIPAddressVersion = Some ''IPv4'', nip_PrivateIPAddress = Some ip, nip_Subnet = None,
     nip_PublicIPAddress = None, nip_LoadBalancerBackendAddressPools = []\<rparr>\<rparr>"

definition world_interface :: "string \<Rightarrow> interface" where
  "world_interface i = \<lparr>if_ID = None, if_Name = Some ''nic0'', if_Tags = Map.empty, if_Properties = Some \<lparr>
     ifp_ProvisioningState = Some ''Succeeded'', ifp_IPConfigurations =
       Some [ip_config ''ipconfig1'' True (''10.1.0.'' @ i), ip_config ''egressgateway-uid'' False (''10.2.0.'' @ i)]\<rparr>\<rparr>"

text \<open>Azure gives a new prefix an identifier and addresses.\<close>

definition fill_prefix :: "string \<Rightarrow> ip_prefix \<Rightarrow> ip_prefix option" where
  "fill_prefix n x = map_option (\<lambda>p. x\<lparr>ipx_ID := Some (''/prefixes/'' @ n),
     ipx_Properties := Some (p\<lparr>ipp_IPPrefix := Some ''1.2.3.4/31''\<rparr>)\<rparr>) (ipx_Properties x)"

definition vm_az :: "vm_world AzureManager" where
  "vm_az = offline_az\<lparr>
     VmssClient_Get := (\<lambda>_ _ s. (Ok (world_vmss s), s)),
     VmssClient_CreateOrUpdate := (\<lambda>_ _ x s. (Ok x, s\<lparr>vw_model := nicsOf_vmss x\<rparr>)),
     VmssVMClient_List := (\<lambda>_ _ s. (Ok (world_vms s), s)),
     VmssVMClient_Update := (\<lambda>_ _ i x s. if i = ''0'' then (Ok x, s\<lparr>vw_0 := nicsOf_vm x\<rparr>)
       else if i = ''1'' then (Ok x, s\<lparr>vw_1 := nicsOf_vm x\<rparr>) else (Err (RespErr ''NotFound'' 404 ''not found''), s)),
     InterfaceClient_GetVMSS := (\<lambda>_ _ i _. retE (world_interface i)),
     PublicIPPrefixClient_Get := (\<lambda>rg n s. case vw_prefixes s (rg, n) of Some x \<Rightarrow> (Ok x, s)
       | None \<Rightarrow> (Err (RespErr ''NotFound'' 404 ''not found''), s)),
     PublicIPPrefixClient_CreateOrUpdate := (\<lambda>rg n x s. case fill_prefix n x of
         Some y \<Rightarrow> (Ok y, s\<lparr>vw_prefixes := (vw_prefixes s)((rg, n) \<mapsto> y)\<rparr>)
       | None \<Rightarrow> (Err (RespErr ''InvalidResource'' 400 ''bad request''), s)),
     PublicIPPrefixClient_Delete := (\<lambda>rg n s. (Ok (), s\<lparr>vw_prefixes := (vw_prefixes s)((rg, n) := None)\<rparr>)),
     PublicIPClient_Delete := (\<lambda>_ _. retE ())\<rparr>"

definition vm_kube :: "vm_world kube" where
  "vm_kube = offline_kube\<lparr>k_VMC := offline_client\<lparr>kStatusUpdate := retE,
     kUpdate := (\<lambda>obj s. (Ok obj, s\<lparr>vw_fin := VMConfigFinalizerName \<in> set (om_Finalizers (vmc_Meta obj))\<rparr>))\<rparr>\<rparr>"

definition vm_r :: "vm_world GatewayVMConfigurationReconciler" where
  "vm_r = \<lparr>vmr_Client = vm_kube, vmr_AzureManager = vm_az, vmr_NewMD5 = (\<lambda>x. x), vmr_ParseResourceID = Ok\<rparr>"

definition vm_cfg :: GatewayVMConfiguration where
  "vm_cfg = \<lparr>vmc_Meta = (new_meta ''ns'' ''gw'')\<lparr>om_UID := ''uid'', om_Finalizers := [VMConfigFinalizerName]\<rparr>,
     vmc_Spec = \<lparr>vms_GatewayNodepoolName = '''', vms_GatewayVmssProfile =
       \<lparr>gvp_VmssResourceGroup = ''rg'', gvp_VmssName = ''vmss'', gvp_PublicIpPrefixSize = 31\<rparr>,
       vms_ProvisionPublicIps = True, vms_PublicIpPrefixId = ''''\<rparr>, vmc_Status = None\<rparr>"

definition vm_start :: vm_world where
  "vm_start = \<lparr>vw_model = [plain_nic, second_nic], vw_0 = [plain_nic], vw_1 = [plain_nic, second_nic],
     vw_prefixes = Map.empty, vw_fin = True\<rparr>"

section \<open>Its laws\<close>

lemma vm_simps [simp]: "vmr_Client vm_r = vm_kube" "vmr_AzureManager vm_r = vm_az" "az_clock vm_az = demo_clock"
  "defaultRG vm_az ''rg'' = ''rg''" "ResourceGroup vm_az = ''rg''"
  by (simp_all add: vm_r_def vm_az_def offline_az_def defaultRG_def ResourceGroup_def demo_cloud_def)

lemma vm_clock [simp]: "clk_sleep demo_clock b n s = s" "az_clock offline_az = demo_clock"
  by (simp_all add: demo_clock_def offline_az_def)

lemma nicsOf_simps [simp]:
  "nicsOf_vm (world_vm i nics) = nics" "vm_id (world_vm i nics) = i" "nicsOf_vmss (world_vmss s) = vw_model s"
  by (simp_all add: nicsOf_vm_def world_vm_def vm_id_def nicsOf_vmss_def world_vmss_def)

lemma vw_inst_map: "vw_inst s = map_of (map (\<lambda>x. (vm_id x, nicsOf_vm x)) (world_vms s))"
  by (auto simp: vw_inst_def world_vms_def)

lemma vm_vmss_laws: "vmss_laws vm_az vm_kube ''rg'' ''vmss'' vw_model vw_inst"
  unfolding vmss_laws_def
  by (auto simp: vm_az_def vm_kube_def triple_def reads_def retE_def vw_inst_map [symmetric] world_vms_def
      insts_ok_def vw_inst_def fun_eq_iff)

lemma vm_prefix_laws: "prefix_laws vm_az vw_prefixes"
  unfolding prefix_laws_def
  by (auto simp: vm_az_def triple_def fill_prefix_def prefix_echo_def isErrorNotFound_def fun_eq_iff split: option.splits)

lemma vm_az_keeps: "az_keeps vm_az vw_fin"
  unfolding az_keeps_def vm_az_def
  by (simp add: offline_az_def no_call_def triple_def go_simps split: option.split)

lemma vm_kube_calls: "status_echo vm_kube" "keeps vw_fin (kStatusUpdate (k_VMC vm_kube) obj)"
  "finalizer_laws (k_util vm_kube)" "metrics_keep vm_kube (\<lambda>s. (vw_prefixes s, vw_model s, vw_inst s, vw_fin s))"
  by (simp_all add: vm_kube_def offline_kube_def status_echo_def triple_def retE_def finalizer_laws_def
      demo_util_def metrics_keep_def)

lemma vm_deletes: "vm_delete_laws vm_r ''rg'' ''vmss'' ''pool'' vw_prefixes vw_model vw_inst vw_fin"
  unfolding vm_delete_laws_def Let_def vm_simps
  using vm_prefix_laws vm_vmss_laws vm_az_keeps vm_kube_calls
  by (auto simp: vm_az_def vm_kube_def triple_def reads_def retE_def vmss_is_def world_vmss_def nicsOf_vmss_def
      vw_inst_def fun_eq_iff split: option.splits)

end
