(* ===== verification/Resource_ID.thy ===== *)
theory Resource_ID
  imports VM_Controller
begin

text \<open>
  The expression that takes apart the resource identifier of a public IP prefix. The matcher is
  sound and complete for the shape of the pattern, and on identifiers of Azure's form it returns
  exactly the subscription, the resource group and the name.
\<close>

section \<open>The shape of a match\<close>

text \<open>\<open>re_shape rs s gs\<close>: a prefix of \<open>s\<close> has the shape \<open>rs\<close> with groups \<open>gs\<close>; a group at the end of the pattern is as long as it can be.\<close>

fun re_shape :: "re_item list \<Rightarrow> string \<Rightarrow> string list \<Rightarrow> bool" where
  "re_shape [] s gs \<longleftrightarrow> gs = []"
| "re_shape (RLit l # rs) s gs \<longleftrightarrow> (\<exists>a b. s = a @ b \<and> EqualFold a l \<and> re_shape rs b gs)"
| "re_shape (RAny # rs) s gs \<longleftrightarrow> (\<exists>c b. s = c # b \<and> c \<noteq> line_feed \<and> re_shape rs b gs)"
| "re_shape (RStar # rs) s gs \<longleftrightarrow> (\<exists>a b. s = a @ b \<and> line_feed \<notin> set a \<and> re_shape rs b gs)"
| "re_shape (RGroup # rs) s gs \<longleftrightarrow> (\<exists>a b hs. s = a @ b \<and> a \<noteq> [] \<and> line_feed \<notin> set a \<and> gs = a # hs \<and>
     re_shape rs b hs \<and> (rs = [] \<longrightarrow> a = takeWhile (\<lambda>c. c \<noteq> line_feed) s))"

lemma first_some_Some: "first_some xs = Some y \<Longrightarrow> Some y \<in> set xs"
  by (induction xs) (auto split: option.splits)

lemma first_some_None: "first_some xs = None \<longleftrightarrow> set xs \<subseteq> {None}"
  by (induction xs) (auto split: option.splits)

lemma dot_lengths_set: "n \<in> set (dot_lengths s) \<longleftrightarrow> n \<le> length s \<and> line_feed \<notin> set (take n s)"
proof -
  have "n \<le> length (takeWhile (\<lambda>c. c \<noteq> line_feed) s) \<longleftrightarrow> n \<le> length s \<and> line_feed \<notin> set (take n s)"
  proof (induction s arbitrary: n)
    case (Cons c s)
    then show ?case by (cases n) auto
  qed auto
  then show ?thesis by (auto simp: dot_lengths_def)
qed

lemma dot_lengths_hd:
  "dot_lengths s = length (takeWhile (\<lambda>c. c \<noteq> line_feed) s) # rev [0..<length (takeWhile (\<lambda>c. c \<noteq> line_feed) s)]"
  by (simp add: dot_lengths_def)

lemma match_re_sound: "match_re rs s = Some gs \<Longrightarrow> re_shape rs s gs"
proof (induction rs s arbitrary: gs rule: match_re.induct)
  case (2 l rs s)
  then have "s = take (length l) s @ drop (length l) s" "EqualFold (take (length l) s) l" "re_shape rs (drop (length l) s) gs"
    by (auto split: if_splits)
  then show ?case by (metis re_shape.simps(2))
next
  case (4 rs s)
  then obtain n where n: "n \<in> set (dot_lengths s)" "match_re rs (drop n s) = Some gs"
    by (auto dest!: first_some_Some)
  with 4(1) have "re_shape rs (drop n s) gs" by blast
  with n(1) show ?case
    by (metis re_shape.simps(4) append_take_drop_id dot_lengths_set)
next
  case (5 rs s)
  then have "Some gs \<in> set (map (\<lambda>n. if n = 0 then None
      else map_option ((#) (take n s)) (match_re rs (drop n s))) (dot_lengths s))"
    by (intro first_some_Some) simp
  then obtain n where "n \<in> set (dot_lengths s)"
    "Some gs = (if n = 0 then None else map_option ((#) (take n s)) (match_re rs (drop n s)))" by auto
  then have "n \<in> set (dot_lengths s)" "n \<noteq> 0" "map_option ((#) (take n s)) (match_re rs (drop n s)) = Some gs"
    by (auto split: if_splits)
  then obtain hs where n: "n \<in> set (dot_lengths s)" "n \<noteq> 0" "match_re rs (drop n s) = Some hs" "gs = take n s # hs"
    by auto
  with 5(1) have shape: "re_shape rs (drop n s) hs" by blast
  have "take n s = takeWhile (\<lambda>c. c \<noteq> line_feed) s" if "rs = []"
  proof -
    let ?t = "takeWhile (\<lambda>c. c \<noteq> line_feed) s"
    have "gs = [take (length ?t) s]"
      using 5(2) that n(1,2) by (auto simp: dot_lengths_hd split: if_splits)
    then show ?thesis using n(4) by (simp add: takeWhile_eq_take [symmetric])
  qed
  moreover have "take n s \<noteq> []" "line_feed \<notin> set (take n s)" using n(1,2) by (auto simp: dot_lengths_set)
  ultimately show ?case
    unfolding re_shape.simps using n(4) shape
    by - (rule exI [of _ "take n s"], rule exI [of _ "drop n s"], rule exI [of _ hs], simp)
qed (auto split: list.splits if_splits)

lemma match_re_complete: "re_shape rs s gs \<Longrightarrow> match_re rs s \<noteq> None"
proof (induction rs s gs rule: re_shape.induct)
  case (2 l rs s gs)
  then obtain a b where ab: "s = a @ b" "EqualFold a l" "re_shape rs b gs" by auto
  then have "take (length l) s = a" "drop (length l) s = b" by (simp_all add: EqualFold_length [OF ab(2), symmetric])
  with ab 2(1) show ?case by simp
next
  case (4 rs s gs)
  then obtain a b where ab: "s = a @ b" "line_feed \<notin> set a" "re_shape rs b gs" by auto
  then have "length a \<in> set (dot_lengths s)" "match_re rs (drop (length a) s) \<noteq> None"
    using 4(1) by (auto simp: dot_lengths_set)
  then show ?case by (auto simp: first_some_None image_subset_iff)
next
  case (5 rs s gs)
  then obtain a b hs where ab: "s = a @ b" "a \<noteq> []" "line_feed \<notin> set a" "re_shape rs b hs" by auto
  then have "length a \<in> set (dot_lengths s)" "match_re rs (drop (length a) s) \<noteq> None" "length a \<noteq> 0"
    using 5(1) by (auto simp: dot_lengths_set)
  then show ?case by (auto simp: first_some_None image_subset_iff)
qed (auto split: list.splits)

section \<open>Identifiers of public IP prefixes\<close>

definition prefix_id :: "string \<Rightarrow> string \<Rightarrow> string \<Rightarrow> string" where
  "prefix_id sub rg name = ''/subscriptions/'' @ sub @ ''/resourceGroups/'' @ rg @
     ''/providers/Microsoft.Network/publicIPPrefixes/'' @ name"

text \<open>A component of an identifier: not empty, on one line, without a slash.\<close>

definition id_part :: "string \<Rightarrow> bool" where
  "id_part s \<longleftrightarrow> s \<noteq> '''' \<and> CHR ''/'' \<notin> set s \<and> line_feed \<notin> set s"

lemma lower_slash: "lower_byte c = CHR ''/'' \<longleftrightarrow> c = CHR ''/''"
proof
  assume low: "lower_byte c = CHR ''/''"
  show "c = CHR ''/''"
  proof (rule ccontr)
    assume "c \<noteq> CHR ''/''"
    with low have up: "65 \<le> (of_char c :: nat)" "of_char c \<le> (90 :: nat)"
      and eq: "char_of (of_char c + 32 :: nat) = CHR ''/''"
      by (auto simp: lower_byte_def split: if_splits)
    from arg_cong [OF eq, of "of_char :: char \<Rightarrow> nat"] up show False by simp
  qed
qed (simp add: lower_byte_def)

definition slashes :: "string \<Rightarrow> nat" where
  "slashes s = length (filter (\<lambda>c. c = CHR ''/'') s)"

lemma slashes_append [simp]: "slashes (a @ b) = slashes a + slashes b"
  by (simp add: slashes_def)

lemma slashes_Cons: "slashes (c # s) = (if c = CHR ''/'' then Suc (slashes s) else slashes s)"
  by (simp add: slashes_def)

lemma slashes_zero: "slashes s = 0 \<longleftrightarrow> CHR ''/'' \<notin> set s"
  by (auto simp: slashes_def filter_empty_conv)

lemma slashes_EqualFold: "EqualFold a b \<Longrightarrow> slashes a = slashes b"
proof -
  have low: "slashes (ToLower s) = slashes s" for s
    by (induction s) (auto simp: slashes_def ToLower_def lower_slash)
  assume "EqualFold a b"
  then show ?thesis unfolding EqualFold_def using low by metis
qed

lemma slash_first: "EqualFold a (CHR ''/'' # l) \<Longrightarrow> \<exists>b. a = CHR ''/'' # b"
proof -
  assume eq: "EqualFold a (CHR ''/'' # l)"
  then obtain c b where a: "a = c # b" by (cases a) auto
  have "lower_byte c = lower_byte (CHR ''/'')" using eq by (simp add: a EqualFold_def ToLower_def)
  moreover have "lower_byte (CHR ''/'') = CHR ''/''" by (simp add: lower_byte_def)
  ultimately show ?thesis using a by (simp add: lower_slash)
qed

text \<open>Two texts split at their first slash.\<close>

lemma split_slash:
  assumes "a @ CHR ''/'' # u = b @ CHR ''/'' # v" and "CHR ''/'' \<notin> set a" and "CHR ''/'' \<notin> set b"
  shows "a = b \<and> u = v"
proof -
  have t: "takeWhile (\<lambda>c. c \<noteq> CHR ''/'') (x @ CHR ''/'' # y) = x" if "CHR ''/'' \<notin> set x" for x y
    using that by (induction x) auto
  have "a = b" using arg_cong [OF assms(1), of "takeWhile (\<lambda>c. c \<noteq> CHR ''/'')"] assms(2,3) by (simp add: t)
  with assms(1) show ?thesis by simp
qed

lemma literal_eq:
  assumes "a @ u = l @ v" and "EqualFold a l"
  shows "a = l \<and> u = v"
  using assms EqualFold_length [OF assms(2)] by simp

lemma id_shape:
  assumes "id_part sub" "id_part rg" "id_part name" and shape: "re_shape publicIPPrefixRE (prefix_id sub rg name) gs"
  shows "gs = [sub, rg, name]"
proof -
  obtain x l1 a l2 b l3 d l4 t where
    eq: "prefix_id sub rg name = x @ l1 @ a @ l2 @ b @ l3 @ [d] @ l4 @ t"
    and lits: "EqualFold l1 ''/subscriptions/''" "EqualFold l2 ''/resourceGroups/''"
      "EqualFold l3 ''/providers/Microsoft''" "EqualFold l4 ''Network/publicIPPrefixes/''"
    and gs: "gs = [a, b, takeWhile (\<lambda>c. c \<noteq> line_feed) t]"
    using shape unfolding publicIPPrefixRE_def re_shape.simps by (auto simp del: EqualFold_append_cancel)
  have nos: "slashes sub = 0" "slashes rg = 0" "slashes name = 0"
    using assms(1-3) by (simp_all add: slashes_zero id_part_def)
  have "slashes l1 = 2" "slashes l2 = 2" "slashes l3 = 2" "slashes l4 = 2"
    using lits [THEN slashes_EqualFold] by (simp_all add: slashes_def)
  moreover have "slashes (prefix_id sub rg name) = 8"
    using nos by (simp add: prefix_id_def) (simp add: slashes_def)
  ultimately have zero: "slashes x = 0" "slashes a = 0" "slashes b = 0"
    using arg_cong [OF eq, of slashes] by (simp_all add: slashes_Cons split: if_splits)
  obtain m1 m2 m3 where m: "l1 = CHR ''/'' # m1" "l2 = CHR ''/'' # m2" "l3 = CHR ''/'' # m3"
    using slash_first [OF lits(1)] slash_first [OF lits(2)] slash_first [OF lits(3)] by auto
  have "x = []"
  proof (cases x)
    case (Cons c y)
    with eq have "c = CHR ''/''" by (simp add: prefix_id_def)
    with Cons zero(1) show ?thesis by (simp add: slashes_Cons)
  qed
  have s1: "a @ l2 @ b @ l3 @ [d] @ l4 @ t = sub @ ''/resourceGroups/'' @ rg @
      ''/providers/Microsoft.Network/publicIPPrefixes/'' @ name"
    using literal_eq [OF _ lits(1)] eq \<open>x = []\<close> by (simp add: prefix_id_def)
  have "a = sub \<and> l2 @ b @ l3 @ [d] @ l4 @ t = ''/resourceGroups/'' @ rg @
      ''/providers/Microsoft.Network/publicIPPrefixes/'' @ name"
    using split_slash [of a "m2 @ b @ l3 @ [d] @ l4 @ t" sub
        "''resourceGroups/'' @ rg @ ''/providers/Microsoft.Network/publicIPPrefixes/'' @ name"]
      s1 zero(2) nos(1) by (simp add: m(2) slashes_zero)
  then have "a = sub" and s2: "l2 @ b @ l3 @ [d] @ l4 @ t = ''/resourceGroups/'' @ rg @
      ''/providers/Microsoft.Network/publicIPPrefixes/'' @ name" by (rule conjunct1, rule conjunct2)
  from literal_eq [OF s2 lits(2)] have "b = rg \<and> l3 @ [d] @ l4 @ t =
      ''/providers/Microsoft'' @ ''.Network/publicIPPrefixes/'' @ name"
    using split_slash [of b "m3 @ [d] @ l4 @ t" rg "''providers/Microsoft.Network/publicIPPrefixes/'' @ name"]
      zero(3) nos(2) by (simp add: m(3) slashes_zero)
  then have "b = rg" and s3: "l3 @ [d] @ l4 @ t = ''/providers/Microsoft'' @ ''.Network/publicIPPrefixes/'' @ name"
    by (rule conjunct1, rule conjunct2)
  from literal_eq [OF s3 lits(3)] have "l4 @ t = ''Network/publicIPPrefixes/'' @ name"
    by simp
  from literal_eq [OF this lits(4)] have "t = name" by blast
  then have "takeWhile (\<lambda>c. c \<noteq> line_feed) t = name"
    using assms(3) by (auto simp: id_part_def takeWhile_eq_all_conv)
  with gs \<open>a = sub\<close> \<open>b = rg\<close> show ?thesis by simp
qed

lemma line_feed_dot: "CHR ''.'' \<noteq> line_feed"
  by code_simp

lemma id_has_shape:
  assumes "id_part sub" "id_part rg" "id_part name"
  shows "re_shape publicIPPrefixRE (prefix_id sub rg name) [sub, rg, name]"
proof -
  have tw: "takeWhile (\<lambda>c. c \<noteq> line_feed) name = name" using assms(3) by (auto simp: id_part_def takeWhile_eq_all_conv)
  have last: "re_shape [RGroup] name [name]"
    using assms(3) by (simp add: id_part_def tw)
  have lit: "re_shape (RLit l # rs) (l @ s) gs" if "re_shape rs s gs" for l rs s gs
    unfolding re_shape.simps using that EqualFold_refl by blast
  have group: "re_shape (RGroup # RLit l # rs) (a @ s) (a # gs)" if "id_part a" "re_shape (RLit l # rs) s gs" for a l rs s gs
    using that by (auto simp: id_part_def)
  have star: "re_shape (RStar # rs) s gs" if "re_shape rs s gs" for rs s gs
    unfolding re_shape.simps using that by - (rule exI [of _ "[]"], rule exI [of _ s], simp)
  have dot: "re_shape (RAny # rs) (CHR ''.'' # s) gs" if "re_shape rs s gs" for rs s gs
    using that by (simp add: line_feed_dot)
  have s: "prefix_id sub rg name = ''/subscriptions/'' @ sub @ ''/resourceGroups/'' @ rg @
      ''/providers/Microsoft'' @ CHR ''.'' # ''Network/publicIPPrefixes/'' @ name"
    by (simp add: prefix_id_def)
  show ?thesis
    unfolding s publicIPPrefixRE_def by (intro star lit group dot last assms)
qed

lemma search_re_Some: "match_re rs s = Some gs \<Longrightarrow> search_re rs s = Some gs"
  by (cases s) auto

lemma search_prefix_id:
  assumes "id_part sub" "id_part rg" "id_part name"
  shows "search_re publicIPPrefixRE (prefix_id sub rg name) = Some [sub, rg, name]"
proof -
  obtain gs where gs: "match_re publicIPPrefixRE (prefix_id sub rg name) = Some gs"
    using match_re_complete [OF id_has_shape [OF assms]] by auto
  with id_shape [OF assms match_re_sound [OF gs]] show ?thesis by (simp add: search_re_Some)
qed

end
