(* ===== verification/VMs_Proofs.thy ===== *)
theory VMs_Proofs
  imports VMs_Pool Contracts
begin

text \<open>
  Lemmas on the edit that \<open>reconcileNIC\<close> makes to the network interface of a gateway VM: the managed
  IP configuration, and the membership of the primary one in the backend pool.
\<close>

definition nic_named :: "string \<Rightarrow> nic_ipconfig option \<Rightarrow> bool" where
  "nic_named name c \<longleftrightarrow> (case c of None \<Rightarrow> False
     | Some x \<Rightarrow> nic_Properties x \<noteq> None \<and> EqualFold (valS (nic_Name x)) name)"

text \<open>Azure keeps the names of the IP configurations of an interface unique.\<close>

abbreviation one_named :: "string \<Rightarrow> nic_ipconfig option list \<Rightarrow> bool" where
  "one_named name cs \<equiv> length (filter (nic_named name) cs) \<le> 1"

definition nic_matches :: "nic_ipconfig \<Rightarrow> nic_ipconfig option \<Rightarrow> bool" where
  "nic_matches expected c \<longleftrightarrow> (case c of None \<Rightarrow> False | Some x \<Rightarrow> \<not> differentNIC x expected)"

lemma drop_unnamed: "filter (nic_named name) cs = [] \<Longrightarrow> dropNICConfigs name e want cs = (False, False, cs)"
  by (induction cs) (auto simp: nic_named_def bind_eq_Some_conv split: option.splits if_splits)

lemma dropNICConfigs_skip:
  "\<not> nic_named name c \<Longrightarrow> dropNICConfigs name e want (c # cs) =
     (case dropNICConfigs name e want cs of (need, found, cs') \<Rightarrow> (need, found, c # cs'))"
  by (auto simp: nic_named_def split: option.splits)

lemma dropNICConfigs_named:
  assumes "nic_named name c" and "filter (nic_named name) cs = []"
  shows "dropNICConfigs name e want (c # cs) =
     (if want \<and> nic_matches e c then (False, True, c # cs) else (True, False, cs))"
proof -
  obtain x p where c: "c = Some x" "nic_Properties x = Some p" "EqualFold (valS (nic_Name x)) name"
    using assms(1) by (auto simp: nic_named_def split: option.splits)
  show ?thesis
  proof (cases cs)
    case (Cons d ds)
    with assms(2) have "filter (nic_named name) ds = []" by (simp split: if_splits)
    with c Cons show ?thesis by (simp add: drop_unnamed nic_matches_def)
  qed (use c in \<open>simp add: nic_matches_def\<close>)
qed

text \<open>With unique names the loop drops the one configuration that is unwanted or out of date.\<close>

lemma dropNICConfigs_spec:
  assumes "one_named name cs"
  shows "dropNICConfigs name e want cs =
    (let hit = find (nic_named name) cs; keep = (case hit of None \<Rightarrow> False | Some c \<Rightarrow> want \<and> nic_matches e c)
     in (hit \<noteq> None \<and> \<not> keep, keep, if keep then cs else drop_first (nic_named name) cs))"
  using assms
proof (induction cs)
  case (Cons c cs)
  show ?case
  proof (cases "nic_named name c")
    case True
    with Cons.prems have "filter (nic_named name) cs = []" by simp
    from dropNICConfigs_named [OF True this] True show ?thesis by (simp add: Let_def)
  next
    case False
    with Cons have "one_named name cs" by simp
    from Cons.IH [OF this] show ?thesis
      unfolding dropNICConfigs_skip [OF False] by (cases "find (nic_named name) cs") (simp_all add: Let_def False)
  qed
qed simp

lemma drop_first_none_named:
  "one_named name cs \<Longrightarrow> filter (nic_named name) (drop_first (nic_named name) cs) = []"
  by (induction cs) (auto simp: filter_empty_conv)

section \<open>Backend pool\<close>

definition joined :: "string \<Rightarrow> nic_ipconfig option \<Rightarrow> bool" where
  "joined pool c \<longleftrightarrow> (case c of None \<Rightarrow> False | Some x \<Rightarrow>
     (\<exists>b. Some b \<in> set (nicPools x) \<and> EqualFold (valS (bp_ID b)) pool))"

lemma addNICPool_joined: "isPrimaryNICConfig (Some x) \<Longrightarrow> joined pool (Some (addNICPool pool x))"
  by (auto simp: joined_def nicPools_def addNICPool_def isPrimaryNICConfig_def split: option.splits)

lemma addNICPool_frame [simp]:
  "isPrimaryNICConfig (Some (addNICPool pool x)) = isPrimaryNICConfig (Some x)"
  "nic_named name (Some (addNICPool pool x)) = nic_named name (Some x)"
  by (auto simp: isPrimaryNICConfig_def addNICPool_def nic_named_def split: option.splits)

lemma ensureNICPools_primary:
  assumes "find isPrimaryNICConfig cs \<noteq> None"
  shows "\<exists>c. find isPrimaryNICConfig (snd (ensureNICPools pool True cs)) = Some c \<and> joined pool c"
  using assms
proof (induction cs)
  case (Cons c cs)
  show ?case
  proof (cases "isPrimaryNICConfig c")
    case True
    then obtain x where x: "c = Some x" by (cases c) (auto simp: isPrimaryNICConfig_def)
    show ?thesis
      using True addNICPool_joined [of x pool] addNICPool_frame(1) [of pool x]
      by (auto simp: x Let_def joined_def split: prod.splits option.splits)
  next
    case False
    with Cons show ?thesis by (auto split: prod.splits)
  qed
qed simp

lemma ensureNICPools_keeps:
  "list_all2 (\<lambda>c c'. nic_named name c = nic_named name c' \<and> (\<not> isPrimaryNICConfig c \<longrightarrow> c' = c))
     cs (snd (ensureNICPools pool m cs))"
proof (induction cs arbitrary: m)
  case (Cons c cs)
  show ?case
    by (cases c) (simp_all add: Let_def case_prod_beta Cons.IH)
qed simp

lemma list_all2_filter_Nil:
  "list_all2 (\<lambda>c d. P c = P d) xs ys \<Longrightarrow> filter P xs = [] \<longleftrightarrow> filter P ys = []"
  by (induction xs ys rule: list_all2_induct) auto

lemma list_all2_member: "list_all2 P xs ys \<Longrightarrow> x \<in> set xs \<Longrightarrow> \<exists>y\<in>set ys. P x y"
  by (induction xs ys rule: list_all2_induct) auto

text \<open>The result of the edit, by the three things that the source computes one after the other.\<close>

lemma editNIC_eq:
  assumes "dropNICConfigs name e want cs = (need, found, cs1)"
  shows "editNIC name e pool want cs = (let cs2 = (if want \<and> \<not> found then cs1 @ [Some e] else cs1) in
    (need \<or> want \<and> \<not> found \<or> fst (ensureNICPools pool True cs2), snd (ensureNICPools pool True cs2)))"
  using assms by (auto simp: editNIC_def Let_def split: prod.splits)

lemma editNIC_named:
  assumes one: "one_named name cs" and e: "nic_named name (Some e)" "nic_matches e (Some e)" "\<not> isPrimaryNICConfig (Some e)"
    and prim: "list_all (\<lambda>c. \<not> (nic_named name c \<and> isPrimaryNICConfig c)) cs"
    and run: "editNIC name e pool want cs = (need, cs')"
  shows "if want then \<exists>c\<in>set cs'. nic_named name c \<and> nic_matches e c else filter (nic_named name) cs' = []"
proof -
  let ?drop = "drop_first (nic_named name) cs"
  obtain n1 found cs1 where drop: "dropNICConfigs name e want cs = (n1, found, cs1)" by (cases "dropNICConfigs name e want cs")
  let ?cs2 = "if want \<and> \<not> found then cs1 @ [Some e] else cs1"
  have cs': "cs' = snd (ensureNICPools pool True ?cs2)"
    using run editNIC_eq [OF drop, of pool] by (simp add: Let_def)
  have keeps: "list_all2 (\<lambda>c c'. nic_named name c = nic_named name c' \<and> (\<not> isPrimaryNICConfig c \<longrightarrow> c' = c)) ?cs2 cs'"
    unfolding cs' by (rule ensureNICPools_keeps)
  show ?thesis
  proof (cases want)
    case True
    have "\<exists>c\<in>set ?cs2. nic_named name c \<and> nic_matches e c \<and> \<not> isPrimaryNICConfig c"
    proof (cases found)
      case True
      with drop \<open>want\<close> obtain c where "find (nic_named name) cs = Some c" "nic_matches e c" "cs1 = cs"
        unfolding dropNICConfigs_spec [OF one] by (auto simp: Let_def split: option.splits)
      with find_SomeD [of "nic_named name" cs c] prim True show ?thesis by (auto simp: list_all_iff)
    qed (use e \<open>want\<close> in auto)
    then obtain c where c: "c \<in> set ?cs2" "nic_named name c" "nic_matches e c" "\<not> isPrimaryNICConfig c" by blast
    from list_all2_member [OF keeps c(1)] c(4) have "c \<in> set cs'" by blast
    with c True show ?thesis by auto
  next
    case False
    with drop have "cs1 = ?drop" unfolding dropNICConfigs_spec [OF one] by (auto simp: Let_def split: option.splits)
    with False have "filter (nic_named name) ?cs2 = []" using drop_first_none_named [OF one] by simp
    moreover have "list_all2 (\<lambda>c d. nic_named name c = nic_named name d) ?cs2 cs'"
      using keeps by (rule list_all2_mono) simp
    from list_all2_filter_Nil [OF this] have "filter (nic_named name) ?cs2 = [] \<longleftrightarrow> filter (nic_named name) cs' = []" .
    ultimately show ?thesis using False by simp
  qed
qed

text \<open>Whatever is wanted, the primary configuration is in the backend pool afterwards.\<close>

lemma editNIC_joins:
  assumes e: "\<not> isPrimaryNICConfig (Some e)" and prim: "find isPrimaryNICConfig cs \<noteq> None"
    and named: "list_all (\<lambda>c. \<not> (nic_named name c \<and> isPrimaryNICConfig c)) cs" "one_named name cs"
    and run: "editNIC name e pool want cs = (need, cs')"
  shows "\<exists>c. find isPrimaryNICConfig cs' = Some c \<and> joined pool c"
proof -
  obtain n1 found cs1 where drop: "dropNICConfigs name e want cs = (n1, found, cs1)" by (cases "dropNICConfigs name e want cs")
  let ?cs2 = "if want \<and> \<not> found then cs1 @ [Some e] else cs1"
  have cs': "cs' = snd (ensureNICPools pool True ?cs2)"
    using run editNIC_eq [OF drop, of pool] by (simp add: Let_def)
  obtain c where c: "c \<in> set cs" "isPrimaryNICConfig c" using prim by (auto simp: find_None_iff_ex)
  then have "\<not> nic_named name c" using named(1) by (auto simp: list_all_iff)
  then have "c \<in> set cs1"
    using drop c drop_first_keeps [of c cs "nic_named name"] unfolding dropNICConfigs_spec [OF named(2)]
    by (auto simp: Let_def split: if_splits)
  with c(2) have "find isPrimaryNICConfig ?cs2 \<noteq> None" by (auto simp: find_None_iff_ex)
  from ensureNICPools_primary [OF this] show ?thesis by (simp add: cs')
qed

end
