(* ===== verification/VM_Props.thy ===== *)
theory VM_Props
  imports VM_World Resource_ID VMs_Proofs
begin

text \<open>
  The properties of the VM controller and of the two kinds of gateway pools, each with an
  instance at a concrete Azure.
\<close>

section \<open>Network interfaces of a scale set\<close>

text \<open>
  Property C20. On interfaces with one primary interface, \<open>reconcileVMSSNetworkInterface\<close> establishes its goal: the
  managed IP configuration is there as expected, or absent when it is not wanted, and the
  primary IP configuration is in the backend pool exactly if some managed configuration is left.
  It keeps what Azure requires of the interfaces and touches no other IP configuration.
\<close>

theorem reconcileVMSSNetworkInterface_establishes:
  assumes "nics_inv nics" and "reconcileVMSSNetworkInterface name prefix pool want nics = Ok (u, nics')"
  shows "nics_inv nics' \<and> nics_goal name prefix pool want nics' \<and> nics_frame name nics' = nics_frame name nics"
  by (rule reconcile_nics_step [OF assms])

definition nic_run :: "bool \<Rightarrow> vmss_nic list \<Rightarrow> vmss_nic list" where
  "nic_run want nics = (case reconcileVMSSNetworkInterface ''egressgateway-uid'' ''/prefixes/p'' ''/pools/pool'' want nics of
     Ok (_, nics') \<Rightarrow> nics' | _ \<Rightarrow> [])"

definition demo_nics :: "vmss_nic list" where
  "demo_nics = [second_nic, plain_nic]"

definition nic_added :: bool where
  "nic_added = (case reconcileVMSSNetworkInterface ''egressgateway-uid'' ''/prefixes/p'' ''/pools/pool'' True demo_nics of
     Ok (u, _) \<Rightarrow> u | _ \<Rightarrow> False)"

lemma nic_added_run: "reconcileVMSSNetworkInterface ''egressgateway-uid'' ''/prefixes/p'' ''/pools/pool'' True demo_nics
    = Ok (True, nic_run True demo_nics)"
proof -
  have "nic_added" "is_ok (reconcileVMSSNetworkInterface ''egressgateway-uid'' ''/prefixes/p'' ''/pools/pool'' True demo_nics)"
    by code_simp+
  then show ?thesis by (auto simp: nic_run_def nic_added_def is_ok_iff split: prod.splits)
qed

lemma demo_nics_inv: "nics_inv demo_nics"
  by code_simp

theorem reconcileVMSSNetworkInterface_establishes_witness:
  "length (ipConfigs (nic_run True demo_nics ! 1)) = 2 \<and>
    nics_goal ''egressgateway-uid'' ''/prefixes/p'' ''/pools/pool'' True (nic_run True demo_nics)"
proof
  show "length (ipConfigs (nic_run True demo_nics ! 1)) = 2" by code_simp
  show "nics_goal ''egressgateway-uid'' ''/prefixes/p'' ''/pools/pool'' True (nic_run True demo_nics)"
    using reconcileVMSSNetworkInterface_establishes [OF demo_nics_inv nic_added_run] by blast
qed

text \<open>
  A second run changes nothing and asks for no update of Azure, so the controller
  does not write the scale set in a loop.
\<close>

lemma reconcileVMSSNetworkInterface_idempotent:
  assumes "nics_inv nics" and "reconcileVMSSNetworkInterface name prefix pool want nics = Ok (u, nics')"
  shows "reconcileVMSSNetworkInterface name prefix pool want nics' = Ok (False, nics')"
  by (rule vmss_nic.idempotent [OF assms])

text \<open>
  Property C21. The scan over all interfaces refines a step on one list: it is the reference step
  on the IP configurations of the primary interface, result, errors and panics included, with
  every other interface left alone.
\<close>

theorem reconcileVMSSNetworkInterface_refines:
  assumes "list_all (\<lambda>n. \<not> isPrimaryNic n) (pre @ post)" and "isPrimaryNic nic"
  shows "reconcileVMSSNetworkInterface name prefix pool want (pre @ nic # post) =
    bindR (config_step name prefix pool want (ipConfigs nic)) (\<lambda>(u, cs). Ok (u, pre @ setIPConfigs cs nic # post))"
  using reconcileVMSS_nic_step [of pre post nic] assms by (simp add: list_all_iff)

theorem reconcileVMSSNetworkInterface_refines_witness:
  "reconcileVMSSNetworkInterface ''egressgateway-uid'' '''' ''/pools/pool'' False ([second_nic] @ plain_nic # []) =
    bindR (config_step ''egressgateway-uid'' '''' ''/pools/pool'' False (ipConfigs plain_nic))
      (\<lambda>(u, cs). Ok (u, [second_nic] @ setIPConfigs cs plain_nic # []))"
proof -
  have "list_all (\<lambda>n. \<not> isPrimaryNic n) ([second_nic] @ [])" and "isPrimaryNic plain_nic" by code_simp+
  then show ?thesis by (rule reconcileVMSSNetworkInterface_refines)
qed

section \<open>The scale set\<close>

text \<open>
  Property C19. When \<open>reconcileVMSS\<close> succeeds, the model of the scale set and every instance that Azure
  stores have the goal, for the backend pool of this scale set: new instances get the managed
  IP configuration from the model, and existing ones have been brought up to date.
\<close>

theorem reconcileVMSS_stores_goal:
  assumes "vmss_laws az k (getVMSSResourceGroup cfg) (valS (vs_Name vm)) model inst"
    and "reconcileVMSS k az cfg vm prefix want s = (Ok res, s')"
    and "model s = nicsOf_vmss vm" and "nics_inv (model s)" and "insts_ok (inst s)"
  shows "\<exists>p. vs_Properties vm = Some p \<and> (let pool = valS (GetLBBackendAddressPoolID az (valS (vsp_UniqueID p)))
    in nics_goal (managedSubresourceName cfg) prefix pool want (model s') \<and>
       insts_goal (managedSubresourceName cfg) prefix pool want (inst s'))"
  by (rule reconcileVMSS_stores [OF assms])

definition vmss_run :: "(string list \<times> GatewayVMConfiguration) res \<times> vm_world" where
  "vmss_run = reconcileVMSS vm_kube vm_az vm_cfg (world_vmss vm_start) '''' True vm_start"

definition vmss_ips :: "string list" where
  "vmss_ips = (case fst vmss_run of Ok (ips, _) \<Rightarrow> ips | _ \<Rightarrow> [])"

definition vmss_cfg :: GatewayVMConfiguration where
  "vmss_cfg = (case fst vmss_run of Ok (_, cfg) \<Rightarrow> cfg | _ \<Rightarrow> vm_cfg)"

lemma vmss_run_ips: "vmss_ips = [''10.2.0.0'', ''10.2.0.1'']"
  by code_simp

lemma vmss_run_eq: "reconcileVMSS vm_kube vm_az vm_cfg (world_vmss vm_start) '''' True vm_start
    = (Ok (vmss_ips, vmss_cfg), snd vmss_run)"
proof -
  have "vmss_ips \<noteq> []" by (simp add: vmss_run_ips)
  then show ?thesis
    unfolding vmss_ips_def vmss_cfg_def vmss_run_def
    by (cases "reconcileVMSS vm_kube vm_az vm_cfg (world_vmss vm_start) '''' True vm_start")
      (auto split: res.splits prod.splits)
qed

lemma vm_cfg_names: "getVMSSResourceGroup vm_cfg = ''rg''" "valS (vs_Name (world_vmss vm_start)) = ''vmss''"
  "managedSubresourceName vm_cfg = ''egressgateway-uid''"
  by code_simp+

lemma vm_start_inv: "nics_inv (vw_model vm_start)" "insts_ok (vw_inst vm_start)"
proof -
  show "nics_inv (vw_model vm_start)" by code_simp
  have "nics_inv (vw_0 vm_start)" "nics_inv (vw_1 vm_start)" by code_simp+
  then show "insts_ok (vw_inst vm_start)" by (auto simp: insts_ok_def vw_inst_def split: if_splits)
qed

theorem reconcileVMSS_stores_goal_witness:
  "\<exists>pool. nics_goal ''egressgateway-uid'' '''' pool True (vw_model (snd vmss_run)) \<and>
    insts_goal ''egressgateway-uid'' '''' pool True (vw_inst (snd vmss_run))"
proof -
  have laws: "vmss_laws vm_az vm_kube (getVMSSResourceGroup vm_cfg) (valS (vs_Name (world_vmss vm_start))) vw_model vw_inst"
    unfolding vm_cfg_names by (rule vm_vmss_laws)
  have "vw_model vm_start = nicsOf_vmss (world_vmss vm_start)" by simp
  from reconcileVMSS_stores_goal [OF laws vmss_run_eq this vm_start_inv]
  show ?thesis unfolding vm_cfg_names Let_def by blast
qed

text \<open>
  Property C22. The status that a successful run reports matches the scale set: with distinct node names, there is
  exactly one profile per instance and none for any other node, all addresses are set, and
  without a public prefix the returned egress addresses are those of the instances, in order.
\<close>

theorem reconcileVMSS_reports_instances:
  assumes "status_echo k" and "profiles_ok cfg" and "reconcileVMSS k az cfg vm prefix True s = (Ok (ips, cfg'), s')"
  shows "\<exists>instances s1 s2. ListVMSSInstances az (getVMSSResourceGroup cfg) (valS (vs_Name vm)) s1 = (Ok instances, s2) \<and>
    (distinct (map computerName instances) \<longrightarrow> profiles_match instances (profilesOf cfg') \<and>
      ips = (if prefix = '''' then map (node_IP (profilesOf cfg')) instances else []))"
proof (rule reconcileVMSS_Ok [OF assms(3)])
  fix pool instances cfg1 cfg2 s1 s2 s3 s4
  assume ls: "ListVMSSInstances az (getVMSSResourceGroup cfg) (valS (vs_Name vm)) s1 = (Ok instances, s2)"
    and loop: "vmss_loop az (valS (vs_Name vm)) prefix pool True ([], cfg) instances s2 = (Ok (ips, cfg1), s3)"
    and clean: "cleanProfiles instances cfg1 = Ok cfg2" and upd: "kStatusUpdate (k_VMC k) cfg2 s3 = (Ok cfg', s4)"
  have cfg': "cfg' = cfg2" using assms(1) upd unfolding status_echo_def by blast
  obtain ws where ws: "list_all2 profile_written instances ws"
    "cfg1 = fold (\<lambda>(node, ip1, ip2). setProfile node ip1 ip2) ws cfg"
    "ips = (if prefix = '''' then map (\<lambda>(node, ip1, ip2). ip2) ws else [])"
    using vmss_loop_wanted [OF loop] by auto
  have ok1: "profiles_ok cfg1" using vmss_loop_frame [OF loop] assms(2) by simp
  have "profiles_match instances (profilesOf cfg') \<and> ips = (if prefix = '''' then map (node_IP (profilesOf cfg')) instances else [])"
    if "distinct (map computerName instances)"
    using loop_profiles [OF assms(2) ws(1) that ws(2) ok1 clean] ws(3) by (simp add: cfg')
  with ls show ?thesis by blast
qed

lemma world_names:
  assumes "ListVMSSInstances vm_az ''rg'' ''vmss'' s1 = (Ok instances, s2)"
  shows "distinct (map computerName instances)"
proof -
  have "triple (\<lambda>_. True) (VmssVMClient_List vm_az a b) (\<lambda>is _. distinct (map computerName is)) (\<lambda>_ _. True) (\<lambda>_. True)" for a b
    by (simp add: triple_def vm_az_def world_vms_def world_vm_def computerName_def)
  from triple_OkD [OF wrapRetry_triple [OF this]] show ?thesis
    using assms by (simp add: ListVMSSInstances_def)
qed

theorem reconcileVMSS_reports_instances_witness:
  "vmss_ips = [''10.2.0.0'', ''10.2.0.1''] \<and> (\<exists>instances s1 s2. ListVMSSInstances vm_az ''rg'' ''vmss'' s1 = (Ok instances, s2) \<and>
    profiles_match instances (profilesOf vmss_cfg) \<and> vmss_ips = map (node_IP (profilesOf vmss_cfg)) instances)"
proof -
  have "profiles_ok vm_cfg" by code_simp
  from reconcileVMSS_reports_instances [OF vm_kube_calls(1) this vmss_run_eq]
  obtain instances s1 s2 where ls: "ListVMSSInstances vm_az ''rg'' ''vmss'' s1 = (Ok instances, s2)"
    and rep: "distinct (map computerName instances) \<longrightarrow> profiles_match instances (profilesOf vmss_cfg) \<and>
      vmss_ips = map (node_IP (profilesOf vmss_cfg)) instances"
    unfolding vm_cfg_names by auto
  show ?thesis using rep [rule_format, OF world_names [OF ls]] ls vmss_run_ips by blast
qed

section \<open>Public IP prefixes\<close>

text \<open>
  Property C23. \<open>ensurePublicIPPrefix\<close> returns nothing when no public IPs are wanted; a prefix that the user names is
  returned only if it is in the subscription, exists and has the required length, and it is never
  changed; otherwise the managed prefix exists afterwards, as it was before or newly
  created with the required length. No other prefix changes and no input makes it panic.
\<close>

theorem ensurePublicIPPrefix_provides:
  assumes "prefix_laws az view" and "ensurePublicIPPrefix az len cfg s = (res, s')"
  shows "case res of Ok r \<Rightarrow> prefix_provided az len cfg (view s) (view s') r | Err _ \<Rightarrow> True | Panic \<Rightarrow> False"
  using triple_dests [OF ensurePublicIPPrefix_triple [OF assms(1), of "view s"] refl] assms(2) by (cases res) auto

definition prefix_run :: "(string \<times> string \<times> bool) res \<times> vm_world" where
  "prefix_run = ensurePublicIPPrefix vm_az 31 vm_cfg vm_start"

theorem ensurePublicIPPrefix_provides_witness:
  "fst prefix_run = Ok (''1.2.3.4/31'', ''/prefixes/egressgateway-uid'', True) \<and>
    prefix_provided vm_az 31 vm_cfg (vw_prefixes vm_start) (vw_prefixes (snd prefix_run))
      (''1.2.3.4/31'', ''/prefixes/egressgateway-uid'', True)"
proof
  show ok: "fst prefix_run = Ok (''1.2.3.4/31'', ''/prefixes/egressgateway-uid'', True)" by code_simp
  have "ensurePublicIPPrefix vm_az 31 vm_cfg vm_start = (fst prefix_run, snd prefix_run)" by (simp add: prefix_run_def)
  from ensurePublicIPPrefix_provides [OF vm_prefix_laws this]
  show "prefix_provided vm_az 31 vm_cfg (vw_prefixes vm_start) (vw_prefixes (snd prefix_run))
      (''1.2.3.4/31'', ''/prefixes/egressgateway-uid'', True)" by (simp add: ok)
qed

text \<open>
  Property C24. The regular expression of the source takes an Azure resource ID of a prefix apart into exactly the
  subscription, the resource group and the name it was made of.
\<close>

theorem publicIPPrefixRE_roundtrip:
  assumes "id_part sub" and "id_part rg" and "id_part name"
  shows "search_re publicIPPrefixRE (prefix_id sub rg name) = Some [sub, rg, name]"
  by (rule search_prefix_id [OF assms])

theorem publicIPPrefixRE_roundtrip_witness:
  "search_re publicIPPrefixRE (prefix_id ''sub'' ''my-rg'' ''p1'') = Some [''sub'', ''my-rg'', ''p1'']"
proof -
  have "id_part ''sub''" "id_part ''my-rg''" "id_part ''p1''" by code_simp+
  then show ?thesis by (rule publicIPPrefixRE_roundtrip)
qed

section \<open>Deletion\<close>




section \<open>Network interfaces of VMs\<close>

text \<open>
  On an interface of a gateway VM, with unique names and a managed configuration that is not primary, the
  edit leaves the managed IP configuration as expected when it is wanted and none when it is not.
\<close>

lemma editNIC_managed_config:
  assumes "one_named name cs" and "nic_named name (Some e)" and "nic_matches e (Some e)" and "\<not> isPrimaryNICConfig (Some e)"
    and "list_all (\<lambda>c. \<not> (nic_named name c \<and> isPrimaryNICConfig c)) cs" and "editNIC name e pool want cs = (need, cs')"
  shows "if want then \<exists>c\<in>set cs'. nic_named name c \<and> nic_matches e c else filter (nic_named name) cs' = []"
  by (rule editNIC_named [OF assms])

definition vm_config :: nic_ipconfig where
  "vm_config = \<lparr>nic_Name = Some ''egressgateway-uid'', nic_Properties = Some \<lparr>nip_Primary = Some False,
     nip_PrivateIPAddressVersion = Some ''IPv4'', nip_PrivateIPAddress = None, nip_Subnet = None,
     nip_PublicIPAddress = None, nip_LoadBalancerBackendAddressPools = []\<rparr>\<rparr>"

definition vm_configs :: "nic_ipconfig option list" where
  "vm_configs = [None, ip_config ''ipconfig1'' True ''10.1.0.4'']"

lemma vm_configs_ok: "one_named ''egressgateway-uid'' vm_configs" "nic_named ''egressgateway-uid'' (Some vm_config)"
  "nic_matches vm_config (Some vm_config)" "\<not> isPrimaryNICConfig (Some vm_config)"
  "list_all (\<lambda>c. \<not> (nic_named ''egressgateway-uid'' c \<and> isPrimaryNICConfig c)) vm_configs"
  by code_simp+

text \<open>
  Property C25. The backend pool of a VM is never left: whatever is wanted, also when the configuration is being
  removed, the primary IP configuration of the interface is in the pool after the edit. The scale
  set counterpart leaves the pool with the last managed configuration.
\<close>

theorem editNIC_never_leaves_pool:
  assumes "\<not> isPrimaryNICConfig (Some e)" and "find isPrimaryNICConfig cs \<noteq> None"
    and "list_all (\<lambda>c. \<not> (nic_named name c \<and> isPrimaryNICConfig c)) cs" and "one_named name cs"
    and "editNIC name e pool want cs = (need, cs')"
  shows "\<exists>c. find isPrimaryNICConfig cs' = Some c \<and> joined pool c"
  by (rule editNIC_joins [OF assms])

theorem editNIC_never_leaves_pool_witness:
  "\<exists>c. find isPrimaryNICConfig (snd (editNIC ''egressgateway-uid'' vm_config ''/pools/pool'' False vm_configs)) = Some c
    \<and> joined ''/pools/pool'' c"
proof -
  have p: "find isPrimaryNICConfig vm_configs \<noteq> None" by code_simp
  have "editNIC ''egressgateway-uid'' vm_config ''/pools/pool'' False vm_configs =
    (fst (editNIC ''egressgateway-uid'' vm_config ''/pools/pool'' False vm_configs),
     snd (editNIC ''egressgateway-uid'' vm_config ''/pools/pool'' False vm_configs))" by simp
  from editNIC_never_leaves_pool [OF vm_configs_ok(4) p vm_configs_ok(5,1) this] show ?thesis .
qed

end
