(* ===== verification/SGC_Controller.thy ===== *)
theory SGC_Controller
  imports LB_Controller
begin

text \<open>
  The controller of \<open>StaticGatewayConfiguration\<close> objects,
  src/controllers/manager/staticgatewayconfiguration_controller.go: it validates the
  specification, keeps the WireGuard key pair of the gateway in a secret, and passes the
  specification on to a \<open>GatewayLBConfiguration\<close>, whose status it copies back.

  \<open>controllerutil.CreateOrPatch\<close> and \<open>CreateOrUpdate\<close> are given closures here that call the API server
  themselves and update variables of the handler. Such a call is a field of the reconciler
  whose closure takes the object as it was fetched and returns, besides its result, the object as it left it;
  the call returns the object as the variable of the handler holds it afterwards, also when it fails.
\<close>

type_synonym ('s, 'o) mutator = "'o \<Rightarrow> 's \<Rightarrow> (unit res \<times> 'o) \<times> 's"

record 's StaticGatewayConfigurationReconciler =
  sgr_Client :: "'s kube"
  sgr_SecretNamespace :: string
  sgr_CreateOrPatch :: "StaticGatewayConfiguration \<Rightarrow> ('s, StaticGatewayConfiguration) mutator
    \<Rightarrow> 's \<Rightarrow> (unit res \<times> StaticGatewayConfiguration) \<times> 's"
  sgr_CreateOrUpdate :: "Secret \<Rightarrow> ('s, Secret) mutator \<Rightarrow> 's \<Rightarrow> (unit res \<times> Secret) \<times> 's"
  sgr_GeneratePrivateKey :: "('s, string) io"
  sgr_PublicKey :: "string \<Rightarrow> string"

definition WireguardPrivateKeyName :: string where
  "WireguardPrivateKeyName = ''PrivateKey''"

definition WireguardPublicKeyName :: string where
  "WireguardPublicKeyName = ''PublicKey''"

definition OwningSGCNamespaceLabel :: string where
  "OwningSGCNamespaceLabel = ''egressgateway.kubernetes.azure.com/owning-gateway-config-namespace''"

definition OwningSGCNameLabel :: string where
  "OwningSGCNameLabel = ''egressgateway.kubernetes.azure.com/owning-gateway-config-name''"

section \<open>Events on secrets\<close>

fun secretPredicate :: "string \<Rightarrow> watch_event \<Rightarrow> bool" where
  "secretPredicate ns (CreateEvent _) = False"
| "secretPredicate ns (UpdateEvent old new) = EqualFold (om_Namespace old) ns"
| "secretPredicate ns (DeleteEvent obj) = EqualFold (om_Namespace obj) ns"
| "secretPredicate ns (GenericEvent _) = False"

text \<open>The requests for the owner, as pairs of a namespace and a name.\<close>

definition enqueueOwningSGCFromLabels :: "ObjectMeta \<Rightarrow> (string \<times> string) list" where
  "enqueueOwningSGCFromLabels m = (case om_Labels m OwningSGCNamespaceLabel of
      None \<Rightarrow> []
    | Some ns \<Rightarrow> (case om_Labels m OwningSGCNameLabel of None \<Rightarrow> [] | Some name \<Rightarrow> [(ns, name)]))"

section \<open>Validation\<close>

definition vmssProfileIsEmpty :: "StaticGatewayConfiguration \<Rightarrow> bool" where
  "vmssProfileIsEmpty gwConfig = (let p = sgs_GatewayVmssProfile (sgc_Spec gwConfig) in
     gvp_VmssResourceGroup p = '''' \<and> gvp_VmssName p = '''' \<and> gvp_PublicIpPrefixSize p = 0)"

text \<open>\<open>allErrs\<close>, by the detail of each field error.\<close>

definition validationErrors :: "StaticGatewayConfiguration \<Rightarrow> string list" where
  "validationErrors gwConfig = (let spec = sgc_Spec gwConfig; p = sgs_GatewayVmssProfile spec;
       empty = vmssProfileIsEmpty gwConfig in
     (if sgs_GatewayNodepoolName spec = '''' \<and> empty
      then [''Either GatewayNodepoolName or GatewayVmssProfile must be provided''] else []) @
     (if sgs_GatewayNodepoolName spec \<noteq> '''' \<and> \<not> empty
      then [''Only one of GatewayNodepoolName and GatewayVmssProfile should be provided''] else []) @
     (if \<not> empty then
        (if gvp_VmssResourceGroup p = '''' then [''Gateway vmss resource group is empty''] else []) @
        (if gvp_VmssName p = '''' then [''Gateway vmss name is empty''] else []) @
        (if gvp_PublicIpPrefixSize p <s 0 \<or> 31 <s gvp_PublicIpPrefixSize p
         then [''Gateway vmss public ip prefix size should be between 0 and 31 inclusively''] else [])
      else []) @
     (if \<not> sgs_ProvisionPublicIps spec \<and> sgs_PublicIpPrefixId spec \<noteq> ''''
      then [''PublicIpPrefixId should be empty when ProvisionPublicIps is false''] else []))"

definition validate :: "StaticGatewayConfiguration \<Rightarrow> unit res" where
  "validate gwConfig = (let allErrs = validationErrors gwConfig in
     if allErrs = [] then Ok () else Err (StatusErr ''Invalid'' (Join allErrs '', '')))"

section \<open>The key pair\<close>

definition newSecret :: "'s StaticGatewayConfigurationReconciler \<Rightarrow> StaticGatewayConfiguration \<Rightarrow> Secret" where
  "newSecret r gwConfig = \<lparr>sec_Meta = new_meta (sgr_SecretNamespace r) (''sgw-'' @ om_UID (sgc_Meta gwConfig)),
     sec_Data = Map.empty\<rparr>"

definition ownerLabels :: "StaticGatewayConfiguration \<Rightarrow> (string \<rightharpoonup> string) \<Rightarrow> (string \<rightharpoonup> string)" where
  "ownerLabels gwConfig labels = (let m = sgc_Meta gwConfig;
       l1 = (if labels OwningSGCNamespaceLabel \<noteq> Some (om_Namespace m)
             then labels(OwningSGCNamespaceLabel \<mapsto> om_Namespace m) else labels)
     in if l1 OwningSGCNameLabel \<noteq> Some (om_Name m) then l1(OwningSGCNameLabel \<mapsto> om_Name m) else l1)"

text \<open>
  The closure of \<open>CreateOrUpdate\<close>. A key is its printed form; \<open>sgr_PublicKey\<close> stands for
  \<open>wgPrivateKey.PublicKey()\<close>.
\<close>

definition mutateSecret ::
  "'s StaticGatewayConfigurationReconciler \<Rightarrow> StaticGatewayConfiguration \<Rightarrow> ('s, Secret) mutator" where
  "mutateSecret r gwConfig secret0 s =
     (let secret = secret0\<lparr>sec_Meta := (sec_Meta secret0)\<lparr>om_Labels :=
        ownerLabels gwConfig (om_Labels (sec_Meta secret0))\<rparr>\<rparr> in
      if sec_Data secret WireguardPrivateKeyName \<noteq> None then ((Ok (), secret), s)
      else (case sgr_GeneratePrivateKey r s of (res, s1) \<Rightarrow> (case res of
          Ok key \<Rightarrow> ((Ok (), secret\<lparr>sec_Data := (sec_Data secret)(WireguardPrivateKeyName \<mapsto> key,
            WireguardPublicKeyName \<mapsto> sgr_PublicKey r key)\<rparr>), s1)
        | Err e \<Rightarrow> ((Err e, secret), s1)
        | Panic \<Rightarrow> ((Panic, secret), s1))))"

definition secretRef :: "Secret \<Rightarrow> object_reference" where
  "secretRef secret = \<lparr>obr_APIVersion = ''v1'', obr_Kind = ''Secret'', obr_Name = om_Name (sec_Meta secret),
     obr_Namespace = om_Namespace (sec_Meta secret)\<rparr>"

definition withKey :: "StaticGatewayConfiguration \<Rightarrow> Secret \<Rightarrow> StaticGatewayConfiguration" where
  "withKey gwConfig secret = gwConfig\<lparr>sgc_Status := (sgc_Status gwConfig)\<lparr>sgt_GatewayServerProfile :=
     (sgt_GatewayServerProfile (sgc_Status gwConfig))\<lparr>
       gsp_PrivateKeySecretRef := Some (secretRef secret),
       gsp_PublicKey := valS (sec_Data secret WireguardPublicKeyName)\<rparr>\<rparr>\<rparr>"

definition reconcileWireguardKey ::
  "'s StaticGatewayConfigurationReconciler \<Rightarrow> StaticGatewayConfiguration \<Rightarrow> ('s, StaticGatewayConfiguration) io" where
  "reconcileWireguardKey r gwConfig s =
     (case sgr_CreateOrUpdate r (newSecret r gwConfig) (mutateSecret r gwConfig) s of ((res, secret), s1) \<Rightarrow>
      (case res of
         Ok _ \<Rightarrow> if deleting (sec_Meta secret) then (Ok gwConfig, s1) else (Ok (withKey gwConfig secret), s1)
       | Err e \<Rightarrow> (Err e, s1)
       | Panic \<Rightarrow> (Panic, s1)))"

section \<open>The load balancer configuration\<close>

definition newLBConfig :: "string \<Rightarrow> string \<Rightarrow> GatewayLBConfiguration" where
  "newLBConfig ns name = \<lparr>lbc_Meta = new_meta ns name,
     lbc_Spec = \<lparr>lbs_GatewayNodepoolName = '''', lbs_GatewayVmssProfile = zeroVmssProfile,
       lbs_ProvisionPublicIps = False, lbs_PublicIpPrefixId = ''''\<rparr>,
     lbc_Status = None\<rparr>"

definition mutateLBConfig ::
  "controllerutil \<Rightarrow> StaticGatewayConfiguration \<Rightarrow> GatewayLBConfiguration \<Rightarrow> GatewayLBConfiguration res" where
  "mutateLBConfig cu gwConfig lbConfig = (let spec = sgc_Spec gwConfig in
     bindR (SetControllerReference cu (sgc_Meta gwConfig) (lbc_Meta lbConfig)) (\<lambda>m.
       Ok (lbConfig\<lparr>lbc_Meta := m, lbc_Spec := \<lparr>
         lbs_GatewayNodepoolName = sgs_GatewayNodepoolName spec,
         lbs_GatewayVmssProfile = sgs_GatewayVmssProfile spec,
         lbs_ProvisionPublicIps = sgs_ProvisionPublicIps spec,
         lbs_PublicIpPrefixId = sgs_PublicIpPrefixId spec\<rparr>\<rparr>)))"

definition withLBStatus :: "StaticGatewayConfiguration \<Rightarrow> GatewayLBConfigurationStatus \<Rightarrow> StaticGatewayConfiguration" where
  "withLBStatus gwConfig st = gwConfig\<lparr>sgc_Status := (sgc_Status gwConfig)\<lparr>
     sgt_EgressIpPrefix := lbt_EgressIpPrefix st,
     sgt_GatewayServerProfile := (sgt_GatewayServerProfile (sgc_Status gwConfig))\<lparr>
       gsp_Ip := lbt_FrontendIp st, gsp_Port := lbt_ServerPort st\<rparr>\<rparr>\<rparr>"

definition reconcileGatewayLBConfig ::
  "'s StaticGatewayConfigurationReconciler \<Rightarrow> StaticGatewayConfiguration \<Rightarrow> ('s, StaticGatewayConfiguration) io" where
  "reconcileGatewayLBConfig r gwConfig = (let k = sgr_Client r; m = sgc_Meta gwConfig in
     bindE (kCreateOrPatch (k_LBC k) (newLBConfig (om_Namespace m) (om_Name m)) (mutateLBConfig (k_util k) gwConfig))
      (\<lambda>lbConfig. case lbc_Status lbConfig of
          Some st \<Rightarrow> if deleting (lbc_Meta lbConfig) then retE gwConfig else retE (withLBStatus gwConfig st)
        | None \<Rightarrow> retE gwConfig))"

section \<open>The handlers\<close>

definition sgc_labels :: "'s StaticGatewayConfigurationReconciler \<Rightarrow> string \<Rightarrow> StaticGatewayConfiguration \<Rightarrow> string list" where
  "sgc_labels r operation gwConfig = NewMetricsContext (k_Getenv (sgr_Client r) PodNamespaceEnvKey)
     operation ''n/a'' ''n/a'' (ToLower (slash_key (sgc_Meta gwConfig)))"

text \<open>The closure of \<open>CreateOrPatch\<close> in \<open>reconcile\<close>.\<close>

definition mutateSGC :: "'s StaticGatewayConfigurationReconciler \<Rightarrow> ('s, StaticGatewayConfiguration) mutator" where
  "mutateSGC r gwConfig s =
     (let warn = (\<lambda>gw e. k_Event (sgr_Client r) (sgc_Meta gw) ''Warning'' ''ReconcileError'' (error_text e)) in
      case reconcileWireguardKey r gwConfig s of (res1, s1) \<Rightarrow> (case res1 of
          Err e \<Rightarrow> ((Err e, gwConfig), warn gwConfig e s1)
        | Panic \<Rightarrow> ((Panic, gwConfig), s1)
        | Ok gw1 \<Rightarrow> (case reconcileGatewayLBConfig r gw1 s1 of (res2, s2) \<Rightarrow> (case res2 of
            Err e \<Rightarrow> ((Err e, gw1), warn gw1 e s2)
          | Panic \<Rightarrow> ((Panic, gw1), s2)
          | Ok gw2 \<Rightarrow> ((Ok (), gw2), s2)))))"

text \<open>The call itself: its error is kept in a variable, a panic ends the handler.\<close>

definition patchSGC ::
  "'s StaticGatewayConfigurationReconciler \<Rightarrow> StaticGatewayConfiguration \<Rightarrow> ('s, unit res \<times> StaticGatewayConfiguration) io" where
  "patchSGC r gwConfig s = (case sgr_CreateOrPatch r gwConfig (mutateSGC r) s of ((err, gw), s1) \<Rightarrow>
     (case err of Panic \<Rightarrow> (Panic, s1) | _ \<Rightarrow> (Ok (err, gw), s1)))"

definition provisionedEvent :: "'s kube \<Rightarrow> StaticGatewayConfiguration \<Rightarrow> 's \<Rightarrow> 's" where
  "provisionedEvent k gwConfig = (let p = sgt_EgressIpPrefix (sgc_Status gwConfig);
       prefix = (if p \<noteq> '''' then p else ''<pending>'');
       reconcileStatus = (if p \<noteq> '''' then ''Reconciled'' else ''Reconciling'')
     in k_Event k (sgc_Meta gwConfig) ''Normal'' reconcileStatus
          (''StaticGatewayConfiguration provisioned with egress prefix '' @ prefix))"

text \<open>\<open>succeeded\<close> is set before the error of the patch is returned, so the metrics see a success.\<close>

definition reconcile_SGC ::
  "'s StaticGatewayConfigurationReconciler \<Rightarrow> StaticGatewayConfiguration \<Rightarrow> ('s, unit) io" where
  "reconcile_SGC r gwConfig0 = (let k = sgr_Client r; cu = k_util k in
     bindE (with_metrics k (sgc_labels r ''reconcile_static_gateway_configuration'' gwConfig0)
      (tryE (liftR (validate gwConfig0))
        (\<lambda>_. bindE (if ContainsFinalizer cu (sgc_Meta gwConfig0) SGCFinalizerName then retE gwConfig0
              else kUpdate (k_SGC k) (gwConfig0\<lparr>sgc_Meta :=
                AddFinalizer cu (sgc_Meta gwConfig0) SGCFinalizerName\<rparr>)) (\<lambda>gwConfig1.
          bindE (patchSGC r gwConfig1) (\<lambda>(err, gwConfig).
          bindE (effE (provisionedEvent k gwConfig)) (\<lambda>_. retE err))))
        (\<lambda>e. bindE (effE (k_Event k (sgc_Meta gwConfig0) ''Warning'' ''InvalidSpec'' (error_text e)))
          (\<lambda>_. failE e))))
      liftR)"

text \<open>A deletion; the result says whether the object was gone already.\<close>

definition deleteOrGone :: "('s, unit) io \<Rightarrow> ('s, bool) io" where
  "deleteOrGone del = tryE del (\<lambda>_. retE False) (\<lambda>err. if IsNotFound err then retE True else failE err)"

definition ensureDeleted_SGC ::
  "'s StaticGatewayConfigurationReconciler \<Rightarrow> StaticGatewayConfiguration \<Rightarrow> ('s, unit) io" where
  "ensureDeleted_SGC r gwConfig = (let k = sgr_Client r; cu = k_util k; m = sgc_Meta gwConfig in
     if \<not> ContainsFinalizer cu m SGCFinalizerName then retE ()
     else with_metrics k (sgc_labels r ''delete_static_gateway_configuration'' gwConfig)
      (bindE (deleteOrGone (kDelete (k_Secret k) (newSecret r gwConfig))) (\<lambda>secretDeleted.
       bindE (deleteOrGone (kDelete (k_LBC k) (newLBConfig (om_Namespace m) (om_Name m)))) (\<lambda>lbConfigDeleted.
       if secretDeleted \<and> lbConfigDeleted then
         bindE (kUpdate (k_SGC k) (gwConfig\<lparr>sgc_Meta := RemoveFinalizer cu m SGCFinalizerName\<rparr>)) (\<lambda>_. retE ())
       else retE ()))))"

definition Reconcile_SGC ::
  "'s StaticGatewayConfigurationReconciler \<Rightarrow> string \<Rightarrow> string \<Rightarrow> ('s, unit) io" where
  "Reconcile_SGC r ns name = tryE (kGet (k_SGC (sgr_Client r)) ns name)
     (\<lambda>gwConfig. if deleting (sgc_Meta gwConfig) then ensureDeleted_SGC r gwConfig else reconcile_SGC r gwConfig)
     (\<lambda>err. if IsNotFound err then retE () else failE err)"

end
