(* ===== verification/Object_Store.thy ===== *)
theory Object_Store
  imports Api_Types
begin

text \<open>
  The API server as the controllers see it through \<open>CreateOrPatch\<close> and \<open>CreateOrUpdate\<close>: a map
  from keys to objects. The laws are the documented behaviour of the two helpers: the closure
  is applied to the stored object, or to the given one when none is stored, and what the server
  stores is the object that the call returns. The server may fill in what \<open>echo\<close> does not fix.
\<close>

type_synonym object_key = "string \<times> string"

definition meta_key :: "ObjectMeta \<Rightarrow> object_key" where
  "meta_key m = (om_Namespace m, om_Name m)"

definition fetched :: "(object_key \<rightharpoonup> 'o) \<Rightarrow> object_key \<Rightarrow> 'o \<Rightarrow> 'o" where
  "fetched st k obj = (case st k of None \<Rightarrow> obj | Some x \<Rightarrow> x)"

definition patch_law ::
  "('s, 'o) kclient \<Rightarrow> ('o \<Rightarrow> object_key) \<Rightarrow> ('o \<Rightarrow> 'o \<Rightarrow> bool) \<Rightarrow> ('s \<Rightarrow> object_key \<rightharpoonup> 'o) \<Rightarrow> bool" where
  "patch_law c key echo store \<longleftrightarrow> (\<forall>obj f s y s'. kCreateOrPatch c obj f s = (Ok y, s') \<longrightarrow>
     (\<exists>x. f (fetched (store s) (key obj) obj) = Ok x \<and> echo x y \<and> store s' = (store s)(key obj \<mapsto> y)))"

text \<open>The same for a closure that calls the outside world itself.\<close>

definition upsert_law ::
  "('o \<Rightarrow> ('o \<Rightarrow> 's \<Rightarrow> (unit res \<times> 'o) \<times> 's) \<Rightarrow> 's \<Rightarrow> (unit res \<times> 'o) \<times> 's) \<Rightarrow> ('o \<Rightarrow> object_key)
    \<Rightarrow> ('o \<Rightarrow> 'o \<Rightarrow> bool) \<Rightarrow> ('s \<Rightarrow> object_key \<rightharpoonup> 'o) \<Rightarrow> bool" where
  "upsert_law call key echo store \<longleftrightarrow> (\<forall>obj f s y s'. call obj f s = ((Ok (), y), s') \<longrightarrow>
     (\<exists>s0 x s1. store s0 = store s \<and> f (fetched (store s) (key obj) obj) s0 = ((Ok (), x), s1) \<and>
        echo x y \<and> store s' = (store s1)(key obj \<mapsto> y)))"

lemma patch_lawE:
  assumes "patch_law c key echo store" and "kCreateOrPatch c obj f s = (Ok y, s')"
  obtains x where "f (fetched (store s) (key obj) obj) = Ok x" "echo x y" "store s' = (store s)(key obj \<mapsto> y)"
  using assms unfolding patch_law_def by blast

lemma upsert_lawE:
  assumes "upsert_law call key echo store" and "call obj f s = ((Ok (), y), s')"
  obtains s0 x s1 where "store s0 = store s" "f (fetched (store s) (key obj) obj) s0 = ((Ok (), x), s1)"
    "echo x y" "store s' = (store s1)(key obj \<mapsto> y)"
  using assms unfolding upsert_law_def by blast

text \<open>
  The contract between a closure and the server: whatever the object was, the closure leaves it
  with \<open>goal\<close>, and a server that echoes objects up to \<open>echo\<close> cannot undo that. A client then finds
  the goal in the returned and in the stored object.
\<close>

locale mutation =
  fixes mutate :: "'o \<Rightarrow> 'o res" and goal :: "'o \<Rightarrow> bool" and echo :: "'o \<Rightarrow> 'o \<Rightarrow> bool"
  assumes mutate_goal: "mutate x = Ok y \<Longrightarrow> goal y"
    and echo_goal: "echo x y \<Longrightarrow> goal x \<Longrightarrow> goal y"
begin

lemma stored_goal:
  assumes "patch_law c key echo store" and "kCreateOrPatch c obj mutate s = (Ok y, s')"
  shows "goal y \<and> store s' = (store s)(key obj \<mapsto> y)"
  using assms by (elim patch_lawE) (auto intro: echo_goal mutate_goal)

end

end
