(* ===== verification/SGC_Proofs.thy ===== *)
theory SGC_Proofs
  imports SGC_Controller Object_Store
begin

text \<open>
  Lemmas on the \<open>StaticGatewayConfiguration\<close> controller: which specifications it accepts, what it
  keeps of the key pair in its secret, how the specification travels to the
  \<open>GatewayLBConfiguration\<close> and the \<open>GatewayVMConfiguration\<close>, and when it gives up its finalizer.
\<close>

section \<open>Accepted specifications\<close>

text \<open>A gateway is named by a node pool, or by a scale set with its resource group and a prefix size.\<close>

definition well_formed_gateway :: "StaticGatewayConfigurationSpec \<Rightarrow> bool" where
  "well_formed_gateway spec \<longleftrightarrow> (let p = sgs_GatewayVmssProfile spec in
     (if sgs_GatewayNodepoolName spec \<noteq> '''' then p = zeroVmssProfile
      else gvp_VmssResourceGroup p \<noteq> '''' \<and> gvp_VmssName p \<noteq> '''' \<and> 0 \<le> sint (gvp_PublicIpPrefixSize p) \<and>
        sint (gvp_PublicIpPrefixSize p) \<le> 31) \<and>
     (sgs_PublicIpPrefixId spec = '''' \<or> sgs_ProvisionPublicIps spec))"

lemma vmssProfileIsEmpty_iff:
  "vmssProfileIsEmpty gw \<longleftrightarrow> sgs_GatewayVmssProfile (sgc_Spec gw) = zeroVmssProfile"
  by (cases "sgs_GatewayVmssProfile (sgc_Spec gw)") (simp add: vmssProfileIsEmpty_def zeroVmssProfile_def Let_def)

lemma prefix_size_iff: "\<not> (n <s 0 \<or> 31 <s n) \<longleftrightarrow> 0 \<le> sint n \<and> sint n \<le> 31" for n :: int32
  by (auto simp: word_sless_alt)

lemma validate_iff: "validate gw = Ok () \<longleftrightarrow> well_formed_gateway (sgc_Spec gw)"
proof -
  let ?p = "sgs_GatewayVmssProfile (sgc_Spec gw)"
  have "validationErrors gw = [] \<longleftrightarrow> well_formed_gateway (sgc_Spec gw)"
    unfolding validationErrors_def well_formed_gateway_def Let_def vmssProfileIsEmpty_iff
    using prefix_size_iff [of "gvp_PublicIpPrefixSize ?p"]
    by (auto simp: zeroVmssProfile_def split: if_splits)
  then show ?thesis by (simp add: validate_def Let_def)
qed

lemma validate_not_panic: "validate gw \<noteq> Panic"
  by (simp add: validate_def Let_def)

lemma reconcile_SGC_invalid:
  assumes "validate gw = Err e"
  shows "reconcile_SGC r gw s = (Err e, ObserveControllerReconcileMetrics (sgr_Client r)
    (sgc_labels r ''reconcile_static_gateway_configuration'' gw) False
    (k_Event (sgr_Client r) (sgc_Meta gw) ''Warning'' ''InvalidSpec'' (error_text e) s))"
  using assms by (simp add: reconcile_SGC_def Let_def with_metrics_def go_simps)

section \<open>The key pair\<close>

definition key_pair_ok :: "'s StaticGatewayConfigurationReconciler \<Rightarrow> Secret \<Rightarrow> bool" where
  "key_pair_ok r secret \<longleftrightarrow> (case sec_Data secret WireguardPrivateKeyName of None \<Rightarrow> True
     | Some key \<Rightarrow> sec_Data secret WireguardPublicKeyName = Some (sgr_PublicKey r key))"

lemma key_names_differ [simp]:
  "WireguardPrivateKeyName \<noteq> WireguardPublicKeyName" "WireguardPublicKeyName \<noteq> WireguardPrivateKeyName"
  "OwningSGCNamespaceLabel \<noteq> OwningSGCNameLabel" "OwningSGCNameLabel \<noteq> OwningSGCNamespaceLabel"
  by (simp_all add: WireguardPrivateKeyName_def WireguardPublicKeyName_def OwningSGCNamespaceLabel_def
      OwningSGCNameLabel_def)

lemma ownerLabels_simps [simp]:
  "ownerLabels gw l OwningSGCNamespaceLabel = Some (om_Namespace (sgc_Meta gw))"
  "ownerLabels gw l OwningSGCNameLabel = Some (om_Name (sgc_Meta gw))"
  by (simp_all add: ownerLabels_def Let_def)

lemma ownerLabels_idem: "ownerLabels gw (ownerLabels gw l) = ownerLabels gw l"
  by (subst ownerLabels_def) (simp add: Let_def)

text \<open>What the closure does with the secret: it labels it, and adds a pair when there is no private key.\<close>

definition labelled :: "StaticGatewayConfiguration \<Rightarrow> Secret \<Rightarrow> Secret" where
  "labelled gw secret = secret\<lparr>sec_Meta := (sec_Meta secret)\<lparr>om_Labels := ownerLabels gw (om_Labels (sec_Meta secret))\<rparr>\<rparr>"

lemma labelled_simps [simp]:
  "sec_Data (labelled gw x) = sec_Data x" "labelled gw (labelled gw x) = labelled gw x"
  "labelled gw (x\<lparr>sec_Data := d\<rparr>) = (labelled gw x)\<lparr>sec_Data := d\<rparr>"
  by (simp_all add: labelled_def ownerLabels_idem)

lemma labelled_owner: "enqueueOwningSGCFromLabels (sec_Meta (labelled gw x)) = [meta_key (sgc_Meta gw)]"
  by (simp add: enqueueOwningSGCFromLabels_def labelled_def meta_key_def)

lemma mutateSecret_Ok:
  "mutateSecret r gw x s = ((Ok (), y), s') \<longleftrightarrow>
     (if sec_Data x WireguardPrivateKeyName \<noteq> None then y = labelled gw x \<and> s' = s
      else (\<exists>key. sgr_GeneratePrivateKey r s = (Ok key, s') \<and> y = (labelled gw x)\<lparr>sec_Data := (sec_Data x)
        (WireguardPrivateKeyName \<mapsto> key, WireguardPublicKeyName \<mapsto> sgr_PublicKey r key)\<rparr>))"
  by (auto simp: mutateSecret_def Let_def labelled_def split: prod.splits res.splits)

lemma key_pair_ok_cong: "sec_Data y = sec_Data x \<Longrightarrow> key_pair_ok r y \<longleftrightarrow> key_pair_ok r x"
  by (simp add: key_pair_ok_def split: option.split)

lemma mutateSecret_keys:
  assumes "mutateSecret r gw x s = ((Ok (), y), s')"
  shows "key_pair_ok r x \<longrightarrow> key_pair_ok r y" and "sec_Data y WireguardPrivateKeyName \<noteq> None"
    and "sec_Data x WireguardPrivateKeyName \<noteq> None \<Longrightarrow> sec_Data y = sec_Data x"
    and "enqueueOwningSGCFromLabels (sec_Meta y) = [meta_key (sgc_Meta gw)]"
    and "mutateSecret r gw y t = ((Ok (), y), t)"
  using assms by (auto simp: mutateSecret_Ok key_pair_ok_def labelled_owner split: if_splits option.splits)

text \<open>The server keeps the data, the labels and the name of a secret it is given.\<close>

definition secret_echo :: "Secret \<Rightarrow> Secret \<Rightarrow> bool" where
  "secret_echo x y \<longleftrightarrow> sec_Data y = sec_Data x \<and> om_Labels (sec_Meta y) = om_Labels (sec_Meta x) \<and>
     meta_key (sec_Meta y) = meta_key (sec_Meta x)"

definition secret_laws :: "'s StaticGatewayConfigurationReconciler \<Rightarrow> ('s \<Rightarrow> object_key \<rightharpoonup> Secret) \<Rightarrow> bool" where
  "secret_laws r store \<longleftrightarrow> upsert_law (sgr_CreateOrUpdate r) (\<lambda>x. meta_key (sec_Meta x)) secret_echo store \<and>
     (\<forall>s res s'. sgr_GeneratePrivateKey r s = (res, s') \<longrightarrow> store s' = store s)"

abbreviation secret_key :: "'s StaticGatewayConfigurationReconciler \<Rightarrow> StaticGatewayConfiguration \<Rightarrow> object_key" where
  "secret_key r gw \<equiv> meta_key (sec_Meta (newSecret r gw))"

lemma newSecret_ok: "key_pair_ok r (newSecret r gw)"
  by (simp add: key_pair_ok_def newSecret_def)

lemma reconcileWireguardKey_stores:
  assumes laws: "secret_laws r store" and ok: "pred_option (key_pair_ok r) (store s (secret_key r gw))"
    and run: "reconcileWireguardKey r gw s = (Ok gw', s')"
  obtains y key where "store s' = (store s)(secret_key r gw \<mapsto> y)" "key_pair_ok r y"
    "sec_Data y WireguardPrivateKeyName = Some key"
    "\<forall>x k. store s (secret_key r gw) = Some x \<longrightarrow> sec_Data x WireguardPrivateKeyName = Some k \<longrightarrow> key = k"
    "enqueueOwningSGCFromLabels (sec_Meta y) = [meta_key (sgc_Meta gw)]"
    "gw' = (if deleting (sec_Meta y) then gw else withKey gw y)"
proof -
  let ?k = "secret_key r gw" and ?n = "newSecret r gw"
  let ?x = "fetched (store s) ?k ?n"
  from run obtain y where call: "sgr_CreateOrUpdate r ?n (mutateSecret r gw) s = ((Ok (), y), s')"
    and gw': "gw' = (if deleting (sec_Meta y) then gw else withKey gw y)"
    by (auto simp: reconcileWireguardKey_def split: prod.splits res.splits if_splits)
  have law: "upsert_law (sgr_CreateOrUpdate r) (\<lambda>x. meta_key (sec_Meta x)) secret_echo store"
    using laws by (simp add: secret_laws_def)
  obtain s0 x1 s1 where st: "store s0 = store s" "mutateSecret r gw ?x s0 = ((Ok (), x1), s1)"
    "secret_echo x1 y" "store s' = (store s1)(?k \<mapsto> y)"
    by (rule upsert_lawE [OF law call])
  have same: "store s1 = store s"
    using st(1,2) laws by (auto simp: mutateSecret_Ok secret_laws_def split: if_splits)
  have fx: "key_pair_ok r ?x"
    using ok newSecret_ok [of r gw] by (auto simp: fetched_def split: option.splits)
  note keys = mutateSecret_keys [OF st(2)]
  obtain key where key: "sec_Data y WireguardPrivateKeyName = Some key"
    using keys(2) st(3) by (auto simp: secret_echo_def)
  show thesis
  proof
    show "store s' = (store s)(?k \<mapsto> y)" using st(4) same by simp
    show "key_pair_ok r y" using keys(1) fx st(3) key_pair_ok_cong [of y x1 r] by (simp add: secret_echo_def)
    show "sec_Data y WireguardPrivateKeyName = Some key" by (rule key)
    show "\<forall>x k. store s ?k = Some x \<longrightarrow> sec_Data x WireguardPrivateKeyName = Some k \<longrightarrow> key = k"
      using keys(3) st(3) key by (auto simp: fetched_def secret_echo_def)
    show "enqueueOwningSGCFromLabels (sec_Meta y) = [meta_key (sgc_Meta gw)]"
      using keys(4) st(3) by (simp add: enqueueOwningSGCFromLabels_def secret_echo_def split: option.splits)
  qed (rule gw')
qed

lemma withKey_published:
  assumes "key_pair_ok r y" and "sec_Data y WireguardPrivateKeyName = Some key"
  shows "gsp_PublicKey (sgt_GatewayServerProfile (sgc_Status (withKey gw y))) = sgr_PublicKey r key"
  using assms by (simp add: withKey_def key_pair_ok_def)

section \<open>The path of the specification\<close>

text \<open>The gateway that a specification names, as all three resources carry it.\<close>

type_synonym gateway = "string \<times> GatewayVmssProfile \<times> bool \<times> string"

definition sgc_gateway :: "StaticGatewayConfiguration \<Rightarrow> gateway" where
  "sgc_gateway c = (let s = sgc_Spec c in
     (sgs_GatewayNodepoolName s, sgs_GatewayVmssProfile s, sgs_ProvisionPublicIps s, sgs_PublicIpPrefixId s))"

definition lbc_gateway :: "GatewayLBConfiguration \<Rightarrow> gateway" where
  "lbc_gateway c = (let s = lbc_Spec c in
     (lbs_GatewayNodepoolName s, lbs_GatewayVmssProfile s, lbs_ProvisionPublicIps s, lbs_PublicIpPrefixId s))"

definition vmc_gateway :: "GatewayVMConfiguration \<Rightarrow> gateway" where
  "vmc_gateway c = (let s = vmc_Spec c in
     (vms_GatewayNodepoolName s, vms_GatewayVmssProfile s, vms_ProvisionPublicIps s, vms_PublicIpPrefixId s))"

text \<open>The server keeps the specification it is given; the status is a subresource of its own.\<close>

definition lbc_echo :: "GatewayLBConfiguration \<Rightarrow> GatewayLBConfiguration \<Rightarrow> bool" where
  "lbc_echo x y \<longleftrightarrow> lbc_Spec y = lbc_Spec x \<and> lbc_Status y = lbc_Status x"

definition vmc_echo :: "GatewayVMConfiguration \<Rightarrow> GatewayVMConfiguration \<Rightarrow> bool" where
  "vmc_echo x y \<longleftrightarrow> vmc_Spec y = vmc_Spec x \<and> vmc_Status y = vmc_Status x"

abbreviation lbc_key :: "GatewayLBConfiguration \<Rightarrow> object_key" where
  "lbc_key c \<equiv> meta_key (lbc_Meta c)"

abbreviation vmc_key :: "GatewayVMConfiguration \<Rightarrow> object_key" where
  "vmc_key c \<equiv> meta_key (vmc_Meta c)"

interpretation lb_spec: mutation "mutateLBConfig cu gw" "\<lambda>c. lbc_gateway c = sgc_gateway gw" lbc_echo
  by unfold_locales (auto simp: mutateLBConfig_def lbc_gateway_def sgc_gateway_def lbc_echo_def Let_def)

interpretation vm_spec: mutation "mutateVMConfig cu lb" "\<lambda>c. vmc_gateway c = lbc_gateway lb" vmc_echo
  by unfold_locales (auto simp: mutateVMConfig_def lbc_gateway_def vmc_gateway_def vmc_echo_def Let_def)

lemma mutate_keeps_status:
  "mutateLBConfig cu gw x = Ok y \<Longrightarrow> lbc_Status y = lbc_Status x"
  "mutateVMConfig cu lb u = Ok v \<Longrightarrow> vmc_Status v = vmc_Status u"
  by (auto simp: mutateLBConfig_def mutateVMConfig_def Let_def)

lemma new_keys [simp]:
  "lbc_key (newLBConfig ns name) = (ns, name)" "vmc_key (newVMConfig ns name) = (ns, name)"
  by (simp_all add: meta_key_def newLBConfig_def newVMConfig_def new_meta_def)

lemma new_status [simp]:
  "lbc_Status (newLBConfig ns name) = None" "vmc_Status (newVMConfig ns name) = None"
  by (simp_all add: newLBConfig_def newVMConfig_def)

text \<open>
  One reconciliation passes the specification down and the status up: the stored child has the
  gateway of its parent, and the returned parent the status of its child, unless the child is
  being deleted or has none yet.
\<close>

lemma reconcileGatewayLBConfig_stores:
  assumes law: "patch_law (k_LBC (sgr_Client r)) lbc_key lbc_echo store"
    and run: "reconcileGatewayLBConfig r gw s = (Ok gw', s')"
  obtains lb where "store s' = (store s)(meta_key (sgc_Meta gw) \<mapsto> lb)" "lbc_gateway lb = sgc_gateway gw"
    "lbc_Status lb = Option.bind (store s (meta_key (sgc_Meta gw))) lbc_Status"
    "gw' = (case lbc_Status lb of Some st \<Rightarrow> if deleting (lbc_Meta lb) then gw else withLBStatus gw st | None \<Rightarrow> gw)"
proof -
  let ?m = "sgc_Meta gw" and ?k = "sgr_Client r"
  let ?n = "newLBConfig (om_Namespace ?m) (om_Name ?m)"
  from run obtain lb s1 where call1: "kCreateOrPatch (k_LBC ?k) ?n (mutateLBConfig (k_util ?k) gw) s = (Ok lb, s1)"
    and rest: "(case lbc_Status lb of Some st \<Rightarrow> if deleting (lbc_Meta lb) then retE gw else retE (withLBStatus gw st)
      | None \<Rightarrow> retE gw) s1 = (Ok gw', s')"
    unfolding reconcileGatewayLBConfig_def Let_def bindE_Ok_iff by blast
  have gw': "gw' = (case lbc_Status lb of Some st \<Rightarrow> if deleting (lbc_Meta lb) then gw else withLBStatus gw st | None \<Rightarrow> gw)"
    and "s1 = s'"
    using rest by (auto split: option.splits if_splits)
  note call = call1 [unfolded \<open>s1 = s'\<close>]
  obtain x where "mutateLBConfig (k_util ?k) gw (fetched (store s) (lbc_key ?n) ?n) = Ok x" "lbc_echo x lb"
    by (rule patch_lawE [OF law call])
  then have st: "lbc_Status lb = Option.bind (store s (meta_key ?m)) lbc_Status"
    by (auto simp: lbc_echo_def fetched_def meta_key_def [symmetric] dest: mutate_keeps_status split: option.splits)
  show thesis
    using lb_spec.stored_goal [OF law call] by (intro that [OF _ _ st gw']) (simp_all add: meta_key_def [symmetric])
qed

lemma reconcileGatewayVMConfig_stores:
  assumes law: "patch_law (k_VMC k) vmc_key vmc_echo store"
    and run: "reconcileGatewayVMConfig k lb s = (Ok lb', s')"
  obtains vm where "store s' = (store s)(meta_key (lbc_Meta lb) \<mapsto> vm)" "vmc_gateway vm = lbc_gateway lb"
    "vmc_Status vm = Option.bind (store s (meta_key (lbc_Meta lb))) vmc_Status"
    "lb' = (case vmc_Status vm of Some st \<Rightarrow> if deleting (vmc_Meta vm) then lb
       else lb\<lparr>lbc_Status := Some ((Val zeroLBStatus (lbc_Status lb))\<lparr>lbt_EgressIpPrefix := vmt_EgressIpPrefix st\<rparr>)\<rparr>
     | None \<Rightarrow> lb)"
proof -
  let ?m = "lbc_Meta lb"
  let ?n = "newVMConfig (om_Namespace ?m) (om_Name ?m)"
  from run obtain vm s1 where call1: "kCreateOrPatch (k_VMC k) ?n (mutateVMConfig (k_util k) lb) s = (Ok vm, s1)"
    and rest: "(case vmc_Status vm of Some st \<Rightarrow> if deleting (vmc_Meta vm) then retE lb
       else retE (lb\<lparr>lbc_Status := Some ((Val zeroLBStatus (lbc_Status lb))\<lparr>lbt_EgressIpPrefix := vmt_EgressIpPrefix st\<rparr>)\<rparr>)
     | None \<Rightarrow> retE lb) s1 = (Ok lb', s')"
    unfolding reconcileGatewayVMConfig_def Let_def bindE_Ok_iff by blast
  have lb': "lb' = (case vmc_Status vm of Some st \<Rightarrow> if deleting (vmc_Meta vm) then lb
       else lb\<lparr>lbc_Status := Some ((Val zeroLBStatus (lbc_Status lb))\<lparr>lbt_EgressIpPrefix := vmt_EgressIpPrefix st\<rparr>)\<rparr>
     | None \<Rightarrow> lb)"
    and "s1 = s'"
    using rest by (auto split: option.splits if_splits)
  note call = call1 [unfolded \<open>s1 = s'\<close>]
  obtain x where "mutateVMConfig (k_util k) lb (fetched (store s) (vmc_key ?n) ?n) = Ok x" "vmc_echo x vm"
    by (rule patch_lawE [OF law call])
  then have st: "vmc_Status vm = Option.bind (store s (meta_key ?m)) vmc_Status"
    by (auto simp: vmc_echo_def fetched_def meta_key_def [symmetric] dest: mutate_keeps_status split: option.splits)
  show thesis
    using vm_spec.stored_goal [OF law call] by (intro that [OF _ _ st lb']) (simp_all add: meta_key_def [symmetric])
qed

section \<open>Release of the finalizer\<close>

text \<open>
  \<open>fin\<close> reads whether the stored object still carries the finalizer, \<open>secx\<close> and \<open>lbx\<close> whether its
  secret and its \<open>GatewayLBConfiguration\<close> still exist.
\<close>

definition sgc_delete_laws ::
  "'s StaticGatewayConfigurationReconciler \<Rightarrow> StaticGatewayConfiguration \<Rightarrow> ('s \<Rightarrow> bool) \<Rightarrow> ('s \<Rightarrow> bool) \<Rightarrow> ('s \<Rightarrow> bool) \<Rightarrow> bool"
where
  "sgc_delete_laws r gw fin secx lbx \<longleftrightarrow> (let k = sgr_Client r; m = sgc_Meta gw in
     finalizer_laws (k_util k) \<and> metrics_keep k (\<lambda>s. (fin s, secx s, lbx s)) \<and>
     (\<forall>f x. triple (\<lambda>s. fin s = f \<and> lbx s = x) (kDelete (k_Secret k) (newSecret r gw))
        (\<lambda>_ s. fin s = f \<and> lbx s = x)
        (\<lambda>e s. fin s = f \<and> lbx s = x \<and> (IsNotFound e \<longrightarrow> \<not> secx s)) (\<lambda>s. fin s = f)) \<and>
     (\<forall>f x. triple (\<lambda>s. fin s = f \<and> secx s = x) (kDelete (k_LBC k) (newLBConfig (om_Namespace m) (om_Name m)))
        (\<lambda>_ s. fin s = f \<and> secx s = x)
        (\<lambda>e s. fin s = f \<and> secx s = x \<and> (IsNotFound e \<longrightarrow> \<not> lbx s)) (\<lambda>s. fin s = f)) \<and>
     (\<forall>obj f x y. triple (\<lambda>s. fin s = f \<and> secx s = x \<and> lbx s = y) (kUpdate (k_SGC k) obj)
        (\<lambda>_ s. secx s = x \<and> lbx s = y \<and> (fin s \<longleftrightarrow> SGCFinalizerName \<in> set (om_Finalizers (sgc_Meta obj))))
        (\<lambda>_ s. fin s = f) (\<lambda>s. fin s = f)))"

lemma deleteOrGone_triple:
  assumes "triple P del (\<lambda>_. R) (\<lambda>e s. R s \<and> (IsNotFound e \<longrightarrow> G s)) N" and "\<And>s. R s \<Longrightarrow> E s"
  shows "triple P (deleteOrGone del) (\<lambda>gone s. R s \<and> (gone \<longrightarrow> G s)) (\<lambda>_. E) N"
  unfolding deleteOrGone_def
  by (rule triple_try [OF assms(1)]) (auto intro!: triple_ret triple_if triple_fail assms(2))

lemma ensureDeleted_SGC_triple:
  assumes laws: "sgc_delete_laws r gw fin secx lbx"
  shows "triple fin (ensureDeleted_SGC r gw) (\<lambda>_ s. fin s \<or> \<not> secx s \<and> \<not> lbx s) (\<lambda>_. fin) fin"
proof -
  let ?k = "sgr_Client r" and ?m = "sgc_Meta gw"
  let ?lb = "newLBConfig (om_Namespace ?m) (om_Name ?m)"
  have met: "metrics_keep ?k (\<lambda>s. (fin s, secx s, lbx s))"
    using laws by (simp add: sgc_delete_laws_def Let_def)
  have sec: "triple (\<lambda>s. fin s = f \<and> lbx s = x) (kDelete (k_Secret ?k) (newSecret r gw))
      (\<lambda>_ s. fin s = f \<and> lbx s = x) (\<lambda>e s. fin s = f \<and> lbx s = x \<and> (IsNotFound e \<longrightarrow> \<not> secx s)) (\<lambda>s. fin s = f)"
    and lb: "triple (\<lambda>s. fin s = f \<and> secx s = x) (kDelete (k_LBC ?k) ?lb)
      (\<lambda>_ s. fin s = f \<and> secx s = x) (\<lambda>e s. fin s = f \<and> secx s = x \<and> (IsNotFound e \<longrightarrow> \<not> lbx s)) (\<lambda>s. fin s = f)"
    and upd: "triple (\<lambda>s. fin s = f \<and> secx s = x \<and> lbx s = y) (kUpdate (k_SGC ?k) obj)
      (\<lambda>_ s. secx s = x \<and> lbx s = y \<and> (fin s \<longleftrightarrow> SGCFinalizerName \<in> set (om_Finalizers (sgc_Meta obj))))
      (\<lambda>_ s. fin s = f) (\<lambda>s. fin s = f)" for f x y obj
    using laws unfolding sgc_delete_laws_def Let_def by blast+
  have S: "triple fin (deleteOrGone (kDelete (k_Secret ?k) (newSecret r gw)))
      (\<lambda>gone s. fin s \<and> (gone \<longrightarrow> \<not> secx s)) (\<lambda>_. fin) fin"
    by (rule deleteOrGone_triple, rule triple_ghost2 [of "\<lambda>f _. f" fin lbx], rule triple_conseq, rule sec) auto
  have L: "triple (\<lambda>s. fin s \<and> (g \<longrightarrow> \<not> secx s)) (deleteOrGone (kDelete (k_LBC ?k) ?lb))
      (\<lambda>gone s. (fin s \<and> (g \<longrightarrow> \<not> secx s)) \<and> (gone \<longrightarrow> \<not> lbx s)) (\<lambda>_. fin) fin" for g
    by (rule deleteOrGone_triple, rule triple_ghost2 [of "\<lambda>f x. f \<and> (g \<longrightarrow> \<not> x)" fin secx], rule triple_conseq, rule lb)
      auto
  have U: "triple (\<lambda>s. (fin s \<and> (a \<longrightarrow> \<not> secx s)) \<and> (b \<longrightarrow> \<not> lbx s))
      (if a \<and> b then bindE (kUpdate (k_SGC ?k) obj) (\<lambda>_. retE ()) else retE ())
      (\<lambda>_ s. fin s \<or> \<not> secx s \<and> \<not> lbx s) (\<lambda>_. fin) fin" for a b obj
  proof (cases "a \<and> b")
    case True
    have "triple (\<lambda>s. fin s \<and> \<not> secx s \<and> \<not> lbx s) (kUpdate (k_SGC ?k) obj)
        (\<lambda>_ s. fin s \<or> \<not> secx s \<and> \<not> lbx s) (\<lambda>_. fin) fin"
      by (rule triple_ghost3 [of "\<lambda>f x y. f \<and> \<not> x \<and> \<not> y" fin secx lbx], rule triple_conseq, rule upd) auto
    then have "triple (\<lambda>s. fin s \<and> \<not> secx s \<and> \<not> lbx s) (bindE (kUpdate (k_SGC ?k) obj) (\<lambda>_. retE ()))
        (\<lambda>_ s. fin s \<or> \<not> secx s \<and> \<not> lbx s) (\<lambda>_. fin) fin"
      by (rule triple_bind) (rule triple_ret)
    with True show ?thesis by simp
  qed (auto intro!: triple_ret)
  show ?thesis
    unfolding ensureDeleted_SGC_def Let_def with_metrics_def
    using metrics_keep_observe [OF met]
    by (intro triple_if triple_fin triple_conseq [OF triple_bind [OF S triple_bind [OF L U]]] triple_ret) auto
qed

text \<open>
  Progress. A server on which a deletion of a missing object reports \<open>NotFound\<close>, a secret goes
  away when it is deleted, and updates are accepted.
\<close>

definition sgc_live_laws ::
  "'s StaticGatewayConfigurationReconciler \<Rightarrow> StaticGatewayConfiguration \<Rightarrow> ('s \<Rightarrow> bool) \<Rightarrow> ('s \<Rightarrow> bool) \<Rightarrow> ('s \<Rightarrow> bool) \<Rightarrow> bool"
where
  "sgc_live_laws r gw fin secx lbx \<longleftrightarrow> (let k = sgr_Client r; m = sgc_Meta gw in
     finalizer_laws (k_util k) \<and> metrics_keep k (\<lambda>s. (fin s, secx s, lbx s)) \<and>
     (\<forall>s. secx s \<longrightarrow> (\<exists>s'. kDelete (k_Secret k) (newSecret r gw) s = (Ok (), s') \<and> \<not> secx s' \<and>
        lbx s' = lbx s \<and> fin s' = fin s)) \<and>
     (\<forall>s. \<not> secx s \<longrightarrow> (\<exists>e s'. kDelete (k_Secret k) (newSecret r gw) s = (Err e, s') \<and> IsNotFound e \<and> \<not> secx s' \<and>
        lbx s' = lbx s \<and> fin s' = fin s)) \<and>
     (\<forall>s. \<not> lbx s \<longrightarrow> (\<exists>e s'. kDelete (k_LBC k) (newLBConfig (om_Namespace m) (om_Name m)) s = (Err e, s') \<and>
        IsNotFound e \<and> \<not> lbx s' \<and> secx s' = secx s \<and> fin s' = fin s)) \<and>
     (\<forall>obj s. \<exists>x s'. kUpdate (k_SGC k) obj s = (Ok x, s') \<and> secx s' = secx s \<and> lbx s' = lbx s \<and>
        (fin s' \<longleftrightarrow> SGCFinalizerName \<in> set (om_Finalizers (sgc_Meta obj)))))"

lemma ensureDeleted_SGC_run:
  assumes laws: "sgc_live_laws r gw fin secx lbx" and has: "SGCFinalizerName \<in> set (om_Finalizers (sgc_Meta gw))"
    and gone: "\<not> lbx s"
  shows "\<exists>s'. ensureDeleted_SGC r gw s = (Ok (), s') \<and> \<not> lbx s' \<and> \<not> secx s' \<and> (secx s \<or> \<not> fin s')"
proof -
  let ?k = "sgr_Client r" and ?m = "sgc_Meta gw"
  let ?lb = "newLBConfig (om_Namespace ?m) (om_Name ?m)" and ?l = "sgc_labels r ''delete_static_gateway_configuration'' gw"
  have util: "finalizer_laws (k_util ?k)" and met: "metrics_keep ?k (\<lambda>s. (fin s, secx s, lbx s))"
    using laws by (simp_all add: sgc_live_laws_def Let_def)
  have cf: "ContainsFinalizer (k_util ?k) ?m SGCFinalizerName" using util has by (simp add: finalizer_laws_def)
  have obs: "fin (ObserveControllerReconcileMetrics ?k ?l b t) = fin t"
    "secx (ObserveControllerReconcileMetrics ?k ?l b t) = secx t"
    "lbx (ObserveControllerReconcileMetrics ?k ?l b t) = lbx t" for b t
    using metrics_keep_observe [OF met, of ?l b t] by simp_all
  have lb: "\<exists>e s'. kDelete (k_LBC ?k) ?lb t = (Err e, s') \<and> IsNotFound e \<and> \<not> lbx s' \<and> secx s' = secx t \<and> fin s' = fin t"
    if "\<not> lbx t" for t using laws that by (simp add: sgc_live_laws_def Let_def)
  have sec: "secx t \<Longrightarrow> \<exists>s'. kDelete (k_Secret ?k) (newSecret r gw) t = (Ok (), s') \<and> \<not> secx s' \<and>
      lbx s' = lbx t \<and> fin s' = fin t"
    "\<not> secx t \<Longrightarrow> \<exists>e s'. kDelete (k_Secret ?k) (newSecret r gw) t = (Err e, s') \<and> IsNotFound e \<and> \<not> secx s' \<and>
      lbx s' = lbx t \<and> fin s' = fin t" for t
    using laws by (simp_all add: sgc_live_laws_def Let_def)
  have upd: "\<exists>x s'. kUpdate (k_SGC ?k) obj t = (Ok x, s') \<and> secx s' = secx t \<and> lbx s' = lbx t \<and>
      (fin s' \<longleftrightarrow> SGCFinalizerName \<in> set (om_Finalizers (sgc_Meta obj)))" for obj t
    using laws by (simp add: sgc_live_laws_def Let_def)
  show ?thesis
  proof (cases "secx s")
    case True
    then obtain s1 where s1: "kDelete (k_Secret ?k) (newSecret r gw) s = (Ok (), s1)" "\<not> secx s1" "\<not> lbx s1"
      using sec(1) [of s] gone by blast
    obtain e s2 where "kDelete (k_LBC ?k) ?lb s1 = (Err e, s2)" "IsNotFound e" "\<not> lbx s2" "\<not> secx s2"
      using lb [OF s1(3)] s1(2) by auto
    with s1 cf True show ?thesis
      by (simp add: ensureDeleted_SGC_def Let_def with_metrics_def deleteOrGone_def go_simps obs)
  next
    case False
    then obtain e s1 where s1: "kDelete (k_Secret ?k) (newSecret r gw) s = (Err e, s1)" "IsNotFound e" "\<not> secx s1" "\<not> lbx s1"
      using sec(2) [of s] gone by blast
    obtain e' s2 where s2: "kDelete (k_LBC ?k) ?lb s1 = (Err e', s2)" "IsNotFound e'" "\<not> lbx s2" "\<not> secx s2"
      using lb [OF s1(4)] s1(3) by auto
    let ?new = "gw\<lparr>sgc_Meta := RemoveFinalizer (k_util ?k) ?m SGCFinalizerName\<rparr>"
    obtain x s3 where s3: "kUpdate (k_SGC ?k) ?new s2 = (Ok x, s3)" "secx s3 = secx s2" "lbx s3 = lbx s2"
      "fin s3 \<longleftrightarrow> SGCFinalizerName \<in> set (om_Finalizers (sgc_Meta ?new))"
      using upd [of ?new s2] by blast
    moreover have "\<not> fin s3" using s3(4) util by (simp add: finalizer_laws_def)
    ultimately show ?thesis using s1 s2 cf
      by (simp add: ensureDeleted_SGC_def Let_def with_metrics_def deleteOrGone_def go_simps obs)
  qed
qed

text \<open>The error of the patch is returned, but the run is counted and announced as a success.\<close>

lemma reconcile_SGC_patch_error:
  assumes "validate gw = Ok ()" and "ContainsFinalizer (k_util (sgr_Client r)) (sgc_Meta gw) SGCFinalizerName"
    and "sgr_CreateOrPatch r gw (mutateSGC r) s = ((Err e, gw'), s1)"
  shows "reconcile_SGC r gw s = (Err e, ObserveControllerReconcileMetrics (sgr_Client r)
    (sgc_labels r ''reconcile_static_gateway_configuration'' gw) True (provisionedEvent (sgr_Client r) gw' s1))"
  using assms by (simp add: reconcile_SGC_def Let_def with_metrics_def patchSGC_def go_simps)

end
