(* ===== verification/SGC_World.thy ===== *)
theory SGC_World
  imports SGC_Proofs LB_World
begin

text \<open>
  A concrete API server for the \<open>StaticGatewayConfiguration\<close> controller: stores of secrets and of
  load balancer and VM configurations, the finalizer of one gateway configuration, a counter from
  which keys are drawn, and the events and failures that were recorded. It satisfies the laws
  under which the controller is verified.
\<close>

record sgc_world =
  sw_secrets :: "object_key \<rightharpoonup> Secret"
  sw_lbcs :: "object_key \<rightharpoonup> GatewayLBConfiguration"
  sw_vmcs :: "object_key \<rightharpoonup> GatewayVMConfiguration"
  sw_fin :: bool
  sw_next :: nat
  sw_events :: "string list"
  sw_failures :: nat

section \<open>Stores\<close>

definition store_patch ::
  "('s \<Rightarrow> object_key \<rightharpoonup> 'o) \<Rightarrow> ((object_key \<rightharpoonup> 'o) \<Rightarrow> 's \<Rightarrow> 's) \<Rightarrow> ('o \<Rightarrow> object_key) \<Rightarrow> 'o \<Rightarrow> ('o \<Rightarrow> 'o res) \<Rightarrow> ('s, 'o) io" where
  "store_patch get put key obj f s = (case f (fetched (get s) (key obj) obj) of
      Ok x \<Rightarrow> (Ok x, put ((get s)(key obj \<mapsto> x)) s) | Err e \<Rightarrow> (Err e, s) | Panic \<Rightarrow> (Panic, s))"

definition store_upsert ::
  "('s \<Rightarrow> object_key \<rightharpoonup> 'o) \<Rightarrow> ((object_key \<rightharpoonup> 'o) \<Rightarrow> 's \<Rightarrow> 's) \<Rightarrow> ('o \<Rightarrow> object_key) \<Rightarrow> 'o \<Rightarrow> ('s, 'o) mutator
    \<Rightarrow> 's \<Rightarrow> (unit res \<times> 'o) \<times> 's" where
  "store_upsert get put key obj f s = (case f (fetched (get s) (key obj) obj) s of ((res, x), s1) \<Rightarrow>
     (case res of Ok _ \<Rightarrow> ((Ok (), x), put ((get s1)(key obj \<mapsto> x)) s1) | _ \<Rightarrow> ((res, x), s1)))"

lemma store_patch_law:
  assumes "kCreateOrPatch c = store_patch get put key" and "\<And>m s. get (put m s) = m" and "\<And>x. echo x x"
  shows "patch_law c key echo get"
  using assms by (auto simp: patch_law_def store_patch_def split: res.splits)

lemma store_upsert_law:
  assumes "\<And>m s. get (put m s) = m" and "\<And>x. echo x x"
  shows "upsert_law (store_upsert get put key) key echo get"
  unfolding upsert_law_def
proof (intro allI impI)
  fix obj f s y s' assume "store_upsert get put key obj f s = ((Ok (), y), s')"
  then obtain s1 where "f (fetched (get s) (key obj) obj) s = ((Ok (), y), s1)" "s' = put ((get s1)(key obj \<mapsto> y)) s1"
    by (auto simp: store_upsert_def split: prod.splits res.splits)
  with assms show "\<exists>s0 x s1. get s0 = get s \<and> f (fetched (get s) (key obj) obj) s0 = ((Ok (), x), s1) \<and>
      echo x y \<and> get s' = (get s1)(key obj \<mapsto> y)" by - (rule exI [of _ s], rule exI [of _ y], rule exI [of _ s1], simp)
qed

section \<open>The server\<close>

definition not_found :: error where
  "not_found = StatusErr ''NotFound'' ''not found''"

text \<open>A deleted secret goes away; a configuration with a finalizer of its own stays for now.\<close>

definition sgc_kube :: "sgc_world kube" where
  "sgc_kube = offline_kube\<lparr>
     k_SGC := offline_client\<lparr>kUpdate := (\<lambda>obj s.
       (Ok obj, s\<lparr>sw_fin := SGCFinalizerName \<in> set (om_Finalizers (sgc_Meta obj))\<rparr>))\<rparr>,
     k_LBC := offline_client\<lparr>kCreateOrPatch := store_patch sw_lbcs (\<lambda>m s. s\<lparr>sw_lbcs := m\<rparr>) lbc_key,
       kDelete := (\<lambda>obj s. if sw_lbcs s (lbc_key obj) = None then (Err not_found, s) else (Ok (), s))\<rparr>,
     k_VMC := offline_client\<lparr>kCreateOrPatch := store_patch sw_vmcs (\<lambda>m s. s\<lparr>sw_vmcs := m\<rparr>) vmc_key\<rparr>,
     k_Secret := offline_client\<lparr>kDelete := (\<lambda>obj s. if sw_secrets s (meta_key (sec_Meta obj)) = None
       then (Err not_found, s) else (Ok (), s\<lparr>sw_secrets := (sw_secrets s)(meta_key (sec_Meta obj) := None)\<rparr>))\<rparr>,
     k_Event := (\<lambda>_ _ reason _ s. s\<lparr>sw_events := reason # sw_events s\<rparr>),
     k_FailCountInc := (\<lambda>_ s. s\<lparr>sw_failures := Suc (sw_failures s)\<rparr>)\<rparr>"

definition sgc_r :: "sgc_world StaticGatewayConfigurationReconciler" where
  "sgc_r = \<lparr>sgr_Client = sgc_kube, sgr_SecretNamespace = ''kube-system'',
     sgr_CreateOrPatch = (\<lambda>gw f s. case f gw s of ((res, gw1), s1) \<Rightarrow> ((res, gw1), s1)),
     sgr_CreateOrUpdate = store_upsert sw_secrets (\<lambda>m s. s\<lparr>sw_secrets := m\<rparr>) (\<lambda>x. meta_key (sec_Meta x)),
     sgr_GeneratePrivateKey = (\<lambda>s. (Ok (''key'' @ nat_str (sw_next s)), s\<lparr>sw_next := Suc (sw_next s)\<rparr>)),
     sgr_PublicKey = (\<lambda>key. ''pub-'' @ key)\<rparr>"

definition sgc_start :: sgc_world where
  "sgc_start = \<lparr>sw_secrets = Map.empty, sw_lbcs = Map.empty, sw_vmcs = Map.empty, sw_fin = True, sw_next = 7,
     sw_events = [], sw_failures = 0\<rparr>"

definition demo_gw :: StaticGatewayConfiguration where
  "demo_gw = \<lparr>sgc_Meta = (new_meta ''ns'' ''gw'')\<lparr>om_UID := ''uid'', om_Finalizers := [SGCFinalizerName]\<rparr>,
     sgc_Spec = \<lparr>sgs_GatewayNodepoolName = '''', sgs_GatewayVmssProfile =
       \<lparr>gvp_VmssResourceGroup = ''rg'', gvp_VmssName = ''vmss'', gvp_PublicIpPrefixSize = 31\<rparr>,
       sgs_DefaultRoute = RouteStaticEgressGateway, sgs_ProvisionPublicIps = True, sgs_PublicIpPrefixId = '''',
       sgs_ExcludeCidrs = []\<rparr>,
     sgc_Status = \<lparr>sgt_EgressIpPrefix = '''', sgt_GatewayServerProfile =
       \<lparr>gsp_Ip = '''', gsp_Port = 0, gsp_PublicKey = '''', gsp_PrivateKeySecretRef = None\<rparr>\<rparr>\<rparr>"

text \<open>The same configuration with a node pool besides the scale set, which is refused.\<close>

definition bad_gw :: StaticGatewayConfiguration where
  "bad_gw = demo_gw\<lparr>sgc_Spec := (sgc_Spec demo_gw)\<lparr>sgs_GatewayNodepoolName := ''pool''\<rparr>\<rparr>"

section \<open>Its laws\<close>

lemma sgc_client [simp]: "sgr_Client sgc_r = sgc_kube"
  by (simp add: sgc_r_def)

lemma sgc_secret_laws: "secret_laws sgc_r sw_secrets"
  unfolding secret_laws_def
proof
  show "upsert_law (sgr_CreateOrUpdate sgc_r) (\<lambda>x. meta_key (sec_Meta x)) secret_echo sw_secrets"
    unfolding sgc_r_def by (simp, rule store_upsert_law) (simp_all add: secret_echo_def)
qed (auto simp: sgc_r_def)

lemma sgc_lbc_law: "patch_law (k_LBC sgc_kube) lbc_key lbc_echo sw_lbcs"
  by (rule store_patch_law [where put = "\<lambda>m s. s\<lparr>sw_lbcs := m\<rparr>"]) (simp_all add: sgc_kube_def lbc_echo_def)

lemma sgc_vmc_law: "patch_law (k_VMC sgc_kube) vmc_key vmc_echo sw_vmcs"
  by (rule store_patch_law [where put = "\<lambda>m s. s\<lparr>sw_vmcs := m\<rparr>"]) (simp_all add: sgc_kube_def vmc_echo_def)

abbreviation sw_secret :: "sgc_world \<Rightarrow> bool" where
  "sw_secret s \<equiv> sw_secrets s (secret_key sgc_r demo_gw) \<noteq> None"

abbreviation sw_lbc :: "sgc_world \<Rightarrow> bool" where
  "sw_lbc s \<equiv> sw_lbcs s (''ns'', ''gw'') \<noteq> None"

lemma demo_util_laws: "finalizer_laws demo_util"
  by (simp add: finalizer_laws_def demo_util_def)

lemma sgc_kube_simps:
  "k_util sgc_kube = demo_util" "metrics_keep sgc_kube (\<lambda>s. (sw_fin s, sw_secret s, sw_lbc s))"
  by (simp_all add: sgc_kube_def offline_kube_def metrics_keep_def)

lemma demo_gw_key: "om_Namespace (sgc_Meta demo_gw) = ''ns''" "om_Name (sgc_Meta demo_gw) = ''gw''"
  by (simp_all add: demo_gw_def new_meta_def)

lemma sgc_deletes: "sgc_delete_laws sgc_r demo_gw sw_fin sw_secret sw_lbc"
  unfolding sgc_delete_laws_def Let_def sgc_client demo_gw_key sgc_kube_simps(1)
  using demo_util_laws sgc_kube_simps(2)
  by (auto simp: triple_def sgc_kube_def meta_key_def newLBConfig_def new_meta_def newSecret_def
      sgc_r_def demo_gw_def split: if_splits)

lemma sgc_lives: "sgc_live_laws sgc_r demo_gw sw_fin sw_secret sw_lbc"
  unfolding sgc_live_laws_def Let_def sgc_client demo_gw_key sgc_kube_simps(1)
  using demo_util_laws sgc_kube_simps(2)
  by (auto simp: sgc_kube_def meta_key_def newLBConfig_def new_meta_def newSecret_def not_found_def IsNotFound_def)

end
