(* ===== verification/SGC_Props.thy ===== *)
theory SGC_Props
  imports SGC_World
begin

text \<open>
  The properties of the \<open>StaticGatewayConfiguration\<close> controller, each with an instance at a
  concrete API server.
\<close>

section \<open>Validation\<close>

text \<open>
  Property C11. \<open>validate\<close> accepts exactly the specifications that name the gateway in one way: a
  node pool and an empty scale set profile, or no node pool and a profile with a resource group,
  a name and a prefix size from 0 to 31 as a signed number; a prefix ID is given only when
  public IPs are to be provisioned.
\<close>

theorem validate_accepts: "validate gw = Ok () \<longleftrightarrow> well_formed_gateway (sgc_Spec gw)"
  by (rule validate_iff)

text \<open>
  A specification that \<open>validate\<close> refuses stops the reconciliation before anything is
  written: the error is returned and the world differs from the one before only by the
  warning event and the metrics of a failed run.
\<close>

lemma reconcile_SGC_rejects:
  assumes "\<not> well_formed_gateway (sgc_Spec gw)"
  shows "\<exists>e. validate gw = Err e \<and> reconcile_SGC r gw s = (Err e, ObserveControllerReconcileMetrics (sgr_Client r)
    (sgc_labels r ''reconcile_static_gateway_configuration'' gw) False
    (k_Event (sgr_Client r) (sgc_Meta gw) ''Warning'' ''InvalidSpec'' (error_text e) s))"
proof -
  obtain e where v: "validate gw = Err e"
    using assms validate_iff [of gw] validate_not_panic [of gw] by (cases "validate gw") auto
  show ?thesis by (rule exI [of _ e]) (simp add: v reconcile_SGC_invalid [OF v])
qed

section \<open>The key pair\<close>

text \<open>
  Property C10. \<open>reconcileWireguardKey\<close> leaves a secret with a private key and its public key in the
  store. A private key that was there is never replaced, so peers that know the public key keep
  working, and the public key in the returned status belongs to the stored private key and
  its reference names the secret.
\<close>

theorem reconcileWireguardKey_keeps_key:
  assumes "secret_laws r store" and "pred_option (key_pair_ok r) (store s (secret_key r gw))"
    and "reconcileWireguardKey r gw s = (Ok gw', s')"
  shows "\<exists>y key. store s' = (store s)(secret_key r gw \<mapsto> y) \<and> key_pair_ok r y \<and>
    sec_Data y WireguardPrivateKeyName = Some key \<and>
    (\<forall>x k. store s (secret_key r gw) = Some x \<longrightarrow> sec_Data x WireguardPrivateKeyName = Some k \<longrightarrow> key = k) \<and>
    (\<not> deleting (sec_Meta y) \<longrightarrow>
      gsp_PublicKey (sgt_GatewayServerProfile (sgc_Status gw')) = sgr_PublicKey r key \<and>
      gsp_PrivateKeySecretRef (sgt_GatewayServerProfile (sgc_Status gw')) = Some (secretRef y))"
proof -
  obtain y key where "store s' = (store s)(secret_key r gw \<mapsto> y)" "key_pair_ok r y"
    "sec_Data y WireguardPrivateKeyName = Some key"
    "\<forall>x k. store s (secret_key r gw) = Some x \<longrightarrow> sec_Data x WireguardPrivateKeyName = Some k \<longrightarrow> key = k"
    "enqueueOwningSGCFromLabels (sec_Meta y) = [meta_key (sgc_Meta gw)]"
    "gw' = (if deleting (sec_Meta y) then gw else withKey gw y)"
    by (rule reconcileWireguardKey_stores [OF assms])
  moreover from this withKey_published [of r y key gw] have "\<not> deleting (sec_Meta y) \<longrightarrow>
      gsp_PublicKey (sgt_GatewayServerProfile (sgc_Status gw')) = sgr_PublicKey r key \<and>
      gsp_PrivateKeySecretRef (sgt_GatewayServerProfile (sgc_Status gw')) = Some (secretRef y)"
    by (simp add: withKey_def)
  ultimately show ?thesis by blast
qed

definition key_run :: "StaticGatewayConfiguration res \<times> sgc_world" where
  "key_run = reconcileWireguardKey sgc_r demo_gw sgc_start"

definition key_status :: GatewayServerProfile where
  "key_status = (case fst key_run of Ok gw \<Rightarrow> sgt_GatewayServerProfile (sgc_Status gw)
     | _ \<Rightarrow> sgt_GatewayServerProfile (sgc_Status demo_gw))"

lemma key_run_Ok: "is_ok (fst key_run)" "gsp_PublicKey key_status = ''pub-key7''"
  by code_simp+

lemma key_run_eq: "\<exists>gw. reconcileWireguardKey sgc_r demo_gw sgc_start = (Ok gw, snd key_run)
    \<and> sgt_GatewayServerProfile (sgc_Status gw) = key_status"
  using key_run_Ok(1) unfolding key_status_def
  by (cases key_run) (auto simp: key_run_def [symmetric] is_ok_iff prod_eq_iff)

theorem reconcileWireguardKey_keeps_key_witness:
  "\<exists>gw y key. reconcileWireguardKey sgc_r demo_gw sgc_start = (Ok gw, snd key_run) \<and>
    sw_secrets (snd key_run) = [(''kube-system'', ''sgw-uid'') \<mapsto> y] \<and> key_pair_ok sgc_r y \<and>
    sec_Data y WireguardPrivateKeyName = Some key"
proof -
  obtain gw where run: "reconcileWireguardKey sgc_r demo_gw sgc_start = (Ok gw, snd key_run)"
    using key_run_eq by blast
  have key: "secret_key sgc_r demo_gw = (''kube-system'', ''sgw-uid'')" by code_simp
  have "pred_option (key_pair_ok sgc_r) (sw_secrets sgc_start (secret_key sgc_r demo_gw))"
    by (simp add: sgc_start_def)
  from reconcileWireguardKey_keeps_key [OF sgc_secret_laws this run] show ?thesis
    using run by (auto simp: key sgc_start_def)
qed

text \<open>
  The labels that the controller writes lead back to it: a later update or deletion of
  the stored secret passes the predicate of the watch, and the handler of the watch enqueues
  exactly the configuration that owns the secret.
\<close>

lemma secret_events_reach_owner:
  assumes "secret_laws r store" and "pred_option (key_pair_ok r) (store s (secret_key r gw))"
    and "reconcileWireguardKey r gw s = (Ok gw', s')" and "store s' (secret_key r gw) = Some y"
    and "om_Namespace (sec_Meta y) = sgr_SecretNamespace r"
  shows "enqueueOwningSGCFromLabels (sec_Meta y) = [(om_Namespace (sgc_Meta gw), om_Name (sgc_Meta gw))]
    \<and> secretPredicate (sgr_SecretNamespace r) (DeleteEvent (sec_Meta y))
    \<and> secretPredicate (sgr_SecretNamespace r) (UpdateEvent (sec_Meta y) m)"
proof -
  obtain z key where "store s' = (store s)(secret_key r gw \<mapsto> z)"
    "enqueueOwningSGCFromLabels (sec_Meta z) = [meta_key (sgc_Meta gw)]"
    by (rule reconcileWireguardKey_stores [OF assms(1-3)]) (rule that)
  with assms(4,5) show ?thesis by (simp add: meta_key_def)
qed

definition key_secret :: Secret where
  "key_secret = (case sw_secrets (snd key_run) (''kube-system'', ''sgw-uid'') of Some y \<Rightarrow> y
     | None \<Rightarrow> newSecret sgc_r demo_gw)"

section \<open>Deletion\<close>

text \<open>
  Property C12. \<open>ensureDeleted\<close> gives up the finalizer last: as long as the secret with the private
  key or the \<open>GatewayLBConfiguration\<close> is still there, or any call fails, the stored object
  keeps the finalizer.
\<close>

theorem ensureDeleted_SGC_releases_last:
  assumes "sgc_delete_laws r gw fin secx lbx" and "fin s" and "ensureDeleted_SGC r gw s = (res, s')"
  shows "fin s' \<or> res = Ok () \<and> \<not> secx s' \<and> \<not> lbx s'"
  using triple_dests [OF ensureDeleted_SGC_triple [OF assms(1)] assms(2)] assms(3) by (cases res) auto

definition half_deleted :: sgc_world where
  "half_deleted = sgc_start\<lparr>sw_lbcs := [(''ns'', ''gw'') \<mapsto> newLBConfig ''ns'' ''gw'']\<rparr>"

theorem ensureDeleted_SGC_releases_last_witness:
  "sw_lbcs (snd (ensureDeleted_SGC sgc_r demo_gw half_deleted)) (''ns'', ''gw'') \<noteq> None
    \<and> sw_fin (snd (ensureDeleted_SGC sgc_r demo_gw half_deleted))"
proof -
  have "sw_fin half_deleted" by code_simp
  moreover have "sw_lbcs (snd (ensureDeleted_SGC sgc_r demo_gw half_deleted)) (''ns'', ''gw'') \<noteq> None" by code_simp
  ultimately show ?thesis
    using ensureDeleted_SGC_releases_last [OF sgc_deletes, of half_deleted] by (metis prod.collapse)
qed

text \<open>
  Property C13. Deletion ends. Once the \<open>GatewayLBConfiguration\<close> is gone, two runs of \<open>ensureDeleted\<close> are
  enough to release the finalizer, whether or not the secret is still there, and both succeed.
\<close>

theorem ensureDeleted_SGC_terminates:
  assumes "sgc_live_laws r gw fin secx lbx" and "SGCFinalizerName \<in> set (om_Finalizers (sgc_Meta gw))" and "\<not> lbx s"
  shows "\<exists>s1 s2. ensureDeleted_SGC r gw s = (Ok (), s1) \<and> ensureDeleted_SGC r gw s1 = (Ok (), s2) \<and> \<not> fin s2"
proof -
  obtain s1 where s1: "ensureDeleted_SGC r gw s = (Ok (), s1)" "\<not> lbx s1" "\<not> secx s1"
    using ensureDeleted_SGC_run [OF assms] by blast
  then obtain s2 where "ensureDeleted_SGC r gw s1 = (Ok (), s2)" "\<not> fin s2"
    using ensureDeleted_SGC_run [OF assms(1,2), of s1] by blast
  with s1(1) show ?thesis by blast
qed

definition key_left :: sgc_world where
  "key_left = sgc_start\<lparr>sw_secrets := [(''kube-system'', ''sgw-uid'') \<mapsto> newSecret sgc_r demo_gw]\<rparr>"

theorem ensureDeleted_SGC_terminates_witness:
  "sw_fin (snd (ensureDeleted_SGC sgc_r demo_gw key_left)) \<and>
    (\<exists>s1 s2. ensureDeleted_SGC sgc_r demo_gw key_left = (Ok (), s1) \<and>
      ensureDeleted_SGC sgc_r demo_gw s1 = (Ok (), s2) \<and> \<not> sw_fin s2)"
proof
  show "sw_fin (snd (ensureDeleted_SGC sgc_r demo_gw key_left))" by code_simp
  have "SGCFinalizerName \<in> set (om_Finalizers (sgc_Meta demo_gw))" by code_simp
  moreover have "\<not> sw_lbc key_left" by (simp add: key_left_def sgc_start_def)
  ultimately show "\<exists>s1 s2. ensureDeleted_SGC sgc_r demo_gw key_left = (Ok (), s1) \<and>
      ensureDeleted_SGC sgc_r demo_gw s1 = (Ok (), s2) \<and> \<not> sw_fin s2"
    by (intro ensureDeleted_SGC_terminates [OF sgc_lives])
qed

section \<open>A failure that is counted as a success\<close>

text \<open>
  Property C14. When the patch of a valid configuration fails, \<open>reconcile\<close> returns the error, yet the
  deferred metrics see \<open>succeeded\<close> and a normal event announces the configuration as
  provisioned.
\<close>

theorem reconcile_SGC_failure_counted_as_success:
  assumes "validate gw = Ok ()" and "ContainsFinalizer (k_util (sgr_Client r)) (sgc_Meta gw) SGCFinalizerName"
    and "sgr_CreateOrPatch r gw (mutateSGC r) s = ((Err e, gw'), s1)"
  shows "reconcile_SGC r gw s = (Err e, ObserveControllerReconcileMetrics (sgr_Client r)
    (sgc_labels r ''reconcile_static_gateway_configuration'' gw) True (provisionedEvent (sgr_Client r) gw' s1))"
  by (rule reconcile_SGC_patch_error [OF assms])

definition failing_r :: "sgc_world StaticGatewayConfigurationReconciler" where
  "failing_r = sgc_r\<lparr>sgr_CreateOrPatch := (\<lambda>gw f s. ((Err (ErrMsg ''conflict''), gw), s))\<rparr>"

theorem reconcile_SGC_failure_counted_as_success_witness:
  "fst (reconcile_SGC failing_r demo_gw sgc_start) = Err (ErrMsg ''conflict'')
    \<and> sw_failures (snd (reconcile_SGC failing_r demo_gw sgc_start)) = 0
    \<and> sw_events (snd (reconcile_SGC failing_r demo_gw sgc_start)) = [''Reconciling'']"
proof -
  have v: "validate demo_gw = Ok ()"
    and c: "ContainsFinalizer (k_util (sgr_Client failing_r)) (sgc_Meta demo_gw) SGCFinalizerName" by code_simp+
  have p: "sgr_CreateOrPatch failing_r demo_gw (mutateSGC failing_r) sgc_start = ((Err (ErrMsg ''conflict''), demo_gw), sgc_start)"
    by (simp add: failing_r_def)
  have k: "sgr_Client failing_r = sgc_kube" by (simp add: failing_r_def sgc_r_def)
  show ?thesis
    unfolding reconcile_SGC_failure_counted_as_success [OF v c p] k
    by (simp add: ObserveControllerReconcileMetrics_def Let_def sgc_kube_def offline_kube_def sgc_start_def
        provisionedEvent_def demo_gw_def)
qed

end
