(* ===== verification/GoLib.thy ===== *)
theory GoLib
  imports GoStrings
begin

text \<open>
  The parts of Go's packages \<open>path/filepath\<close> (on Unix) and \<open>net\<close> that the CNI components use:
  \<open>filepath.Join\<close>, \<open>filepath.Ext\<close> and \<open>net.ParseCIDR\<close> with the address parser of \<open>net/netip\<close>.
\<close>

section \<open>Paths\<close>

fun clean_parts :: "bool \<Rightarrow> string list \<Rightarrow> string list \<Rightarrow> string list" where
  "clean_parts rooted st [] = rev st"
| "clean_parts rooted st (p # ps) =
     (if p = '''' \<or> p = ''.'' then clean_parts rooted st ps
      else if p = ''..'' then (case st of
          [] \<Rightarrow> clean_parts rooted (if rooted then [] else [p]) ps
        | t # ts \<Rightarrow> clean_parts rooted (if t = ''..'' then p # st else ts) ps)
      else clean_parts rooted (p # st) ps)"

definition Clean :: "string \<Rightarrow> string" where
  "Clean path = (let rooted = HasPrefix path ''/'';
       s = (if rooted then ''/'' else '''') @ Join (clean_parts rooted [] (Split path (CHR ''/''))) ''/''
     in if s = '''' then ''.'' else s)"

text \<open>\<open>filepath.Join\<close>: leading empty elements are left out.\<close>

fun path_Join :: "string list \<Rightarrow> string" where
  "path_Join [] = ''''"
| "path_Join (e # es) = (if e = '''' then path_Join es else Clean (Join (e # es) ''/''))"

text \<open>The suffix that begins at the final dot of the final element.\<close>

definition Ext :: "string \<Rightarrow> string" where
  "Ext path = (let r = rev path; t = takeWhile (\<lambda>c. c \<noteq> CHR ''.'' \<and> c \<noteq> CHR ''/'') r in
     (case drop (length t) r of [] \<Rightarrow> '''' | c # _ \<Rightarrow> if c = CHR ''.'' then c # rev t else ''''))"

section \<open>Addresses\<close>

definition hex_value :: "char \<Rightarrow> nat option" where
  "hex_value c = (let n = of_char c :: nat in
     if 48 \<le> n \<and> n \<le> 57 then Some (n - 48) else if 97 \<le> n \<and> n \<le> 102 then Some (n - 87)
     else if 65 \<le> n \<and> n \<le> 70 then Some (n - 55) else None)"

text \<open>
  A field of a dotted address: decimal digits without a leading zero, at most 255. The loop of
  \<open>parseIPv4Fields\<close> stops a field at its first digit that makes the value too large.
\<close>

definition octet :: "string \<Rightarrow> nat option" where
  "octet s = (if s = '''' \<or> (1 < length s \<and> hd s = CHR ''0'') then None
     else case parse_digits 0 s of None \<Rightarrow> None | Some n \<Rightarrow> if n \<le> 255 then Some n else None)"

definition parseIPv4 :: "string \<Rightarrow> nat list option" where
  "parseIPv4 s = (let fs = map octet (Split s (CHR ''.'')) in
     if length fs = 4 \<and> None \<notin> set fs then Some (map the fs) else None)"

text \<open>
  The loop of \<open>parseIPv6\<close>. \<open>i\<close> counts the bytes that are set, \<open>ell\<close> is the place of the ellipsis; the
  result is the number of bytes, the place of the ellipsis and the bytes in order.
\<close>

definition hex_run :: "string \<Rightarrow> string" where
  "hex_run s = takeWhile (\<lambda>c. hex_value c \<noteq> None) s"

definition hex_number :: "string \<Rightarrow> nat" where
  "hex_number s = foldl (\<lambda>acc c. acc * 16 + the (hex_value c)) 0 s"

fun ipv6_groups :: "nat \<Rightarrow> nat \<Rightarrow> nat option \<Rightarrow> nat list \<Rightarrow> string \<Rightarrow> (nat \<times> nat option \<times> nat list) option" where
  "ipv6_groups 0 i ell acc s = (if s = '''' then Some (i, ell, acc) else None)"
| "ipv6_groups (Suc fuel) i ell acc s =
     (if 16 \<le> i then (if s = '''' then Some (i, ell, acc) else None)
      else let h = hex_run s; rest = drop (length h) s in
      if h = '''' \<or> 4 < length h then None
      else if HasPrefix rest ''.'' then
        (if (ell = None \<and> i \<noteq> 12) \<or> 12 < i then None
         else case parseIPv4 s of None \<Rightarrow> None | Some b \<Rightarrow> Some (i + 4, ell, acc @ b))
      else let n = hex_number h; acc' = acc @ [n div 256, n mod 256] in
      (case rest of
         [] \<Rightarrow> Some (i + 2, ell, acc')
       | c # s1 \<Rightarrow> if c \<noteq> CHR '':'' \<or> s1 = [] then None
           else if hd s1 = CHR '':'' then
             (if ell \<noteq> None then None
              else if tl s1 = [] then Some (i + 2, Some (i + 2), acc')
              else ipv6_groups fuel (i + 2) (Some (i + 2)) acc' (tl s1))
           else ipv6_groups fuel (i + 2) ell acc' s1))"

text \<open>An address without a zone; at most eight groups, so nine rounds reach the end.\<close>

definition parseIPv6 :: "string \<Rightarrow> nat list option" where
  "parseIPv6 s = (let lead = HasPrefix s ''::''; s1 = (if lead then drop 2 s else s) in
     if lead \<and> s1 = [] then Some (replicate 16 0)
     else case ipv6_groups 9 0 (if lead then Some 0 else None) [] s1 of
       None \<Rightarrow> None
     | Some (i, ell, bs) \<Rightarrow> (case ell of
         None \<Rightarrow> if i = 16 then Some bs else None
       | Some e \<Rightarrow> if i < 16 then Some (take e bs @ replicate (16 - i) 0 @ drop e bs) else None))"

text \<open>\<open>netip.ParseAddr\<close>: the first dot, colon or percent sign decides. Zones are refused by \<open>ParseCIDR\<close>.\<close>

definition ParseAddr :: "string \<Rightarrow> nat list option" where
  "ParseAddr s = (case dropWhile (\<lambda>c. c \<noteq> CHR ''.'' \<and> c \<noteq> CHR '':'' \<and> c \<noteq> CHR ''%'') s of
      [] \<Rightarrow> None
    | c # _ \<Rightarrow> if c = CHR ''.'' then parseIPv4 s
        else if c = CHR '':'' \<and> CHR ''%'' \<notin> set s then parseIPv6 s else None)"

text \<open>The address and the length of the mask.\<close>

definition ParseCIDR :: "string \<Rightarrow> (nat list \<times> nat) option" where
  "ParseCIDR s = (let addr = takeWhile (\<lambda>c. c \<noteq> CHR ''/'') s in
     if CHR ''/'' \<notin> set s then None
     else let mask = drop (Suc (length addr)) s in
     case ParseAddr addr of None \<Rightarrow> None
     | Some bs \<Rightarrow> if mask = '''' then None else (case parse_digits 0 mask of None \<Rightarrow> None
         | Some n \<Rightarrow> if n \<le> 8 * length bs then Some (bs, n) else None))"

end
