(* ===== verification/CNI_Conf.thy ===== *)
theory CNI_Conf
  imports GoLib Api_Types "HOL-Library.AList" "HOL-Library.List_Lexorder" "HOL-Library.Char_ord"
begin

text \<open>
  The manager of the CNI configuration, src/pkg/cni/conf/confmanager.go: it finds the
  configuration of the main CNI plugin in a directory, chains the plugin of this program after
  it, and writes the result under a name of its own, again after every change in the directory.

  The file system, the directory watcher (fsnotify), the retry helper of client-go and the JSON
  codec are fields of \<open>conf_env\<close>. A JSON object decoded into a Go map is an association list; the order of its
  entries has no meaning.
\<close>

datatype json = JNull | JBool bool | JNum string | JStr string | JArr "json list" | JObj "(string \<times> json) list"

type_synonym json_map = "(string \<times> json) list"

record dir_entry =
  de_Name :: string
  de_Regular :: bool

record 's conf_env =
  os_ReadDir :: "string \<Rightarrow> ('s, dir_entry list) io"
  os_ReadFile :: "string \<Rightarrow> ('s, string) io"
  os_WriteFile :: "string \<Rightarrow> string \<Rightarrow> ('s, unit) io"
  os_Rename :: "string \<Rightarrow> string \<Rightarrow> ('s, unit) io"
  os_Stat :: "string \<Rightarrow> ('s, unit) io"
  os_Remove :: "string \<Rightarrow> ('s, unit) io"
  os_IsNotExist :: "error \<Rightarrow> bool"
  json_Unmarshal :: "string \<Rightarrow> json_map res"
  json_MarshalIndent :: "json_map \<Rightarrow> string res"
  fs_NewWatcher :: "('s, unit) io"
  fs_Add :: "string \<Rightarrow> ('s, unit) io"
  fs_Close :: "('s, unit) io"
  retry_OnError :: "nat \<Rightarrow> ('s, unit) io \<Rightarrow> ('s, unit) io"

definition KubeEgressCNIName :: string where
  "KubeEgressCNIName = ''kube-egress-cni''"

definition KubeEgressIPAMCNIName :: string where
  "KubeEgressIPAMCNIName = ''kube-egress-cni-ipam''"

definition ErrMainCNINotFound :: error where
  "ErrMainCNINotFound = ErrMsg ''no existing cni plugin configuration file found''"

record 's Manager =
  cniConfDir :: string
  cniConfFile :: string
  cniConfFileTemp :: string
  cniUninstallConfigMapName :: string
  exceptionCidrs :: "string list"
  k8sClient :: "'s kube"
  grpcPort :: int
  mgr_env :: "'s conf_env"

section \<open>Construction\<close>

fun collectCidrs :: "string list \<Rightarrow> string list res" where
  "collectCidrs [] = Ok []"
| "collectCidrs (c # cs) = (let cidr = TrimSpace c in
     if cidr = '''' then collectCidrs cs
     else if ParseCIDR cidr = None then Err (ErrMsg ''cidr is not valid'')
     else bindR (collectCidrs cs) (\<lambda>res. Ok (cidr # res)))"

definition parseCidrs :: "string \<Rightarrow> string list res" where
  "parseCidrs cidrs = collectCidrs (Split cidrs (CHR '',''))"

definition newWatcher :: "'s conf_env \<Rightarrow> string \<Rightarrow> ('s, unit) io" where
  "newWatcher env dir = tryE (fs_NewWatcher env)
     (\<lambda>_. tryE (fs_Add env dir) retE
       (\<lambda>err. tryE (fs_Close env) (\<lambda>_. failE (ErrMsg (''failed to add watch: '' @ error_text err)))
         (\<lambda>_. failE (ErrMsg (''failed to add watch: '' @ error_text err)))))
     (\<lambda>err. failE (ErrMsg (''failed to create new watcher: '' @ error_text err)))"

definition NewCNIConfManager ::
  "'s conf_env \<Rightarrow> string \<Rightarrow> string \<Rightarrow> string \<Rightarrow> string \<Rightarrow> 's kube \<Rightarrow> int \<Rightarrow> ('s, 's Manager) io" where
  "NewCNIConfManager env dir file cidrs cmName client port =
     bindE (liftR (parseCidrs cidrs)) (\<lambda>cidrList.
     bindE (newWatcher env dir) (\<lambda>_. retE \<lparr>cniConfDir = dir, cniConfFile = file, cniConfFileTemp = file @ ''.tmp'',
       cniUninstallConfigMapName = cmName, exceptionCidrs = cidrList, k8sClient = client, grpcPort = port,
       mgr_env = env\<rparr>))"

definition confPath :: "'s Manager \<Rightarrow> string" where
  "confPath mgr = path_Join [cniConfDir mgr, cniConfFile mgr]"

definition IsReady :: "'s Manager \<Rightarrow> ('s, bool) io" where
  "IsReady mgr = tryE (os_Stat (mgr_env mgr) (confPath mgr)) (\<lambda>_. retE True) (\<lambda>_. retE False)"

section \<open>The main plugin\<close>

definition is_conf_name :: "string \<Rightarrow> string \<Rightarrow> bool" where
  "is_conf_name own name \<longleftrightarrow> \<not> EqualFold name own \<and>
     (Ext name = ''.conflist'' \<or> Ext name = ''.conf'' \<or> Ext name = ''.json'')"

definition confFiles :: "string \<Rightarrow> dir_entry list \<Rightarrow> string list" where
  "confFiles own files = map de_Name (filter (\<lambda>f. de_Regular f \<and> is_conf_name own (de_Name f)) files)"

definition findMasterPlugin :: "'s conf_env \<Rightarrow> string \<Rightarrow> string \<Rightarrow> ('s, string) io" where
  "findMasterPlugin env dir own =
     bindE (wrapE ''failed to read cni config directory'' (os_ReadDir env dir)) (\<lambda>files.
       case sort (confFiles own files) of
         [] \<Rightarrow> failE ErrMainCNINotFound
       | f # _ \<Rightarrow> retE (path_Join [dir, f]))"

section \<open>Chaining the plugin\<close>

text \<open>An empty list of exceptions is a nil slice, which is written as \<open>null\<close>.\<close>

definition egressPlugin :: "'s Manager \<Rightarrow> json" where
  "egressPlugin mgr = JObj [(''type'', JStr KubeEgressCNIName),
     (''ipam'', JObj [(''type'', JStr KubeEgressIPAMCNIName)]),
     (''excludedCIDRs'', if exceptionCidrs mgr = [] then JNull else JArr (map JStr (exceptionCidrs mgr))),
     (''socketPath'', JStr (''localhost:'' @ Itoa (grpcPort mgr)))]"

text \<open>A single configuration becomes a list: its name and version move up to the list.\<close>

definition confToList :: "'s Manager \<Rightarrow> json_map \<Rightarrow> json_map res" where
  "confToList mgr rawConf = (case map_of rawConf ''name'' of
      None \<Rightarrow> Err (ErrMsg ''failed to find network name'')
    | Some networkName \<Rightarrow> (let conf1 = AList.delete ''name'' rawConf in
        case map_of conf1 ''cniVersion'' of
          None \<Rightarrow> Ok [(''name'', networkName), (''plugins'', JArr [JObj conf1, egressPlugin mgr])]
        | Some (JStr v) \<Rightarrow> Ok [(''name'', networkName), (''cniVersion'', JStr v),
            (''plugins'', JArr [JObj (AList.delete ''cniVersion'' conf1), egressPlugin mgr])]
        | Some _ \<Rightarrow> Err (ErrMsg ''cniVersion is not in string format'')))"

definition managePluginFromConf :: "'s Manager \<Rightarrow> string \<Rightarrow> ('s, json_map) io" where
  "managePluginFromConf mgr file =
     bindE (wrapE ''failed to read cni config file'' (os_ReadFile (mgr_env mgr) file)) (\<lambda>bytes.
     bindE (wrapE ''failed to unmarshal cni config'' (liftR (json_Unmarshal (mgr_env mgr) bytes))) (\<lambda>rawConf.
     liftR (confToList mgr rawConf)))"

text \<open>The loop that removes the plugin: plugins are checked up to the first one of this program.\<close>

definition isEgress :: "json \<Rightarrow> bool" where
  "isEgress t = (case t of JStr s \<Rightarrow> EqualFold s KubeEgressCNIName | _ \<Rightarrow> False)"

fun removeEgress :: "json list \<Rightarrow> json list res" where
  "removeEgress [] = Ok []"
| "removeEgress (plugin # ps) = (case plugin of
      JObj p \<Rightarrow> (case map_of p ''type'' of
          None \<Rightarrow> Err (ErrMsg ''failed to find type in plugin conf'')
        | Some cniType \<Rightarrow> if isEgress cniType then Ok ps
            else bindR (removeEgress ps) (\<lambda>qs. Ok (plugin # qs)))
    | _ \<Rightarrow> Err (ErrMsg ''failed to parse plugin conf''))"

text \<open>\<open>append(plugins[:1], append(new, plugins[1:]...)...)\<close>: slicing an empty slice from 1 panics.\<close>

fun insertSecond :: "json \<Rightarrow> json list \<Rightarrow> json list res" where
  "insertSecond new [] = Panic"
| "insertSecond new (p # ps) = Ok (p # new # ps)"

definition chainPlugins :: "'s Manager \<Rightarrow> json_map \<Rightarrow> json_map res" where
  "chainPlugins mgr rawList = (case map_of rawList ''plugins'' of
      None \<Rightarrow> Err (ErrMsg ''failed to find plugins in cni config file'')
    | Some (JArr []) \<Rightarrow> Err (ErrMsg ''empty plugin list in cni config file'')
    | Some (JArr plugins) \<Rightarrow> bindR (removeEgress plugins) (\<lambda>rest.
          bindR (insertSecond (egressPlugin mgr) rest) (\<lambda>qs. Ok (AList.update ''plugins'' (JArr qs) rawList)))
    | Some _ \<Rightarrow> Err (ErrMsg ''plugins field is not an array''))"

definition managePluginFromConfList :: "'s Manager \<Rightarrow> string \<Rightarrow> ('s, json_map) io" where
  "managePluginFromConfList mgr file =
     bindE (wrapE ''failed to read cni config file'' (os_ReadFile (mgr_env mgr) file)) (\<lambda>bytes.
     bindE (wrapE ''failed to unmarshal cni config'' (liftR (json_Unmarshal (mgr_env mgr) bytes))) (\<lambda>rawList.
     liftR (chainPlugins mgr rawList)))"

section \<open>Installing and removing the configuration\<close>

definition insertCNIPluginConf :: "'s Manager \<Rightarrow> ('s, unit) io" where
  "insertCNIPluginConf mgr = (let env = mgr_env mgr; tmpFile = path_Join [cniConfDir mgr, cniConfFileTemp mgr] in
     bindE (findMasterPlugin env (cniConfDir mgr) (cniConfFile mgr)) (\<lambda>file.
     bindE (if Ext file = ''.conflist'' then managePluginFromConfList mgr file else managePluginFromConf mgr file) (\<lambda>rawList.
     bindE (wrapE ''failed to marshal bytes into json'' (liftR (json_MarshalIndent env rawList))) (\<lambda>newBytes.
     bindE (wrapE ''failed to write to tmp file'' (os_WriteFile env tmpFile newBytes)) (\<lambda>_.
     wrapE ''failed to rename file'' (os_Rename env tmpFile (confPath mgr)))))))"

definition removeCNIPluginConf :: "'s Manager \<Rightarrow> ('s, unit) io" where
  "removeCNIPluginConf mgr = (let env = mgr_env mgr; k = k8sClient mgr; file = confPath mgr in
     tryE (kGet (k_ConfigMap k) (k_Getenv k PodNamespaceEnvKey) (cniUninstallConfigMapName mgr))
      (\<lambda>cm. if valS (cm_Data cm ''uninstall'') = ''false'' then retE ()
        else tryE (os_Stat env file)
          (\<lambda>_. retry_OnError env 10 (wrapE ''failed to delete file'' (os_Remove env file)))
          (\<lambda>err. if os_IsNotExist env err then retE () else failE (Wrap ''failed to stat file'' err)))
      (\<lambda>err. if IsNotFound err then retE ()
        else failE (Wrap ''failed to get cni uninstall configMap'' err)))"

text \<open>
  What the \<open>select\<close> of the watch loop receives: an event on a file, an error of the watcher, or the
  end of the context. \<open>watchLoop\<close> returns whether it ended; it does not when the sequence stops before the
  context does.
\<close>

datatype conf_event = FileEvent string | WatcherError | ContextDone

definition log_error :: "('s, unit) io \<Rightarrow> ('s, unit) io" where
  "log_error m = tryE m retE (\<lambda>_. retE ())"

fun watchLoop :: "'s Manager \<Rightarrow> conf_event list \<Rightarrow> ('s, bool) io" where
  "watchLoop mgr [] = retE False"
| "watchLoop mgr (FileEvent name # es) = (if Contains name (cniConfFile mgr) then watchLoop mgr es
     else bindE (log_error (insertCNIPluginConf mgr)) (\<lambda>_. watchLoop mgr es))"
| "watchLoop mgr (WatcherError # es) = watchLoop mgr es"
| "watchLoop mgr (ContextDone # es) = bindE (log_error (removeCNIPluginConf mgr)) (\<lambda>_. retE True)"

definition closeWatcher :: "'s Manager \<Rightarrow> 's \<Rightarrow> 's" where
  "closeWatcher mgr s = snd (fs_Close (mgr_env mgr) s)"

definition Start :: "'s Manager \<Rightarrow> conf_event list \<Rightarrow> ('s, bool) io" where
  "Start mgr events s = (let body = tryE (insertCNIPluginConf mgr) (\<lambda>_. watchLoop mgr events)
       (\<lambda>err. if err = ErrMainCNINotFound then watchLoop mgr events else failE err) in
     case body s of (Ok False, s1) \<Rightarrow> (Ok False, s1) | (r, s1) \<Rightarrow> (r, closeWatcher mgr s1))"

end
