(* ===== verification/CNI_Conf_Proofs.thy ===== *)
theory CNI_Conf_Proofs
  imports CNI_Conf
begin

text \<open>
  Lemmas on the CNI configuration manager: paths, the choice of the main plugin, the chained
  plugin list, the exception list, the installation of the file and the watch loop.
\<close>

section \<open>Paths\<close>

text \<open>A name that a directory entry can have: one element, not \<open>.\<close> or \<open>..\<close>.\<close>

definition base_name :: "string \<Rightarrow> bool" where
  "base_name f \<longleftrightarrow> f \<noteq> '''' \<and> f \<noteq> ''.'' \<and> f \<noteq> ''..'' \<and> CHR ''/'' \<notin> set f"

lemma Split_snoc: "c \<notin> set b \<Longrightarrow> Split (a @ c # b) c = Split a c @ [b]"
  by (induction a) (auto simp: Split_single split: list.splits)

lemma clean_parts_snoc: "base_name f \<Longrightarrow> clean_parts rooted st (ps @ [f]) = clean_parts rooted st ps @ [f]"
  by (induction rooted st ps rule: clean_parts.induct) (auto simp: base_name_def split: list.splits)

lemma Join_snoc: "Join (xs @ [w]) sep = (if xs = [] then w else Join xs sep @ sep @ w)"
  by (induction xs sep rule: Join.induct) auto

text \<open>The directory part is the same for all names.\<close>

definition dir_part :: "string \<Rightarrow> string" where
  "dir_part dir = (if HasPrefix dir ''/'' then ''/'' else '''') @
     (let ps = clean_parts (HasPrefix dir ''/'') [] (Split dir (CHR ''/'')) in
      if ps = [] then '''' else Join ps ''/'' @ ''/'')"

lemma path_Join_base:
  assumes "dir \<noteq> ''''" and "base_name f"
  shows "path_Join [dir, f] = dir_part dir @ f"
proof -
  have "HasPrefix (dir @ CHR ''/'' # f) ''/'' = HasPrefix dir ''/''"
    using assms(1) by (cases dir) (auto simp: HasPrefix_def)
  moreover have "Split (dir @ CHR ''/'' # f) (CHR ''/'') = Split dir (CHR ''/'') @ [f]"
    using assms(2) by (intro Split_snoc) (simp add: base_name_def)
  ultimately show ?thesis
    using assms by (simp add: Clean_def dir_part_def Let_def clean_parts_snoc Join_snoc base_name_def)
qed

lemma base_name_tmp: "base_name f \<Longrightarrow> base_name (f @ ''.tmp'')"
  by (auto simp: base_name_def append_eq_Cons_conv)

lemma Contains_append: "Contains (a @ p @ b) p"
proof (induction a)
  case Nil
  have "HasPrefix (p @ b) p" by simp
  then show ?case by (cases "p @ b") auto
qed simp

text \<open>Where the manager writes: the temporary and the final name, which differ.\<close>

definition tmpPath :: "'s Manager \<Rightarrow> string" where
  "tmpPath mgr = path_Join [cniConfDir mgr, cniConfFileTemp mgr]"

definition mgr_ok :: "'s Manager \<Rightarrow> bool" where
  "mgr_ok mgr \<longleftrightarrow> cniConfDir mgr \<noteq> '''' \<and> base_name (cniConfFile mgr) \<and> cniConfFileTemp mgr = cniConfFile mgr @ ''.tmp''"

lemma mgr_paths:
  assumes "mgr_ok mgr"
  shows "confPath mgr = dir_part (cniConfDir mgr) @ cniConfFile mgr"
    and "tmpPath mgr = dir_part (cniConfDir mgr) @ cniConfFile mgr @ ''.tmp''" and "tmpPath mgr \<noteq> confPath mgr"
proof -
  have ok: "cniConfDir mgr \<noteq> ''''" "base_name (cniConfFile mgr)" "cniConfFileTemp mgr = cniConfFile mgr @ ''.tmp''"
    using assms by (simp_all add: mgr_ok_def)
  show c: "confPath mgr = dir_part (cniConfDir mgr) @ cniConfFile mgr"
    unfolding confPath_def by (rule path_Join_base [OF ok(1,2)])
  show t: "tmpPath mgr = dir_part (cniConfDir mgr) @ cniConfFile mgr @ ''.tmp''"
    unfolding tmpPath_def ok(3) by (rule path_Join_base [OF ok(1) base_name_tmp [OF ok(2)]])
  show "tmpPath mgr \<noteq> confPath mgr" by (simp add: c t)
qed

lemma NewCNIConfManager_ok:
  assumes "dir \<noteq> ''''" and "base_name file" and "NewCNIConfManager env dir file cidrs cm k port s = (Ok mgr, s')"
  shows "mgr_ok mgr"
  using assms by (auto simp: NewCNIConfManager_def bindE_Ok_iff mgr_ok_def)

section \<open>The exceptions\<close>

lemma collectCidrs_valid:
  assumes "collectCidrs cs = Ok res"
  shows "\<forall>c\<in>set res. c \<noteq> '''' \<and> TrimSpace c = c \<and> ParseCIDR c \<noteq> None" and "set res \<subseteq> TrimSpace ` set cs"
  using assms by (induction cs arbitrary: res) (fastforce simp: Let_def split: if_splits)+

lemma collectCidrs_fixed:
  "\<forall>c\<in>set cs. c \<noteq> '''' \<and> TrimSpace c = c \<and> ParseCIDR c \<noteq> None \<Longrightarrow> collectCidrs cs = Ok cs"
  by (induction cs) (auto simp: Let_def)

lemma set_TrimSpace: "set (TrimSpace s) \<subseteq> set s"
proof -
  have "set (dropWhile p xs) \<subseteq> set xs" for p and xs :: string by (auto dest: set_dropWhileD)
  from this [of is_space "rev (dropWhile is_space s)"] this [of is_space s]
  show ?thesis by (auto simp: TrimSpace_def)
qed

lemma parseCidrs_reparse:
  assumes "parseCidrs s = Ok cs"
  shows "parseCidrs (Join cs '','') = Ok cs"
proof -
  have ok: "collectCidrs (Split s (CHR '','')) = Ok cs" using assms by (simp add: parseCidrs_def)
  have no: "CHR '','' \<notin> set c" if c: "c \<in> set cs" for c
  proof -
    obtain w where "w \<in> set (Split s (CHR '',''))" "c = TrimSpace w" using collectCidrs_valid(2) [OF ok] c by blast
    with Split_parts [of w s "CHR '',''"] set_TrimSpace [of w] show ?thesis by auto
  qed
  show ?thesis
  proof (cases "cs = []")
    case False
    with no have "Split (Join cs '','') (CHR '','') = cs" by (intro Split_Join) auto
    with collectCidrs_fixed collectCidrs_valid(1) [OF ok] show ?thesis by (simp add: parseCidrs_def)
  qed (simp add: parseCidrs_def)
qed

section \<open>The main plugin\<close>

lemma findMasterPlugin_Ok:
  assumes "findMasterPlugin env dir own s = (Ok file, s')"
  obtains files f where "os_ReadDir env dir s = (Ok files, s')" "file = path_Join [dir, f]" "f \<in> set (confFiles own files)"
    "\<forall>g\<in>set (confFiles own files). f \<le> g"
proof -
  from assms obtain files s1 where rd: "os_ReadDir env dir s = (Ok files, s1)"
    and rest: "(case sort (confFiles own files) of [] \<Rightarrow> failE ErrMainCNINotFound | f # _ \<Rightarrow> retE (path_Join [dir, f])) s1 = (Ok file, s')"
    by (auto simp: findMasterPlugin_def bindE_Ok_iff wrapE_Ok_iff)
  then obtain f fs where st: "sort (confFiles own files) = f # fs" "file = path_Join [dir, f]" "s' = s1"
    by (cases "sort (confFiles own files)") auto
  have "set (sort (confFiles own files)) = set (confFiles own files)" "sorted (sort (confFiles own files))"
    by simp_all
  then have "set (f # fs) = set (confFiles own files)" "sorted (f # fs)" by (simp_all only: st(1))
  then have "f \<in> set (confFiles own files)" "\<forall>g\<in>set (confFiles own files). f \<le> g"
    by (auto simp: set_eq_iff)
  with rd st(2,3) show thesis by (intro that [of files f]) simp_all
qed

lemma findMasterPlugin_none:
  assumes "os_ReadDir env dir s = (Ok files, s')"
  shows "findMasterPlugin env dir own s = (Err ErrMainCNINotFound, s') \<longleftrightarrow> confFiles own files = []"
proof -
  have "sort (confFiles own files) = [] \<longleftrightarrow> confFiles own files = []"
    by (metis length_0_conv length_sort)
  then show ?thesis using assms
    by (auto simp: findMasterPlugin_def go_simps split: list.splits)
qed

section \<open>The plugin list\<close>

definition egress_plugin :: "json \<Rightarrow> bool" where
  "egress_plugin p = (case p of JObj m \<Rightarrow> (case map_of m ''type'' of None \<Rightarrow> False | Some t \<Rightarrow> isEgress t) | _ \<Rightarrow> False)"

definition typed_plugin :: "json \<Rightarrow> bool" where
  "typed_plugin p = (case p of JObj m \<Rightarrow> map_of m ''type'' \<noteq> None | _ \<Rightarrow> False)"

lemma removeEgress_Ok: "removeEgress ps = Ok qs \<Longrightarrow> qs = drop_first egress_plugin ps"
  by (induction ps arbitrary: qs) (auto simp: egress_plugin_def split: json.splits option.splits if_splits)

lemma removeEgress_typed:
  "\<forall>p\<in>set ps. typed_plugin p \<Longrightarrow> removeEgress ps = Ok (drop_first egress_plugin ps)"
  by (induction ps) (auto simp: egress_plugin_def typed_plugin_def split: json.splits)

lemma removeEgress_not_panic: "removeEgress ps \<noteq> Panic"
  by (induction ps) (auto simp: bindR_Panic_iff split: json.splits option.splits)

lemma egressPlugin_typed: "typed_plugin (egressPlugin mgr)" "egress_plugin (egressPlugin mgr)"
  by (simp_all add: typed_plugin_def egress_plugin_def egressPlugin_def isEgress_def)

lemma update_idem: "AList.update k v (AList.update k v m) = AList.update k v m"
  by (induction m) auto

lemma insertSecond_Ok: "insertSecond e ps = Ok qs \<longleftrightarrow> (\<exists>p rest. ps = p # rest \<and> qs = p # e # rest)"
  by (cases ps) auto

lemma chainPlugins_eq:
  "chainPlugins mgr raw = (case map_of raw ''plugins'' of
      None \<Rightarrow> Err (ErrMsg ''failed to find plugins in cni config file'')
    | Some (JArr ps) \<Rightarrow> if ps = [] then Err (ErrMsg ''empty plugin list in cni config file'')
        else bindR (removeEgress ps) (\<lambda>rest.
          bindR (insertSecond (egressPlugin mgr) rest) (\<lambda>qs. Ok (AList.update ''plugins'' (JArr qs) raw)))
    | Some _ \<Rightarrow> Err (ErrMsg ''plugins field is not an array''))"
  unfolding chainPlugins_def by (simp split: option.split json.split list.split)

lemma chainPlugins_Ok:
  "chainPlugins mgr raw = Ok out \<longleftrightarrow> (\<exists>ps p rest. map_of raw ''plugins'' = Some (JArr ps) \<and> ps \<noteq> [] \<and>
     removeEgress ps = Ok (p # rest) \<and> out = AList.update ''plugins'' (JArr (p # egressPlugin mgr # rest)) raw)"
  by (auto simp: chainPlugins_eq insertSecond_Ok split: option.splits json.splits if_splits)

lemma chainPlugins_shape:
  assumes "chainPlugins mgr raw = Ok out"
  obtains ps p rest where "map_of raw ''plugins'' = Some (JArr ps)" "drop_first egress_plugin ps = p # rest"
    "map_of out ''plugins'' = Some (JArr (p # egressPlugin mgr # rest))" "\<And>k. k \<noteq> ''plugins'' \<Longrightarrow> map_of out k = map_of raw k"
proof -
  from assms obtain ps p rest where raw: "map_of raw ''plugins'' = Some (JArr ps)" "removeEgress ps = Ok (p # rest)"
    "out = AList.update ''plugins'' (JArr (p # egressPlugin mgr # rest)) raw" by (auto simp: chainPlugins_Ok)
  show thesis
    using raw removeEgress_Ok [OF raw(2)] by (intro that [of ps p rest]) (simp_all add: update_conv')
qed

lemma chainPlugins_again:
  assumes raw: "map_of raw ''plugins'' = Some (JArr ps)" and typed: "\<forall>p\<in>set ps. typed_plugin p"
    and one: "length (filter egress_plugin ps) \<le> 1" and run: "chainPlugins mgr raw = Ok out"
  shows "chainPlugins mgr out = Ok out"
    and "\<exists>qs. map_of out ''plugins'' = Some (JArr qs) \<and> length (filter egress_plugin qs) = 1"
proof -
  from run raw obtain p rest where rm: "removeEgress ps = Ok (p # rest)"
    and out: "out = AList.update ''plugins'' (JArr (p # egressPlugin mgr # rest)) raw" by (auto simp: chainPlugins_Ok)
  have dp: "drop_first egress_plugin ps = p # rest" using removeEgress_Ok [OF rm] by simp
  have none: "filter egress_plugin (p # rest) = []"
    using one unfolding dp [symmetric] by (induction ps) auto
  have "set (p # rest) \<subseteq> set ps" using set_drop_first [of egress_plugin ps] by (simp only: dp)
  then have "\<forall>q\<in>set (p # egressPlugin mgr # rest). typed_plugin q" using typed egressPlugin_typed(1) by auto
  moreover have "drop_first egress_plugin (p # egressPlugin mgr # rest) = p # rest"
    using none egressPlugin_typed(2) [of mgr] by (simp split: if_splits)
  ultimately have "removeEgress (p # egressPlugin mgr # rest) = Ok (p # rest)"
    using removeEgress_typed [of "p # egressPlugin mgr # rest"] by simp
  moreover have mo: "map_of out ''plugins'' = Some (JArr (p # egressPlugin mgr # rest))"
    by (simp add: out update_conv')
  ultimately show "chainPlugins mgr out = Ok out"
    by (auto simp: chainPlugins_Ok out update_idem)
  show "\<exists>qs. map_of out ''plugins'' = Some (JArr qs) \<and> length (filter egress_plugin qs) = 1"
    using mo none egressPlugin_typed(2) [of mgr] by (auto split: if_splits)
qed

lemma chainPlugins_panic:
  "chainPlugins mgr raw = Panic \<longleftrightarrow>
     (\<exists>p. map_of raw ''plugins'' = Some (JArr [p]) \<and> egress_plugin p)"
proof -
  have "removeEgress ps = Ok [] \<longleftrightarrow> (\<exists>p. ps = [p] \<and> egress_plugin p)" if "ps \<noteq> []" for ps
  proof -
    have "\<exists>p. ps = [p] \<and> egress_plugin p" if "removeEgress ps = Ok []"
      using removeEgress_Ok [OF that] \<open>ps \<noteq> []\<close> by (cases ps) (auto split: if_splits)
    moreover have "removeEgress [p] = Ok []" if "egress_plugin p" for p
      using that by (auto simp: egress_plugin_def split: json.splits option.splits)
    ultimately show ?thesis by blast
  qed
  moreover have "insertSecond e qs = Panic \<longleftrightarrow> qs = []" for e qs by (cases qs) auto
  ultimately show ?thesis
    by (auto simp: chainPlugins_eq bindR_Panic_iff removeEgress_not_panic split: option.splits json.splits if_splits)
qed

section \<open>Installing the file\<close>

text \<open>
  The file system as a map from paths to contents. A rename replaces its target in one step; a
  write that fails may leave anything under the name it was given, and nothing else changes.
  A retry that succeeds ends with a run of its function that succeeds.
\<close>

definition fs_laws :: "'s conf_env \<Rightarrow> ('s \<Rightarrow> string \<rightharpoonup> string) \<Rightarrow> bool" where
  "fs_laws env fsv \<longleftrightarrow>
     (\<forall>p. reads fsv (os_ReadDir env p)) \<and>
     (\<forall>p v. triple (\<lambda>s. fsv s = v) (os_ReadFile env p) (\<lambda>b s. fsv s = v \<and> v p = Some b) (\<lambda>_ s. fsv s = v) (\<lambda>_. False)) \<and>
     (\<forall>p v. triple (\<lambda>s. fsv s = v) (os_Stat env p) (\<lambda>_ s. fsv s = v)
        (\<lambda>e s. fsv s = v \<and> (os_IsNotExist env e \<longrightarrow> v p = None)) (\<lambda>_. False)) \<and>
     (\<forall>p b v. triple (\<lambda>s. fsv s = v) (os_WriteFile env p b) (\<lambda>_ s. fsv s = v(p \<mapsto> b))
        (\<lambda>_ s. \<forall>q. q \<noteq> p \<longrightarrow> fsv s q = v q) (\<lambda>_. False)) \<and>
     (\<forall>p q v. triple (\<lambda>s. fsv s = v) (os_Rename env p q) (\<lambda>_ s. fsv s = v(p := None, q := v p))
        (\<lambda>_ s. fsv s = v) (\<lambda>_. False)) \<and>
     (\<forall>p v. triple (\<lambda>s. fsv s = v) (os_Remove env p) (\<lambda>_ s. fsv s = v(p := None)) (\<lambda>_ s. fsv s = v) (\<lambda>_. False)) \<and>
     (\<forall>n f s s'. retry_OnError env n f s = (Ok (), s') \<longrightarrow> (\<exists>s0. f s0 = (Ok (), s')))"

text \<open>What a file with the main configuration is turned into.\<close>

definition chained :: "'s Manager \<Rightarrow> string \<Rightarrow> json_map \<Rightarrow> json_map res" where
  "chained mgr file raw = (if Ext file = ''.conflist'' then chainPlugins mgr raw else confToList mgr raw)"

definition installed_from :: "'s Manager \<Rightarrow> (string \<rightharpoonup> string) \<Rightarrow> string \<Rightarrow> string \<Rightarrow> bool" where
  "installed_from mgr v file b \<longleftrightarrow> (\<exists>bytes raw out. v file = Some bytes \<and> json_Unmarshal (mgr_env mgr) bytes = Ok raw \<and>
     chained mgr file raw = Ok out \<and> json_MarshalIndent (mgr_env mgr) out = Ok b)"

lemma manage_eq:
  "(if Ext file = ''.conflist'' then managePluginFromConfList mgr file else managePluginFromConf mgr file) =
     bindE (wrapE ''failed to read cni config file'' (os_ReadFile (mgr_env mgr) file)) (\<lambda>bytes.
     bindE (wrapE ''failed to unmarshal cni config'' (liftR (json_Unmarshal (mgr_env mgr) bytes))) (\<lambda>raw.
     liftR (chained mgr file raw)))"
  by (simp add: managePluginFromConfList_def managePluginFromConf_def chained_def)

lemma fs_calls:
  assumes laws: "fs_laws env fsv"
  shows "triple (\<lambda>s. fsv s = v) (os_ReadDir env p) (\<lambda>_ s. fsv s = v) (\<lambda>_ s. fsv s = v) (\<lambda>_. False)"
    and "triple (\<lambda>s. fsv s = v) (os_ReadFile env p) (\<lambda>b s. fsv s = v \<and> v p = Some b) (\<lambda>_ s. fsv s = v) (\<lambda>_. False)"
    and "triple (\<lambda>s. fsv s = v) (os_Stat env p) (\<lambda>_ s. fsv s = v)
      (\<lambda>e s. fsv s = v \<and> (os_IsNotExist env e \<longrightarrow> v p = None)) (\<lambda>_. False)"
    and "triple (\<lambda>s. fsv s = v) (os_WriteFile env p b) (\<lambda>_ s. fsv s = v(p \<mapsto> b))
      (\<lambda>_ s. \<forall>q. q \<noteq> p \<longrightarrow> fsv s q = v q) (\<lambda>_. False)"
    and "triple (\<lambda>s. fsv s = v) (os_Rename env p q) (\<lambda>_ s. fsv s = v(p := None, q := v p)) (\<lambda>_ s. fsv s = v) (\<lambda>_. False)"
    and "triple (\<lambda>s. fsv s = v) (os_Remove env p) (\<lambda>_ s. fsv s = v(p := None)) (\<lambda>_ s. fsv s = v) (\<lambda>_. False)"
    and "retry_OnError env n f t = (Ok (), t') \<Longrightarrow> \<exists>t0. f t0 = (Ok (), t')"
  using laws reads_triple [of fsv] unfolding fs_laws_def by blast+

text \<open>Everything outside the temporary file is as it was.\<close>

abbreviation only_tmp :: "'s Manager \<Rightarrow> ('s \<Rightarrow> string \<rightharpoonup> string) \<Rightarrow> (string \<rightharpoonup> string) \<Rightarrow> 's \<Rightarrow> bool" where
  "only_tmp mgr fsv v s \<equiv> \<forall>q. q \<noteq> tmpPath mgr \<longrightarrow> fsv s q = v q"

lemma findMasterPlugin_keeps:
  assumes laws: "fs_laws env fsv"
  shows "keeps (\<lambda>s. fsv s = v) (findMasterPlugin env dir own)"
proof -
  have "keeps (\<lambda>s. fsv s = v) (os_ReadDir env dir)"
    by (rule triple_conseq [OF fs_calls(1) [OF laws]]) auto
  then show ?thesis
    unfolding findMasterPlugin_def by (intro keeps_bind keeps_wrap) (auto intro!: keeps_fail keeps_ret split: list.split)
qed

lemma manage_triple:
  assumes laws: "fs_laws (mgr_env mgr) fsv"
  shows "triple (\<lambda>s. fsv s = v) (if Ext file = ''.conflist'' then managePluginFromConfList mgr file else managePluginFromConf mgr file)
    (\<lambda>out s. fsv s = v \<and> (\<exists>bytes raw. v file = Some bytes \<and> json_Unmarshal (mgr_env mgr) bytes = Ok raw \<and>
      chained mgr file raw = Ok out)) (\<lambda>_ s. fsv s = v) (\<lambda>s. fsv s = v)"
proof -
  let ?env = "mgr_env mgr"
  have rf: "triple (\<lambda>s. fsv s = v) (os_ReadFile ?env file) (\<lambda>b s. fsv s = v \<and> v file = Some b) (\<lambda>_ s. fsv s = v) (\<lambda>s. fsv s = v)"
    by (rule triple_conseq [OF fs_calls(2) [OF laws]]) auto
  show ?thesis
    unfolding manage_eq
    by (rule triple_bind [OF triple_wrap [OF rf]],
        rule triple_bind [where R = "\<lambda>raw s. fsv s = v \<and> (\<exists>bytes. v file = Some bytes \<and> json_Unmarshal ?env bytes = Ok raw)"])
      (auto intro!: triple_wrap triple_lift)
qed

lemma write_triple:
  assumes laws: "fs_laws (mgr_env mgr) fsv" and paths: "tmpPath mgr \<noteq> confPath mgr"
  shows "triple (\<lambda>s. fsv s = v)
    (bindE (wrapE m (os_WriteFile (mgr_env mgr) (tmpPath mgr) b)) (\<lambda>_. wrapE n (os_Rename (mgr_env mgr) (tmpPath mgr) (confPath mgr))))
    (\<lambda>_ s. fsv s = v(tmpPath mgr := None, confPath mgr \<mapsto> b)) (\<lambda>_. only_tmp mgr fsv v) (\<lambda>_. False)"
proof (rule triple_bind [OF triple_wrap [OF fs_calls(4) [OF laws]]], rule triple_wrap)
  let ?w = "v(tmpPath mgr \<mapsto> b)"
  show "triple (\<lambda>s. fsv s = ?w) (os_Rename (mgr_env mgr) (tmpPath mgr) (confPath mgr))
      (\<lambda>_ s. fsv s = v(tmpPath mgr := None, confPath mgr \<mapsto> b)) (\<lambda>_. only_tmp mgr fsv v) (\<lambda>_. False)"
    by (rule triple_conseq [OF fs_calls(5) [OF laws, where v = ?w]]) (use paths in auto)
qed

lemma insertCNIPluginConf_triple:
  assumes laws: "fs_laws (mgr_env mgr) fsv" and paths: "tmpPath mgr \<noteq> confPath mgr"
  shows "triple (\<lambda>s. fsv s = v) (insertCNIPluginConf mgr)
    (\<lambda>_ s. \<exists>file b. installed_from mgr v file b \<and> fsv s = v(tmpPath mgr := None, confPath mgr \<mapsto> b))
    (\<lambda>_. only_tmp mgr fsv v) (only_tmp mgr fsv v)"
proof -
  let ?env = "mgr_env mgr" and ?E = "only_tmp mgr fsv v"
  let ?P = "\<lambda>file out s. fsv s = v \<and> (\<exists>bytes raw. v file = Some bytes \<and> json_Unmarshal ?env bytes = Ok raw \<and> chained mgr file raw = Ok out)"
  have master: "triple (\<lambda>s. fsv s = v) (findMasterPlugin ?env dir own) (\<lambda>_ s. fsv s = v) (\<lambda>_. ?E) ?E" for dir own
    by (rule triple_conseq [OF findMasterPlugin_keeps [OF laws]]) auto
  have manage: "triple (\<lambda>s. fsv s = v) (if Ext file = ''.conflist'' then managePluginFromConfList mgr file else managePluginFromConf mgr file)
      (?P file) (\<lambda>_. ?E) ?E" for "file"
    by (rule triple_conseq [OF manage_triple [OF laws]]) auto
  have one: "triple (?P file out) (wrapE m (liftR (json_MarshalIndent ?env out)))
      (\<lambda>b s. installed_from mgr v file b \<and> fsv s = v) (\<lambda>_. ?E) ?E" for m "file" out
    by (auto simp: installed_from_def intro!: triple_wrap triple_lift)
  have two: "triple (\<lambda>s. installed_from mgr v file b \<and> fsv s = v)
      (bindE (wrapE m (os_WriteFile ?env (tmpPath mgr) b)) (\<lambda>_. wrapE n (os_Rename ?env (tmpPath mgr) (confPath mgr))))
      (\<lambda>_ s. \<exists>file b. installed_from mgr v file b \<and> fsv s = v(tmpPath mgr := None, confPath mgr \<mapsto> b)) (\<lambda>_. ?E) ?E" for "file" b m n
    by (cases "installed_from mgr v file b", rule triple_conseq [OF write_triple [OF laws paths, of v m b n]])
      (auto simp: triple_def)
  show ?thesis
    unfolding insertCNIPluginConf_def Let_def tmpPath_def [symmetric]
    by (rule triple_bind [OF master], rule triple_bind [OF manage], rule triple_bind [OF one two])
qed

section \<open>Removing the file\<close>

lemma removeCNIPluginConf_removes:
  assumes laws: "fs_laws (mgr_env mgr) fsv"
    and cm: "kGet (k_ConfigMap (k8sClient mgr)) (k_Getenv (k8sClient mgr) PodNamespaceEnvKey)
      (cniUninstallConfigMapName mgr) s = (Ok cm, s1)"
    and flag: "cm_Data cm ''uninstall'' \<noteq> Some ''false''" and run: "removeCNIPluginConf mgr s = (Ok (), s')"
  shows "fsv s' (confPath mgr) = None"
proof -
  let ?env = "mgr_env mgr" and ?p = "confPath mgr"
  have "valS (cm_Data cm ''uninstall'') \<noteq> ''false''" using flag by (cases "cm_Data cm ''uninstall''") auto
  with run cm have "tryE (os_Stat ?env ?p) (\<lambda>_. retry_OnError ?env 10 (wrapE ''failed to delete file'' (os_Remove ?env ?p)))
      (\<lambda>err. if os_IsNotExist ?env err then retE () else failE (Wrap ''failed to stat file'' err)) s1 = (Ok (), s')"
    by (simp add: removeCNIPluginConf_def Let_def tryE_def)
  then consider t where "retry_OnError ?env 10 (wrapE ''failed to delete file'' (os_Remove ?env ?p)) t = (Ok (), s')"
    | e where "os_Stat ?env ?p s1 = (Err e, s')" "os_IsNotExist ?env e"
    by (auto simp: tryE_def retE_def failE_def split: prod.splits res.splits if_splits)
  then show ?thesis
  proof cases
    case 1
    from fs_calls(7) [OF laws 1] obtain t0 where "os_Remove ?env ?p t0 = (Ok (), s')" by (auto simp: wrapE_Ok_iff)
    from triple_OkD [OF fs_calls(6) [OF laws] refl this] show ?thesis by simp
  next
    case 2
    from triple_ErrD [OF fs_calls(3) [OF laws] refl 2(1)] 2(2) show ?thesis by simp
  qed
qed

section \<open>The watch loop\<close>

text \<open>Events that the loop passes over: those on files named like the manager's own, and errors of the watcher.\<close>

definition ignored_event :: "'s Manager \<Rightarrow> conf_event \<Rightarrow> bool" where
  "ignored_event mgr e = (case e of FileEvent n \<Rightarrow> Contains n (cniConfFile mgr) | WatcherError \<Rightarrow> True | ContextDone \<Rightarrow> False)"

lemma watchLoop_ignores: "watchLoop mgr es = watchLoop mgr (filter (\<lambda>e. \<not> ignored_event mgr e) es)"
  by (induction mgr es rule: watchLoop.induct) (auto simp: ignored_event_def)

lemma own_writes_ignored:
  assumes "mgr_ok mgr"
  shows "ignored_event mgr (FileEvent (confPath mgr))" "ignored_event mgr (FileEvent (tmpPath mgr))"
  using Contains_append [of "dir_part (cniConfDir mgr)" "cniConfFile mgr" "''''"]
    Contains_append [of "dir_part (cniConfDir mgr)" "cniConfFile mgr" "''.tmp''"]
  by (simp_all add: ignored_event_def mgr_paths [OF assms])

lemma log_error_result: "fst (log_error m s) = Ok () \<or> fst (log_error m s) = Panic"
  by (auto simp: log_error_def go_simps split: prod.splits res.splits)

lemma watchLoop_result:
  "fst (watchLoop mgr es s) = Ok (ContextDone \<in> set es) \<or> fst (watchLoop mgr es s) = Panic"
proof (induction mgr es arbitrary: s rule: watchLoop.induct)
  case (2 mgr name es)
  then show ?case using log_error_result [of "insertCNIPluginConf mgr" s]
    by (cases "log_error (insertCNIPluginConf mgr) s") (auto simp: bindE_simps, metis)
next
  case (4 mgr es)
  then show ?case using log_error_result [of "removeCNIPluginConf mgr" s]
    by (cases "log_error (removeCNIPluginConf mgr) s") (auto simp: bindE_simps retE_def)
qed (auto simp: retE_def)

end
