(* ===== verification/CNI_Props.thy ===== *)
theory CNI_Props
  imports CNI_Conf_Proofs LB_World
begin

text \<open>
  The properties of the CNI configuration manager, each with an instance at a concrete file
  system.
\<close>

section \<open>A directory\<close>

record conf_world =
  cw_files :: "(string \<times> string) list"
  cw_cm :: "string option"


definition azure_plugin :: json where
  "azure_plugin = JObj [(''type'', JStr ''azure-vnet''), (''mode'', JStr ''bridge'')]"

definition portmap_plugin :: json where
  "portmap_plugin = JObj [(''type'', JStr ''portmap'')]"

definition main_list :: json_map where
  "main_list = [(''name'', JStr ''azure''), (''plugins'', JArr [azure_plugin, portmap_plugin])]"

definition conf_env_demo :: "conf_world conf_env" where
  "conf_env_demo = \<lparr>
     os_ReadDir = (\<lambda>dir. retE [\<lparr>de_Name = ''20-other.conf'', de_Regular = True\<rparr>,
       \<lparr>de_Name = ''10-azure.conflist'', de_Regular = True\<rparr>, \<lparr>de_Name = ''01-egressgateway.conflist'', de_Regular = True\<rparr>,
       \<lparr>de_Name = ''00-dir.conf'', de_Regular = False\<rparr>]),
     os_ReadFile = (\<lambda>p s. case map_of (cw_files s) p of None \<Rightarrow> (Err (ErrMsg ''ENOENT''), s) | Some b \<Rightarrow> (Ok b, s)),
     os_WriteFile = (\<lambda>p b s. (Ok (), s\<lparr>cw_files := AList.update p b (cw_files s)\<rparr>)),
     os_Rename = (\<lambda>p q s. case map_of (cw_files s) p of None \<Rightarrow> (Err (ErrMsg ''ENOENT''), s)
       | Some b \<Rightarrow> (Ok (), s\<lparr>cw_files := AList.update q b (AList.delete p (cw_files s))\<rparr>)),
     os_Stat = (\<lambda>p s. case map_of (cw_files s) p of None \<Rightarrow> (Err (ErrMsg ''ENOENT''), s) | Some b \<Rightarrow> (Ok (), s)),
     os_Remove = (\<lambda>p s. case map_of (cw_files s) p of None \<Rightarrow> (Err (ErrMsg ''ENOENT''), s)
       | Some b \<Rightarrow> (Ok (), s\<lparr>cw_files := AList.delete p (cw_files s)\<rparr>)),
     os_IsNotExist = (\<lambda>e. error_text e = ''ENOENT''),
     json_Unmarshal = (\<lambda>b. if b = ''main'' then Ok main_list else Err (ErrMsg ''invalid character'')),
     json_MarshalIndent = (\<lambda>m. case map_of m ''plugins'' of Some (JArr ps) \<Rightarrow> Ok (''chained'' @ nat_str (length ps))
       | _ \<Rightarrow> Ok ''other''),
     fs_NewWatcher = retE (), fs_Add = (\<lambda>_. retE ()), fs_Close = retE (),
     retry_OnError = (\<lambda>n f s. f s)\<rparr>"

definition conf_kube :: "conf_world kube" where
  "conf_kube = offline_kube\<lparr>k_ConfigMap := offline_client\<lparr>kGet := (\<lambda>ns name s.
     (Ok \<lparr>cm_Meta = new_meta ns name, cm_Data = (\<lambda>k. if k = ''uninstall'' then cw_cm s else None)\<rparr>, s))\<rparr>\<rparr>"

definition conf_mgr :: "conf_world Manager" where
  "conf_mgr = \<lparr>cniConfDir = ''/etc/cni/net.d'', cniConfFile = ''01-egressgateway.conflist'',
     cniConfFileTemp = ''01-egressgateway.conflist.tmp'', cniUninstallConfigMapName = ''uninstall'',
     exceptionCidrs = [''10.0.0.0/8''], k8sClient = conf_kube, grpcPort = 80, mgr_env = conf_env_demo\<rparr>"


lemma map_of_AList [simp]:
  "map_of (AList.update p b m) = (map_of m)(p \<mapsto> b)" "map_of (AList.delete p m) = (map_of m)(p := None)"
  by (simp_all add: update_conv' delete_conv')


lemma conf_mgr_env [simp]: "mgr_env conf_mgr = conf_env_demo"
  by (simp add: conf_mgr_def)


lemma conf_paths: "confPath conf_mgr = ''/etc/cni/net.d/01-egressgateway.conflist''"
  "tmpPath conf_mgr = ''/etc/cni/net.d/01-egressgateway.conflist.tmp''"
  by code_simp+

section \<open>The plugin list\<close>

text \<open>
  Property C16. In a configuration list the plugin of this program becomes the second plugin, right
  after the main one: an earlier copy of it is dropped, all other plugins keep their order,
  and every other field of the list is unchanged.
\<close>

theorem chainPlugins_places_plugin:
  assumes "chainPlugins mgr raw = Ok out"
  shows "\<exists>ps p rest. map_of raw ''plugins'' = Some (JArr ps) \<and> drop_first egress_plugin ps = p # rest \<and>
    map_of out ''plugins'' = Some (JArr (p # egressPlugin mgr # rest)) \<and>
    (\<forall>k. k \<noteq> ''plugins'' \<longrightarrow> map_of out k = map_of raw k)"
  by (rule chainPlugins_shape [OF assms]) blast

definition chained_list :: json_map where
  "chained_list = [(''name'', JStr ''azure''),
     (''plugins'', JArr [azure_plugin, egressPlugin conf_mgr, portmap_plugin])]"

lemma other_plugins: "\<not> EqualFold ''azure-vnet'' KubeEgressCNIName" "\<not> EqualFold ''portmap'' KubeEgressCNIName"
  by code_simp+

lemma chained_run: "chainPlugins conf_mgr main_list = Ok chained_list"
  by (simp add: chainPlugins_def main_list_def chained_list_def azure_plugin_def portmap_plugin_def isEgress_def
      other_plugins)

theorem chainPlugins_places_plugin_witness:
  "\<exists>ps p rest. map_of main_list ''plugins'' = Some (JArr ps) \<and> drop_first egress_plugin ps = p # rest \<and>
    map_of chained_list ''plugins'' = Some (JArr (p # egressPlugin conf_mgr # rest))"
  using chainPlugins_places_plugin [OF chained_run] by blast

text \<open>
  The list that the manager writes is a fixed point: for a list of well-formed plugins with
  at most one copy of the plugin of this program, the result has exactly one, and chaining
  the result again gives the same list.
\<close>

lemma chainPlugins_stable:
  assumes "map_of raw ''plugins'' = Some (JArr ps)" and "list_all typed_plugin ps"
    and "length (filter egress_plugin ps) \<le> 1" and "chainPlugins mgr raw = Ok out"
  shows "chainPlugins mgr out = Ok out \<and>
    (\<exists>qs. map_of out ''plugins'' = Some (JArr qs) \<and> length (filter egress_plugin qs) = 1)"
  using chainPlugins_again [OF assms(1) _ assms(3,4)] assms(2) by (simp add: list_all_iff)

text \<open>
  Property C17. \<open>managePluginFromConfList\<close> panics on exactly one kind of list: the one whose only plugin is
  the plugin of this program. Removing it leaves an empty slice, which is then sliced from 1.
\<close>

theorem chainPlugins_panics_iff:
  "chainPlugins mgr raw = Panic \<longleftrightarrow> (\<exists>p. map_of raw ''plugins'' = Some (JArr [p]) \<and> egress_plugin p)"
  by (rule chainPlugins_panic)

section \<open>Installing the file\<close>




text \<open>
  The main configuration is the first one in byte order among the regular files of the
  directory that end in .conflist, .conf or .json and are not the manager's own file; there is
  none exactly when the directory has no such file.
\<close>

lemma findMasterPlugin_first:
  assumes "os_ReadDir env dir s = (Ok files, s')"
  shows "(confFiles own files = [] \<and> findMasterPlugin env dir own s = (Err ErrMainCNINotFound, s')) \<or>
    (\<exists>f. findMasterPlugin env dir own s = (Ok (path_Join [dir, f]), s') \<and> f \<in> set (confFiles own files) \<and>
      is_conf_name own f \<and> (\<forall>g\<in>set (confFiles own files). f \<le> g))"
proof (cases "sort (confFiles own files)")
  case Nil
  then have "confFiles own files = []" by (metis length_0_conv length_sort)
  with findMasterPlugin_none [OF assms] show ?thesis by blast
next
  case (Cons f fs)
  with assms have run: "findMasterPlugin env dir own s = (Ok (path_Join [dir, f]), s')"
    by (simp add: findMasterPlugin_def go_simps)
  have "set (sort (confFiles own files)) = set (confFiles own files)" "sorted (sort (confFiles own files))" by simp_all
  then have f: "f \<in> set (confFiles own files)" "\<forall>g\<in>set (confFiles own files). f \<le> g"
    unfolding Cons by (auto simp: set_eq_iff)
  from f(1) have "is_conf_name own f" by (auto simp: confFiles_def)
  with run f show ?thesis by (intro disjI2 exI [of _ f] conjI)
qed

section \<open>The exceptions\<close>

text \<open>
  Every exception that \<open>parseCidrs\<close> accepts is a valid CIDR block without surrounding
  space, and the accepted list, written with commas, parses to itself.
\<close>

lemma parseCidrs_roundtrip:
  assumes "parseCidrs s = Ok cs"
  shows "(\<forall>c\<in>set cs. ParseCIDR c \<noteq> None \<and> TrimSpace c = c) \<and> parseCidrs (Join cs '','') = Ok cs"
  using parseCidrs_reparse [OF assms] collectCidrs_valid(1) [of "Split s (CHR '','')" cs] assms
  by (auto simp: parseCidrs_def)

section \<open>The watch loop\<close>

text \<open>
  The manager does not react to itself: the events that its own writes of the temporary
  and the final file cause leave the loop where it was, in any world, and so do errors of
  the watcher; only the remaining events matter.
\<close>

lemma watchLoop_no_feedback:
  assumes "mgr_ok mgr"
  shows "watchLoop mgr (FileEvent (tmpPath mgr) # FileEvent (confPath mgr) # WatcherError # es) = watchLoop mgr es
    \<and> watchLoop mgr es = watchLoop mgr (filter (\<lambda>e. \<not> ignored_event mgr e) es)"
proof
  have "ignored_event mgr WatcherError" by (simp add: ignored_event_def)
  with own_writes_ignored [OF assms]
  show "watchLoop mgr (FileEvent (tmpPath mgr) # FileEvent (confPath mgr) # WatcherError # es) = watchLoop mgr es"
    by (simp add: ignored_event_def)
qed (rule watchLoop_ignores)

text \<open>
  The loop ends when, and only when, the context ends: failures to regenerate or to remove the
  file are logged and never end it. The only other way out is a panic.
\<close>

lemma watchLoop_ends_with_context:
  "fst (watchLoop mgr es s) = Ok (ContextDone \<in> set es) \<or> fst (watchLoop mgr es s) = Panic"
  by (rule watchLoop_result)

text \<open>
  A run of \<open>removeCNIPluginConf\<close> that finds the configuration map and succeeds leaves no configuration file,
  for every value of the uninstall flag except the text \<open>false\<close>: a missing or misspelt flag removes
  the file, although the comment asks for the flag to be true.
\<close>

lemma removeCNIPluginConf_unless_false:
  assumes "fs_laws (mgr_env mgr) fsv"
    and "kGet (k_ConfigMap (k8sClient mgr)) (k_Getenv (k8sClient mgr) PodNamespaceEnvKey)
      (cniUninstallConfigMapName mgr) s = (Ok cm, s1)"
    and "cm_Data cm ''uninstall'' \<noteq> Some ''false''" and "removeCNIPluginConf mgr s = (Ok (), s')"
  shows "fsv s' (confPath mgr) = None"
  by (rule removeCNIPluginConf_removes [OF assms])

definition installed_world :: conf_world where
  "installed_world = \<lparr>cw_files = [(''/etc/cni/net.d/01-egressgateway.conflist'', ''chained'')], cw_cm = Some ''no''\<rparr>"

end
