(* ===== verification/Azure_Props.thy ===== *)
theory Azure_Props
  imports AzManager
begin

text \<open>
  Properties of the Azure access layer and of the cloud configuration.
\<close>

section \<open>Retries\<close>




definition thirdTime :: "(nat, string) io" where
  "thirdTime s = (if s < 2 then (Err (ErrMsg ErrRateLimitReached), Suc s) else (Ok ''served'', Suc s))"


text \<open>
  The loop is transparent: if the first \<open>k\<close> attempts ask for a retry, time and backoff
  allow another and attempt \<open>k\<close> does not ask for one, the caller gets exactly what that attempt returned,
  value, final error or panic, and the world it left.
\<close>

lemma wrapRetry_returns_first_final:
  fixes clk :: "'s clock" and operation :: "('s, 'a) io" and s :: 's
  defines "st \<equiv> attempt_state clk operation defaultPollBackoff s"
  assumes "\<forall>j<k. \<exists>e. fst (operation (st j)) = Err e \<and> retr e"
    and "\<forall>j\<le>k. \<not> clk_expired clk defaultPollOverallTimeout s (st j)"
    and "\<forall>j<k. \<not> clk_capped clk defaultPollBackoff (bo_Steps defaultPollBackoff - Suc j)"
    and "\<forall>e. fst (operation (st k)) = Err e \<longrightarrow> \<not> retr e" and "k < 10"
  shows "wrapRetry clk operation retr [] s = operation (st k)"
proof -
  have "k < bo_Steps defaultPollBackoff" using assms(6) by (simp add: defaultPollBackoff_def)
  from poll_backoff_first [OF assms(2-5) [unfolded st_def] _ this, of 0]
  show ?thesis by (simp add: wrapRetry_def Let_def st_def)
qed

section \<open>Cloud configuration\<close>

text \<open>
  \<open>DefaultAndValidate\<close> succeeds exactly if the trimmed configuration is complete up to defaults; then
  every field that the manager reads is set, no defaulted or given field has surrounding white space, and a second
  run accepts the result unchanged.
\<close>

lemma DefaultAndValidate_accepts:
  assumes "DefaultAndValidate cfg = (res, cfg')"
  shows "(is_ok res \<longleftrightarrow> config_complete (setDefaults (trimSpace cfg))) \<and>
    (if is_ok res then config_complete cfg' \<and> trimSpace cfg' = cfg' \<and> DefaultAndValidate cfg' = (Ok (), cfg')
     else cfg' = trimSpace cfg \<and> (\<exists>m. res = Err (ErrMsg m)))"
proof -
  have "DefaultAndValidate cfg = (Ok (), setDefaults (trimSpace cfg))" if "config_complete (setDefaults (trimSpace cfg))"
    using that by (auto simp: DefaultAndValidate_def Let_def config_complete_def)
  then show ?thesis
    using DefaultAndValidate_cases [OF assms] assms DefaultAndValidate_complete [of cfg'] trimSpace_setDefaults [of cfg]
    by auto
qed

definition demo_config :: CloudConfig where
  "demo_config = \<lparr>cc_Cloud = '' AzurePublicCloud '', cc_TenantID = ''t'', cc_UserAgent = '''', cc_UserAssignedIdentityID = ''id'',
     cc_UseManagedIdentityExtension = True, cc_AADClientID = '''', cc_AADClientSecret = '''', cc_RateLimitConfig = None,
     cc_Location = ''eastus'', cc_SubscriptionID = ''sub'', cc_ResourceGroup = ''rg '', cc_LoadBalancerName = '''',
     cc_LoadBalancerResourceGroup = '' '', cc_VnetName = ''vnet'', cc_VnetResourceGroup = '''', cc_SubnetName = ''subnet''\<rparr>"

end
