(* ===== verification/Health_Probe.thy ===== *)
theory Health_Probe
  imports GoStrings Cloud_Config
begin

text \<open>
  The health probe of the load balancer on a gateway node, src/pkg/healthprobe/gw_health.go: the
  registry of active gateways and the handler of a probe. Every access to the registry holds the lock,
  so each operation is one step on it; \<open>Start\<close> serves HTTP until its context ends.
\<close>

record LBProbeServer =
  activeGateways :: "string \<rightharpoonup> bool"
  listenPort :: int

definition NewLBProbeServer :: "int \<Rightarrow> LBProbeServer" where
  "NewLBProbeServer port = \<lparr>activeGateways = Map.empty, listenPort = port\<rparr>"

definition AddGateway :: "string \<Rightarrow> LBProbeServer \<Rightarrow> LBProbeServer" where
  "AddGateway gatewayUID svr = svr\<lparr>activeGateways := (activeGateways svr)(gatewayUID \<mapsto> True)\<rparr>"

definition RemoveGateway :: "string \<Rightarrow> LBProbeServer \<Rightarrow> LBProbeServer" where
  "RemoveGateway gatewayUID svr = svr\<lparr>activeGateways := (activeGateways svr)(gatewayUID := None)\<rparr>"

text \<open>The result of \<open>GetGateways\<close> is some enumeration of the keys.\<close>

definition GetGateways :: "LBProbeServer \<Rightarrow> string set" where
  "GetGateways svr = dom (activeGateways svr)"

text \<open>The status code of the response.\<close>

definition serveHTTP :: "LBProbeServer \<Rightarrow> string \<Rightarrow> nat" where
  "serveHTTP svr reqPath = (let subPaths = Split reqPath (CHR ''/'') in
     if length subPaths \<noteq> 3 then 400
     else if activeGateways svr (subPaths ! 2) = None then 503 else 200)"

section \<open>Histories\<close>

text \<open>The steps of the registry, in the order in which they took the lock.\<close>

datatype registry_step = Added string | Removed string

fun probe_step :: "registry_step \<Rightarrow> LBProbeServer \<Rightarrow> LBProbeServer" where
  "probe_step (Added uid) = AddGateway uid"
| "probe_step (Removed uid) = RemoveGateway uid"

fun step_uid :: "registry_step \<Rightarrow> string" where
  "step_uid (Added uid) = uid"
| "step_uid (Removed uid) = uid"

lemma probe_step_gateways:
  "activeGateways (probe_step st svr) uid = (if step_uid st = uid then (case st of Added _ \<Rightarrow> Some True | Removed _ \<Rightarrow> None)
     else activeGateways svr uid)"
  by (cases st) (auto simp: AddGateway_def RemoveGateway_def)

lemma fold_gateways:
  "activeGateways (fold probe_step steps svr) uid = (case find (\<lambda>st. step_uid st = uid) (rev steps) of
     Some (Added _) \<Rightarrow> Some True | Some (Removed _) \<Rightarrow> None | None \<Rightarrow> activeGateways svr uid)"
proof (induction steps arbitrary: svr)
  case (Cons st steps)
  show ?case
    by (cases "find (\<lambda>st. step_uid st = uid) (rev steps)")
      (auto simp: Cons find_append_Some find_append_None probe_step_gateways split: registry_step.splits)
qed simp

text \<open>The path on which the load balancer probes a gateway: \<open>consts.GatewayHealthProbeEndpoint\<close> and the UID.\<close>

lemma Split_probe_path:
  assumes "CHR ''/'' \<notin> set uid"
  shows "Split (GatewayHealthProbeEndpoint @ uid) (CHR ''/'') = ['''', ''gw'', uid]"
  using Split_append [of "CHR ''/''" "''gw''" uid] Split_append [of "CHR ''/''" "[]" "''gw/'' @ uid"] assms
  by (simp add: GatewayHealthProbeEndpoint_def Split_single)

text \<open>
  Property C30. After any history of registrations and removals, the probe of a gateway answers 200
  exactly if the last step of the history about that gateway is a registration.
\<close>

theorem probe_answers_last_step:
  assumes "CHR ''/'' \<notin> set uid"
  shows "serveHTTP (fold probe_step steps (NewLBProbeServer port)) (GatewayHealthProbeEndpoint @ uid) =
    (case find (\<lambda>st. step_uid st = uid) (rev steps) of Some (Added _) \<Rightarrow> 200 | _ \<Rightarrow> 503)"
  using fold_gateways [of steps "NewLBProbeServer port" uid] Split_probe_path [OF assms]
  by (auto simp: serveHTTP_def NewLBProbeServer_def split: option.splits registry_step.splits)

theorem probe_answers_last_step_witness:
  "serveHTTP (fold probe_step [Added ''u1'', Added ''u2'', Removed ''u1''] (NewLBProbeServer 8082)) (GatewayHealthProbeEndpoint @ ''u1'') = 503"
proof -
  have "CHR ''/'' \<notin> set ''u1''" by simp
  from probe_answers_last_step [OF this, of "[Added ''u1'', Added ''u2'', Removed ''u1'']" 8082]
  show ?thesis by simp
qed

end
