(* ===== verification/GoNet.thy ===== *)
theory GoNet
  imports GoLib
begin

text \<open>
  What the program uses of Go's \<open>net\<close>: addresses as byte slices (empty for nil, else 4 or 16
  bytes), networks, their text and comparison.
\<close>

section \<open>Addresses\<close>

type_synonym ip = "nat list"

definition v4InV6Prefix :: ip where
  "v4InV6Prefix = replicate 10 0 @ [255, 255]"

definition To4 :: "ip \<Rightarrow> ip option" where
  "To4 i = (if length i = 4 then Some i
     else if length i = 16 \<and> take 12 i = v4InV6Prefix then Some (drop 12 i) else None)"

definition To16 :: "ip \<Rightarrow> ip option" where
  "To16 i = (if length i = 4 then Some (v4InV6Prefix @ i) else if length i = 16 then Some i else None)"

definition IP_Equal :: "ip \<Rightarrow> ip \<Rightarrow> bool" where
  "IP_Equal a b \<longleftrightarrow> a = b
     \<or> (length a = 4 \<and> length b = 16 \<and> take 12 b = v4InV6Prefix \<and> a = drop 12 b)
     \<or> (length a = 16 \<and> length b = 4 \<and> take 12 a = v4InV6Prefix \<and> drop 12 a = b)"

definition ParseIP :: "string \<Rightarrow> ip" where
  "ParseIP s = (case ParseAddr s of None \<Rightarrow> [] | Some bs \<Rightarrow> Val [] (To16 bs))"

section \<open>Text of an address\<close>

definition hex_digit :: "nat \<Rightarrow> char" where
  "hex_digit d = (if d < 10 then char_of (48 + d) else char_of (87 + d))"

fun hex_str :: "nat \<Rightarrow> string" where
  "hex_str n = (if n < 16 then [hex_digit n] else hex_str (n div 16) @ [hex_digit (n mod 16)])"

declare hex_str.simps [simp del]

fun groups16 :: "nat list \<Rightarrow> nat list" where
  "groups16 (a # b # bs) = (a * 256 + b) # groups16 bs"
| "groups16 _ = []"

definition zero_run :: "nat list \<Rightarrow> nat \<Rightarrow> nat" where
  "zero_run gs i = length (takeWhile (\<lambda>g. g = 0) (drop i gs))"

text \<open>The first of the longest runs of at least two zero groups, as its start and length.\<close>

definition longest_zeros :: "nat list \<Rightarrow> (nat \<times> nat) option" where
  "longest_zeros gs = foldl (\<lambda>best i. let l = zero_run gs i in
     if 2 \<le> l \<and> (case best of None \<Rightarrow> True | Some (_, m) \<Rightarrow> m < l) then Some (i, l) else best) None [0..<8]"

definition string6 :: "ip \<Rightarrow> string" where
  "string6 bs = (let gs = groups16 bs; text = (\<lambda>xs. Join (map hex_str xs) '':'') in
     case longest_zeros gs of
       None \<Rightarrow> text gs
     | Some (i, l) \<Rightarrow> text (take i gs) @ ''::'' @ text (drop (i + l) gs))"

definition string4 :: "ip \<Rightarrow> string" where
  "string4 bs = Join (map nat_str bs) ''.''"

text \<open>A slice of another length is printed in hexadecimal; no address of this program has one.\<close>

definition hex_byte :: "nat \<Rightarrow> string" where
  "hex_byte b = [hex_digit (b div 16), hex_digit (b mod 16)]"

definition IP_String :: "ip \<Rightarrow> string" where
  "IP_String i = (if i = [] then ''<nil>''
     else case To4 i of Some b \<Rightarrow> string4 b
     | None \<Rightarrow> if length i = 16 then string6 i else ''?'' @ concat (map hex_byte i))"

section \<open>Networks\<close>

record ipnet =
  in_IP :: ip
  in_Mask :: "nat list"

definition CIDRMask :: "nat \<Rightarrow> nat \<Rightarrow> nat list" where
  "CIDRMask ones bits = map (\<lambda>i. 256 - 2 ^ (8 - min 8 (ones - 8 * i))) [0..<bits div 8]"

text \<open>\<open>IPMask.Size\<close>: the number of leading ones, or 0 for a mask that is not a prefix.\<close>

definition byte_bits :: "nat \<Rightarrow> bool list" where
  "byte_bits b = map (\<lambda>k. odd (b div 2 ^ (7 - k))) [0..<8]"

definition mask_ones :: "nat list \<Rightarrow> nat option" where
  "mask_ones m = (let bs = concat (map byte_bits m); n = length (takeWhile id bs) in
     if list_all (\<lambda>b. \<not> b) (drop n bs) then Some n else None)"

definition Mask_Size :: "nat list \<Rightarrow> nat" where
  "Mask_Size m = Val 0 (mask_ones m)"

text \<open>\<open>IP.Mask\<close> with the mask of a prefix of \<open>ones\<close> bits, for an address of the width of the mask.\<close>

definition mask_prefix :: "nat \<Rightarrow> ip \<Rightarrow> ip" where
  "mask_prefix ones i = map (\<lambda>(k, b). let d = 2 ^ (8 - min 8 (ones - 8 * k)) in b - b mod d)
     (zip [0..<length i] i)"

text \<open>\<open>net.ParseCIDR\<close>: the address in 16 bytes, and the network with the masked address.\<close>

definition net_ParseCIDR :: "string \<Rightarrow> (ip \<times> ipnet) res" where
  "net_ParseCIDR s = (case ParseCIDR s of
      None \<Rightarrow> Err (ErrMsg (''invalid CIDR address: '' @ s))
    | Some (bs, n) \<Rightarrow> Ok (Val [] (To16 bs), \<lparr>in_IP = mask_prefix n bs, in_Mask = CIDRMask n (8 * length bs)\<rparr>))"

definition nil_ipnet :: ipnet where
  "nil_ipnet = \<lparr>in_IP = [], in_Mask = []\<rparr>"

text \<open>\<open>IPNet.String\<close>, where the address and the mask have the same width.\<close>

definition IPNet_String :: "ipnet \<Rightarrow> string" where
  "IPNet_String n = (let nn = Val (in_IP n) (To4 (in_IP n)) in
     if nn = [] \<or> length (in_Mask n) \<noteq> length nn then ''<nil>''
     else IP_String nn @ ''/'' @ (case mask_ones (in_Mask n) of Some l \<Rightarrow> nat_str l
       | None \<Rightarrow> concat (map hex_byte (in_Mask n))))"

section \<open>Facts\<close>

lemma IP_Equal_refl [simp]: "IP_Equal a a"
  by (simp add: IP_Equal_def)

lemma IP_Equal_sym: "IP_Equal a b \<longleftrightarrow> IP_Equal b a"
  by (auto simp: IP_Equal_def)

lemma IP_Equal_To16: "IP_Equal a b \<Longrightarrow> To16 a = To16 b"
proof -
  have "take 12 x = v4InV6Prefix \<Longrightarrow> v4InV6Prefix @ drop 12 x = x" for x by (metis append_take_drop_id)
  then show "IP_Equal a b \<Longrightarrow> To16 a = To16 b" by (auto simp: IP_Equal_def To16_def)
qed

lemma nat_str_octet: "n \<le> 255 \<Longrightarrow> octet (nat_str n) = Some n"
proof -
  assume n: "n \<le> 255"
  have "\<not> (1 < length (nat_str n) \<and> hd (nat_str n) = CHR ''0'')"
  proof -
    have "hd (nat_str m) \<noteq> CHR ''0'' \<or> m = 0" for m
    proof (induction m rule: nat_str.induct)
      case (1 m)
      then show ?case
        by (cases "m < 10") (auto simp: nat_str.simps [of m] digit_char_def hd_append char_of_eq_iff take_bit_eq_mod)
    qed
    moreover have "nat_str 0 = [digit_char 0]" by (simp add: nat_str.simps)
    ultimately show ?thesis by (cases "n = 0") auto
  qed
  then show ?thesis using n by (auto simp: octet_def parse_nat_str)
qed

lemma parseIPv4_string4:
  assumes "length bs = 4" and "\<forall>b\<in>set bs. b \<le> 255"
  shows "parseIPv4 (string4 bs) = Some bs"
proof -
  have "CHR ''.'' \<notin> set (nat_str n)" for n
    using nat_str_digits [of "CHR ''.''" n] by (auto simp: is_digit_def)
  then have "Split (string4 bs) (CHR ''.'') = map nat_str bs"
    unfolding string4_def using assms(1) by (intro Split_Join) auto
  then have "map octet (Split (string4 bs) (CHR ''.'')) = map Some bs"
    using assms(2) by (simp add: nat_str_octet)
  then show ?thesis using assms(1) by (simp add: parseIPv4_def Let_def comp_def)
qed

end
