(* ===== verification/Node_Net.thy ===== *)
theory Node_Net
  imports GoNet Api_Types
begin

text \<open>
  How the daemon and the CNI plugin reach the network of a node: src/pkg/netlinkwrapper,
  src/pkg/netnswrapper, src/pkg/wgctrlwrapper, src/pkg/iptableswrapper and src/pkg/imds.

  The wrappers pass on to libraries (vishvananda/netlink, containernetworking, wgctrl, iptables),
  system calls and the instance metadata service, which are the fields of the records below, functions over a
  world state \<open>'s\<close> that holds the current network namespace of the thread.
\<close>

section \<open>Netlink\<close>

datatype link_kind = Device | Wireguard | Veth string

record nl_link =
  lk_Name :: string
  lk_Alias :: string
  lk_Index :: int
  lk_HardwareAddr :: string
  lk_Kind :: link_kind

definition NewLinkAttrs :: "link_kind \<Rightarrow> string \<Rightarrow> nl_link" where
  "NewLinkAttrs kind name = \<lparr>lk_Name = name, lk_Alias = '''', lk_Index = 0, lk_HardwareAddr = '''', lk_Kind = kind\<rparr>"

datatype family = FAMILY_ALL | FAMILY_V4 | FAMILY_V6

record nl_addr =
  ad_IPNet :: "ipnet option"
  ad_Label :: string
  ad_Scope :: int

definition SCOPE_UNIVERSE :: int where "SCOPE_UNIVERSE = 0"
definition SCOPE_LINK :: int where "SCOPE_LINK = 253"

text \<open>A route, with the fields that the program sets or reads.\<close>

record nl_route =
  rt_LinkIndex :: int
  rt_Scope :: int
  rt_Dst :: "ipnet option"
  rt_Gw :: ip
  rt_Via :: "(ip \<times> family) option"
  rt_Family :: family
  rt_Table :: int
  rt_Protocol :: int

definition new_route :: nl_route where
  "new_route = \<lparr>rt_LinkIndex = 0, rt_Scope = SCOPE_UNIVERSE, rt_Dst = None, rt_Gw = [], rt_Via = None,
     rt_Family = FAMILY_ALL, rt_Table = 0, rt_Protocol = 0\<rparr>"

record nl_rule =
  ru_Mark :: "32 word"
  ru_Table :: int

record 's netlinkwrapper =
  LinkByName :: "string \<Rightarrow> ('s, nl_link) io"
  LinkAdd :: "nl_link \<Rightarrow> ('s, unit) io"
  LinkList :: "('s, nl_link list) io"
  LinkDel :: "nl_link \<Rightarrow> ('s, unit) io"
  LinkSetUp :: "nl_link \<Rightarrow> ('s, unit) io"
  LinkSetDown :: "nl_link \<Rightarrow> ('s, unit) io"
  LinkSetNsFd :: "nl_link \<Rightarrow> int \<Rightarrow> ('s, unit) io"
  LinkSetName :: "nl_link \<Rightarrow> string \<Rightarrow> ('s, unit) io"
  LinkSetAlias :: "nl_link \<Rightarrow> string \<Rightarrow> ('s, unit) io"
  AddrList :: "nl_link \<Rightarrow> family \<Rightarrow> ('s, nl_addr list) io"
  AddrAdd :: "nl_link \<Rightarrow> nl_addr \<Rightarrow> ('s, unit) io"
  AddrDel :: "nl_link \<Rightarrow> nl_addr \<Rightarrow> ('s, unit) io"
  AddrReplace :: "nl_link \<Rightarrow> nl_addr \<Rightarrow> ('s, unit) io"
  RouteReplace :: "nl_route \<Rightarrow> ('s, unit) io"
  RouteDel :: "nl_route \<Rightarrow> ('s, unit) io"
  RouteList :: "nl_link option \<Rightarrow> family \<Rightarrow> ('s, nl_route list) io"
  RuleAdd :: "nl_rule \<Rightarrow> ('s, unit) io"
  nl_ParseIPNet :: "string \<Rightarrow> ipnet res"
  nl_Addr_Equal :: "nl_addr \<Rightarrow> nl_addr \<Rightarrow> bool"

text \<open>The type assertion \<open>err.(netlink.LinkNotFoundError)\<close> looks at the error itself, not at what it wraps.\<close>

fun isLinkNotFound :: "error \<Rightarrow> bool" where
  "isLinkNotFound (LinkNotFound _) = True"
| "isLinkNotFound _ = False"

definition addr_IP :: "nl_addr \<Rightarrow> ip res" where
  "addr_IP a = bindR (deref (ad_IPNet a)) (\<lambda>n. Ok (in_IP n))"

text \<open>A call whose result is dropped, as in \<open>_ = f()\<close> of a deferred function.\<close>

definition ignoring :: "('s, 'a) io \<Rightarrow> 's \<Rightarrow> 's" where
  "ignoring m s = snd (m s)"

text \<open>\<open>LinkByName\<close> where a missing link is not an error: the variable stays nil.\<close>

definition lookupLink :: "'s netlinkwrapper \<Rightarrow> string \<Rightarrow> string \<Rightarrow> ('s, nl_link option) io" where
  "lookupLink nl msg name = tryE (LinkByName nl name) (\<lambda>l. retE (Some l))
     (\<lambda>e. if isLinkNotFound e then retE None else failE (Wrap msg e))"

section \<open>Network namespaces\<close>

record netns =
  ns_Path :: string
  ns_Fd :: int

record 's netns_sys =
  ns_GetNS :: "string \<Rightarrow> ('s, netns) io"
  ns_Enter :: "netns \<Rightarrow> ('s, unit) io"
  ns_Leave :: "netns \<Rightarrow> 's \<Rightarrow> 's"
  ns_Close :: "netns \<Rightarrow> ('s, unit) io"
  ns_Set :: "netns \<Rightarrow> ('s, unit) io"
  sys_ThreadNetNSPath :: "'s \<Rightarrow> string"
  sys_MkdirAll :: "string \<Rightarrow> ('s, unit) io"
  sys_CreateExclusive :: "string \<Rightarrow> ('s, unit) io"
  sys_RemoveAll :: "string \<Rightarrow> ('s, unit) io"
  sys_UnshareNet :: "('s, unit) io"
  sys_BindMount :: "string \<Rightarrow> string \<Rightarrow> ('s, unit) io"
  sys_Unmount :: "string \<Rightarrow> ('s, unit) io"
  sys_Remove :: "string \<Rightarrow> ('s, unit) io"
  sys_Readdir :: "string \<Rightarrow> ('s, (string \<times> bool) list) io"

text \<open>
  \<open>NetNS.Do\<close> runs its argument in the namespace: it switches, which may fail, runs, and switches
  back in a deferred function, whose error is dropped. Variables that the closure sets are its value.
\<close>

definition ns_Do :: "'s netns_sys \<Rightarrow> netns \<Rightarrow> ('s, 'a) io \<Rightarrow> ('s, 'a) io" where
  "ns_Do sys n body = bindE (ns_Enter sys n) (\<lambda>_. finE body (\<lambda>_. ns_Leave sys n))"

definition nsBaseDir :: string where
  "nsBaseDir = ''/var/run/netns''"

definition nsPathOf :: "string \<Rightarrow> string" where
  "nsPathOf nsName = path_Join [nsBaseDir, nsName]"

definition GetNS :: "'s netns_sys \<Rightarrow> string \<Rightarrow> ('s, netns) io" where
  "GetNS sys nsName = ns_GetNS sys (nsPathOf nsName)"

definition GetNSByPath :: "'s netns_sys \<Rightarrow> string \<Rightarrow> ('s, netns) io" where
  "GetNSByPath sys nsPath = ns_GetNS sys nsPath"

text \<open>
  The goroutine of \<open>NewNS\<close>: it remembers the namespace of its thread, unshares the network, mounts
  the new namespace at the path and switches back.
\<close>

definition newNSWork :: "'s netns_sys \<Rightarrow> string \<Rightarrow> ('s, unit) io" where
  "newNSWork sys nsPath = bindE (\<lambda>s. ns_GetNS sys (sys_ThreadNetNSPath sys s) s) (\<lambda>origNS.
     finE (bindE (sys_UnshareNet sys) (\<lambda>_.
       finE (wrapE ''failed to bind mount ns'' (\<lambda>s. sys_BindMount sys (sys_ThreadNetNSPath sys s) nsPath s))
         (\<lambda>_. ignoring (ns_Set sys origNS))))
       (\<lambda>_. ignoring (ns_Close sys origNS)))"

definition NewNS :: "'s netns_sys \<Rightarrow> string \<Rightarrow> ('s, netns) io" where
  "NewNS sys nsName = bindE (sys_MkdirAll sys nsBaseDir) (\<lambda>_.
     let nsPath = nsPathOf nsName in
     bindE (sys_CreateExclusive sys nsPath) (\<lambda>_.
     bindE (finE (wrapE ''failed to create namespace'' (newNSWork sys nsPath))
       (\<lambda>r s. if is_ok r then s else ignoring (sys_RemoveAll sys nsPath) s)) (\<lambda>_.
     ns_GetNS sys nsPath)))"

definition UnmountNS :: "'s netns_sys \<Rightarrow> string \<Rightarrow> ('s, unit) io" where
  "UnmountNS sys nsName = (let nsPath = nsPathOf nsName in
     bindE (wrapE ''failed to unmount NS'' (sys_Unmount sys nsPath)) (\<lambda>_.
     wrapE ''failed to remove ns path'' (sys_Remove sys nsPath)))"

text \<open>The directory entries are pairs of a name and whether it is a directory.\<close>

definition ListNS :: "'s netns_sys \<Rightarrow> ('s, string list) io" where
  "ListNS sys = bindE (sys_Readdir sys nsBaseDir) (\<lambda>files.
     retE (map fst (filter (\<lambda>f. \<not> snd f) files)))"

section \<open>WireGuard\<close>

type_synonym wgkey = "nat list"

record wg_peer =
  wp_PublicKey :: wgkey
  wp_AllowedIPs :: "ipnet list"

record wg_device =
  dev_PrivateKey :: wgkey
  dev_ListenPort :: int
  dev_Peers :: "wg_peer list"

record wg_peerconfig =
  pc_PublicKey :: wgkey
  pc_Remove :: bool
  pc_ReplaceAllowedIPs :: bool
  pc_AllowedIPs :: "ipnet list"
  pc_Endpoint :: "(ip \<times> int) option"

record wg_config =
  wc_PrivateKey :: "wgkey option"
  wc_ListenPort :: "int option"
  wc_Peers :: "wg_peerconfig list"

record 's wgctrlwrapper =
  wg_New :: "('s, unit) io"
  wg_Close :: "('s, unit) io"
  wg_Device :: "string \<Rightarrow> ('s, wg_device) io"
  wg_ConfigureDevice :: "string \<Rightarrow> wg_config \<Rightarrow> ('s, unit) io"
  wg_ParseKey :: "string \<Rightarrow> wgkey res"
  wg_KeyString :: "wgkey \<Rightarrow> string"

text \<open>The client of a function: opened first, closed by a deferred call whose error is dropped.\<close>

definition withWgClient :: "'s wgctrlwrapper \<Rightarrow> string \<Rightarrow> ('s, 'a) io \<Rightarrow> ('s, 'a) io" where
  "withWgClient wg msg body = bindE (wrapE msg (wg_New wg)) (\<lambda>_.
     finE body (\<lambda>_. ignoring (wg_Close wg)))"

section \<open>Packet filter\<close>

text \<open>The interface of \<open>k8s.io/kubernetes/pkg/util/iptables\<close>, as far as the daemon uses it.\<close>

record 's utiliptables =
  EnsureChain :: "string \<Rightarrow> string \<Rightarrow> ('s, bool) io"
  EnsureRule :: "string \<Rightarrow> string \<Rightarrow> string \<Rightarrow> string list \<Rightarrow> ('s, bool) io"
  DeleteRule :: "string \<Rightarrow> string \<Rightarrow> string list \<Rightarrow> ('s, unit) io"
  SaveInto :: "string \<Rightarrow> ('s, string) io"
  ipt_Restore :: "string \<Rightarrow> string \<Rightarrow> bool \<Rightarrow> bool \<Rightarrow> ('s, unit) io"
  RestoreAll :: "string \<Rightarrow> bool \<Rightarrow> bool \<Rightarrow> ('s, unit) io"
  GetChainsFromTable :: "string \<Rightarrow> string list"
  MakeChainLine :: "string \<Rightarrow> string"

text \<open>Its constants: rule positions, the table, built-in chains and the flags \<open>NoFlushTables\<close>, \<open>NoRestoreCounters\<close>.\<close>

definition Prepend :: string where "Prepend = ''-I''"
definition Append :: string where "Append = ''-A''"
definition TableNAT :: string where "TableNAT = ''nat''"
definition ChainPrerouting :: string where "ChainPrerouting = ''PREROUTING''"
definition ChainPostrouting :: string where "ChainPostrouting = ''POSTROUTING''"
definition NoFlushTables :: bool where "NoFlushTables = False"
definition NoRestoreCounters :: bool where "NoRestoreCounters = False"

section \<open>Instance metadata\<close>

record imds_Subnet =
  sn_Address :: string
  sn_Prefix :: string

record imds_IPAddress =
  ia_PrivateIP :: string
  ia_PublicIP :: string

record imds_IPData =
  id_IPAddress :: "imds_IPAddress list"
  id_Subnet :: "imds_Subnet list"

record imds_NetworkInterface =
  ni_IPv4 :: imds_IPData
  ni_MacAddress :: string

record NetworkMetadata =
  nm_Interface :: "imds_NetworkInterface list"

record imds_OSProfile =
  op_ComputerName :: string

record ComputeMetadata =
  cp_AzEnvironment :: string
  cp_Location :: string
  cp_Name :: string
  cp_OSType :: string
  cp_OSProfile :: imds_OSProfile
  cp_ResourceGroupName :: string
  cp_ResourceID :: string
  cp_SubscriptionID :: string
  cp_Tags :: string
  cp_VMScaleSetName :: string

record InstanceMetadata =
  im_Compute :: "ComputeMetadata option"
  im_Network :: "NetworkMetadata option"

record PublicIPMetadata =
  pm_FrontendIPAddress :: string
  pm_PrivateIPAddress :: string

record LBData =
  lbd_PublicIPAddresses :: "PublicIPMetadata list"

record LoadBalancerMetadata =
  lm_LoadBalancer :: LBData

definition ImdsInstanceAPIVersion :: string where "ImdsInstanceAPIVersion = ''2021-10-01''"
definition ImdsLoadBalancerAPIVersion :: string where "ImdsLoadBalancerAPIVersion = ''2020-10-01''"
definition ImdsServer :: string where "ImdsServer = ''http://169.254.169.254''"
definition ImdsInstanceURI :: string where "ImdsInstanceURI = ''/metadata/instance''"
definition ImdsLoadBalancerURI :: string where "ImdsLoadBalancerURI = ''/metadata/loadbalancer''"
definition ImdsUserAgent :: string where "ImdsUserAgent = ''golang/kube-egress-gateway''"

text \<open>
  A request is its URL, headers and query; \<open>http.NewRequest\<close> cannot fail on these constant URLs. A response is its
  status code and its body, whose reading may fail.
\<close>

record http_request =
  hr_URL :: string
  hr_Header :: "(string \<times> string) list"
  hr_Query :: "(string \<times> string) list"

record 's imds_env =
  http_Do :: "http_request \<Rightarrow> ('s, nat \<times> string res) io"
  http_CloseBody :: "('s, unit) io"
  json_Instance :: "string \<Rightarrow> InstanceMetadata res"
  json_LoadBalancer :: "string \<Rightarrow> LoadBalancerMetadata res"

definition getImdsResponse :: "'s imds_env \<Rightarrow> string \<Rightarrow> string \<Rightarrow> ('s, string) io" where
  "getImdsResponse env resourceURI apiVersion =
     bindE (http_Do env \<lparr>hr_URL = ImdsServer @ resourceURI,
       hr_Header = [(''Metadata'', ''True''), (''User-Agent'', ImdsUserAgent)],
       hr_Query = [(''format'', ''json''), (''api-version'', apiVersion)]\<rparr>) (\<lambda>(status, body).
     finE (if status \<noteq> 200 then failE (ErrMsg ''failure of querying imds with response'') else liftR body)
       (\<lambda>_. ignoring (http_CloseBody env)))"

definition GetInstanceMetadata :: "'s imds_env \<Rightarrow> ('s, InstanceMetadata) io" where
  "GetInstanceMetadata env =
     bindE (wrapE ''failed to get instance metadata'' (getImdsResponse env ImdsInstanceURI ImdsInstanceAPIVersion))
       (\<lambda>data. liftR (json_Instance env data))"

definition GetLoadBalancerMetadata :: "'s imds_env \<Rightarrow> ('s, LoadBalancerMetadata) io" where
  "GetLoadBalancerMetadata env =
     bindE (wrapE ''failed to get loadbalancer metadata'' (getImdsResponse env ImdsLoadBalancerURI ImdsLoadBalancerAPIVersion))
       (\<lambda>data. liftR (json_LoadBalancer env data))"

section \<open>Rules\<close>

lemma triple_ns_Do:
  assumes "triple P (ns_Enter sys n) (\<lambda>_. R) E N"
    and "triple R body (\<lambda>a s. Q a (ns_Leave sys n s)) (\<lambda>e s. E e (ns_Leave sys n s)) (\<lambda>s. N (ns_Leave sys n s))"
  shows "triple P (ns_Do sys n body) Q E N"
  unfolding ns_Do_def by (rule triple_bind [OF assms(1)]) (rule triple_fin, rule assms(2))

lemma keeps_ns_Do:
  assumes "keeps I (ns_Enter sys n)" and "\<And>s. I s \<Longrightarrow> I (ns_Leave sys n s)" and "keeps I body"
  shows "keeps I (ns_Do sys n body)"
  by (rule triple_ns_Do [OF assms(1)]) (rule triple_conseq [OF assms(3)], auto simp: assms(2))

lemma ignoring_keeps: "keeps I m \<Longrightarrow> I s \<Longrightarrow> I (ignoring m s)"
  unfolding ignoring_def by (metis keepsD prod.collapse)

lemma keeps_fin: "keeps I m \<Longrightarrow> (\<And>r s. I s \<Longrightarrow> I (g r s)) \<Longrightarrow> keeps I (finE m g)"
  by (rule triple_fin) (erule triple_conseq, auto)

lemma keeps_eff: "(\<And>s. I s \<Longrightarrow> I (f s)) \<Longrightarrow> keeps I (effE f)"
  by (simp add: triple_def effE_def)

lemma triple_bind_eq:
  assumes "triple P m (\<lambda>a s. R s \<and> a = x) E N" and "triple R (f x) Q E N"
  shows "triple P (bindE m f) Q E N"
  by (rule triple_bind [OF assms(1)]) (use assms(2) in \<open>auto simp: triple_def\<close>)

lemma triple_bind_lift:
  assumes "\<And>a. r = Ok a \<Longrightarrow> triple P (f a) Q E N" and "\<And>e s. r = Err e \<Longrightarrow> P s \<Longrightarrow> E e s" and "\<And>s. r = Panic \<Longrightarrow> P s \<Longrightarrow> N s"
  shows "triple P (bindE (liftR r) f) Q E N"
  using assms by (cases r) (auto simp: triple_def liftR_def bindE_def tryE_def failE_def)

lemma triple_pure: "(C \<Longrightarrow> triple P m Q E N) \<Longrightarrow> triple (\<lambda>s. P s \<and> C) m Q E N"
  by (auto simp: triple_def)

end
