(* ===== verification/Daemon_Gateway.thy ===== *)
theory Daemon_Gateway
  imports Node_Net Health_Probe
begin

text \<open>
  The daemon's gateway controller, src/controllers/daemon/staticgatewayconfiguration_controller.go:
  on every gateway node it gives the node the address of the internal load balancer, builds the gateway
  namespace with the WireGuard link and the veth pair, sets the packet filter, and reports the gateway as
  ready; a clean-up removes what belongs to no configuration.

  Kubernetes, the kernel and the packet filter are the parameters of the reconciler. The
  metadata of the node are the variables \<open>nodeMeta\<close>, \<open>lbMeta\<close> and \<open>nodeTags\<close> of the package. Logging is left out.
\<close>

section \<open>Constants\<close>

definition AKSNodeNICTagKey :: string where "AKSNodeNICTagKey = ''aks-managed-nic-name''"
definition GatewayNetnsName :: string where "GatewayNetnsName = ''ns-static-egress-gateway''"
definition WireguardLinkName :: string where "WireguardLinkName = ''wg0''"
definition WiregaurdLinkNamePrefix :: string where "WiregaurdLinkNamePrefix = ''wg-''"
definition HostVethLinkName :: string where "HostVethLinkName = ''host-gateway''"
definition HostLinkName :: string where "HostLinkName = ''host0''"
definition GatewayIP :: string where "GatewayIP = ''fe80::1/64''"
definition ILBIPLabel :: string where "ILBIPLabel = ''eth0:egress''"
definition PrivateKeyKey :: string where "PrivateKeyKey = ''PrivateKey''"

section \<open>The reconciler and the node\<close>

record node_env =
  nodeMeta :: InstanceMetadata
  lbMeta :: LoadBalancerMetadata
  nodeTags :: "string \<rightharpoonup> string"

text \<open>
  \<open>gr_probe\<close> reads the registry of the probe server from the world and \<open>gr_setProbe\<close> stores it;
  \<open>gr_SetOwnerReference\<close> is the helper of \<open>controllerutil\<close> on the metadata of the owner and the object.
\<close>

record 's GatewayReconciler =
  gr_Client :: "'s kube"
  gr_probe :: "'s \<Rightarrow> LBProbeServer"
  gr_setProbe :: "LBProbeServer \<Rightarrow> 's \<Rightarrow> 's"
  gr_Netlink :: "'s netlinkwrapper"
  gr_NetNS :: "'s netns_sys"
  gr_IPTables :: "'s utiliptables"
  gr_WgCtrl :: "'s wgctrlwrapper"
  gr_SetOwnerReference :: "ObjectMeta \<Rightarrow> ObjectMeta \<Rightarrow> ObjectMeta res"
  gr_node :: node_env

definition parseNodeTags :: "InstanceMetadata \<Rightarrow> (string \<rightharpoonup> string) res" where
  "parseNodeTags meta = bindR (deref (im_Compute meta)) (\<lambda>compute.
     Ok (foldl (\<lambda>tags tag. let kv = Split tag (CHR '':'') in
         if length kv = 2 then tags(TrimSpace (kv ! 0) \<mapsto> TrimSpace (kv ! 1)) else tags)
       Map.empty (Split (cp_Tags compute) (CHR '';''))))"

text \<open>A successful call of the metadata service returns an object, so the check for nil never fires.\<close>

definition InitNodeMetadata :: "'s imds_env \<Rightarrow> ('s, node_env) io" where
  "InitNodeMetadata env = bindE (GetInstanceMetadata env) (\<lambda>meta.
     bindE (GetLoadBalancerMetadata env) (\<lambda>lb.
     bindE (liftR (parseNodeTags meta)) (\<lambda>tags.
     retE \<lparr>nodeMeta = meta, lbMeta = lb, nodeTags = tags\<rparr>)))"

definition isReady :: "StaticGatewayConfiguration \<Rightarrow> bool" where
  "isReady gwConfig = (let wgProfile = sgt_GatewayServerProfile (sgc_Status gwConfig) in
     sgt_EgressIpPrefix (sgc_Status gwConfig) \<noteq> '''' \<and> gsp_Ip wgProfile \<noteq> '''' \<and>
     gsp_Port wgProfile \<noteq> 0 \<and> gsp_PublicKey wgProfile \<noteq> '''' \<and> gsp_PrivateKeySecretRef wgProfile \<noteq> None)"

definition applyToNode :: "node_env \<Rightarrow> StaticGatewayConfiguration \<Rightarrow> bool res" where
  "applyToNode node gwConfig = (let spec = sgc_Spec gwConfig in
     if sgs_GatewayNodepoolName spec \<noteq> '''' then
       Ok (case nodeTags node AKSNodepoolTagKey of None \<Rightarrow> False
         | Some name \<Rightarrow> EqualFold name (sgs_GatewayNodepoolName spec))
     else let vmssProfile = sgs_GatewayVmssProfile spec in
       bindR (deref (im_Compute (nodeMeta node))) (\<lambda>compute.
         Ok (EqualFold (gvp_VmssName vmssProfile) (cp_VMScaleSetName compute) \<and>
             EqualFold (gvp_VmssResourceGroup vmssProfile) (cp_ResourceGroupName compute))))"

definition getWireguardInterfaceName :: "StaticGatewayConfiguration \<Rightarrow> string" where
  "getWireguardInterfaceName gwConfig =
     WiregaurdLinkNamePrefix @ Itoa (sint (gsp_Port (sgt_GatewayServerProfile (sgc_Status gwConfig))))"

definition getPacketMark :: "string \<Rightarrow> int res" where
  "getPacketMark linkName = wrapR ''failed to parse mark from link name'' (Atoi (TrimPrefix linkName WiregaurdLinkNamePrefix))"

section \<open>Packet filter\<close>

definition newline :: string where
  "newline = [char_of (10::nat)]"

definition writeLine :: "string \<Rightarrow> string list \<Rightarrow> string" where
  "writeLine lines words = lines @ Join words '' '' @ newline"

definition writeRule :: "string \<Rightarrow> string \<Rightarrow> string \<Rightarrow> string list \<Rightarrow> string" where
  "writeRule lines position chain args = writeLine lines ([position, chain] @ args)"

definition jumpRule :: "string \<Rightarrow> string \<Rightarrow> string list" where
  "jumpRule comment target = [''-m'', ''comment'', ''--comment'', comment, ''-j'', target]"

definition restoreText :: "'s utiliptables \<Rightarrow> string \<Rightarrow> string \<Rightarrow> string list list \<Rightarrow> string" where
  "restoreText ipt table targetChain chainRules =
     (let l1 = writeLine '''' [''*'' @ table];
          l2 = writeLine l1 [MakeChainLine ipt targetChain];
          l3 = foldl (\<lambda>l rule. writeRule l Append targetChain rule) l2 chainRules
      in writeLine l3 [''COMMIT''])"

definition ensureIPTablesChain ::
  "'s GatewayReconciler \<Rightarrow> string \<Rightarrow> string \<Rightarrow> string \<Rightarrow> string \<Rightarrow> string list list \<Rightarrow> ('s, unit) io" where
  "ensureIPTablesChain r table targetChain sourceChain jumpRuleComment chainRules =
     (let ipt = gr_IPTables r in
      bindE (wrapE ''failed to ensure chain'' (EnsureChain ipt table targetChain)) (\<lambda>_.
      bindE (wrapE ''failed to ensure jump rule'' (EnsureRule ipt Prepend table sourceChain (jumpRule jumpRuleComment targetChain))) (\<lambda>_.
      if chainRules = [] then retE ()
      else wrapE ''failed to restore rules'' (RestoreAll ipt (restoreText ipt table targetChain chainRules) NoFlushTables NoRestoreCounters))))"

definition deleteText :: "'s utiliptables \<Rightarrow> string \<Rightarrow> string \<Rightarrow> string" where
  "deleteText ipt table targetChain =
     writeLine (writeLine (writeLine (writeLine '''' [''*'' @ table]) [MakeChainLine ipt targetChain])
       [''-X'', targetChain]) [''COMMIT'']"

text \<open>The loop over the chains; \<open>sourceChains[i]\<close> and \<open>jumpRuleComments[i]\<close> panic when they are too short.\<close>

fun removeChains ::
  "'s utiliptables \<Rightarrow> string \<Rightarrow> string list \<Rightarrow> string list \<Rightarrow> string list \<Rightarrow> string list \<Rightarrow> ('s, unit) io" where
  "removeChains ipt table existing [] sources comments = retE ()"
| "removeChains ipt table existing (target # targets) (src # sources) (comment # comments) =
     bindE (if target \<in> set existing then
         bindE (wrapE ''failed to delete jump rule'' (DeleteRule ipt table src (jumpRule comment target))) (\<lambda>_.
         wrapE ''failed to restore iptables table'' (ipt_Restore ipt table (deleteText ipt table target) NoFlushTables NoRestoreCounters))
       else retE ()) (\<lambda>_. removeChains ipt table existing targets sources comments)"
| "removeChains ipt table existing (target # targets) sources comments = liftR Panic"

definition removeIPTablesChains ::
  "'s GatewayReconciler \<Rightarrow> string \<Rightarrow> string list \<Rightarrow> string list \<Rightarrow> string list \<Rightarrow> ('s, unit) io" where
  "removeIPTablesChains r table targetChains sourceChains jumpRuleComments =
     bindE (wrapE ''failed to save iptables data'' (SaveInto (gr_IPTables r) table)) (\<lambda>data.
     removeChains (gr_IPTables r) table (GetChainsFromTable (gr_IPTables r) data) targetChains sourceChains jumpRuleComments)"

text \<open>The names of the chains and the comments of their jump rules.\<close>

definition markChain :: "int \<Rightarrow> string" where "markChain mark = ''EGRESS-GATEWAY-MARK-'' @ Itoa mark"
definition snatChain :: "int \<Rightarrow> string" where "snatChain mark = ''EGRESS-GATEWAY-SNAT-'' @ Itoa mark"
definition markComment :: "string \<Rightarrow> string" where
  "markComment linkName = ''kube-egress-gateway mark packets from gateway link '' @ linkName"
definition snatComment :: "string \<Rightarrow> string" where
  "snatComment linkName = ''kube-egress-gateway sNAT packets from gateway link '' @ linkName"
definition ipChain :: "string \<Rightarrow> string" where
  "ipChain i = ''EGRESS-'' @ ReplaceAll i (CHR ''.'') (CHR ''-'')"
definition ipComment :: "string \<Rightarrow> string" where
  "ipComment i = ''kube-egress-gateway no sNAT packet from ip '' @ i"

section \<open>Status of the node\<close>

text \<open>The loop from the last peer to the first that deletes the peers of an interface.\<close>

fun dropPeers :: "string \<Rightarrow> nat \<Rightarrow> PeerConfiguration list \<Rightarrow> bool \<times> PeerConfiguration list" where
  "dropPeers name 0 peers = (False, peers)"
| "dropPeers name (Suc i) peers =
     (if peer_InterfaceName (peers ! i) = name
      then (True, snd (dropPeers name i (remove_at i peers)))
      else dropPeers name i peers)"

text \<open>The edit of an existing status object: whether it changed, and its new specification.\<close>

definition editGatewayStatus :: "GatewayConfiguration \<Rightarrow> bool \<Rightarrow> GatewayStatusSpec \<Rightarrow> bool \<times> GatewayStatusSpec" where
  "editGatewayStatus gwConfig add spec =
     (let same = (\<lambda>c. gwc_InterfaceName c = gwc_InterfaceName gwConfig);
          ready = gss_ReadyGatewayConfigurations spec;
          found = list_ex same ready;
          ready' = (if add then (if found then ready else ready @ [gwConfig]) else drop_first same ready);
          (peersChanged, peers') = (if add then (False, gss_ReadyPeerConfigurations spec)
            else dropPeers (gwc_InterfaceName gwConfig) (length (gss_ReadyPeerConfigurations spec)) (gss_ReadyPeerConfigurations spec))
      in ((if add then \<not> found else found) \<or> peersChanged,
          spec\<lparr>gss_ReadyGatewayConfigurations := ready', gss_ReadyPeerConfigurations := peers'\<rparr>))"

definition newGatewayStatus :: "string \<Rightarrow> string \<Rightarrow> GatewayStatusSpec \<Rightarrow> GatewayStatus" where
  "newGatewayStatus ns name spec = \<lparr>gws_Meta = new_meta ns name, gws_Spec = spec\<rparr>"

text \<open>What both controllers of the daemon do around such an edit.\<close>

definition updateNodeStatus ::
  "'s kube \<Rightarrow> (ObjectMeta \<Rightarrow> ObjectMeta \<Rightarrow> ObjectMeta res) \<Rightarrow> GatewayStatusSpec \<Rightarrow>
   (GatewayStatusSpec \<Rightarrow> bool \<times> GatewayStatusSpec) \<Rightarrow> bool \<Rightarrow> ('s, unit) io" where
  "updateNodeStatus k setOwner fresh edit add =
     (let ns = k_Getenv k PodNamespaceEnvKey; name = k_Getenv k NodeNameEnvKey in
      tryE (kGet (k_GWS k) ns name)
        (\<lambda>gwStatus. case edit (gws_Spec gwStatus) of (changed, spec') \<Rightarrow>
          if changed then bindE (wrapE ''failed to update gwStatus object'' (kUpdate (k_GWS k) (gwStatus\<lparr>gws_Spec := spec'\<rparr>)))
            (\<lambda>_. retE ())
          else retE ())
        (\<lambda>e. if \<not> IsNotFound e then failE e
          else if \<not> add then retE ()
          else bindE (wrapE ''failed to get current node'' (kGet (k_Node k) '''' name)) (\<lambda>node.
            let gwStatus = newGatewayStatus ns name fresh in
            bindE (wrapE ''failed to set gwStatus owner reference to node'' (liftR (setOwner (node_Meta node) (gws_Meta gwStatus)))) (\<lambda>m.
            bindE (wrapE ''failed to create gwStatus object'' (kCreate (k_GWS k) (gwStatus\<lparr>gws_Meta := m\<rparr>))) (\<lambda>_. retE ())))))"

definition updateGatewayNodeStatus_GW :: "'s GatewayReconciler \<Rightarrow> GatewayConfiguration \<Rightarrow> bool \<Rightarrow> ('s, unit) io" where
  "updateGatewayNodeStatus_GW r gwConfig add = updateNodeStatus (gr_Client r) (gr_SetOwnerReference r)
     \<lparr>gss_ReadyGatewayConfigurations = [gwConfig], gss_ReadyPeerConfigurations = []\<rparr>
     (editGatewayStatus gwConfig add) add"

section \<open>Addresses and keys\<close>

definition getWireguardPrivateKey :: "'s GatewayReconciler \<Rightarrow> StaticGatewayConfiguration \<Rightarrow> ('s, wgkey) io" where
  "getWireguardPrivateKey r gwConfig =
     bindE (liftR (deref (gsp_PrivateKeySecretRef (sgt_GatewayServerProfile (sgc_Status gwConfig))))) (\<lambda>ref.
     bindE (wrapE ''failed to retrieve wireguard private key secret''
       (kGet (k_Secret (gr_Client r)) (obr_Namespace ref) (obr_Name ref))) (\<lambda>secret.
     case sec_Data secret PrivateKeyKey of
       None \<Rightarrow> failE (ErrMsg ''failed to retrieve private key from secret'')
     | Some bytes \<Rightarrow> liftR (wg_ParseKey (gr_WgCtrl r) bytes)))"

text \<open>The value of the last tag with the key of the network interface, without trimming.\<close>

definition nicNameFromTags :: "string \<Rightarrow> string" where
  "nicNameFromTags tags = foldl (\<lambda>nicName tag. let parts = Split tag (CHR '':'') in
     if length parts = 2 \<and> parts ! 0 = AKSNodeNICTagKey then parts ! 1 else nicName) '''' (Split tags (CHR '';''))"

definition getVMIP :: "'s GatewayReconciler \<Rightarrow> StaticGatewayConfiguration \<Rightarrow> ('s, string \<times> string) io" where
  "getVMIP r gwConfig =
     bindE (liftR (deref (im_Compute (nodeMeta (gr_node r))))) (\<lambda>compute.
     let nodeName = op_ComputerName (cp_OSProfile compute) in
     bindE (kGet (k_VMC (gr_Client r)) (om_Namespace (sgc_Meta gwConfig)) (om_Name (sgc_Meta gwConfig))) (\<lambda>vmConfig.
     let nicName = nicNameFromTags (cp_Tags compute) in
     case vmc_Status vmConfig of
       None \<Rightarrow> failE (ErrMsg ''status is nil for GatewayVMConfiguration'')
     | Some st \<Rightarrow>
         (case find (\<lambda>p. vpr_NodeName p = nodeName \<or> vpr_NodeName p = nicName) (vmt_GatewayVMProfiles st) of
            None \<Rightarrow> failE (ErrMsg ''failed to find primary or secondary IP for node'')
          | Some p \<Rightarrow> if vpr_PrimaryIP p = '''' \<or> vpr_SecondaryIP p = ''''
              then failE (ErrMsg ''failed to find primary or secondary IP for node'')
              else retE (vpr_PrimaryIP p, vpr_SecondaryIP p))))"

definition nodePrefix :: "node_env \<Rightarrow> int res" where
  "nodePrefix node = bindR (deref (im_Network (nodeMeta node))) (\<lambda>network.
     case nm_Interface network of
       [] \<Rightarrow> Err (ErrMsg ''imds does not provide subnet information about the node'')
     | iface # _ \<Rightarrow> (case id_Subnet (ni_IPv4 iface) of
           [] \<Rightarrow> Err (ErrMsg ''imds does not provide subnet information about the node'')
         | subnet # _ \<Rightarrow> wrapR ''failed to retrieve and parse prefix'' (Atoi (sn_Prefix subnet))))"

definition deleteAddrs :: "'s netlinkwrapper \<Rightarrow> string \<Rightarrow> nl_link \<Rightarrow> (nl_addr \<Rightarrow> bool res) \<Rightarrow> nl_addr list \<Rightarrow> ('s, unit) io" where
  "deleteAddrs nl msg link sel addresses = foldE (\<lambda>_ address. bindE (liftR (sel address)) (\<lambda>b.
     if b then wrapE msg (AddrDel nl link address) else retE ())) () addresses"

definition reconcileIlbIPOnHost :: "'s GatewayReconciler \<Rightarrow> string \<Rightarrow> ('s, unit) io" where
  "reconcileIlbIPOnHost r ilbIP = (let nl = gr_Netlink r in
     bindE (wrapE ''failed to retrieve link eth0'' (LinkByName nl ''eth0'')) (\<lambda>eth0.
     bindE (liftR (nodePrefix (gr_node r))) (\<lambda>prefix.
     bindE (wrapE ''failed to retrieve IP addresses for eth0'' (AddrList nl eth0 FAMILY_ALL)) (\<lambda>addresses.
     if ilbIP = '''' then deleteAddrs nl ''failed to delete ILB IP from eth0'' eth0 (\<lambda>a. Ok (ad_Label a = ILBIPLabel)) addresses
     else case nl_ParseIPNet nl (ilbIP @ ''/'' @ Itoa prefix) of
         Err _ \<Rightarrow> failE (ErrMsg ''failed to parse ILB IP address'')
       | Panic \<Rightarrow> liftR Panic
       | Ok ilbIpNet \<Rightarrow>
           bindE (liftR (find_res (\<lambda>a. bindR (addr_IP a) (\<lambda>i. Ok (IP_Equal i (in_IP ilbIpNet)))) addresses)) (\<lambda>hit.
           if hit = None then wrapE ''failed to add ILB IP to eth0''
             (AddrAdd nl eth0 \<lparr>ad_IPNet = Some ilbIpNet, ad_Label = ILBIPLabel, ad_Scope = 0\<rparr>)
           else retE ())))))"

definition removeSecondaryIpFromHost :: "'s GatewayReconciler \<Rightarrow> string \<Rightarrow> ('s, unit) io" where
  "removeSecondaryIpFromHost r i = (let nl = gr_Netlink r in
     bindE (wrapE ''failed to retrieve link eth0'' (LinkByName nl ''eth0'')) (\<lambda>eth0.
     bindE (wrapE ''failed to retrieve IP addresses for eth0'' (AddrList nl eth0 FAMILY_ALL)) (\<lambda>addresses.
     deleteAddrs nl ''failed to remove secondary ip from eth0'' eth0
       (\<lambda>a. bindR (addr_IP a) (\<lambda>x. Ok (IP_String x = i))) addresses)))"

section \<open>Routes, links and the veth pair\<close>

definition equalRoute :: "nl_route \<Rightarrow> nl_route \<Rightarrow> bool" where
  "equalRoute r1 r2 = (let d1 = Val nil_ipnet (rt_Dst r1); d2 = Val nil_ipnet (rt_Dst r2) in
     rt_LinkIndex r1 = rt_LinkIndex r2 \<and> rt_Scope r1 = rt_Scope r2 \<and> IP_Equal (in_IP d1) (in_IP d2) \<and>
     Mask_Size (in_Mask d1) = Mask_Size (in_Mask d2) \<and> IP_Equal (rt_Gw r1) (rt_Gw r2))"

definition addOrReplaceRoute :: "'s netlinkwrapper \<Rightarrow> nl_route \<Rightarrow> ('s, unit) io" where
  "addOrReplaceRoute nl route = bindE (RouteList nl None FAMILY_ALL) (\<lambda>routes.
     if list_ex (\<lambda>q. equalRoute q route) routes then retE () else RouteReplace nl route)"

definition createWireguardLink :: "'s GatewayReconciler \<Rightarrow> netns \<Rightarrow> string \<Rightarrow> string \<Rightarrow> ('s, unit) io" where
  "createWireguardLink r gwns linkName linkAlias =
     (let nl = gr_Netlink r; wg = (NewLinkAttrs Wireguard linkName)\<lparr>lk_Alias := linkAlias\<rparr> in
      bindE (wrapE ''failed to create wireguard link'' (LinkAdd nl wg)) (\<lambda>_.
      finE (bindE (wrapE ''failed to get wireguard link in host namespace'' (LinkByName nl linkName)) (\<lambda>wgLink.
          wrapE ''failed to move wireguard link to gateway namespace'' (LinkSetNsFd nl wgLink (ns_Fd gwns))))
        (\<lambda>res s. if is_ok res then s else ignoring (LinkDel nl wg) s)))"

text \<open>The address is added unless the link has it, and the link is set up.\<close>

definition ensureAddrUp :: "'s netlinkwrapper \<Rightarrow> nl_link \<Rightarrow> nl_addr \<Rightarrow> string \<Rightarrow> string \<Rightarrow> string \<Rightarrow> ('s, unit) io" where
  "ensureAddrUp nl link addr listMsg addMsg upMsg =
     bindE (wrapE listMsg (AddrList nl link FAMILY_ALL)) (\<lambda>addrs.
     bindE (if list_ex (\<lambda>a. nl_Addr_Equal nl a addr) addrs then retE () else wrapE addMsg (AddrAdd nl link addr)) (\<lambda>_.
     wrapE upMsg (LinkSetUp nl link)))"

definition configureWireguardDevice :: "'s GatewayReconciler \<Rightarrow> string \<Rightarrow> StaticGatewayConfiguration \<Rightarrow> wgkey \<Rightarrow> ('s, unit) io" where
  "configureWireguardDevice r linkName gwConfig privateKey = (let wg = gr_WgCtrl r;
       port = sint (gsp_Port (sgt_GatewayServerProfile (sgc_Status gwConfig))) in
     withWgClient wg ''failed to create wgctrl client''
       (bindE (wrapE ''failed to get wireguard link configuration'' (wg_Device wg linkName)) (\<lambda>device.
        if wg_KeyString wg (dev_PrivateKey device) \<noteq> wg_KeyString wg privateKey \<or> dev_ListenPort device \<noteq> port
        then wrapE ''failed to add peer to wireguard link'' (wg_ConfigureDevice wg linkName
          \<lparr>wc_PrivateKey = Some privateKey, wc_ListenPort = Some port, wc_Peers = []\<rparr>)
        else retE ())))"

definition reconcileWireguardLink ::
  "'s GatewayReconciler \<Rightarrow> netns \<Rightarrow> StaticGatewayConfiguration \<Rightarrow> wgkey \<Rightarrow> ('s, unit) io" where
  "reconcileWireguardLink r gwns gwConfig privateKey =
     (let nl = gr_Netlink r; sys = gr_NetNS r; linkName = getWireguardInterfaceName gwConfig in
      bindE (ns_Do sys gwns (lookupLink nl ''failed to get wireguard link in gateway namespace'' linkName)) (\<lambda>wgLink.
      bindE (if wgLink = None then wrapE ''failed to create wireguard link''
          (createWireguardLink r gwns linkName (om_UID (sgc_Meta gwConfig))) else retE ()) (\<lambda>_.
      ns_Do sys gwns
        (bindE (wrapE ''failed to get wireguard link in gateway namespace after creation'' (LinkByName nl linkName)) (\<lambda>link.
         let gwIP = (case nl_ParseIPNet nl GatewayIP of Ok n \<Rightarrow> Some n | _ \<Rightarrow> None) in
         bindE (ensureAddrUp nl link \<lparr>ad_IPNet = gwIP, ad_Label = '''', ad_Scope = 0\<rparr>
           ''failed to retrieve address list from wireguard link'' ''failed to add wireguard link address''
           ''failed to set wireguard link up'') (\<lambda>_.
         configureWireguardDevice r linkName gwConfig privateKey))))))"

text \<open>The route to the egress address, and the peer of the pair, which is moved if it is still here.\<close>

definition vethRouteAndPeer :: "'s GatewayReconciler \<Rightarrow> netns \<Rightarrow> string \<Rightarrow> nl_link \<Rightarrow> ('s, unit) io" where
  "vethRouteAndPeer r gwns snatIP mainLink = (let nl = gr_Netlink r in
     bindE (wrapE ''failed to set veth link in host namespace up'' (LinkSetUp nl mainLink)) (\<lambda>_.
     bindE (wrapE ''failed to parse SNAT IP'' (liftR (net_ParseCIDR (snatIP @ ''/32'')))) (\<lambda>(_, snatIPNet).
     let route = new_route\<lparr>rt_LinkIndex := lk_Index mainLink, rt_Scope := SCOPE_UNIVERSE, rt_Dst := Some snatIPNet\<rparr> in
     bindE (wrapE ''failed to create route to SNAT IP via gateway interface'' (addOrReplaceRoute nl route)) (\<lambda>_.
     finE (tryE (LinkByName nl HostLinkName)
         (\<lambda>hostLink. wrapE ''failed to move veth peer link to gateway namespace'' (LinkSetNsFd nl hostLink (ns_Fd gwns)))
         (\<lambda>e. if isLinkNotFound e then retE () else failE (Wrap ''failed to get veth peer link in host namespace'' e)))
       (\<lambda>res s. if is_ok res then s else ignoring (RouteDel nl route) s)))))"

definition reconcileVethPairInHost :: "'s GatewayReconciler \<Rightarrow> netns \<Rightarrow> string \<Rightarrow> ('s, unit) io" where
  "reconcileVethPairInHost r gwns snatIP = (let nl = gr_Netlink r; veth = NewLinkAttrs (Veth HostLinkName) HostVethLinkName in
     bindE (lookupLink nl ''failed to get veth link in host namespace'' HostVethLinkName) (\<lambda>found.
     case found of
       Some mainLink \<Rightarrow> vethRouteAndPeer r gwns snatIP mainLink
     | None \<Rightarrow> bindE (wrapE ''failed to add veth pair'' (LinkAdd nl veth)) (\<lambda>_.
         finE (bindE (wrapE ''failed to get veth link in host namespace after creation'' (LinkByName nl HostVethLinkName))
             (vethRouteAndPeer r gwns snatIP))
           (\<lambda>res s. if is_ok res then s else ignoring (LinkDel nl veth) s))))"

definition reconcileVethPair :: "'s GatewayReconciler \<Rightarrow> netns \<Rightarrow> string \<Rightarrow> string \<Rightarrow> ('s, unit) io" where
  "reconcileVethPair r gwns vmPrimaryIP vmSecondaryIP = (let nl = gr_Netlink r in
     bindE (wrapE ''failed to reconcile veth pair in host namespace'' (reconcileVethPairInHost r gwns vmSecondaryIP)) (\<lambda>_.
     ns_Do (gr_NetNS r) gwns
       (bindE (wrapE ''failed to get host link in gateway namespace'' (LinkByName nl HostLinkName)) (\<lambda>hostLink.
        bindE (wrapE ''failed to parse SNAT IP for host interface'' (liftR (net_ParseCIDR (vmSecondaryIP @ ''/32'')))) (\<lambda>(_, snatIPNet).
        bindE (ensureAddrUp nl hostLink \<lparr>ad_IPNet = Some snatIPNet, ad_Label = '''', ad_Scope = 0\<rparr>
          ''failed to retrieve address list from wireguard link'' ''failed to add host link address in gateway namespace''
          ''failed to set host link up'') (\<lambda>_.
        bindE (wrapE ''failed to parse CIDR'' (liftR (net_ParseCIDR (vmPrimaryIP @ ''/32'')))) (\<lambda>(_, vmSnatCidr).
        bindE (wrapE ''failed to create route to VM primary IP via gateway interface''
          (addOrReplaceRoute nl (new_route\<lparr>rt_LinkIndex := lk_Index hostLink, rt_Scope := SCOPE_LINK, rt_Dst := Some vmSnatCidr\<rparr>))) (\<lambda>_.
        wrapE ''failed to create default route''
          (addOrReplaceRoute nl (new_route\<lparr>rt_LinkIndex := lk_Index hostLink, rt_Scope := SCOPE_UNIVERSE, rt_Dst := None,
             rt_Gw := ParseIP vmPrimaryIP\<rparr>))))))))))"

section \<open>The gateway namespace\<close>

definition gatewayNamespaceRules :: "'s GatewayReconciler \<Rightarrow> StaticGatewayConfiguration \<Rightarrow> string \<Rightarrow> ('s, unit) io" where
  "gatewayNamespaceRules r gwConfig vmSecondaryIP = (let nl = gr_Netlink r in
     bindE (wrapE ''failed to retrieve link lo'' (LinkByName nl ''lo'')) (\<lambda>looplink.
     bindE (wrapE ''failed to set lo up'' (LinkSetUp nl looplink)) (\<lambda>_.
     let linkName = getWireguardInterfaceName gwConfig in
     bindE (liftR (getPacketMark linkName)) (\<lambda>mark.
     bindE (ensureIPTablesChain r TableNAT (markChain mark) ChainPrerouting (markComment linkName)
       [[''-i'', linkName, ''-j'', ''CONNMARK'', ''--set-mark'', Itoa mark]]) (\<lambda>_.
     ensureIPTablesChain r TableNAT (snatChain mark) ChainPostrouting (snatComment linkName)
       [[''-o'', HostLinkName, ''-m'', ''connmark'', ''--mark'', Itoa mark, ''-j'', ''SNAT'', ''--to-source'', vmSecondaryIP]])))))"

text \<open>The handle of the namespace is closed by a deferred call.\<close>

definition withGatewayNS :: "'s netns_sys \<Rightarrow> string \<Rightarrow> (netns \<Rightarrow> ('s, 'a) io) \<Rightarrow> ('s, 'a) io" where
  "withGatewayNS sys msg body = bindE (wrapE msg (GetNS sys GatewayNetnsName)) (\<lambda>gwns.
     finE (body gwns) (\<lambda>_. ignoring (ns_Close sys gwns)))"

definition configureGatewayNamespace ::
  "'s GatewayReconciler \<Rightarrow> StaticGatewayConfiguration \<Rightarrow> wgkey \<Rightarrow> string \<Rightarrow> string \<Rightarrow> ('s, unit) io" where
  "configureGatewayNamespace r gwConfig privateKey vmPrimaryIP vmSecondaryIP =
     withGatewayNS (gr_NetNS r) ''failed to get network namespace'' (\<lambda>gwns.
       bindE (reconcileWireguardLink r gwns gwConfig privateKey) (\<lambda>_.
       bindE (reconcileVethPair r gwns vmPrimaryIP vmSecondaryIP) (\<lambda>_.
       ns_Do (gr_NetNS r) gwns (gatewayNamespaceRules r gwConfig vmSecondaryIP))))"

section \<open>Clean-up\<close>

definition probeE :: "'s GatewayReconciler \<Rightarrow> (LBProbeServer \<Rightarrow> LBProbeServer) \<Rightarrow> ('s, unit) io" where
  "probeE r f = effE (\<lambda>s. gr_setProbe r (f (gr_probe r s)) s)"

definition deleteLinkInNS :: "'s GatewayReconciler \<Rightarrow> nl_link \<Rightarrow> ('s, unit) io" where
  "deleteLinkInNS r link = bindE (wrapE ''failed to delete link'' (LinkDel (gr_Netlink r) link)) (\<lambda>_.
     bindE (liftR (getPacketMark (lk_Name link))) (\<lambda>mark.
     wrapE ''failed to cleanup iptables rules for link'' (removeIPTablesChains r TableNAT [markChain mark, snatChain mark]
       [ChainPrerouting, ChainPostrouting] [markComment (lk_Name link), snatComment (lk_Name link)])))"

definition ensureDeleteLink :: "'s GatewayReconciler \<Rightarrow> netns \<Rightarrow> nl_link \<Rightarrow> ('s, unit) io" where
  "ensureDeleteLink r gwns link = bindE (ns_Do (gr_NetNS r) gwns (deleteLinkInNS r link)) (\<lambda>_.
     bindE (updateGatewayNodeStatus_GW r \<lparr>gwc_StaticGatewayConfiguration = '''', gwc_InterfaceName = lk_Name link\<rparr> False) (\<lambda>_.
     probeE r (RemoveGateway (lk_Alias link))))"

definition ensureDeleteIP :: "'s GatewayReconciler \<Rightarrow> netns \<Rightarrow> nl_addr \<Rightarrow> ('s, unit) io" where
  "ensureDeleteIP r gwns address = (let nl = gr_Netlink r in
     bindE (ns_Do (gr_NetNS r) gwns
       (bindE (liftR (addr_IP address)) (\<lambda>_.
        bindE (wrapE ''failed to get host link in gateway namespace'' (LinkByName nl HostLinkName)) (\<lambda>hostLink.
        wrapE ''failed to delete IP'' (AddrDel nl hostLink address))))) (\<lambda>_.
     bindE (wrapE ''failed to list routes in host namespace'' (RouteList nl None FAMILY_ALL)) (\<lambda>routes.
     bindE (liftR (addr_IP address)) (\<lambda>i.
     bindE (foldE (\<lambda>_ route. if (case rt_Dst route of None \<Rightarrow> False | Some d \<Rightarrow> IP_Equal (in_IP d) i)
         then wrapE ''failed to delete route'' (RouteDel nl route) else retE ()) () routes) (\<lambda>_.
     wrapE ''failed to clean up no-sNAT rule for vmSecondaryIP'' (removeIPTablesChains r TableNAT
       [ipChain (IP_String i)] [''EGRESS-GATEWAY-SNAT''] [ipComment (IP_String i)]))))))"

text \<open>What the clean-up spares: the links and the addresses of the active gateways, and whether there are any.\<close>

record spared =
  sp_Links :: "string list"
  sp_IPs :: "string list"
  sp_Active :: bool

definition spare :: "'s GatewayReconciler \<Rightarrow> spared \<Rightarrow> StaticGatewayConfiguration \<Rightarrow> ('s, spared) io" where
  "spare r sp gwConfig = bindE (liftR (applyToNode (gr_node r) gwConfig)) (\<lambda>applies.
     if applies \<and> \<not> deleting (sgc_Meta gwConfig) then
       tryE (getVMIP r gwConfig)
         (\<lambda>(_, vmSecondaryIP). retE \<lparr>sp_Links = sp_Links sp @ [getWireguardInterfaceName gwConfig],
            sp_IPs = sp_IPs sp @ [vmSecondaryIP], sp_Active = True\<rparr>)
         (\<lambda>_. retE sp)
     else retE sp)"

definition listGatewayNS :: "'s GatewayReconciler \<Rightarrow> ('s, nl_link list \<times> nl_addr list) io" where
  "listGatewayNS r = (let nl = gr_Netlink r in
     bindE (wrapE ''failed to list links in gateway namespace'' (LinkList nl)) (\<lambda>links.
     bindE (wrapE ''failed to get host link in gateway namespace'' (LinkByName nl HostLinkName)) (\<lambda>hostLink.
     bindE (wrapE ''failed to list addresses on host0 in gateway namespace'' (AddrList nl hostLink FAMILY_ALL)) (\<lambda>ips.
     retE (links, ips)))))"

text \<open>A failure of one deletion is logged and the loop goes on.\<close>

definition loggedE :: "('s, unit) io \<Rightarrow> ('s, unit) io" where
  "loggedE m = tryE m retE (\<lambda>_. retE ())"

definition cleanUpIPs :: "'s GatewayReconciler \<Rightarrow> netns \<Rightarrow> spared \<Rightarrow> nl_addr list \<Rightarrow> ('s, unit) io" where
  "cleanUpIPs r gwns sp ips = foldE (\<lambda>_ address. bindE (liftR (addr_IP address)) (\<lambda>i.
     if IP_String i \<in> set (sp_IPs sp) then retE () else loggedE (ensureDeleteIP r gwns address))) () ips"

definition cleanUpLinks :: "'s GatewayReconciler \<Rightarrow> netns \<Rightarrow> spared \<Rightarrow> nl_link list \<Rightarrow> ('s, unit) io" where
  "cleanUpLinks r gwns sp links = foldE (\<lambda>_ link.
     if HasPrefix (lk_Name link) WiregaurdLinkNamePrefix \<and> lk_Name link \<notin> set (sp_Links sp)
     then loggedE (ensureDeleteLink r gwns link) else retE ()) () links"

definition cleanUp_GW :: "'s GatewayReconciler \<Rightarrow> ('s, unit) io" where
  "cleanUp_GW r =
     bindE (wrapE ''failed to list staticGatewayConfigurations'' (kList (k_SGC (gr_Client r)))) (\<lambda>items.
     bindE (foldE (spare r) \<lparr>sp_Links = [], sp_IPs = [], sp_Active = False\<rparr> items) (\<lambda>sp.
     withGatewayNS (gr_NetNS r) ''failed to get network namespace'' (\<lambda>gwns.
     bindE (ns_Do (gr_NetNS r) gwns (listGatewayNS r)) (\<lambda>(links, ips).
     bindE (cleanUpIPs r gwns sp ips) (\<lambda>_.
     bindE (cleanUpLinks r gwns sp links) (\<lambda>_.
     if sp_Active sp then retE ()
     else bindE (wrapE ''failed to cleanup ILB IP on host'' (reconcileIlbIPOnHost r '''')) (\<lambda>_.
       wrapE ''failed to delete iptables chain EGRESS-GATEWAY-SNAT'' (removeIPTablesChains r TableNAT
         [''EGRESS-GATEWAY-SNAT''] [ChainPostrouting] [''kube-egress-gateway no MASQUERADE'']))))))))"

section \<open>Reconciliation\<close>

definition reconcile_GW :: "'s GatewayReconciler \<Rightarrow> StaticGatewayConfiguration \<Rightarrow> ('s, unit) io" where
  "reconcile_GW r gwConfig =
     bindE (getWireguardPrivateKey r gwConfig) (\<lambda>privateKey.
     bindE (reconcileIlbIPOnHost r (gsp_Ip (sgt_GatewayServerProfile (sgc_Status gwConfig)))) (\<lambda>_.
     bindE (getVMIP r gwConfig) (\<lambda>(vmPrimaryIP, vmSecondaryIP).
     bindE (removeSecondaryIpFromHost r vmSecondaryIP) (\<lambda>_.
     bindE (ensureIPTablesChain r TableNAT ''EGRESS-GATEWAY-SNAT'' ChainPostrouting ''kube-egress-gateway no MASQUERADE'' []) (\<lambda>_.
     bindE (ensureIPTablesChain r TableNAT (ipChain vmSecondaryIP) ''EGRESS-GATEWAY-SNAT'' (ipComment vmSecondaryIP)
       [[''-s'', vmSecondaryIP @ ''/32'', ''-j'', ''ACCEPT'']]) (\<lambda>_.
     bindE (configureGatewayNamespace r gwConfig privateKey vmPrimaryIP vmSecondaryIP) (\<lambda>_.
     bindE (updateGatewayNodeStatus_GW r \<lparr>gwc_StaticGatewayConfiguration = slash_key (sgc_Meta gwConfig),
       gwc_InterfaceName = getWireguardInterfaceName gwConfig\<rparr> True) (\<lambda>_.
     probeE r (AddGateway (om_UID (sgc_Meta gwConfig)))))))))))"

definition Reconcile_GW :: "'s GatewayReconciler \<Rightarrow> string \<Rightarrow> string \<Rightarrow> ('s, unit) io" where
  "Reconcile_GW r namespace name =
     (if namespace = '''' \<and> name = '''' then wrapE ''failed to clean up orphaned network configurations'' (cleanUp_GW r)
      else tryE (kGet (k_SGC (gr_Client r)) namespace name)
        (\<lambda>gwConfig. if \<not> isReady gwConfig then retE ()
          else bindE (liftR (applyToNode (gr_node r) gwConfig)) (\<lambda>applies.
            if \<not> applies then retE ()
            else if deleting (sgc_Meta gwConfig) then wrapE ''failed to clean up deleted StaticGatewayConfiguration'' (cleanUp_GW r)
            else reconcile_GW r gwConfig))
        (\<lambda>e. if IsNotFound e then retE () else failE e))"

end
