(* ===== verification/Daemon_Peers.thy ===== *)
theory Daemon_Peers
  imports Daemon_Gateway "HOL-Library.AList"
begin

text \<open>
  The daemon's controller of pods, src/controllers/daemon/podendpoint_controller.go: it adds a pod
  as a peer of the WireGuard device of its gateway, routes the address of the pod to the device, and reports
  the peer in the status of the node; a clean-up removes the peers that no pod claims.

  A Go map is an association list with distinct keys. Its iteration order is not specified: \<open>pr_keys\<close> arranges the
  keys of a map in the order of an iteration.
\<close>

record 's PeerReconciler =
  pr_Client :: "'s kube"
  pr_Netlink :: "'s netlinkwrapper"
  pr_NetNS :: "'s netns_sys"
  pr_WgCtrl :: "'s wgctrlwrapper"
  pr_SetOwnerReference :: "ObjectMeta \<Rightarrow> ObjectMeta \<Rightarrow> ObjectMeta res"
  pr_node :: node_env
  pr_keys :: "string list \<Rightarrow> string list"

text \<open>The values of a map in the order of an iteration over its keys.\<close>

definition iterate :: "(string list \<Rightarrow> string list) \<Rightarrow> (string \<times> 'v) list \<Rightarrow> 'v list" where
  "iterate keys m = map (\<lambda>k. the (map_of m k)) (keys (map fst m))"

section \<open>Status of the node\<close>

definition peerMapOf :: "PeerConfiguration list \<Rightarrow> (string \<times> PeerConfiguration) list" where
  "peerMapOf peers = foldl (\<lambda>m p. AList.update (peer_PublicKey p) p m) [] peers"

definition mergePeer :: "bool \<Rightarrow> bool \<times> (string \<times> PeerConfiguration) list \<Rightarrow> PeerConfiguration
    \<Rightarrow> bool \<times> (string \<times> PeerConfiguration) list" where
  "mergePeer add st p = (case st of (changed, m) \<Rightarrow>
     if map_of m (peer_PublicKey p) \<noteq> None
     then (if add then (changed, m) else (True, AList.delete (peer_PublicKey p) m))
     else (if add then (True, AList.update (peer_PublicKey p) p m) else (changed, m)))"

definition editPeerStatus ::
  "(string list \<Rightarrow> string list) \<Rightarrow> PeerConfiguration list \<Rightarrow> bool \<Rightarrow> GatewayStatusSpec \<Rightarrow> bool \<times> GatewayStatusSpec" where
  "editPeerStatus keys peerConfigs add spec =
     (case foldl (mergePeer add) (False, peerMapOf (gss_ReadyPeerConfigurations spec)) peerConfigs of (changed, m) \<Rightarrow>
        (changed, if changed then spec\<lparr>gss_ReadyPeerConfigurations := iterate keys m\<rparr> else spec))"

definition updateGatewayNodeStatus_PE :: "'s PeerReconciler \<Rightarrow> PeerConfiguration list \<Rightarrow> bool \<Rightarrow> ('s, unit) io" where
  "updateGatewayNodeStatus_PE r peerConfigs add = updateNodeStatus (pr_Client r) (pr_SetOwnerReference r)
     \<lparr>gss_ReadyGatewayConfigurations = [], gss_ReadyPeerConfigurations = peerConfigs\<rparr>
     (editPeerStatus (pr_keys r) peerConfigs add) add"

section \<open>Routes of peers\<close>

definition addWireguardPeerRoutes :: "'s PeerReconciler \<Rightarrow> StaticGatewayConfiguration \<Rightarrow> PodEndpoint \<Rightarrow> ('s, unit) io" where
  "addWireguardPeerRoutes r gwConfig podEndpoint = (let nl = pr_Netlink r in
     bindE (wrapE ''failed to retrieve wireguard device'' (LinkByName nl (getWireguardInterfaceName gwConfig))) (\<lambda>wgLink.
     bindE (wrapE ''failed to parse pod ip net'' (liftR (net_ParseCIDR (pes_PodIpAddress (pe_Spec podEndpoint))))) (\<lambda>(_, dst).
     wrapE ''failed to add route'' (RouteReplace nl
       (new_route\<lparr>rt_LinkIndex := lk_Index wgLink, rt_Scope := SCOPE_LINK, rt_Dst := Some dst\<rparr>)))))"

definition deleteWireguardPeerRoutes :: "'s PeerReconciler \<Rightarrow> string \<Rightarrow> string list \<Rightarrow> ('s, unit) io" where
  "deleteWireguardPeerRoutes r wglinkName podIPToDel = (let nl = pr_Netlink r in
     bindE (wrapE ''failed to get wglink'' (LinkByName nl wglinkName)) (\<lambda>wgLink.
     bindE (wrapE ''failed to list routes on wglink'' (RouteList nl (Some wgLink) FAMILY_ALL)) (\<lambda>routes.
     foldE (\<lambda>_ route. bindE (liftR (deref (rt_Dst route))) (\<lambda>dst.
       if IP_String (in_IP dst) \<in> set podIPToDel then wrapE ''failed to delete route'' (RouteDel nl route) else retE ())) () routes)))"

section \<open>A pod\<close>

definition peerConfigOf :: "wgkey \<Rightarrow> ipnet \<Rightarrow> wg_config" where
  "peerConfigOf key podIPNet = \<lparr>wc_PrivateKey = None, wc_ListenPort = None, wc_Peers =
     [\<lparr>pc_PublicKey = key, pc_Remove = False, pc_ReplaceAllowedIPs = True, pc_AllowedIPs = [podIPNet], pc_Endpoint = None\<rparr>]\<rparr>"

definition addPeer :: "'s PeerReconciler \<Rightarrow> StaticGatewayConfiguration \<Rightarrow> PodEndpoint \<Rightarrow> ('s, unit) io" where
  "addPeer r gwConfig podEndpoint = (let wg = pr_WgCtrl r in
     withWgClient wg ''failed to create wgctrl client''
       (bindE (wrapE ''failed to parse pod wireguard public key'' (liftR (wg_ParseKey wg (pes_PodPublicKey (pe_Spec podEndpoint))))) (\<lambda>podPublicKey.
        bindE (wrapE ''failed to parse pod IPv4 address'' (liftR (net_ParseCIDR (pes_PodIpAddress (pe_Spec podEndpoint))))) (\<lambda>(_, podIPNet).
        bindE (wrapE ''failed to add peer to wireguard device''
          (wg_ConfigureDevice wg (getWireguardInterfaceName gwConfig) (peerConfigOf podPublicKey podIPNet))) (\<lambda>_.
        wrapE ''failed to add pod route'' (addWireguardPeerRoutes r gwConfig podEndpoint))))))"

definition reconcile_PE :: "'s PeerReconciler \<Rightarrow> StaticGatewayConfiguration \<Rightarrow> PodEndpoint \<Rightarrow> ('s, unit) io" where
  "reconcile_PE r gwConfig podEndpoint =
     withGatewayNS (pr_NetNS r) ''failed to get gateway network namespace'' (\<lambda>gwns.
       bindE (ns_Do (pr_NetNS r) gwns (addPeer r gwConfig podEndpoint)) (\<lambda>_.
       updateGatewayNodeStatus_PE r [\<lparr>peer_PodEndpoint = slash_key (pe_Meta podEndpoint),
         peer_InterfaceName = getWireguardInterfaceName gwConfig, peer_PublicKey = pes_PodPublicKey (pe_Spec podEndpoint)\<rparr>] True))"

section \<open>Clean-up\<close>

definition removalConfig :: "wg_peer list \<Rightarrow> wg_config" where
  "removalConfig peers = \<lparr>wc_PrivateKey = None, wc_ListenPort = None, wc_Peers =
     map (\<lambda>p. \<lparr>pc_PublicKey = wp_PublicKey p, pc_Remove = True, pc_ReplaceAllowedIPs = False, pc_AllowedIPs = [], pc_Endpoint = None\<rparr>) peers\<rparr>"

definition orphans :: "'s wgctrlwrapper \<Rightarrow> (string \<rightharpoonup> string list) \<Rightarrow> string \<Rightarrow> wg_device \<Rightarrow> wg_peer list" where
  "orphans wg peerMap wglinkName device =
     filter (\<lambda>p. wg_KeyString wg (wp_PublicKey p) \<notin> set (Val [] (peerMap wglinkName))) (dev_Peers device)"

definition removeOrphans :: "'s PeerReconciler \<Rightarrow> string \<Rightarrow> (string \<rightharpoonup> string list) \<Rightarrow> ('s, PeerConfiguration list) io" where
  "removeOrphans r wglinkName peerMap = (let wg = pr_WgCtrl r in
     withWgClient wg ''failed to create wgctrl client''
       (bindE (wrapE ''failed to get wireguard link configuration'' (wg_Device wg wglinkName)) (\<lambda>device.
        let gone = orphans wg peerMap wglinkName device;
            podIPToDel = concat (map (\<lambda>p. map (\<lambda>n. IP_String (in_IP n)) (wp_AllowedIPs p)) gone) in
        if gone = [] then retE []
        else bindE (wrapE ''failed to delete pod route on wglink'' (deleteWireguardPeerRoutes r wglinkName podIPToDel)) (\<lambda>_.
          bindE (wrapE ''failed to remove peers from wireguard device'' (wg_ConfigureDevice wg wglinkName (removalConfig gone))) (\<lambda>_.
          retE (map (\<lambda>p. \<lparr>peer_PodEndpoint = '''', peer_InterfaceName = '''',
            peer_PublicKey = wg_KeyString wg (wp_PublicKey p)\<rparr>) gone))))))"

definition cleanUpWgLink :: "'s PeerReconciler \<Rightarrow> string \<Rightarrow> (string \<rightharpoonup> string list) \<Rightarrow> ('s, PeerConfiguration list) io" where
  "cleanUpWgLink r wglinkName peerMap =
     withGatewayNS (pr_NetNS r) ''failed to get gateway network namespace'' (\<lambda>gwns.
       ns_Do (pr_NetNS r) gwns (removeOrphans r wglinkName peerMap))"

text \<open>The device of every gateway of this node that is not being deleted, by the lower-case key of the gateway.\<close>

fun gatewayLinks :: "node_env \<Rightarrow> (string \<times> string) list \<Rightarrow> StaticGatewayConfiguration list \<Rightarrow> (string \<times> string) list res" where
  "gatewayLinks node m [] = Ok m"
| "gatewayLinks node m (gwConfig # gws) = bindR (applyToNode node gwConfig) (\<lambda>applies.
     gatewayLinks node (if applies \<and> \<not> deleting (sgc_Meta gwConfig)
       then AList.update (ToLower (slash_key (sgc_Meta gwConfig))) (getWireguardInterfaceName gwConfig) m else m) gws)"

text \<open>The public keys that pods claim on each device.\<close>

definition claimedKeys :: "(string \<times> string) list \<Rightarrow> PodEndpoint list \<Rightarrow> string \<rightharpoonup> string list" where
  "claimedKeys gwConfigMap podEndpoints = foldl (\<lambda>m pe.
     case map_of gwConfigMap (ToLower (om_Namespace (pe_Meta pe) @ ''/'' @ pes_StaticGatewayConfiguration (pe_Spec pe))) of
       None \<Rightarrow> m
     | Some wglinkName \<Rightarrow> m(wglinkName \<mapsto> Val [] (m wglinkName) @ [pes_PodPublicKey (pe_Spec pe)])) Map.empty podEndpoints"

definition cleanUp_PE :: "'s PeerReconciler \<Rightarrow> ('s, unit) io" where
  "cleanUp_PE r =
     bindE (wrapE ''failed to list PodEndpoints'' (kList (k_PE (pr_Client r)))) (\<lambda>podEndpoints.
     bindE (wrapE ''failed to list staticGatewayConfigurations'' (kList (k_SGC (pr_Client r)))) (\<lambda>gws.
     bindE (liftR (gatewayLinks (pr_node r) [] gws)) (\<lambda>gwConfigMap.
     bindE (foldE (\<lambda>peersToDelete wglinkName. tryE (cleanUpWgLink r wglinkName (claimedKeys gwConfigMap podEndpoints))
         (\<lambda>peers. retE (peersToDelete @ peers)) (\<lambda>_. retE peersToDelete)) [] (iterate (pr_keys r) gwConfigMap)) (\<lambda>peersToDelete.
     wrapE ''failed to update gateway node status'' (updateGatewayNodeStatus_PE r peersToDelete False)))))"

section \<open>Reconciliation\<close>

text \<open>An event of the ticker has an empty key; the handler goes on after its clean-up and looks up that key.\<close>

definition Reconcile_PE :: "'s PeerReconciler \<Rightarrow> string \<Rightarrow> string \<Rightarrow> ('s, unit) io" where
  "Reconcile_PE r namespace name =
     bindE (if namespace = '''' \<and> name = '''' then wrapE ''failed to clean up orphaned wireguard peers'' (cleanUp_PE r) else retE ()) (\<lambda>_.
     tryE (kGet (k_PE (pr_Client r)) namespace name)
       (\<lambda>podEndpoint. bindE (wrapE ''failed to fetch StaticGatewayConfiguration''
           (kGet (k_SGC (pr_Client r)) (om_Namespace (pe_Meta podEndpoint)) (pes_StaticGatewayConfiguration (pe_Spec podEndpoint)))) (\<lambda>gwConfig.
         bindE (liftR (applyToNode (pr_node r) gwConfig)) (\<lambda>applies.
         if \<not> applies then retE () else reconcile_PE r gwConfig podEndpoint)))
       (\<lambda>e. if IsNotFound e then retE () else failE e))"

end
