(* ===== verification/Daemon_Proofs.thy ===== *)
theory Daemon_Proofs
  imports Daemon_Gateway
begin

text \<open>
  Proofs about the daemon's gateway controller: names and marks, the status object of the node,
  addresses and routes, what a clean-up spares, and when a gateway is reported as ready.
\<close>

section \<open>Names\<close>

lemma sint_word32_range: "- (2 ^ 63) \<le> sint (w :: 32 word) \<and> sint w < 2 ^ 63"
  using sint_ge [of w] sint_lt [of w] by (simp add: power_numeral_reduce)

lemma packet_mark_of_link:
  "getPacketMark (getWireguardInterfaceName gw) = Ok (sint (gsp_Port (sgt_GatewayServerProfile (sgc_Status gw))))"
  using sint_word32_range by (simp add: getPacketMark_def getWireguardInterfaceName_def Atoi_Itoa)

lemma link_names_distinct:
  "getWireguardInterfaceName gw = getWireguardInterfaceName gw' \<longleftrightarrow>
    gsp_Port (sgt_GatewayServerProfile (sgc_Status gw)) = gsp_Port (sgt_GatewayServerProfile (sgc_Status gw'))"
  by (auto simp: getWireguardInterfaceName_def intro: signed_word_eqI)

section \<open>Status of the node\<close>

lemma remove_at_append: "remove_at (length xs) (xs @ y # ys) = xs @ ys"
  by (simp add: remove_at_def)

lemma dropPeers_filter:
  "dropPeers name (length xs) (xs @ ys) =
    (\<exists>p\<in>set xs. peer_InterfaceName p = name, filter (\<lambda>p. peer_InterfaceName p \<noteq> name) xs @ ys)"
proof (induction xs arbitrary: ys rule: rev_induct)
  case (snoc x xs)
  show ?case
    using snoc.IH [of "x # ys"] snoc.IH [of ys] by (auto simp: nth_append remove_at_append)
qed simp

lemma dropPeers_all:
  "dropPeers name (length ps) ps = (\<exists>p\<in>set ps. peer_InterfaceName p = name, filter (\<lambda>p. peer_InterfaceName p \<noteq> name) ps)"
  using dropPeers_filter [of name ps "[]"] by simp

definition status_ok :: "GatewayStatusSpec \<Rightarrow> bool" where
  "status_ok spec \<longleftrightarrow> distinct (map gwc_InterfaceName (gss_ReadyGatewayConfigurations spec))"

definition status_goal :: "GatewayConfiguration \<Rightarrow> bool \<Rightarrow> GatewayStatusSpec \<Rightarrow> bool" where
  "status_goal gw add spec \<longleftrightarrow>
     (if add then gwc_InterfaceName gw \<in> gwc_InterfaceName ` set (gss_ReadyGatewayConfigurations spec)
      else gwc_InterfaceName gw \<notin> gwc_InterfaceName ` set (gss_ReadyGatewayConfigurations spec) \<and>
        gwc_InterfaceName gw \<notin> peer_InterfaceName ` set (gss_ReadyPeerConfigurations spec))"

text \<open>What belongs to the other interfaces.\<close>

definition status_frame :: "string \<Rightarrow> GatewayStatusSpec \<Rightarrow> GatewayConfiguration list \<times> PeerConfiguration list" where
  "status_frame name spec = (filter (\<lambda>c. gwc_InterfaceName c \<noteq> name) (gss_ReadyGatewayConfigurations spec),
     filter (\<lambda>p. peer_InterfaceName p \<noteq> name) (gss_ReadyPeerConfigurations spec))"

lemma distinct_drop_first: "distinct (map f xs) \<Longrightarrow> distinct (map f (drop_first q xs))"
  by (induction xs) (auto dest: set_drop_first [THEN subsetD])

lemma drop_first_absent: "distinct (map f xs) \<Longrightarrow> n \<notin> f ` set (drop_first (\<lambda>x. f x = n) xs)"
  by (induction xs) auto

lemma editGatewayStatus_eq:
  "editGatewayStatus gw add spec = (let name = gwc_InterfaceName gw; ready = gss_ReadyGatewayConfigurations spec;
       peers = gss_ReadyPeerConfigurations spec; found = (name \<in> gwc_InterfaceName ` set ready) in
     if add then (\<not> found, spec\<lparr>gss_ReadyGatewayConfigurations := (if found then ready else ready @ [gw])\<rparr>)
     else (found \<or> name \<in> peer_InterfaceName ` set peers,
       spec\<lparr>gss_ReadyGatewayConfigurations := drop_first (\<lambda>c. gwc_InterfaceName c = name) ready,
         gss_ReadyPeerConfigurations := filter (\<lambda>p. peer_InterfaceName p \<noteq> name) peers\<rparr>))"
  by (auto simp: editGatewayStatus_def Let_def dropPeers_all list_ex_iff image_def) metis+

lemma editGatewayStatus_step:
  assumes "status_ok spec" and "editGatewayStatus gw add spec = (changed, spec')"
  shows "status_ok spec' \<and> status_goal gw add spec' \<and> (changed \<longleftrightarrow> spec' \<noteq> spec) \<and>
    status_frame (gwc_InterfaceName gw) spec' = status_frame (gwc_InterfaceName gw) spec \<and>
    editGatewayStatus gw add spec' = (False, spec')"
proof (cases add)
  case True
  let ?n = "gwc_InterfaceName gw" and ?ready = "gss_ReadyGatewayConfigurations spec"
  show ?thesis
  proof (cases "?n \<in> gwc_InterfaceName ` set ?ready")
    case found: True
    then have "spec' = spec" "\<not> changed" using assms(2) \<open>add\<close> by (simp_all add: editGatewayStatus_eq Let_def)
    then show ?thesis using assms \<open>add\<close> found by (simp add: status_goal_def)
  next
    case False
    then have *: "spec' = spec\<lparr>gss_ReadyGatewayConfigurations := ?ready @ [gw]\<rparr>" "changed"
      using assms(2) \<open>add\<close> by (simp_all add: editGatewayStatus_eq Let_def)
    then have "gss_ReadyGatewayConfigurations spec' \<noteq> ?ready" by simp
    then have "spec' \<noteq> spec" by blast
    moreover have "status_ok spec'" using assms(1) False by (simp add: * status_ok_def)
    moreover have "editGatewayStatus gw add spec' = (False, spec')" using \<open>add\<close> by (simp add: * editGatewayStatus_eq Let_def)
    ultimately show ?thesis using \<open>add\<close> *(2) by (simp add: status_goal_def status_frame_def *(1))
  qed
next
  case False
  let ?n = "gwc_InterfaceName gw" and ?ready = "gss_ReadyGatewayConfigurations spec" and ?peers = "gss_ReadyPeerConfigurations spec"
  let ?ready' = "drop_first (\<lambda>c. gwc_InterfaceName c = ?n) ?ready"
  let ?peers' = "filter (\<lambda>p. peer_InterfaceName p \<noteq> ?n) ?peers"
  have gone: "?n \<notin> gwc_InterfaceName ` set ?ready'" using assms(1) unfolding status_ok_def by (rule drop_first_absent)
  have spec': "spec' = spec\<lparr>gss_ReadyGatewayConfigurations := ?ready', gss_ReadyPeerConfigurations := ?peers'\<rparr>"
    and changed: "changed \<longleftrightarrow> ?n \<in> gwc_InterfaceName ` set ?ready \<or> ?n \<in> peer_InterfaceName ` set ?peers"
    using assms(2) False by (simp_all add: editGatewayStatus_eq Let_def)
  have "spec' = spec \<longleftrightarrow> ?ready' = ?ready \<and> ?peers' = ?peers" unfolding spec' by (cases spec) auto
  also have "\<dots> \<longleftrightarrow> \<not> changed"
    unfolding changed drop_first_changes filter_changes [of "\<lambda>p. peer_InterfaceName p = ?n"] by (auto simp: image_iff)
  finally have ch: "changed \<longleftrightarrow> spec' \<noteq> spec" by blast
  have again: "drop_first (\<lambda>c. gwc_InterfaceName c = ?n) ?ready' = ?ready'" using gone by (intro drop_first_none) (metis imageI)
  have frame: "status_frame ?n spec' = status_frame ?n spec" by (simp add: spec' status_frame_def filter_drop_first)
  have "editGatewayStatus gw add spec' = (False, spec')"
    using gone again False by (auto simp: spec' editGatewayStatus_eq Let_def)
  moreover have "status_ok spec'" using assms(1) by (simp add: spec' status_ok_def distinct_drop_first)
  moreover have "status_goal gw add spec'" using gone False by (auto simp: spec' status_goal_def)
  ultimately show ?thesis using ch frame by blast
qed

section \<open>Addresses of the node\<close>

text \<open>
  What the code relies on of netlink for the addresses of a link: \<open>addrs\<close> reads them from the world, only
  \<open>AddrAdd\<close> and \<open>AddrDel\<close> change them, and a call that fails changes nothing.
\<close>

definition addr_laws :: "'s netlinkwrapper \<Rightarrow> string \<Rightarrow> nl_link \<Rightarrow> ('s \<Rightarrow> nl_addr list) \<Rightarrow> bool" where
  "addr_laws nl name link addrs \<longleftrightarrow>
     (\<forall>n. reads addrs (LinkByName nl n)) \<and>
     (\<forall>s l s'. LinkByName nl name s = (Ok l, s') \<longrightarrow> l = link) \<and>
     (\<forall>v. triple (\<lambda>s. addrs s = v) (AddrList nl link FAMILY_ALL) (\<lambda>as s. addrs s = v \<and> as = v) (\<lambda>_ s. addrs s = v) (\<lambda>_. False)) \<and>
     (\<forall>a v. triple (\<lambda>s. addrs s = v) (AddrAdd nl link a) (\<lambda>_ s. addrs s = v @ [a]) (\<lambda>_ s. addrs s = v) (\<lambda>_. False)) \<and>
     (\<forall>a v. triple (\<lambda>s. addrs s = v) (AddrDel nl link a) (\<lambda>_ s. addrs s = filter (\<lambda>b. b \<noteq> a) v) (\<lambda>_ s. addrs s = v) (\<lambda>_. False))"

lemma addr_lawsD:
  assumes "addr_laws nl name link addrs"
  shows "reads addrs (LinkByName nl n)"
    and "LinkByName nl name s = (Ok l, s') \<Longrightarrow> l = link"
    and "triple (\<lambda>s. addrs s = v) (AddrList nl link FAMILY_ALL) (\<lambda>as s. addrs s = v \<and> as = v) (\<lambda>_ s. addrs s = v) (\<lambda>_. False)"
    and "triple (\<lambda>s. addrs s = v) (AddrAdd nl link a) (\<lambda>_ s. addrs s = v @ [a]) (\<lambda>_ s. addrs s = v) (\<lambda>_. False)"
    and "triple (\<lambda>s. addrs s = v) (AddrDel nl link a) (\<lambda>_ s. addrs s = filter (\<lambda>b. b \<noteq> a) v) (\<lambda>_ s. addrs s = v) (\<lambda>_. False)"
  using assms unfolding addr_laws_def by blast+

lemma named_link:
  assumes "addr_laws nl name link addrs"
  shows "triple (\<lambda>s. addrs s = v) (LinkByName nl name) (\<lambda>l s. addrs s = v \<and> l = link) (\<lambda>_ s. addrs s = v) (\<lambda>_. False)"
  using reads_view [OF addr_lawsD(1) [OF assms]] addr_lawsD(2) [OF assms]
  by (fastforce simp: triple_def split: prod.splits res.splits)

text \<open>A partial deletion, as a loop leaves it that was stopped by an error.\<close>

definition some_deleted :: "(nl_addr \<Rightarrow> bool res) \<Rightarrow> nl_addr list \<Rightarrow> nl_addr list \<Rightarrow> bool" where
  "some_deleted sel v w \<longleftrightarrow> (\<exists>p. (\<forall>a. sel a \<noteq> Ok True \<longrightarrow> p a) \<and> w = filter p v)"

lemma some_deleted_refl [simp]: "some_deleted sel v v"
  unfolding some_deleted_def by (rule exI [of _ "\<lambda>_. True"]) simp

lemma some_deleted_step: "sel a = Ok True \<Longrightarrow> some_deleted sel (filter (\<lambda>b. b \<noteq> a) v) w \<Longrightarrow> some_deleted sel v w"
proof -
  assume a: "sel a = Ok True" and "some_deleted sel (filter (\<lambda>b. b \<noteq> a) v) w"
  then obtain p where "\<forall>x. sel x \<noteq> Ok True \<longrightarrow> p x" "w = filter p (filter (\<lambda>b. b \<noteq> a) v)" unfolding some_deleted_def by blast
  with a show "some_deleted sel v w" unfolding some_deleted_def by (intro exI [of _ "\<lambda>x. x \<noteq> a \<and> p x"]) auto
qed

lemma deleteAddrs_triple:
  assumes laws: "addr_laws nl name link addrs"
  shows "triple (\<lambda>s. addrs s = v) (deleteAddrs nl msg link sel xs)
    (\<lambda>_ s. addrs s = filter (\<lambda>a. \<not> (a \<in> set xs \<and> sel a = Ok True)) v)
    (\<lambda>_ s. some_deleted sel v (addrs s)) (\<lambda>s. some_deleted sel v (addrs s))"
proof (induction xs arbitrary: v)
  case Nil
  show ?case by (auto simp: deleteAddrs_def intro: triple_ret)
next
  case (Cons x xs)
  have rest: "triple (\<lambda>s. addrs s = filter (\<lambda>b. \<not> (b = x \<and> sel x = Ok True)) v) (deleteAddrs nl msg link sel xs)
      (\<lambda>_ s. addrs s = filter (\<lambda>a. \<not> (a \<in> set (x # xs) \<and> sel a = Ok True)) v)
      (\<lambda>_ s. some_deleted sel v (addrs s)) (\<lambda>s. some_deleted sel v (addrs s))"
  proof -
    have "some_deleted sel v w" if "some_deleted sel (filter (\<lambda>b. \<not> (b = x \<and> sel x = Ok True)) v) w" for w
      using that by (cases "sel x = Ok True") (auto intro: some_deleted_step)
    then show ?thesis 
      by (intro triple_conseq [OF Cons.IH [of "filter (\<lambda>b. \<not> (b = x \<and> sel x = Ok True)) v"]]) (auto intro!: filter_cong)
  qed
  show ?case
  proof (cases "sel x")
    case (Ok b)
    show ?thesis
    proof (cases b)
      case True
      have "triple (\<lambda>s. addrs s = v) (wrapE msg (AddrDel nl link x)) (\<lambda>_ s. addrs s = filter (\<lambda>b. \<not> (b = x \<and> sel x = Ok True)) v)
          (\<lambda>_ s. some_deleted sel v (addrs s)) (\<lambda>s. some_deleted sel v (addrs s))"
        by (rule triple_wrap, rule triple_conseq [OF addr_lawsD(5) [OF laws]]) (auto simp: Ok True some_deleted_refl)
      from triple_bind [OF this rest] show ?thesis using Ok True by (simp add: deleteAddrs_def liftR_def bindE_def tryE_def)
    next
      case False
      then show ?thesis using rest Ok by (simp add: deleteAddrs_def liftR_def bindE_def tryE_def retE_def)
    qed
  qed (auto simp: deleteAddrs_def liftR_def bindE_def tryE_def failE_def triple_def some_deleted_refl)
qed

text \<open>
  What \<open>reconcileIlbIPOnHost\<close> makes of the addresses of eth0: for an address, it is present afterwards and nothing else has
  changed; for none, exactly the addresses with the label of the load balancer are gone.
\<close>

definition ilb_done :: "'s GatewayReconciler \<Rightarrow> string \<Rightarrow> nl_addr list \<Rightarrow> nl_addr list \<Rightarrow> bool" where
  "ilb_done r ilbIP v w \<longleftrightarrow>
     (if ilbIP = '''' then w = filter (\<lambda>a. ad_Label a \<noteq> ILBIPLabel) v
      else \<exists>prefix n. nodePrefix (gr_node r) = Ok prefix \<and> nl_ParseIPNet (gr_Netlink r) (ilbIP @ ''/'' @ Itoa prefix) = Ok n \<and>
        (\<exists>a\<in>set w. \<exists>i. addr_IP a = Ok i \<and> IP_Equal i (in_IP n)) \<and>
        (w = v \<or> w = v @ [\<lparr>ad_IPNet = Some n, ad_Label = ILBIPLabel, ad_Scope = 0\<rparr>]))"

lemma ilb_present:
  assumes "find_res (\<lambda>a. bindR (addr_IP a) (\<lambda>i. Ok (IP_Equal i x))) v = Ok hit" and "hit \<noteq> None"
  shows "\<exists>a\<in>set v. \<exists>i. addr_IP a = Ok i \<and> IP_Equal i x"
proof -
  obtain k a where hit: "hit = Some (k, a)" using assms(2) by (cases hit) auto
  from find_res_Some [OF assms(1) [unfolded hit]] show ?thesis by (auto intro: nth_mem)
qed

lemma reconcileIlbIPOnHost_triple:
  assumes laws: "addr_laws (gr_Netlink r) ''eth0'' eth0 addrs"
  shows "triple (\<lambda>s. addrs s = v) (reconcileIlbIPOnHost r ilbIP) (\<lambda>_ s. ilb_done r ilbIP v (addrs s))
    (\<lambda>_ s. some_deleted (\<lambda>a. Ok (ilbIP = '''' \<and> ad_Label a = ILBIPLabel)) v (addrs s))
    (\<lambda>s. some_deleted (\<lambda>a. Ok (ilbIP = '''' \<and> ad_Label a = ILBIPLabel)) v (addrs s))"
  (is "triple _ _ ?Q ?E ?N")
proof -
  have eth: "triple (\<lambda>s. addrs s = v) (wrapE m (LinkByName (gr_Netlink r) ''eth0'')) (\<lambda>l s. addrs s = v \<and> l = eth0) ?E ?N" for m
    by (rule triple_wrap, rule triple_conseq [OF named_link [OF laws, of v]]) auto
  have ls: "triple (\<lambda>s. addrs s = v) (wrapE m (AddrList (gr_Netlink r) eth0 FAMILY_ALL)) (\<lambda>as s. addrs s = v \<and> as = v) ?E ?N" for m
    by (rule triple_wrap, rule triple_conseq [OF addr_lawsD(3) [OF laws, of v]]) auto
  have del: "triple (\<lambda>s. addrs s = v) (deleteAddrs (gr_Netlink r) m eth0 (\<lambda>a. Ok (ad_Label a = ILBIPLabel)) v) ?Q ?E ?N"
    if "ilbIP = ''''" for m
    by (rule triple_conseq [OF deleteAddrs_triple [OF laws, of v]]) (auto simp: ilb_done_def that intro!: filter_cong)
  have add: "triple (\<lambda>s. addrs s = v) (wrapE m (AddrAdd (gr_Netlink r) eth0 \<lparr>ad_IPNet = Some n, ad_Label = ILBIPLabel, ad_Scope = 0\<rparr>)) ?Q ?E ?N"
    if "ilbIP \<noteq> ''''" "nodePrefix (gr_node r) = Ok prefix" "nl_ParseIPNet (gr_Netlink r) (ilbIP @ ''/'' @ Itoa prefix) = Ok n" for m n prefix
    by (rule triple_wrap, rule triple_conseq [OF addr_lawsD(4) [OF laws, of v]]) (use that in \<open>auto simp: ilb_done_def addr_IP_def\<close>)
  have there: "?Q () s" if "addrs s = v" "ilbIP \<noteq> ''''" "nodePrefix (gr_node r) = Ok prefix"
    "nl_ParseIPNet (gr_Netlink r) (ilbIP @ ''/'' @ Itoa prefix) = Ok n"
    "find_res (\<lambda>a. bindR (addr_IP a) (\<lambda>i. Ok (IP_Equal i (in_IP n)))) v = Ok hit" "hit \<noteq> None" for s prefix n hit
    using ilb_present [OF that(5,6)] that(1-4) by (simp add: ilb_done_def)
  have body: "triple (\<lambda>s. addrs s = v) (if ilbIP = '''' then deleteAddrs (gr_Netlink r) m1 eth0 (\<lambda>a. Ok (ad_Label a = ILBIPLabel)) v
      else case nl_ParseIPNet (gr_Netlink r) (ilbIP @ ''/'' @ Itoa prefix) of
         Err _ \<Rightarrow> failE e1 | Panic \<Rightarrow> liftR Panic
       | Ok n \<Rightarrow> bindE (liftR (find_res (\<lambda>a. bindR (addr_IP a) (\<lambda>i. Ok (IP_Equal i (in_IP n)))) v)) (\<lambda>hit.
           if hit = None then wrapE m2 (AddrAdd (gr_Netlink r) eth0 \<lparr>ad_IPNet = Some n, ad_Label = ILBIPLabel, ad_Scope = 0\<rparr>)
           else retE ())) ?Q ?E ?N"
    if pre: "nodePrefix (gr_node r) = Ok prefix" for prefix m1 m2 e1
  proof (cases "ilbIP = ''''")
    case True
    then show ?thesis using del [OF True] by simp
  next
    case False
    have "triple (\<lambda>s. addrs s = v) (bindE (liftR (find_res (\<lambda>a. bindR (addr_IP a) (\<lambda>i. Ok (IP_Equal i (in_IP n)))) v)) (\<lambda>hit.
           if hit = None then wrapE m2 (AddrAdd (gr_Netlink r) eth0 \<lparr>ad_IPNet = Some n, ad_Label = ILBIPLabel, ad_Scope = 0\<rparr>)
           else retE ())) ?Q ?E ?N" if "nl_ParseIPNet (gr_Netlink r) (ilbIP @ ''/'' @ Itoa prefix) = Ok n" for n
      by (rule triple_bind_lift, rule triple_if, rule add [OF False pre that], rule triple_ret, rule there [OF _ False pre that]) auto
    with False show ?thesis by (cases "nl_ParseIPNet (gr_Netlink r) (ilbIP @ ''/'' @ Itoa prefix)")
      (auto intro!: triple_fail triple_lift simp del: append.simps)
  qed
  show ?thesis unfolding reconcileIlbIPOnHost_def Let_def
    by (rule triple_bind_eq [OF eth], rule triple_bind_lift, rule triple_bind_eq [OF ls], rule body) auto
qed

lemma removeSecondaryIpFromHost_triple:
  assumes laws: "addr_laws (gr_Netlink r) ''eth0'' eth0 addrs"
  defines "sel \<equiv> \<lambda>i a. bindR (addr_IP a) (\<lambda>x. Ok (IP_String x = i))"
  shows "triple (\<lambda>s. addrs s = v) (removeSecondaryIpFromHost r i) (\<lambda>_ s. addrs s = filter (\<lambda>a. sel i a \<noteq> Ok True) v)
    (\<lambda>_ s. some_deleted (sel i) v (addrs s)) (\<lambda>s. some_deleted (sel i) v (addrs s))"
  (is "triple _ _ ?Q ?E ?N")
proof -
  have eth: "triple (\<lambda>s. addrs s = v) (wrapE m (LinkByName (gr_Netlink r) ''eth0'')) (\<lambda>l s. addrs s = v \<and> l = eth0) ?E ?N" for m
    by (rule triple_wrap, rule triple_conseq [OF named_link [OF laws, of v]]) auto
  have ls: "triple (\<lambda>s. addrs s = v) (wrapE m (AddrList (gr_Netlink r) eth0 FAMILY_ALL)) (\<lambda>as s. addrs s = v \<and> as = v) ?E ?N" for m
    by (rule triple_wrap, rule triple_conseq [OF addr_lawsD(3) [OF laws, of v]]) auto
  have del: "triple (\<lambda>s. addrs s = v) (deleteAddrs (gr_Netlink r) m eth0 (sel i) v) ?Q ?E ?N" for m
    by (rule triple_conseq [OF deleteAddrs_triple [OF laws, of v]]) (auto intro!: filter_cong)
  show ?thesis unfolding removeSecondaryIpFromHost_def Let_def sel_def
    by (rule triple_bind_eq [OF eth [unfolded sel_def]], rule triple_bind_eq [OF ls [unfolded sel_def]], rule del [unfolded sel_def])
qed

section \<open>Routes\<close>

lemma equalRoute_refl [simp]: "equalRoute q q"
  by (simp add: equalRoute_def Let_def)

definition route_laws :: "'s netlinkwrapper \<Rightarrow> ('s \<Rightarrow> nl_route list) \<Rightarrow> bool" where
  "route_laws nl routes \<longleftrightarrow>
     (\<forall>v. triple (\<lambda>s. routes s = v) (RouteList nl None FAMILY_ALL) (\<lambda>rs s. routes s = v \<and> rs = v) (\<lambda>_ s. routes s = v) (\<lambda>_. False)) \<and>
     (\<forall>q v. triple (\<lambda>s. routes s = v) (RouteReplace nl q) (\<lambda>_ s. q \<in> set (routes s)) (\<lambda>_ s. routes s = v) (\<lambda>_. False))"

lemma addOrReplaceRoute_triple:
  assumes "route_laws nl routes"
  shows "triple (\<lambda>s. routes s = v) (addOrReplaceRoute nl q)
    (\<lambda>_ s. (\<exists>x\<in>set (routes s). equalRoute x q) \<and> ((\<exists>x\<in>set v. equalRoute x q) \<longrightarrow> routes s = v))
    (\<lambda>_ s. routes s = v) (\<lambda>_. False)"
proof -
  have ls: "triple (\<lambda>s. routes s = v) (RouteList nl None FAMILY_ALL) (\<lambda>rs s. routes s = v \<and> rs = v) (\<lambda>_ s. routes s = v) (\<lambda>_. False)"
    and rep: "triple (\<lambda>s. routes s = v) (RouteReplace nl q) (\<lambda>_ s. q \<in> set (routes s)) (\<lambda>_ s. routes s = v) (\<lambda>_. False)"
    using assms unfolding route_laws_def by blast+
  have rep': "triple (\<lambda>s. routes s = v) (RouteReplace nl q)
      (\<lambda>_ s. (\<exists>x\<in>set (routes s). equalRoute x q) \<and> ((\<exists>x\<in>set v. equalRoute x q) \<longrightarrow> routes s = v)) (\<lambda>_ s. routes s = v) (\<lambda>_. False)"
    if "\<not> (\<exists>x\<in>set v. equalRoute x q)"
    by (rule triple_conseq [OF rep]) (use that in \<open>auto intro: equalRoute_refl\<close>)
  show ?thesis unfolding addOrReplaceRoute_def
    by (rule triple_bind_eq [OF ls], rule triple_if, rule triple_ret, auto simp: list_ex_iff)
      (rule triple_conseq [OF rep'], auto)
qed

section \<open>What a clean-up spares\<close>

text \<open>
  A fact \<open>I\<close> of the world that only two calls may break: deleting a link that \<open>dl\<close> does not allow and
  deleting an address that \<open>da\<close> does not allow. Every other call of the clean-up leaves it alone.
\<close>

definition cleanup_keeps :: "'s GatewayReconciler \<Rightarrow> (nl_link \<Rightarrow> bool) \<Rightarrow> (nl_addr \<Rightarrow> bool) \<Rightarrow> ('s \<Rightarrow> bool) \<Rightarrow> bool" where
  "cleanup_keeps r dl da I \<longleftrightarrow> (let k = gr_Client r; nl = gr_Netlink r; sys = gr_NetNS r; ipt = gr_IPTables r in
     keeps I (kList (k_SGC k)) \<and> (\<forall>a b. keeps I (kGet (k_VMC k) a b)) \<and> (\<forall>a b. keeps I (kGet (k_GWS k) a b)) \<and>
     (\<forall>x. keeps I (kUpdate (k_GWS k) x)) \<and> (\<forall>n. keeps I (LinkByName nl n)) \<and> keeps I (LinkList nl) \<and>
     (\<forall>l f. keeps I (AddrList nl l f)) \<and> (\<forall>l f. keeps I (RouteList nl l f)) \<and> (\<forall>q. keeps I (RouteDel nl q)) \<and>
     (\<forall>l. dl l \<longrightarrow> keeps I (LinkDel nl l)) \<and> (\<forall>l a. da a \<longrightarrow> keeps I (AddrDel nl l a)) \<and>
     (\<forall>p. keeps I (ns_GetNS sys p)) \<and> (\<forall>n. keeps I (ns_Enter sys n)) \<and> (\<forall>n s. I s \<longrightarrow> I (ns_Leave sys n s)) \<and>
     (\<forall>n. keeps I (ns_Close sys n)) \<and> (\<forall>t. keeps I (SaveInto ipt t)) \<and> (\<forall>t c a. keeps I (DeleteRule ipt t c a)) \<and>
     (\<forall>t d f c. keeps I (ipt_Restore ipt t d f c)) \<and> (\<forall>p s. I s \<longrightarrow> I (gr_setProbe r p s)))"

lemma cleanup_calls:
  assumes "cleanup_keeps r dl da I"
  shows "keeps I (kList (k_SGC (gr_Client r)))" "keeps I (kGet (k_VMC (gr_Client r)) a b)"
    "keeps I (kGet (k_GWS (gr_Client r)) a b)" "keeps I (kUpdate (k_GWS (gr_Client r)) x)"
    "keeps I (LinkByName (gr_Netlink r) n)" "keeps I (LinkList (gr_Netlink r))" "keeps I (AddrList (gr_Netlink r) l f)"
    "keeps I (RouteList (gr_Netlink r) ol f)" "keeps I (RouteDel (gr_Netlink r) q)"
    "dl l \<Longrightarrow> keeps I (LinkDel (gr_Netlink r) l)" "da ad \<Longrightarrow> keeps I (AddrDel (gr_Netlink r) l ad)"
    "keeps I (ns_GetNS (gr_NetNS r) p)" "keeps I (ns_Enter (gr_NetNS r) h)" "I s \<Longrightarrow> I (ns_Leave (gr_NetNS r) h s)"
    "I s \<Longrightarrow> I (ignoring (ns_Close (gr_NetNS r) h) s)" "keeps I (SaveInto (gr_IPTables r) t)"
    "keeps I (DeleteRule (gr_IPTables r) t c as)" "keeps I (ipt_Restore (gr_IPTables r) t d ff cf)"
    "I s \<Longrightarrow> I (gr_setProbe r pr s)"
  using assms unfolding cleanup_keeps_def Let_def by (auto intro: ignoring_keeps)

lemma keeps_removeIPTablesChains:
  assumes "cleanup_keeps r dl da I"
  shows "keeps I (removeIPTablesChains r t ts ss cs)"
proof -
  have "keeps I (removeChains (gr_IPTables r) t e ts ss cs)" for e ts ss cs
  proof (induction ts arbitrary: ss cs)
    case (Cons x ts)
    then show ?case
      by (cases ss; cases cs) (auto intro!: keeps_rules cleanup_calls [OF assms])
  qed (simp add: keeps_ret)
  then show ?thesis unfolding removeIPTablesChains_def by (intro keeps_rules cleanup_calls [OF assms])
qed

lemma keeps_updateGatewayNodeStatus:
  assumes "cleanup_keeps r dl da I"
  shows "keeps I (updateGatewayNodeStatus_GW r c False)"
  unfolding updateGatewayNodeStatus_GW_def updateNodeStatus_def Let_def
  by (auto intro!: keeps_rules cleanup_calls [OF assms])

lemma keeps_ensureDeleteIP:
  assumes "cleanup_keeps r dl da I" and "da address"
  shows "keeps I (ensureDeleteIP r gwns address)"
  unfolding ensureDeleteIP_def Let_def
  by (auto intro!: keeps_rules keeps_ns_Do keeps_removeIPTablesChains [OF assms(1)] cleanup_calls [OF assms(1)] assms(2))

lemma keeps_ensureDeleteLink:
  assumes "cleanup_keeps r dl da I" and "dl link"
  shows "keeps I (ensureDeleteLink r gwns link)"
  unfolding ensureDeleteLink_def deleteLinkInNS_def probeE_def
  by (auto intro!: keeps_rules keeps_ns_Do keeps_eff keeps_removeIPTablesChains [OF assms(1)] keeps_updateGatewayNodeStatus [OF assms(1)]
      cleanup_calls [OF assms(1)] assms(2))

text \<open>
  A gateway that is active on this node as long as \<open>I\<close> holds: it is listed, it applies, it is not being deleted, and its
  addresses are found.
\<close>

definition live_gateway :: "'s GatewayReconciler \<Rightarrow> ('s \<Rightarrow> bool) \<Rightarrow> StaticGatewayConfiguration \<Rightarrow> string \<Rightarrow> bool" where
  "live_gateway r I gw vmSecondaryIP \<longleftrightarrow> applyToNode (gr_node r) gw = Ok True \<and> \<not> deleting (sgc_Meta gw) \<and>
     (\<forall>s. I s \<longrightarrow> (\<exists>vmPrimaryIP s'. getVMIP r gw s = (Ok (vmPrimaryIP, vmSecondaryIP), s'))) \<and>
     (\<forall>s items s'. I s \<longrightarrow> kList (k_SGC (gr_Client r)) s = (Ok items, s') \<longrightarrow> gw \<in> set items)"

definition spares :: "StaticGatewayConfiguration \<Rightarrow> string \<Rightarrow> spared \<Rightarrow> bool" where
  "spares gw vmSecondaryIP sp \<longleftrightarrow> getWireguardInterfaceName gw \<in> set (sp_Links sp) \<and> vmSecondaryIP \<in> set (sp_IPs sp) \<and> sp_Active sp"

lemma keeps_getVMIP:
  assumes "cleanup_keeps r dl da I"
  shows "keeps I (getVMIP r gw)"
  unfolding getVMIP_def Let_def by (auto intro!: keeps_rules cleanup_calls [OF assms])

lemma spare_triple:
  assumes laws: "cleanup_keeps r dl da I" and live: "live_gateway r I gw sec"
  shows "triple I (spare r sp g) (\<lambda>sp' s. I s \<and> (spares gw sec sp \<or> g = gw \<longrightarrow> spares gw sec sp')) (\<lambda>_. I) I"
proof -
  have ip: "triple I (getVMIP r g) (\<lambda>(_, i) s. I s \<and> (g = gw \<longrightarrow> i = sec)) (\<lambda>_ s. I s \<and> g \<noteq> gw) I"
    unfolding triple_def
  proof (intro allI impI)
    fix s assume "I s"
    then have "I (snd (getVMIP r g s))" using keepsD [OF keeps_getVMIP [OF laws]] by (metis prod.collapse)
    moreover have "g = gw \<Longrightarrow> \<exists>p s'. getVMIP r g s = (Ok (p, sec), s')" using live \<open>I s\<close> unfolding live_gateway_def by blast
    ultimately show "case getVMIP r g s of (res, s') \<Rightarrow> (case res of Ok a \<Rightarrow> (case a of (_, i) \<Rightarrow> \<lambda>s. I s \<and> (g = gw \<longrightarrow> i = sec)) s'
        | Err e \<Rightarrow> I s' \<and> g \<noteq> gw | Panic \<Rightarrow> I s')"
      by (fastforce split: prod.splits res.splits)
  qed
  show ?thesis
  proof (cases "applyToNode (gr_node r) g = Ok True \<and> \<not> deleting (sgc_Meta g)")
    case True
    have "triple I (tryE (getVMIP r g) (\<lambda>(_, i). retE \<lparr>sp_Links = sp_Links sp @ [getWireguardInterfaceName g],
        sp_IPs = sp_IPs sp @ [i], sp_Active = True\<rparr>) (\<lambda>_. retE sp))
        (\<lambda>sp' s. I s \<and> (spares gw sec sp \<or> g = gw \<longrightarrow> spares gw sec sp')) (\<lambda>_. I) I"
      by (rule triple_try [OF ip]) (auto intro!: triple_ret simp: spares_def)
    with True show ?thesis by (auto simp: spare_def intro!: triple_bind_lift)
  next
    case False
    then have "g \<noteq> gw" using live unfolding live_gateway_def by blast
    with False show ?thesis by (auto simp: spare_def intro!: triple_bind_lift triple_ret)
  qed
qed

lemma spare_all_triple:
  assumes laws: "cleanup_keeps r dl da I" and live: "live_gateway r I gw sec"
  shows "triple I (foldE (spare r) sp items) (\<lambda>sp' s. I s \<and> (spares gw sec sp \<or> gw \<in> set items \<longrightarrow> spares gw sec sp')) (\<lambda>_. I) I"
proof (induction items arbitrary: sp)
  case (Cons g items)
  show ?case unfolding foldE.simps
  proof (rule triple_bind [OF spare_triple [OF laws live]])
    fix sp1
    show "triple (\<lambda>s. I s \<and> (spares gw sec sp \<or> g = gw \<longrightarrow> spares gw sec sp1)) (foldE (spare r) sp1 items)
        (\<lambda>sp' s. I s \<and> (spares gw sec sp \<or> gw \<in> set (g # items) \<longrightarrow> spares gw sec sp')) (\<lambda>_. I) I"
      by (rule triple_pure, rule triple_conseq [OF Cons.IH]) auto
  qed
qed (auto intro: triple_ret)

lemma cleanUp_spares_triple:
  assumes live: "live_gateway r I gw sec"
    and laws: "cleanup_keeps r (\<lambda>l. lk_Name l \<noteq> getWireguardInterfaceName gw) (\<lambda>a. \<forall>i. addr_IP a = Ok i \<longrightarrow> IP_String i \<noteq> sec) I"
  shows "keeps I (cleanUp_GW r)"
proof -
  have ls: "triple I (wrapE m (kList (k_SGC (gr_Client r)))) (\<lambda>items s. I s \<and> gw \<in> set items) (\<lambda>_. I) I" for m
    using cleanup_calls(1) [OF laws] live
    unfolding live_gateway_def triple_def by (intro allI impI) (fastforce simp: wrapE_def tryE_def retE_def failE_def split: prod.splits res.splits)
  have ips: "keeps I (cleanUpIPs r gwns sp as)" if "spares gw sec sp" for gwns sp as
  proof -
    have "keeps I (if IP_String i \<in> set (sp_IPs sp) then retE () else tryE (ensureDeleteIP r gwns address) retE (\<lambda>_. retE ()))"
      if "addr_IP address = Ok i" for address i
      using that \<open>spares gw sec sp\<close>
      by (auto simp: spares_def intro!: triple_if keeps_ret keeps_try keeps_ensureDeleteIP [OF laws])
    then show ?thesis unfolding cleanUpIPs_def loggedE_def by (auto intro!: keeps_fold triple_bind_lift)
  qed
  have links: "keeps I (cleanUpLinks r gwns sp lks)" if "spares gw sec sp" for gwns sp lks
    using that unfolding cleanUpLinks_def loggedE_def spares_def
    by (auto intro!: keeps_fold keeps_rules keeps_ensureDeleteLink [OF laws])
  have ns: "keeps I (ns_Do (gr_NetNS r) gwns (listGatewayNS r))" for gwns
    unfolding listGatewayNS_def Let_def by (auto intro!: keeps_ns_Do keeps_rules cleanup_calls [OF laws])
  have rest: "keeps I (withGatewayNS (gr_NetNS r) m (\<lambda>gwns.
     bindE (ns_Do (gr_NetNS r) gwns (listGatewayNS r)) (\<lambda>(links, ips).
     bindE (cleanUpIPs r gwns sp ips) (\<lambda>_. bindE (cleanUpLinks r gwns sp links) (\<lambda>_.
     if sp_Active sp then retE () else M)))))" if "spares gw sec sp" for m sp M
  proof -
    have act: "sp_Active sp" using that by (simp add: spares_def)
    show ?thesis unfolding withGatewayNS_def GetNS_def
      by (auto simp: act intro!: keeps_rules keeps_fin ns ips [OF that] links [OF that] cleanup_calls [OF laws])
  qed
  have all: "triple I (foldE (spare r) sp items) (\<lambda>sp' s. I s \<and> spares gw sec sp') (\<lambda>_. I) I" if "gw \<in> set items" for sp items
    by (rule triple_conseq [OF spare_all_triple [OF laws live]]) (use that in auto)
  show ?thesis unfolding cleanUp_GW_def
    by (rule triple_bind [OF ls], rule triple_pure, rule triple_bind [OF all], assumption, rule triple_pure, rule rest)
qed

section \<open>When a gateway is reported\<close>

text \<open>A fact of the world that no call on the node's network, packet filter or keys touches.\<close>

definition node_keeps :: "'s GatewayReconciler \<Rightarrow> ('s \<Rightarrow> bool) \<Rightarrow> bool" where
  "node_keeps r I \<longleftrightarrow> (let k = gr_Client r; nl = gr_Netlink r; sys = gr_NetNS r; ipt = gr_IPTables r; wg = gr_WgCtrl r in
     (\<forall>a b. keeps I (kGet (k_Secret k) a b)) \<and> (\<forall>a b. keeps I (kGet (k_VMC k) a b)) \<and>
     (\<forall>n. keeps I (LinkByName nl n)) \<and> (\<forall>l. keeps I (LinkAdd nl l)) \<and> (\<forall>l. keeps I (LinkDel nl l)) \<and>
     (\<forall>l. keeps I (LinkSetUp nl l)) \<and> (\<forall>l f. keeps I (LinkSetNsFd nl l f)) \<and> (\<forall>l f. keeps I (AddrList nl l f)) \<and>
     (\<forall>l a. keeps I (AddrAdd nl l a)) \<and> (\<forall>l a. keeps I (AddrDel nl l a)) \<and> (\<forall>q. keeps I (RouteReplace nl q)) \<and>
     (\<forall>q. keeps I (RouteDel nl q)) \<and> (\<forall>l f. keeps I (RouteList nl l f)) \<and>
     (\<forall>p. keeps I (ns_GetNS sys p)) \<and> (\<forall>n. keeps I (ns_Enter sys n)) \<and> (\<forall>n s. I s \<longrightarrow> I (ns_Leave sys n s)) \<and>
     (\<forall>n. keeps I (ns_Close sys n)) \<and> (\<forall>t c. keeps I (EnsureChain ipt t c)) \<and> (\<forall>p t c a. keeps I (EnsureRule ipt p t c a)) \<and>
     (\<forall>d f c. keeps I (RestoreAll ipt d f c)) \<and> keeps I (wg_New wg) \<and> keeps I (wg_Close wg) \<and>
     (\<forall>n. keeps I (wg_Device wg n)) \<and> (\<forall>n c. keeps I (wg_ConfigureDevice wg n c)))"

lemma node_calls:
  assumes "node_keeps r I"
  shows "keeps I (kGet (k_Secret (gr_Client r)) a b)" "keeps I (kGet (k_VMC (gr_Client r)) a b)"
    "keeps I (LinkByName (gr_Netlink r) n)" "keeps I (LinkAdd (gr_Netlink r) l)" "keeps I (LinkSetUp (gr_Netlink r) l)"
    "keeps I (LinkSetNsFd (gr_Netlink r) l fd)" "keeps I (AddrList (gr_Netlink r) l f)" "keeps I (AddrAdd (gr_Netlink r) l ad)"
    "keeps I (AddrDel (gr_Netlink r) l ad)" "keeps I (RouteReplace (gr_Netlink r) q)" "keeps I (RouteList (gr_Netlink r) ol f)"
    "keeps I (ns_GetNS (gr_NetNS r) p)" "keeps I (ns_Enter (gr_NetNS r) h)" "I s \<Longrightarrow> I (ns_Leave (gr_NetNS r) h s)"
    "keeps I (EnsureChain (gr_IPTables r) t c)" "keeps I (EnsureRule (gr_IPTables r) p t c as)"
    "keeps I (RestoreAll (gr_IPTables r) d ff cf)" "keeps I (wg_New (gr_WgCtrl r))" "keeps I (wg_Device (gr_WgCtrl r) n)"
    "keeps I (wg_ConfigureDevice (gr_WgCtrl r) n wc)" "I s \<Longrightarrow> I (ignoring (LinkDel (gr_Netlink r) l) s)"
    "I s \<Longrightarrow> I (ignoring (RouteDel (gr_Netlink r) q) s)" "I s \<Longrightarrow> I (ignoring (ns_Close (gr_NetNS r) h) s)"
    "I s \<Longrightarrow> I (ignoring (wg_Close (gr_WgCtrl r)) s)"
  using assms unfolding node_keeps_def Let_def by (auto intro: ignoring_keeps)

lemma keeps_ensureIPTablesChain: assumes "node_keeps r I" shows "keeps I (ensureIPTablesChain r t c sc m rs)"
  unfolding ensureIPTablesChain_def Let_def by (auto intro!: keeps_rules node_calls [OF assms])

lemma keeps_addOrReplaceRoute: assumes "node_keeps r I" shows "keeps I (addOrReplaceRoute (gr_Netlink r) q)"
  unfolding addOrReplaceRoute_def by (auto intro!: keeps_rules node_calls [OF assms])

lemma keeps_ensureAddrUp: assumes "node_keeps r I" shows "keeps I (ensureAddrUp (gr_Netlink r) l ad m1 m2 m3)"
  unfolding ensureAddrUp_def by (auto intro!: keeps_rules node_calls [OF assms])

lemma keeps_lookupLink: assumes "node_keeps r I" shows "keeps I (lookupLink (gr_Netlink r) m n)"
  unfolding lookupLink_def by (auto intro!: keeps_rules node_calls [OF assms])

lemma keeps_reconcileWireguardLink: assumes "node_keeps r I" shows "keeps I (reconcileWireguardLink r gwns gw key)"
  unfolding reconcileWireguardLink_def createWireguardLink_def configureWireguardDevice_def withWgClient_def Let_def
  by (auto intro!: keeps_rules keeps_ns_Do keeps_fin keeps_lookupLink [OF assms] keeps_ensureAddrUp [OF assms] node_calls [OF assms])

lemma keeps_vethRouteAndPeer: assumes "node_keeps r I" shows "keeps I (vethRouteAndPeer r gwns snat l)"
  unfolding vethRouteAndPeer_def Let_def
  by (auto intro!: keeps_rules keeps_fin keeps_addOrReplaceRoute [OF assms] node_calls [OF assms])

lemma keeps_reconcileVethPair: assumes "node_keeps r I" shows "keeps I (reconcileVethPair r gwns p snat)"
  unfolding reconcileVethPair_def reconcileVethPairInHost_def Let_def
  by (auto intro!: keeps_rules keeps_ns_Do keeps_fin keeps_lookupLink [OF assms] keeps_vethRouteAndPeer [OF assms]
      keeps_ensureAddrUp [OF assms] keeps_addOrReplaceRoute [OF assms] node_calls [OF assms])

lemma keeps_configureGatewayNamespace: assumes "node_keeps r I" shows "keeps I (configureGatewayNamespace r gw key p snat)"
  unfolding configureGatewayNamespace_def withGatewayNS_def GetNS_def gatewayNamespaceRules_def Let_def
  by (auto intro!: keeps_rules keeps_ns_Do keeps_fin keeps_reconcileWireguardLink [OF assms] keeps_reconcileVethPair [OF assms]
      keeps_ensureIPTablesChain [OF assms] node_calls [OF assms])

lemma keeps_hostAddresses:
  assumes "node_keeps r I"
  shows "keeps I (reconcileIlbIPOnHost r i)" "keeps I (removeSecondaryIpFromHost r i)"
proof -
  have del: "keeps I (deleteAddrs (gr_Netlink r) m l sel xs)" for m l sel xs
    unfolding deleteAddrs_def by (auto intro!: keeps_rules node_calls [OF assms])
  show "keeps I (removeSecondaryIpFromHost r i)"
    unfolding removeSecondaryIpFromHost_def Let_def by (auto intro!: keeps_rules del node_calls [OF assms])
  show "keeps I (reconcileIlbIPOnHost r i)"
    unfolding reconcileIlbIPOnHost_def Let_def
    by (auto intro!: keeps_rules del node_calls [OF assms] split: res.split)
qed

text \<open>
  The status object of this node: \<open>st\<close> reads it from the world, only \<open>Update\<close> and \<open>Create\<close> of status objects
  change it, and these store what they are given.
\<close>

definition status_laws :: "'s kube \<Rightarrow> ('s \<Rightarrow> GatewayStatus option) \<Rightarrow> bool" where
  "status_laws k st \<longleftrightarrow> (let ns = k_Getenv k PodNamespaceEnvKey; name = k_Getenv k NodeNameEnvKey in
     (\<forall>v. triple (\<lambda>s. st s = v) (kGet (k_GWS k) ns name) (\<lambda>x s. st s = v \<and> v = Some x)
        (\<lambda>e s. st s = v \<and> (IsNotFound e \<longrightarrow> v = None)) (\<lambda>_. False)) \<and>
     (\<forall>v x. triple (\<lambda>s. st s = v) (kUpdate (k_GWS k) x) (\<lambda>_ s. st s = Some x) (\<lambda>_ s. st s = v) (\<lambda>_. False)) \<and>
     (\<forall>v x. triple (\<lambda>s. st s = v) (kCreate (k_GWS k) x) (\<lambda>_ s. st s = Some x) (\<lambda>_ s. st s = v) (\<lambda>_. False)) \<and>
     (\<forall>a b. reads st (kGet (k_Node k) a b)))"

definition status_edited ::
  "GatewayStatusSpec \<Rightarrow> (GatewayStatusSpec \<Rightarrow> bool \<times> GatewayStatusSpec) \<Rightarrow> bool \<Rightarrow> GatewayStatus option \<Rightarrow> GatewayStatus option \<Rightarrow> bool" where
  "status_edited fresh edit add v w \<longleftrightarrow> (case v of
     Some x \<Rightarrow> w = (if fst (edit (gws_Spec x)) then Some (x\<lparr>gws_Spec := snd (edit (gws_Spec x))\<rparr>) else v)
   | None \<Rightarrow> if add then \<exists>x. w = Some x \<and> gws_Spec x = fresh else w = None)"

lemma updateNodeStatus_triple:
  assumes "status_laws k st"
  shows "triple (\<lambda>s. st s = v) (updateNodeStatus k setOwner fresh edit add) (\<lambda>_ s. status_edited fresh edit add v (st s))
    (\<lambda>_ s. st s = v) (\<lambda>s. st s = v)"
proof -
  note laws = assms [unfolded status_laws_def Let_def]
  have get: "triple (\<lambda>s. st s = v) (kGet (k_GWS k) (k_Getenv k PodNamespaceEnvKey) (k_Getenv k NodeNameEnvKey))
      (\<lambda>x s. st s = v \<and> v = Some x) (\<lambda>e s. st s = v \<and> (IsNotFound e \<longrightarrow> v = None)) (\<lambda>s. st s = v)"
    by (rule triple_conseq [OF laws [THEN conjunct1, rule_format, of v]]) auto
  have upd: "triple (\<lambda>s. st s = v) (kUpdate (k_GWS k) x) (\<lambda>_ s. st s = Some x) (\<lambda>_ s. st s = v) (\<lambda>s. st s = v)" for x v
    by (rule triple_conseq [OF laws [THEN conjunct2, THEN conjunct1, rule_format, of v x]]) auto
  have cre: "triple (\<lambda>s. st s = v) (kCreate (k_GWS k) x) (\<lambda>_ s. st s = Some x) (\<lambda>_ s. st s = v) (\<lambda>s. st s = v)" for x v
    by (rule triple_conseq [OF laws [THEN conjunct2, THEN conjunct2, THEN conjunct1, rule_format, of v x]]) auto
  have node: "keeps (\<lambda>s. st s = v) (kGet (k_Node k) a b)" for a b v
    by (rule keepsI) (use reads_view [OF laws [THEN conjunct2, THEN conjunct2, THEN conjunct2, rule_format, of a b]] in simp)
  show ?thesis unfolding updateNodeStatus_def Let_def
  proof (rule triple_try [OF get])
    fix x :: GatewayStatus
    obtain changed spec' where e: "edit (gws_Spec x) = (changed, spec')" by (cases "edit (gws_Spec x)")
    show "triple (\<lambda>s. st s = v \<and> v = Some x) (case edit (gws_Spec x) of (changed, spec') \<Rightarrow>
        if changed then bindE (wrapE ''failed to update gwStatus object'' (kUpdate (k_GWS k) (x\<lparr>gws_Spec := spec'\<rparr>))) (\<lambda>_. retE ())
        else retE ()) (\<lambda>_ s. status_edited fresh edit add v (st s)) (\<lambda>_ s. st s = v) (\<lambda>s. st s = v)"
      by (rule triple_pure) (auto simp: e status_edited_def intro!: triple_bind [OF triple_wrap [OF upd]] triple_ret)
  next
    fix e
    show "triple (\<lambda>s. st s = v \<and> (IsNotFound e \<longrightarrow> v = None)) (if \<not> IsNotFound e then failE e else if \<not> add then retE ()
        else bindE (wrapE ''failed to get current node'' (kGet (k_Node k) '''' (k_Getenv k NodeNameEnvKey))) (\<lambda>node.
          bindE (wrapE ''failed to set gwStatus owner reference to node'' (liftR (setOwner (node_Meta node)
            (gws_Meta (newGatewayStatus (k_Getenv k PodNamespaceEnvKey) (k_Getenv k NodeNameEnvKey) fresh))))) (\<lambda>m.
          bindE (wrapE ''failed to create gwStatus object'' (kCreate (k_GWS k)
            (newGatewayStatus (k_Getenv k PodNamespaceEnvKey) (k_Getenv k NodeNameEnvKey) fresh\<lparr>gws_Meta := m\<rparr>))) (\<lambda>_. retE ()))))
        (\<lambda>_ s. status_edited fresh edit add v (st s)) (\<lambda>_ s. st s = v) (\<lambda>s. st s = v)"
      by (rule triple_pure) (auto simp: status_edited_def newGatewayStatus_def
          intro!: triple_fail triple_ret triple_bind [OF keeps_wrap [OF node]] triple_bind [OF keeps_wrap [OF keeps_lift]]
            triple_bind [OF triple_wrap [OF cre]])
  qed
qed

lemma status_edited_goal:
  assumes "status_edited \<lparr>gss_ReadyGatewayConfigurations = [c], gss_ReadyPeerConfigurations = []\<rparr> (editGatewayStatus c True) True v w"
  shows "\<exists>x. w = Some x \<and> status_goal c True (gws_Spec x)"
  using assms by (cases v) (auto simp: status_edited_def status_goal_def editGatewayStatus_eq Let_def split: if_splits)

definition report_laws :: "'s GatewayReconciler \<Rightarrow> ('s \<Rightarrow> GatewayStatus option) \<Rightarrow> bool" where
  "report_laws r st \<longleftrightarrow> (let k = gr_Client r in
     (\<forall>p v. node_keeps r (\<lambda>s. gr_probe r s = p \<and> st s = v)) \<and> status_laws k st \<and>
     (\<forall>p a b. keeps (\<lambda>s. gr_probe r s = p) (kGet (k_GWS k) a b)) \<and> (\<forall>p x. keeps (\<lambda>s. gr_probe r s = p) (kUpdate (k_GWS k) x)) \<and>
     (\<forall>p x. keeps (\<lambda>s. gr_probe r s = p) (kCreate (k_GWS k) x)) \<and> (\<forall>p a b. keeps (\<lambda>s. gr_probe r s = p) (kGet (k_Node k) a b)) \<and>
     (\<forall>x s. gr_probe r (gr_setProbe r x s) = x \<and> st (gr_setProbe r x s) = st s))"

lemma report_lawsD:
  assumes "report_laws r st"
  shows "node_keeps r (\<lambda>s. gr_probe r s = p \<and> st s = v)" "status_laws (gr_Client r) st"
    "keeps (\<lambda>s. gr_probe r s = p) (kGet (k_GWS (gr_Client r)) a b)" "keeps (\<lambda>s. gr_probe r s = p) (kUpdate (k_GWS (gr_Client r)) x)"
    "keeps (\<lambda>s. gr_probe r s = p) (kCreate (k_GWS (gr_Client r)) x)" "keeps (\<lambda>s. gr_probe r s = p) (kGet (k_Node (gr_Client r)) a b)"
    "gr_probe r (gr_setProbe r pr s) = pr" "st (gr_setProbe r pr s) = st s"
  using assms unfolding report_laws_def Let_def by blast+

lemma keeps_first: "keeps (\<lambda>s. A s \<and> B s) m \<Longrightarrow> triple (\<lambda>s. A s \<and> B s) m (\<lambda>_ s. A s \<and> B s) (\<lambda>_. A) A"
  by (erule triple_conseq) auto

lemma reconcile_GW_triple:
  assumes laws: "report_laws r st"
  shows "triple (\<lambda>s. gr_probe r s = p \<and> st s = v) (reconcile_GW r gw)
    (\<lambda>_ s. gr_probe r s = AddGateway (om_UID (sgc_Meta gw)) p \<and>
       (\<exists>x. st s = Some x \<and> getWireguardInterfaceName gw \<in> gwc_InterfaceName ` set (gss_ReadyGatewayConfigurations (gws_Spec x))))
    (\<lambda>_ s. gr_probe r s = p) (\<lambda>s. gr_probe r s = p)" (is "triple ?I _ ?Q ?E ?N")
proof -
  note nk = report_lawsD(1) [OF laws, of p v]

  have key: "keeps ?I (getWireguardPrivateKey r gw)" and ip: "keeps ?I (getVMIP r gw)"
    unfolding getWireguardPrivateKey_def getVMIP_def Let_def by (auto intro!: keeps_rules node_calls [OF nk])
  let ?c = "\<lparr>gwc_StaticGatewayConfiguration = slash_key (sgc_Meta gw), gwc_InterfaceName = getWireguardInterfaceName gw\<rparr>"
  let ?G = "\<lambda>s. gr_probe r s = p \<and> (\<exists>x. st s = Some x \<and> status_goal ?c True (gws_Spec x))"
  have upd: "triple ?I (updateGatewayNodeStatus_GW r ?c True) (\<lambda>_. ?G) ?E ?N"
  proof -
    have "keeps (\<lambda>s. gr_probe r s = p) (updateGatewayNodeStatus_GW r ?c True)"
      unfolding updateGatewayNodeStatus_GW_def updateNodeStatus_def Let_def
      by (auto intro!: keeps_rules report_lawsD [OF laws])
    from triple_both [OF updateNodeStatus_triple [OF report_lawsD(2) [OF laws], of v] this [unfolded updateGatewayNodeStatus_GW_def]]
    show ?thesis unfolding updateGatewayNodeStatus_GW_def
      by (rule triple_conseq) (auto dest: status_edited_goal)
  qed
  have add: "triple ?G (probeE r (AddGateway (om_UID (sgc_Meta gw)))) ?Q ?E ?N"
    unfolding probeE_def by (rule triple_eff) (auto simp: report_lawsD(7,8) [OF laws] status_goal_def)
  show ?thesis unfolding reconcile_GW_def
    by (rule triple_bind [OF keeps_first [OF key]], rule triple_bind [OF keeps_first [OF keeps_hostAddresses(1) [OF nk]]],
        rule triple_bind [OF keeps_first [OF ip]], rule triple_case_prod, rule triple_bind [OF keeps_first [OF keeps_hostAddresses(2) [OF nk]]],
        rule triple_bind [OF keeps_first [OF keeps_ensureIPTablesChain [OF nk]]], rule triple_bind [OF keeps_first [OF keeps_ensureIPTablesChain [OF nk]]],
        rule triple_bind [OF keeps_first [OF keeps_configureGatewayNamespace [OF nk]]], rule triple_bind [OF upd], rule add)
qed

end
