(* ===== verification/Peers_Proofs.thy ===== *)
theory Peers_Proofs
  imports Daemon_Peers Daemon_Proofs
begin

text \<open>
  Proofs about the daemon's controller of pods: the peers in the status of the node, the peer of a pod
  on its device, and the clean-up of a device.
\<close>

section \<open>Peers in the status of the node\<close>

text \<open>An iteration over a map visits every key once.\<close>

definition iter_law :: "(string list \<Rightarrow> string list) \<Rightarrow> bool" where
  "iter_law keys \<longleftrightarrow> (\<forall>ks. distinct ks \<longrightarrow> distinct (keys ks) \<and> set (keys ks) = set ks)"

lemma iterate_set:
  assumes "iter_law keys" and "distinct (map fst m)"
  shows "set (iterate keys m) = snd ` set m" and "length (iterate keys m) = length m"
proof -
  have ks: "set (keys (map fst m)) = fst ` set m" "distinct (keys (map fst m))" using assms unfolding iter_law_def by auto
  have "the (map_of m (fst x)) = snd x" if "x \<in> set m" for x using assms(2) that by (cases x) simp
  then show "set (iterate keys m) = snd ` set m" by (force simp: iterate_def ks(1) image_image)
  show "length (iterate keys m) = length m"
    using distinct_card [OF ks(2)] distinct_card [OF assms(2)] ks(1) by (simp add: iterate_def)
qed

text \<open>Every entry of a map of peers stands under the public key of the peer.\<close>

definition peer_map :: "(string \<times> PeerConfiguration) list \<Rightarrow> bool" where
  "peer_map m \<longleftrightarrow> distinct (map fst m) \<and> (\<forall>(k, p)\<in>set m. k = peer_PublicKey p)"

lemma set_update_sub: "set (AList.update k v m) \<subseteq> insert (k, v) (set m)"
  by (induction m) auto

lemma peer_map_update: "peer_map m \<Longrightarrow> peer_map (AList.update (peer_PublicKey p) p m)"
  using set_update_sub [of "peer_PublicKey p" p m] by (auto simp: peer_map_def distinct_update)

lemma peer_map_delete: "peer_map m \<Longrightarrow> peer_map (AList.delete k m)"
  by (auto simp: peer_map_def AList.delete_eq distinct_map_filter)

lemma peerMapOf_props: "peer_map (peerMapOf peers)" "fst ` set (peerMapOf peers) = peer_PublicKey ` set peers"
  "snd ` set (peerMapOf peers) \<subseteq> set peers"
proof -
  have "peer_map m \<Longrightarrow> peer_map (foldl (\<lambda>m p. AList.update (peer_PublicKey p) p m) m peers) \<and>
      fst ` set (foldl (\<lambda>m p. AList.update (peer_PublicKey p) p m) m peers) = fst ` set m \<union> peer_PublicKey ` set peers \<and>
      snd ` set (foldl (\<lambda>m p. AList.update (peer_PublicKey p) p m) m peers) \<subseteq> snd ` set m \<union> set peers" for m
  proof (induction peers arbitrary: m)
    case (Cons p peers)
    let ?m = "AList.update (peer_PublicKey p) p m"
    have keys: "fst ` set ?m = insert (peer_PublicKey p) (fst ` set m)" by (simp add: dom_update)
    have vals: "snd ` set ?m \<subseteq> insert p (snd ` set m)" using set_update_sub by fastforce
    note IH = Cons.IH [OF peer_map_update [OF Cons.prems, of p]]
    have "snd ` set (foldl (\<lambda>m p. AList.update (peer_PublicKey p) p m) ?m peers) \<subseteq> snd ` set m \<union> set (p # peers)"
      by (rule subset_trans [OF IH [THEN conjunct2, THEN conjunct2]]) (use vals in auto)
    then show ?case using IH by (simp add: keys)
  qed simp
  from this [of "[]"] show "peer_map (peerMapOf peers)" "fst ` set (peerMapOf peers) = peer_PublicKey ` set peers"
    "snd ` set (peerMapOf peers) \<subseteq> set peers" by (auto simp: peerMapOf_def peer_map_def)
qed

lemma iterate_keys:
  assumes "iter_law keys" and "peer_map m"
  shows "map peer_PublicKey (iterate keys m) = keys (map fst m)"
proof -
  have "set (keys (map fst m)) = fst ` set m" using assms unfolding iter_law_def peer_map_def by auto
  moreover have "peer_PublicKey (the (map_of m k)) = k" if "k \<in> fst ` set m" for k
    using that assms(2) by (force simp: peer_map_def)
  ultimately show ?thesis by (auto simp: iterate_def intro: map_idI)
qed

lemma mergePeer_step:
  "mergePeer add (c, m) p = (if map_of m (peer_PublicKey p) = None
     then (if add then (True, AList.update (peer_PublicKey p) p m) else (c, m))
     else (if add then (c, m) else (True, AList.delete (peer_PublicKey p) m)))"
  by (simp add: mergePeer_def del: not_None_eq)

lemma mergePeers_map:
  "map_of (snd (foldl (mergePeer add) (c, m) ps)) k = (if add then (case map_of m k of Some x \<Rightarrow> Some x
     | None \<Rightarrow> find (\<lambda>p. peer_PublicKey p = k) ps) else if k \<in> peer_PublicKey ` set ps then None else map_of m k)"
  by (induction ps arbitrary: c m)
    (auto simp: mergePeer_step update_conv' delete_conv' split: option.split)

lemma mergePeers_peer_map: "peer_map m \<Longrightarrow> peer_map (snd (foldl (mergePeer add) (c, m) ps))"
  by (induction ps arbitrary: c m) (auto simp: mergePeer_step peer_map_update peer_map_delete)

lemma mergePeers_changed:
  "fst (foldl (mergePeer add) (c, m) ps) \<longleftrightarrow> c \<or> (\<exists>p\<in>set ps. (map_of m (peer_PublicKey p) = None) = add)"
proof (induction ps arbitrary: c m)
  case (Cons p ps)
  have "fst (foldl (mergePeer add) (True, m') ps)" for m' using Cons.IH [of True m'] by simp
  then show ?case using Cons.IH [of c m] by (auto simp: mergePeer_step)
qed simp

lemma editPeerStatus_props:
  assumes law: "iter_law keys" and edit: "editPeerStatus keys ps add spec = (changed, spec')"
  defines "old \<equiv> gss_ReadyPeerConfigurations spec" and "new \<equiv> gss_ReadyPeerConfigurations spec'"
  shows "peer_PublicKey ` set new =
      (if add then peer_PublicKey ` set old \<union> peer_PublicKey ` set ps else peer_PublicKey ` set old - peer_PublicKey ` set ps)"
    and "set new \<subseteq> set old \<union> set ps" and "gss_ReadyGatewayConfigurations spec' = gss_ReadyGatewayConfigurations spec"
    and "changed \<Longrightarrow> distinct (map peer_PublicKey new)"
    and "changed \<longleftrightarrow> (\<exists>p\<in>set ps. (peer_PublicKey p \<notin> peer_PublicKey ` set old) = add)"
    and "p \<in> set new \<Longrightarrow> peer_PublicKey p \<in> peer_PublicKey ` set old \<Longrightarrow> p \<in> set old"
proof -
  let ?base = "peerMapOf old" and ?new = "snd (foldl (mergePeer add) (False, peerMapOf old) ps)"
  have pm: "peer_map ?new" and pm0: "peer_map ?base" by (simp_all add: mergePeers_peer_map peerMapOf_props)
  have dist: "distinct (map fst ?new)" using pm unfolding peer_map_def by (rule conjunct1)
  have ch: "changed \<longleftrightarrow> fst (foldl (mergePeer add) (False, ?base) ps)"
    and spec': "spec' = (if changed then spec\<lparr>gss_ReadyPeerConfigurations := iterate keys ?new\<rparr> else spec)"
    using edit by (auto simp: editPeerStatus_def old_def split: prod.splits)
  have none: "map_of ?base k = None \<longleftrightarrow> k \<notin> peer_PublicKey ` set old" for k
    using peerMapOf_props(2) [of old] by (simp add: map_of_eq_None_iff)
  show changed: "changed \<longleftrightarrow> (\<exists>p\<in>set ps. (peer_PublicKey p \<notin> peer_PublicKey ` set old) = add)"
    using ch mergePeers_changed [of add False ?base ps] by (simp add: none)
  show "gss_ReadyGatewayConfigurations spec' = gss_ReadyGatewayConfigurations spec" by (simp add: spec')
  have entries: "x \<in> set new \<longleftrightarrow> map_of ?new (peer_PublicKey x) = Some x" if changed for x
  proof -
    have "set new = snd ` set ?new" using iterate_set(1) [OF law dist] that by (simp add: new_def spec')
    also have "x \<in> \<dots> \<longleftrightarrow> (peer_PublicKey x, x) \<in> set ?new" using pm by (force simp: peer_map_def)
    finally show ?thesis using dist by simp
  qed
  have old: "x \<in> set old" if "map_of ?base k = Some x" for k x
    using peerMapOf_props(3) [of old] map_of_SomeD [OF that] by force
  show sub: "set new \<subseteq> set old \<union> set ps"
  proof (cases changed)
    case True
    show ?thesis
      using entries [OF True] old mergePeers_map [of add False ?base ps]
      by (auto split: if_splits option.splits dest: find_SomeD)
  qed (simp add: new_def spec' old_def)
  show "p \<in> set new \<Longrightarrow> peer_PublicKey p \<in> peer_PublicKey ` set old \<Longrightarrow> p \<in> set old"
    using entries old none mergePeers_map [of add False ?base ps]
    by (cases changed) (auto simp: spec' new_def old_def split: if_splits option.splits)
  have keys: "map peer_PublicKey new = keys (map fst ?new)" if changed
    using iterate_keys [OF law pm] that by (simp add: new_def spec')
  then show "changed \<Longrightarrow> distinct (map peer_PublicKey new)"
    using law pm by (simp add: iter_law_def peer_map_def)
  show "peer_PublicKey ` set new = (if add then peer_PublicKey ` set old \<union> peer_PublicKey ` set ps
      else peer_PublicKey ` set old - peer_PublicKey ` set ps)"
  proof (cases changed)
    case True
    have "peer_PublicKey ` set new = set (keys (map fst ?new))" using keys [OF True] by (metis list.set_map)
    also have "\<dots> = dom (map_of ?new)" using law pm by (simp add: iter_law_def peer_map_def dom_map_of_conv_image_fst)
    also have "\<dots> = (if add then peer_PublicKey ` set old \<union> peer_PublicKey ` set ps else peer_PublicKey ` set old - peer_PublicKey ` set ps)"
    proof (rule set_eqI)
      fix k
      have "map_of ?new k = None \<longleftrightarrow> (if add then k \<notin> peer_PublicKey ` set old \<and> k \<notin> peer_PublicKey ` set ps
          else k \<in> peer_PublicKey ` set ps \<or> k \<notin> peer_PublicKey ` set old)"
        using none [of k] by (cases "map_of ?base k") (auto simp: mergePeers_map find_None_iff)
      then show "k \<in> dom (map_of ?new) \<longleftrightarrow> k \<in> (if add then peer_PublicKey ` set old \<union> peer_PublicKey ` set ps
          else peer_PublicKey ` set old - peer_PublicKey ` set ps)" by (cases add) (auto simp only: domIff if_True if_False simp_thms Un_iff Diff_iff)
    qed
    finally show ?thesis .
  next
    case False
    then have same: "new = old" by (simp add: new_def old_def spec')
    show ?thesis using False unfolding changed same by (cases add) (auto, metis imageI)
  qed
qed

section \<open>The device of a gateway\<close>

text \<open>
  What a successful \<open>ConfigureDevice\<close> makes of the peers of a device: the peers to remove are gone, the others are
  there, with their addresses if these are replaced, and no other peer comes or goes.
\<close>

definition configured :: "wg_config \<Rightarrow> wg_device \<Rightarrow> wg_device \<Rightarrow> bool" where
  "configured c d d' \<longleftrightarrow> (let removed = pc_PublicKey ` {p \<in> set (wc_Peers c). pc_Remove p};
       given = pc_PublicKey ` {p \<in> set (wc_Peers c). \<not> pc_Remove p} in
     wp_PublicKey ` set (dev_Peers d') = (wp_PublicKey ` set (dev_Peers d) - removed) \<union> given \<and>
     (\<forall>p\<in>set (wc_Peers c). \<not> pc_Remove p \<and> pc_ReplaceAllowedIPs p \<longrightarrow>
       (\<exists>q\<in>set (dev_Peers d'). wp_PublicKey q = pc_PublicKey p \<and> wp_AllowedIPs q = pc_AllowedIPs p)))"

text \<open>The device \<open>name\<close>, which \<open>dev\<close> reads from the world, changes by \<open>ConfigureDevice\<close> of that name only.\<close>

definition device_laws :: "'s PeerReconciler \<Rightarrow> string \<Rightarrow> ('s \<Rightarrow> wg_device) \<Rightarrow> bool" where
  "device_laws r name dev \<longleftrightarrow> (let wg = pr_WgCtrl r; nl = pr_Netlink r; sys = pr_NetNS r in
     (\<forall>d. triple (\<lambda>s. dev s = d) (wg_Device wg name) (\<lambda>x s. dev s = d \<and> x = d) (\<lambda>_ s. dev s = d) (\<lambda>_. False)) \<and>
     (\<forall>d c. triple (\<lambda>s. dev s = d) (wg_ConfigureDevice wg name c) (\<lambda>_ s. configured c d (dev s)) (\<lambda>_ s. dev s = d) (\<lambda>_. False)) \<and>
     (\<forall>d. keeps (\<lambda>s. dev s = d) (wg_New wg)) \<and> (\<forall>d. keeps (\<lambda>s. dev s = d) (wg_Close wg)) \<and>
     (\<forall>d n. keeps (\<lambda>s. dev s = d) (LinkByName nl n)) \<and> (\<forall>d l f. keeps (\<lambda>s. dev s = d) (RouteList nl l f)) \<and>
     (\<forall>d q. keeps (\<lambda>s. dev s = d) (RouteDel nl q)) \<and> (\<forall>d q. keeps (\<lambda>s. dev s = d) (RouteReplace nl q)) \<and>
     (\<forall>d p. keeps (\<lambda>s. dev s = d) (ns_GetNS sys p)) \<and> (\<forall>d n. keeps (\<lambda>s. dev s = d) (ns_Enter sys n)) \<and>
     (\<forall>n s. dev (ns_Leave sys n s) = dev s) \<and> (\<forall>d n. keeps (\<lambda>s. dev s = d) (ns_Close sys n)) \<and>
     (\<forall>d a b. keeps (\<lambda>s. dev s = d) (kGet (k_GWS (pr_Client r)) a b)) \<and> (\<forall>d x. keeps (\<lambda>s. dev s = d) (kUpdate (k_GWS (pr_Client r)) x)) \<and>
     (\<forall>d x. keeps (\<lambda>s. dev s = d) (kCreate (k_GWS (pr_Client r)) x)) \<and> (\<forall>d a b. keeps (\<lambda>s. dev s = d) (kGet (k_Node (pr_Client r)) a b)))"

lemma device_lawsD:
  assumes "device_laws r name dev"
  shows "triple (\<lambda>s. dev s = d) (wg_Device (pr_WgCtrl r) name) (\<lambda>x s. dev s = d \<and> x = d) (\<lambda>_ s. dev s = d) (\<lambda>_. False)"
    and "triple (\<lambda>s. dev s = d) (wg_ConfigureDevice (pr_WgCtrl r) name c) (\<lambda>_ s. configured c d (dev s)) (\<lambda>_ s. dev s = d) (\<lambda>_. False)"
    and "keeps (\<lambda>s. dev s = d) (wg_New (pr_WgCtrl r))" and "keeps (\<lambda>s. dev s = d) (wg_Close (pr_WgCtrl r))"
    and "keeps (\<lambda>s. dev s = d) (LinkByName (pr_Netlink r) n)" and "keeps (\<lambda>s. dev s = d) (RouteList (pr_Netlink r) l f)"
    and "keeps (\<lambda>s. dev s = d) (RouteDel (pr_Netlink r) q)" and "keeps (\<lambda>s. dev s = d) (RouteReplace (pr_Netlink r) q)"
    and "keeps (\<lambda>s. dev s = d) (ns_GetNS (pr_NetNS r) p)" and "keeps (\<lambda>s. dev s = d) (ns_Enter (pr_NetNS r) h)"
    and "dev (ns_Leave (pr_NetNS r) h s) = dev s" and "keeps (\<lambda>s. dev s = d) (ns_Close (pr_NetNS r) h)"
    and "keeps (\<lambda>s. dev s = d) (kGet (k_GWS (pr_Client r)) a b)" and "keeps (\<lambda>s. dev s = d) (kUpdate (k_GWS (pr_Client r)) x)"
    and "keeps (\<lambda>s. dev s = d) (kCreate (k_GWS (pr_Client r)) x)" and "keeps (\<lambda>s. dev s = d) (kGet (k_Node (pr_Client r)) a b)"
  using assms unfolding device_laws_def Let_def by (simp_all del: split_paired_All)

lemma close_dev:
  assumes "device_laws r name dev"
  shows "dev (ignoring (wg_Close (pr_WgCtrl r)) s) = dev s" and "dev (ignoring (ns_Close (pr_NetNS r) h) s) = dev s"
  using ignoring_keeps [OF device_lawsD(4) [OF assms], of s "dev s"] ignoring_keeps [OF device_lawsD(12) [OF assms], of s "dev s"] by simp_all

text \<open>Opening and closing the namespace and the client changes nothing, so a fact about the device passes through.\<close>

lemma in_gateway_ns:
  assumes laws: "device_laws r name dev"
    and body: "triple (\<lambda>s. dev s = d) body (\<lambda>a s. R a (dev s)) (\<lambda>_ s. E (dev s)) (\<lambda>s. E (dev s))" and "E d"
    and rest: "\<And>a. triple (\<lambda>s. R a (dev s)) (rest a) (\<lambda>b s. Q b (dev s)) (\<lambda>_ s. E (dev s)) (\<lambda>s. E (dev s))"
  shows "triple (\<lambda>s. dev s = d) (withGatewayNS (pr_NetNS r) m (\<lambda>gwns. bindE (ns_Do (pr_NetNS r) gwns body) rest))
    (\<lambda>a s. Q a (dev s)) (\<lambda>_ s. E (dev s)) (\<lambda>s. E (dev s))"
proof -
  have weak: "triple (\<lambda>s. dev s = d) (wrapE m (GetNS (pr_NetNS r) GatewayNetnsName)) (\<lambda>_ s. dev s = d) (\<lambda>_ s. E (dev s)) (\<lambda>s. E (dev s))"
    unfolding GetNS_def by (rule triple_wrap, rule triple_conseq [OF device_lawsD(9) [OF laws, of d]]) (auto simp: \<open>E d\<close>)
  have enter: "triple (\<lambda>s. dev s = d) (ns_Enter (pr_NetNS r) h) (\<lambda>_ s. dev s = d) (\<lambda>_ s. E (dev s)) (\<lambda>s. E (dev s))" for h
    by (rule triple_conseq [OF device_lawsD(10) [OF laws, of d]]) (auto simp: \<open>E d\<close>)
  show ?thesis unfolding withGatewayNS_def
    by (rule triple_bind [OF weak], rule triple_fin, unfold close_dev [OF laws], rule triple_bind [OF triple_ns_Do [OF enter] rest])
      (simp add: device_lawsD(11) [OF laws] body)
qed

lemma with_client:
  assumes laws: "device_laws r name dev"
    and body: "triple (\<lambda>s. dev s = d) body (\<lambda>a s. Q a (dev s)) (\<lambda>_ s. E (dev s)) (\<lambda>s. E (dev s))" and "E d"
  shows "triple (\<lambda>s. dev s = d) (withWgClient (pr_WgCtrl r) m body) (\<lambda>a s. Q a (dev s)) (\<lambda>_ s. E (dev s)) (\<lambda>s. E (dev s))"
proof -
  have "triple (\<lambda>s. dev s = d) (wrapE m (wg_New (pr_WgCtrl r))) (\<lambda>_ s. dev s = d) (\<lambda>_ s. E (dev s)) (\<lambda>s. E (dev s))"
    by (rule triple_wrap, rule triple_conseq [OF device_lawsD(3) [OF laws, of d]]) (auto simp: \<open>E d\<close>)
  then show ?thesis unfolding withWgClient_def
    by (rule triple_bind) (rule triple_fin, unfold close_dev [OF laws], rule body)
qed

text \<open>
  The clean-up of a device removes exactly the peers that no pod claims; when it fails, the device is as it was.
\<close>

lemma removal_configured:
  assumes "configured (removalConfig ps) d d'"
  shows "wp_PublicKey ` set (dev_Peers d') = wp_PublicKey ` set (dev_Peers d) - wp_PublicKey ` set ps"
proof -
  have "pc_PublicKey ` {p \<in> set (wc_Peers (removalConfig ps)). pc_Remove p} = wp_PublicKey ` set ps"
    by (force simp: removalConfig_def)
  moreover have "{p \<in> set (wc_Peers (removalConfig ps)). \<not> pc_Remove p} = {}" by (auto simp: removalConfig_def)
  ultimately show ?thesis using assms unfolding configured_def Let_def by (simp only: image_empty Un_empty_right)
qed

definition orphan_keys :: "'s wgctrlwrapper \<Rightarrow> (string \<rightharpoonup> string list) \<Rightarrow> string \<Rightarrow> wg_device \<Rightarrow> wgkey set" where
  "orphan_keys wg peerMap name d = {k \<in> wp_PublicKey ` set (dev_Peers d). wg_KeyString wg k \<notin> set (Val [] (peerMap name))}"

lemma orphans_keys: "wp_PublicKey ` set (orphans wg peerMap name d) = orphan_keys wg peerMap name d"
  by (auto simp: orphans_def orphan_keys_def)

definition device_cleaned ::
  "'s wgctrlwrapper \<Rightarrow> (string \<rightharpoonup> string list) \<Rightarrow> string \<Rightarrow> wg_device \<Rightarrow> PeerConfiguration list \<Rightarrow> wg_device \<Rightarrow> bool" where
  "device_cleaned wg peerMap name d reported d' \<longleftrightarrow>
     wp_PublicKey ` set (dev_Peers d') = wp_PublicKey ` set (dev_Peers d) - orphan_keys wg peerMap name d \<and>
     peer_PublicKey ` set reported = wg_KeyString wg ` orphan_keys wg peerMap name d"

lemma removeOrphans_triple:
  assumes laws: "device_laws r name dev"
  shows "triple (\<lambda>s. dev s = d) (removeOrphans r name peerMap)
    (\<lambda>reported s. device_cleaned (pr_WgCtrl r) peerMap name d reported (dev s)) (\<lambda>_ s. dev s = d) (\<lambda>s. dev s = d)"
proof -
  let ?wg = "pr_WgCtrl r" and ?gone = "orphans (pr_WgCtrl r) peerMap name d"
  have get: "triple (\<lambda>s. dev s = d) (wrapE m (wg_Device ?wg name)) (\<lambda>x s. dev s = d \<and> x = d) (\<lambda>_ s. dev s = d) (\<lambda>s. dev s = d)" for m
    by (rule triple_wrap, rule triple_conseq [OF device_lawsD(1) [OF laws, of d]]) auto
  have routes: "keeps (\<lambda>s. dev s = d) (wrapE m (deleteWireguardPeerRoutes r name ips))" for m ips
    unfolding deleteWireguardPeerRoutes_def Let_def by (auto intro!: keeps_rules device_lawsD [OF laws])
  have conf: "triple (\<lambda>s. dev s = d) (wrapE m (wg_ConfigureDevice ?wg name (removalConfig ?gone)))
      (\<lambda>_ s. wp_PublicKey ` set (dev_Peers (dev s)) = wp_PublicKey ` set (dev_Peers d) - orphan_keys ?wg peerMap name d)
      (\<lambda>_ s. dev s = d) (\<lambda>s. dev s = d)" for m
    by (rule triple_wrap, rule triple_conseq [OF device_lawsD(2) [OF laws, of d]])
      (auto dest!: removal_configured simp: orphans_keys)
  have none: "device_cleaned ?wg peerMap name d [] d" if "?gone = []"
  proof -
    have "orphan_keys ?wg peerMap name d = {}" using orphans_keys [of ?wg peerMap name d] that by simp
    then show ?thesis by (simp add: device_cleaned_def)
  qed
  have rep: "peer_PublicKey ` set (map (\<lambda>p. \<lparr>peer_PodEndpoint = '''', peer_InterfaceName = '''',
      peer_PublicKey = wg_KeyString ?wg (wp_PublicKey p)\<rparr>) ?gone) = wg_KeyString ?wg ` orphan_keys ?wg peerMap name d"
    by (simp add: orphans_keys [symmetric] image_image)
  show ?thesis unfolding removeOrphans_def Let_def
  proof (rule with_client [OF laws, where E = "\<lambda>x. x = d"])
    show "triple (\<lambda>s. dev s = d) (bindE (wrapE ''failed to get wireguard link configuration'' (wg_Device ?wg name)) (\<lambda>device.
        if orphans ?wg peerMap name device = [] then retE []
        else bindE (wrapE ''failed to delete pod route on wglink'' (deleteWireguardPeerRoutes r name
            (concat (map (\<lambda>p. map (\<lambda>n. IP_String (in_IP n)) (wp_AllowedIPs p)) (orphans ?wg peerMap name device))))) (\<lambda>_.
          bindE (wrapE ''failed to remove peers from wireguard device'' (wg_ConfigureDevice ?wg name
            (removalConfig (orphans ?wg peerMap name device)))) (\<lambda>_.
          retE (map (\<lambda>p. \<lparr>peer_PodEndpoint = '''', peer_InterfaceName = '''',
            peer_PublicKey = wg_KeyString ?wg (wp_PublicKey p)\<rparr>) (orphans ?wg peerMap name device))))))
        (\<lambda>reported s. device_cleaned ?wg peerMap name d reported (dev s)) (\<lambda>_ s. dev s = d) (\<lambda>s. dev s = d)"
      by (rule triple_bind_eq [OF get], rule triple_if, rule triple_ret, simp add: none,
          rule triple_bind [OF routes], rule triple_bind [OF conf], rule triple_ret, unfold device_cleaned_def rep) simp
  qed simp
qed

lemma bindE_retE_right: "bindE m retE = m"
  by (rule ext) (simp add: bindE_def tryE_def retE_def failE_def split: prod.splits res.splits)

lemma cleanUpWgLink_triple:
  assumes laws: "device_laws r name dev"
  shows "triple (\<lambda>s. dev s = d) (cleanUpWgLink r name peerMap)
    (\<lambda>reported s. device_cleaned (pr_WgCtrl r) peerMap name d reported (dev s)) (\<lambda>_ s. dev s = d) (\<lambda>s. dev s = d)"
proof -
  let ?Q = "device_cleaned (pr_WgCtrl r) peerMap name d"
  have "triple (\<lambda>s. dev s = d) (withGatewayNS (pr_NetNS r) m (\<lambda>gwns. bindE (ns_Do (pr_NetNS r) gwns (removeOrphans r name peerMap)) retE))
      (\<lambda>a s. ?Q a (dev s)) (\<lambda>_ s. dev s = d) (\<lambda>s. dev s = d)" for m
    by (rule in_gateway_ns [where E = "\<lambda>x. x = d" and R = ?Q, OF laws removeOrphans_triple [OF laws]]) (auto intro: triple_ret)
  then show ?thesis unfolding cleanUpWgLink_def bindE_retE_right .
qed

section \<open>The peer of a pod\<close>

definition is_peer :: "'s PeerReconciler \<Rightarrow> PodEndpoint \<Rightarrow> wg_device \<Rightarrow> wg_device \<Rightarrow> bool" where
  "is_peer r pe d d' \<longleftrightarrow> (\<exists>key i n. wg_ParseKey (pr_WgCtrl r) (pes_PodPublicKey (pe_Spec pe)) = Ok key \<and>
     net_ParseCIDR (pes_PodIpAddress (pe_Spec pe)) = Ok (i, n) \<and>
     (\<exists>q\<in>set (dev_Peers d'). wp_PublicKey q = key \<and> wp_AllowedIPs q = [n]) \<and>
     wp_PublicKey ` set (dev_Peers d') = insert key (wp_PublicKey ` set (dev_Peers d)))"

lemma peer_configured:
  assumes "configured (peerConfigOf key n) d d'"
  shows "(\<exists>q\<in>set (dev_Peers d'). wp_PublicKey q = key \<and> wp_AllowedIPs q = [n]) \<and>
    wp_PublicKey ` set (dev_Peers d') = insert key (wp_PublicKey ` set (dev_Peers d))"
proof -
  let ?c = "peerConfigOf key n"
  let ?p = "\<lparr>pc_PublicKey = key, pc_Remove = False, pc_ReplaceAllowedIPs = True, pc_AllowedIPs = [n], pc_Endpoint = None\<rparr>"
  have peers: "wc_Peers ?c = [?p]" by (simp add: peerConfigOf_def)
  have sets: "{p \<in> set (wc_Peers ?c). pc_Remove p} = {}" "{p \<in> set (wc_Peers ?c). \<not> pc_Remove p} = {?p}" unfolding peers by auto
  have keys: "wp_PublicKey ` set (dev_Peers d') = (wp_PublicKey ` set (dev_Peers d) - pc_PublicKey ` {p \<in> set (wc_Peers ?c). pc_Remove p}) \<union>
      pc_PublicKey ` {p \<in> set (wc_Peers ?c). \<not> pc_Remove p}"
    and ips: "\<forall>p\<in>set (wc_Peers ?c). \<not> pc_Remove p \<and> pc_ReplaceAllowedIPs p \<longrightarrow>
       (\<exists>q\<in>set (dev_Peers d'). wp_PublicKey q = pc_PublicKey p \<and> wp_AllowedIPs q = pc_AllowedIPs p)"
    using assms unfolding configured_def Let_def by (rule conjunct1, rule conjunct2)
  show ?thesis using ips keys unfolding sets unfolding peers by simp
qed

lemma keeps_view:
  assumes "\<And>x. keeps (\<lambda>s. view s = x) m"
  shows "keeps (\<lambda>s. P (view s)) m"
proof (rule keepsI)
  fix s r s' assume "P (view s)" "m s = (r, s')"
  with keepsD [OF assms [of "view s"], of s r s'] show "P (view s')" by simp
qed

lemma wrapE_liftR: "wrapE m (liftR x) = liftR (wrapR m x)"
  by (rule ext) (simp add: wrapE_def tryE_def liftR_def retE_def failE_def wrapR_def split: res.splits)

lemma addPeer_triple:
  assumes laws: "device_laws r (getWireguardInterfaceName gw) dev"
  shows "triple (\<lambda>s. dev s = d) (addPeer r gw pe) (\<lambda>_ s. is_peer r pe d (dev s))
    (\<lambda>_ s. dev s = d \<or> is_peer r pe d (dev s)) (\<lambda>s. dev s = d \<or> is_peer r pe d (dev s))"
proof -
  have conf: "triple (\<lambda>s. dev s = d) (wrapE m (wg_ConfigureDevice (pr_WgCtrl r) (getWireguardInterfaceName gw) (peerConfigOf key n)))
      (\<lambda>_ s. is_peer r pe d (dev s)) (\<lambda>_ s. dev s = d \<or> is_peer r pe d (dev s)) (\<lambda>s. dev s = d \<or> is_peer r pe d (dev s))"
    if "wg_ParseKey (pr_WgCtrl r) (pes_PodPublicKey (pe_Spec pe)) = Ok key"
      "net_ParseCIDR (pes_PodIpAddress (pe_Spec pe)) = Ok (i, n)" for m key i n
    by (rule triple_wrap, rule triple_conseq [OF device_lawsD(2) [OF laws, of d]])
      (use that in \<open>auto simp: is_peer_def dest: peer_configured\<close>)
  have "keeps (\<lambda>s. dev s = x) (addWireguardPeerRoutes r gw pe)" for x
    unfolding addWireguardPeerRoutes_def Let_def by (auto intro!: keeps_rules device_lawsD [OF laws])
  from keeps_view [where P = "is_peer r pe d", OF this]
  have "triple (\<lambda>s. is_peer r pe d (dev s)) (addWireguardPeerRoutes r gw pe) (\<lambda>_ s. is_peer r pe d (dev s))
      (\<lambda>_ s. dev s = d \<or> is_peer r pe d (dev s)) (\<lambda>s. dev s = d \<or> is_peer r pe d (dev s))"
    by (rule triple_conseq) auto
  then show ?thesis unfolding addPeer_def Let_def
    by (intro with_client [OF laws, where E = "\<lambda>x. x = d \<or> is_peer r pe d x"])
      (auto intro!: triple_bind_lift triple_bind [OF conf] triple_wrap simp: wrapE_liftR)
qed

lemma reconcile_PE_triple:
  assumes laws: "device_laws r (getWireguardInterfaceName gw) dev"
  shows "triple (\<lambda>s. dev s = d) (reconcile_PE r gw pe) (\<lambda>_ s. is_peer r pe d (dev s))
    (\<lambda>_ s. dev s = d \<or> is_peer r pe d (dev s)) (\<lambda>s. dev s = d \<or> is_peer r pe d (dev s))"
proof -
  have "keeps (\<lambda>s. dev s = x) (updateGatewayNodeStatus_PE r ps True)" for x ps
    unfolding updateGatewayNodeStatus_PE_def updateNodeStatus_def Let_def
    by (auto intro!: keeps_rules device_lawsD [OF laws])
  note status = keeps_view [where P = "is_peer r pe d", OF this]
  have "triple (\<lambda>s. is_peer r pe d (dev s)) (updateGatewayNodeStatus_PE r ps True) (\<lambda>_ s. is_peer r pe d (dev s))
      (\<lambda>_ s. dev s = d \<or> is_peer r pe d (dev s)) (\<lambda>s. dev s = d \<or> is_peer r pe d (dev s))" for ps
    by (rule triple_conseq [OF status]) auto
  then show ?thesis unfolding reconcile_PE_def
    by (intro in_gateway_ns [where E = "\<lambda>x. x = d \<or> is_peer r pe d x" and R = "\<lambda>_. is_peer r pe d", OF laws addPeer_triple [OF laws]]) auto
qed

end
