(* ===== verification/Daemon_World.thy ===== *)
theory Daemon_World
  imports Peers_Proofs LB_World
begin

text \<open>
  A concrete gateway node: its links, addresses and routes in the host and in the gateway namespace, one
  WireGuard device, the status object of the node and the registry of the probe. Its interfaces satisfy the
  laws under which the daemon is verified. The packet filter accepts every call and keeps nothing.
\<close>

record node_world =
  nw_inside :: bool
  nw_host_links :: "nl_link list"
  nw_gw_links :: "nl_link list"
  nw_all_addrs :: "(string \<times> nl_addr) list"
  nw_host_routes :: "nl_route list"
  nw_gw_routes :: "nl_route list"
  nw_dev :: wg_device
  nw_status :: "GatewayStatus option"
  nw_probe :: LBProbeServer
  nw_vm :: "GatewayVMConfigurationStatus option"

section \<open>The network\<close>

text \<open>The links and routes of the current namespace, and the addresses of a link.\<close>

definition nw_links :: "node_world \<Rightarrow> nl_link list" where
  "nw_links s = (if nw_inside s then nw_gw_links s else nw_host_links s)"

definition set_links :: "nl_link list \<Rightarrow> node_world \<Rightarrow> node_world" where
  "set_links ls s = (if nw_inside s then s\<lparr>nw_gw_links := ls\<rparr> else s\<lparr>nw_host_links := ls\<rparr>)"

definition nw_routes :: "node_world \<Rightarrow> nl_route list" where
  "nw_routes s = (if nw_inside s then nw_gw_routes s else nw_host_routes s)"

definition set_routes :: "nl_route list \<Rightarrow> node_world \<Rightarrow> node_world" where
  "set_routes rs s = (if nw_inside s then s\<lparr>nw_gw_routes := rs\<rparr> else s\<lparr>nw_host_routes := rs\<rparr>)"

definition nw_addrs :: "node_world \<Rightarrow> string \<Rightarrow> nl_addr list" where
  "nw_addrs s n = map snd (filter (\<lambda>x. fst x = n) (nw_all_addrs s))"

definition eth0_link :: nl_link where
  "eth0_link = (NewLinkAttrs Device ''eth0'')\<lparr>lk_Index := 2\<rparr>"

definition not_found :: error where "not_found = StatusErr ''NotFound'' ''not found''"

text \<open>A new link gets an index, and a veth link brings its peer with it.\<close>

definition added_links :: "int \<Rightarrow> nl_link \<Rightarrow> nl_link list" where
  "added_links n l = l\<lparr>lk_Index := n\<rparr> # (case lk_Kind l of Veth peer \<Rightarrow> [(NewLinkAttrs Device peer)\<lparr>lk_Index := n + 1\<rparr>] | _ \<Rightarrow> [])"

definition gateway_net :: ipnet where
  "gateway_net = \<lparr>in_IP = [254, 128] @ replicate 13 0 @ [1], in_Mask = replicate 8 255 @ replicate 8 0\<rparr>"

definition node_nl :: "node_world netlinkwrapper" where
  "node_nl = \<lparr>
     LinkByName = (\<lambda>n s. if n = ''eth0'' then (if nw_inside s then (Err (LinkNotFound n), s) else (Ok eth0_link, s))
       else case find (\<lambda>l. lk_Name l = n) (nw_links s) of Some l \<Rightarrow> (Ok l, s) | None \<Rightarrow> (Err (LinkNotFound n), s)),
     LinkAdd = (\<lambda>l s. (Ok (), set_links (nw_links s @ added_links (int (length (nw_host_links s) + length (nw_gw_links s)) + 3) l) s)),
     LinkList = (\<lambda>s. (Ok (nw_links s), s)),
     LinkDel = (\<lambda>l s. (Ok (), set_links (filter (\<lambda>x. lk_Name x \<noteq> lk_Name l) (nw_links s)) s)),
     LinkSetUp = (\<lambda>_. retE ()), LinkSetDown = (\<lambda>_. retE ()),
     LinkSetNsFd = (\<lambda>l _ s. (Ok (), s\<lparr>nw_host_links := filter (\<lambda>x. lk_Name x \<noteq> lk_Name l) (nw_host_links s),
       nw_gw_links := nw_gw_links s @ [l]\<rparr>)),
     LinkSetName = (\<lambda>_ _. retE ()), LinkSetAlias = (\<lambda>_ _. retE ()),
     AddrList = (\<lambda>l _ s. (Ok (nw_addrs s (lk_Name l)), s)),
     AddrAdd = (\<lambda>l a s. (Ok (), s\<lparr>nw_all_addrs := nw_all_addrs s @ [(lk_Name l, a)]\<rparr>)),
     AddrDel = (\<lambda>l a s. (Ok (), s\<lparr>nw_all_addrs := filter (\<lambda>b. b \<noteq> (lk_Name l, a)) (nw_all_addrs s)\<rparr>)),
     AddrReplace = (\<lambda>_ _. retE ()),
     RouteReplace = (\<lambda>q s. (Ok (), set_routes (nw_routes s @ [q]) s)),
     RouteDel = (\<lambda>q s. (Ok (), set_routes (filter (\<lambda>x. x \<noteq> q) (nw_routes s)) s)),
     RouteList = (\<lambda>l _ s. (Ok (filter (\<lambda>q. case l of None \<Rightarrow> True | Some x \<Rightarrow> rt_LinkIndex q = lk_Index x) (nw_routes s)), s)),
     RuleAdd = (\<lambda>_. retE ()),
     nl_ParseIPNet = (\<lambda>t. if t = GatewayIP then Ok gateway_net else bindR (net_ParseCIDR t) (\<lambda>(i, n). Ok (n\<lparr>in_IP := i\<rparr>))),
     nl_Addr_Equal = (\<lambda>a b. ad_IPNet a = ad_IPNet b)\<rparr>"

definition node_ns :: "node_world netns_sys" where
  "node_ns = \<lparr>ns_GetNS = (\<lambda>p. retE \<lparr>ns_Path = p, ns_Fd = 3\<rparr>), ns_Enter = (\<lambda>_ s. (Ok (), s\<lparr>nw_inside := True\<rparr>)),
     ns_Leave = (\<lambda>_ s. s\<lparr>nw_inside := False\<rparr>), ns_Close = (\<lambda>_. retE ()), ns_Set = (\<lambda>_. retE ()),
     sys_ThreadNetNSPath = (\<lambda>_. ''/proc/1/task/1/ns/net''), sys_MkdirAll = (\<lambda>_. retE ()), sys_CreateExclusive = (\<lambda>_. retE ()),
     sys_RemoveAll = (\<lambda>_. retE ()), sys_UnshareNet = retE (), sys_BindMount = (\<lambda>_ _. retE ()), sys_Unmount = (\<lambda>_. retE ()),
     sys_Remove = (\<lambda>_. retE ()), sys_Readdir = (\<lambda>_. retE [])\<rparr>"

definition node_ipt :: "node_world utiliptables" where
  "node_ipt = \<lparr>EnsureChain = (\<lambda>_ _. retE True), EnsureRule = (\<lambda>_ _ _ _. retE True), DeleteRule = (\<lambda>_ _ _. retE ()),
     SaveInto = (\<lambda>_. retE ''''), ipt_Restore = (\<lambda>_ _ _ _. retE ()), RestoreAll = (\<lambda>_ _ _. retE ()),
     GetChainsFromTable = (\<lambda>_. []), MakeChainLine = (\<lambda>c. '':'' @ c @ '' - [0:0]'')\<rparr>"

definition apply_config :: "wg_config \<Rightarrow> wg_device \<Rightarrow> wg_device" where
  "apply_config c d = \<lparr>dev_PrivateKey = Val (dev_PrivateKey d) (wc_PrivateKey c), dev_ListenPort = Val (dev_ListenPort d) (wc_ListenPort c),
     dev_Peers = filter (\<lambda>q. wp_PublicKey q \<notin> set (map pc_PublicKey (wc_Peers c))) (dev_Peers d) @
       map (\<lambda>p. \<lparr>wp_PublicKey = pc_PublicKey p, wp_AllowedIPs = pc_AllowedIPs p\<rparr>) (filter (\<lambda>p. \<not> pc_Remove p) (wc_Peers c))\<rparr>"

definition node_wg :: "node_world wgctrlwrapper" where
  "node_wg = \<lparr>wg_New = retE (), wg_Close = retE (), wg_Device = (\<lambda>_ s. (Ok (nw_dev s), s)),
     wg_ConfigureDevice = (\<lambda>_ c s. (Ok (), s\<lparr>nw_dev := apply_config c (nw_dev s)\<rparr>)),
     wg_ParseKey = (\<lambda>t. Ok (map of_char t)), wg_KeyString = map char_of\<rparr>"

section \<open>The cluster\<close>

definition node_gw :: StaticGatewayConfiguration where
  "node_gw = \<lparr>sgc_Meta = (new_meta ''ns'' ''gw'')\<lparr>om_UID := ''uid''\<rparr>, sgc_Spec = \<lparr>sgs_GatewayNodepoolName = '''',
       sgs_GatewayVmssProfile = \<lparr>gvp_VmssResourceGroup = ''rg'', gvp_VmssName = ''vmss'', gvp_PublicIpPrefixSize = 31\<rparr>,
       sgs_DefaultRoute = RouteStaticEgressGateway, sgs_ProvisionPublicIps = True, sgs_PublicIpPrefixId = '''', sgs_ExcludeCidrs = []\<rparr>,
     sgc_Status = \<lparr>sgt_EgressIpPrefix = ''1.2.3.4/31'', sgt_GatewayServerProfile = \<lparr>gsp_Ip = ''10.0.0.9'', gsp_Port = 7, gsp_PublicKey = ''pub'',
       gsp_PrivateKeySecretRef = Some \<lparr>obr_APIVersion = ''v1'', obr_Kind = ''Secret'', obr_Name = ''sgw-uid'', obr_Namespace = ''system''\<rparr>\<rparr>\<rparr>\<rparr>"

definition node_pe :: PodEndpoint where
  "node_pe = \<lparr>pe_Meta = new_meta ''ns'' ''pod'', pe_Spec = \<lparr>pes_StaticGatewayConfiguration = ''gw'',
     pes_PodIpAddress = ''10.9.0.5/32'', pes_PodPublicKey = ''podkey''\<rparr>\<rparr>"

definition node_vmc :: "node_world \<Rightarrow> GatewayVMConfiguration" where
  "node_vmc s = \<lparr>vmc_Meta = new_meta ''ns'' ''gw'', vmc_Spec = \<lparr>vms_GatewayNodepoolName = '''', vms_GatewayVmssProfile =
       \<lparr>gvp_VmssResourceGroup = ''rg'', gvp_VmssName = ''vmss'', gvp_PublicIpPrefixSize = 31\<rparr>,
       vms_ProvisionPublicIps = True, vms_PublicIpPrefixId = ''''\<rparr>, vmc_Status = nw_vm s\<rparr>"

definition node_kube :: "node_world kube" where
  "node_kube = offline_kube\<lparr>
     k_SGC := offline_client\<lparr>kList := retE [node_gw], kGet := (\<lambda>ns n. if ns = ''ns'' \<and> n = ''gw'' then retE node_gw else failE not_found)\<rparr>,
     k_VMC := offline_client\<lparr>kGet := (\<lambda>_ _ s. (Ok (node_vmc s), s))\<rparr>,
     k_PE := offline_client\<lparr>kList := retE [node_pe], kGet := (\<lambda>ns n. if ns = ''ns'' \<and> n = ''pod'' then retE node_pe else failE not_found)\<rparr>,
     k_Secret := offline_client\<lparr>kGet := (\<lambda>_ _. retE \<lparr>sec_Meta = new_meta ''system'' ''sgw-uid'', sec_Data = [PrivateKeyKey \<mapsto> ''key'']\<rparr>)\<rparr>,
     k_Node := offline_client\<lparr>kGet := (\<lambda>_ n. retE \<lparr>node_Meta = new_meta '''' n, node_Taints = []\<rparr>)\<rparr>,
     k_GWS := offline_client\<lparr>kGet := (\<lambda>_ _ s. case nw_status s of None \<Rightarrow> (Err not_found, s) | Some x \<Rightarrow> (Ok x, s)),
       kUpdate := (\<lambda>x s. (Ok x, s\<lparr>nw_status := Some x\<rparr>)), kCreate := (\<lambda>x s. (Ok x, s\<lparr>nw_status := Some x\<rparr>))\<rparr>\<rparr>"

definition node_meta :: node_env where
  "node_meta = \<lparr>nodeMeta = \<lparr>im_Compute = Some \<lparr>cp_AzEnvironment = '''', cp_Location = ''eastus'', cp_Name = ''vmss_0'', cp_OSType = ''Linux'',
       cp_OSProfile = \<lparr>op_ComputerName = ''node0''\<rparr>, cp_ResourceGroupName = ''RG'', cp_ResourceID = '''', cp_SubscriptionID = ''sub'',
       cp_Tags = ''a:b;aks-managed-poolName: pool'', cp_VMScaleSetName = ''vmss''\<rparr>,
     im_Network = Some \<lparr>nm_Interface = [\<lparr>ni_IPv4 = \<lparr>id_IPAddress = [], id_Subnet = [\<lparr>sn_Address = ''10.0.0.0'', sn_Prefix = ''16''\<rparr>]\<rparr>, ni_MacAddress = ''''\<rparr>]\<rparr>\<rparr>,
     lbMeta = \<lparr>lm_LoadBalancer = \<lparr>lbd_PublicIPAddresses = []\<rparr>\<rparr>, nodeTags = [''aks-managed-poolName'' \<mapsto> ''pool'']\<rparr>"

definition node_r :: "node_world GatewayReconciler" where
  "node_r = \<lparr>gr_Client = node_kube, gr_probe = nw_probe, gr_setProbe = (\<lambda>p s. s\<lparr>nw_probe := p\<rparr>), gr_Netlink = node_nl, gr_NetNS = node_ns,
     gr_IPTables = node_ipt, gr_WgCtrl = node_wg, gr_SetOwnerReference = (\<lambda>_ m. Ok m), gr_node = node_meta\<rparr>"

definition node_pr :: "node_world PeerReconciler" where
  "node_pr = \<lparr>pr_Client = node_kube, pr_Netlink = node_nl, pr_NetNS = node_ns, pr_WgCtrl = node_wg,
     pr_SetOwnerReference = (\<lambda>_ m. Ok m), pr_node = node_meta, pr_keys = rev\<rparr>"

definition host_addr :: "ip \<Rightarrow> string \<Rightarrow> nl_addr" where
  "host_addr i label = \<lparr>ad_IPNet = Some \<lparr>in_IP = i, in_Mask = [255, 255, 255, 255]\<rparr>, ad_Label = label, ad_Scope = 0\<rparr>"

text \<open>The node before the gateway is set up: its own address and the egress address are on eth0.\<close>

definition node_start :: node_world where
  "node_start = \<lparr>nw_inside = False, nw_host_links = [], nw_gw_links = [(NewLinkAttrs Device ''lo'')\<lparr>lk_Index := 1\<rparr>],
     nw_all_addrs = [(''eth0'', host_addr [10,0,0,4] ''eth0''), (''eth0'', host_addr [10,0,0,5] '''')],
     nw_host_routes = [], nw_gw_routes = [], nw_dev = \<lparr>dev_PrivateKey = [], dev_ListenPort = 0, dev_Peers = []\<rparr>, nw_status = None,
     nw_probe = NewLBProbeServer 8082, nw_vm = Some \<lparr>vmt_EgressIpPrefix = '''', vmt_GatewayVMProfiles =
       [\<lparr>vpr_NodeName = ''node0'', vpr_PrimaryIP = ''10.0.0.4'', vpr_SecondaryIP = ''10.0.0.5''\<rparr>]\<rparr>\<rparr>"

definition node_up :: "unit res \<times> node_world" where
  "node_up = reconcile_GW node_r node_gw node_start"

lemma node_up_ok: "fst node_up = Ok ()"
  by code_simp

section \<open>Its laws\<close>

lemma node_r_simps [simp]: "gr_Client node_r = node_kube" "gr_probe node_r = nw_probe" "gr_setProbe node_r p s = s\<lparr>nw_probe := p\<rparr>"
  "gr_Netlink node_r = node_nl" "gr_NetNS node_r = node_ns" "gr_IPTables node_r = node_ipt" "gr_WgCtrl node_r = node_wg"
  "gr_node node_r = node_meta" "pr_Client node_pr = node_kube" "pr_Netlink node_pr = node_nl" "pr_NetNS node_pr = node_ns"
  "pr_WgCtrl node_pr = node_wg" "pr_keys node_pr = rev"
  by (simp_all add: node_r_def node_pr_def)

lemma addrs_deleted: "map snd (filter (\<lambda>x. fst x = n) (filter (\<lambda>b. b \<noteq> (m, a)) xs)) =
    filter (\<lambda>b. m = n \<longrightarrow> b \<noteq> a) (map snd (filter (\<lambda>x. fst x = n) xs))"
  by (induction xs) auto

lemma node_addrs_simps [simp]:
  "nw_addrs (s\<lparr>nw_all_addrs := nw_all_addrs s @ [(m, a)]\<rparr>) n = nw_addrs s n @ (if m = n then [a] else [])"
  "nw_addrs (s\<lparr>nw_all_addrs := filter (\<lambda>b. b \<noteq> (m, a)) (nw_all_addrs s)\<rparr>) n = filter (\<lambda>b. m = n \<longrightarrow> b \<noteq> a) (nw_addrs s n)"
  "nw_addrs (s\<lparr>nw_gw_links := ls\<rparr>) n = nw_addrs s n" "nw_addrs (s\<lparr>nw_host_links := ls\<rparr>) n = nw_addrs s n"
  "nw_addrs (s\<lparr>nw_gw_routes := rs\<rparr>) n = nw_addrs s n" "nw_addrs (s\<lparr>nw_host_routes := rs\<rparr>) n = nw_addrs s n"
  "nw_addrs (s\<lparr>nw_inside := b\<rparr>) n = nw_addrs s n" "nw_addrs (s\<lparr>nw_status := st\<rparr>) n = nw_addrs s n"
  "nw_addrs (s\<lparr>nw_probe := p\<rparr>) n = nw_addrs s n"
  by (simp_all add: nw_addrs_def addrs_deleted del: filter_filter)

lemma node_addr_laws: "addr_laws node_nl ''eth0'' eth0_link (\<lambda>s. nw_addrs s ''eth0'')"
  by (auto simp: addr_laws_def reads_def triple_def node_nl_def eth0_link_def NewLinkAttrs_def split: option.splits if_splits)

lemma node_route_laws: "route_laws node_nl nw_routes"
  by (auto simp: route_laws_def triple_def node_nl_def set_routes_def nw_routes_def)

lemma node_report_laws: "report_laws node_r nw_status"
proof -
  have "node_keeps node_r (\<lambda>s. nw_probe s = p \<and> nw_status s = v)" for p v
    unfolding node_keeps_def Let_def
    by (auto simp: triple_def node_nl_def set_links_def set_routes_def nw_links_def node_ns_def node_ipt_def node_wg_def node_kube_def offline_client_def no_call_def retE_def failE_def
        split: option.splits if_splits)
  moreover have "status_laws node_kube nw_status"
    by (auto simp: status_laws_def Let_def reads_def triple_def node_kube_def offline_client_def no_call_def retE_def failE_def
        IsNotFound_def split: option.splits)
  ultimately show ?thesis
    by (auto simp: report_laws_def Let_def triple_def node_kube_def offline_client_def no_call_def retE_def failE_def split: option.splits)
qed

lemma image_outside: "f ` {q \<in> A. f q \<notin> B} = f ` A - B"
  by auto

lemma apply_configured: "configured c d (apply_config c d)"
proof -
  let ?given = "{p \<in> set (wc_Peers c). \<not> pc_Remove p}" and ?removed = "{p \<in> set (wc_Peers c). pc_Remove p}"
  have new: "set (dev_Peers (apply_config c d)) = {q \<in> set (dev_Peers d). wp_PublicKey q \<notin> pc_PublicKey ` set (wc_Peers c)} \<union>
      (\<lambda>p. \<lparr>wp_PublicKey = pc_PublicKey p, wp_AllowedIPs = pc_AllowedIPs p\<rparr>) ` ?given"
    by (auto simp: apply_config_def)
  have all: "set (wc_Peers c) = ?given \<union> ?removed" by blast
  have "wp_PublicKey ` {q \<in> set (dev_Peers d). wp_PublicKey q \<notin> pc_PublicKey ` set (wc_Peers c)} =
      wp_PublicKey ` set (dev_Peers d) - pc_PublicKey ` set (wc_Peers c)" by (rule image_outside)
  then have "wp_PublicKey ` set (dev_Peers (apply_config c d)) =
      (wp_PublicKey ` set (dev_Peers d) - pc_PublicKey ` set (wc_Peers c)) \<union> pc_PublicKey ` ?given"
    unfolding new image_Un by (simp add: image_image)
  also have "\<dots> = (wp_PublicKey ` set (dev_Peers d) - pc_PublicKey ` ?removed) \<union> pc_PublicKey ` ?given"
    using arg_cong [OF all, of "image pc_PublicKey"] unfolding image_Un by blast
  finally have keys: "wp_PublicKey ` set (dev_Peers (apply_config c d)) =
      (wp_PublicKey ` set (dev_Peers d) - pc_PublicKey ` ?removed) \<union> pc_PublicKey ` ?given" .
  have "\<exists>q\<in>set (dev_Peers (apply_config c d)). wp_PublicKey q = pc_PublicKey p \<and> wp_AllowedIPs q = pc_AllowedIPs p"
    if "p \<in> set (wc_Peers c)" "\<not> pc_Remove p" for p
    using that unfolding new by (intro bexI [of _ "\<lparr>wp_PublicKey = pc_PublicKey p, wp_AllowedIPs = pc_AllowedIPs p\<rparr>"]) auto
  with keys show ?thesis unfolding configured_def Let_def by blast
qed

lemma node_device_laws: "device_laws node_pr name nw_dev"
  unfolding device_laws_def Let_def
  by (auto simp: triple_def node_nl_def set_links_def set_routes_def node_ns_def node_wg_def node_kube_def offline_client_def no_call_def retE_def failE_def
      apply_configured split: option.splits if_splits)

lemma rev_iter_law: "iter_law rev"
  by (simp add: iter_law_def)

text \<open>The gateway is set up: its link is there, the host link carries the egress address, and Azure's status lists the node.\<close>

definition gateway_up :: "node_world \<Rightarrow> bool" where
  "gateway_up s \<longleftrightarrow> (\<exists>l\<in>set (nw_gw_links s). lk_Name l = ''wg-7'') \<and>
     (\<exists>a\<in>set (nw_addrs s ''host0''). \<exists>i. addr_IP a = Ok i \<and> IP_String i = ''10.0.0.5'') \<and> nw_vm s = nw_vm node_start"

lemma node_cleanup_keeps:
  "cleanup_keeps node_r (\<lambda>l. lk_Name l \<noteq> ''wg-7'') (\<lambda>a. \<forall>i. addr_IP a = Ok i \<longrightarrow> IP_String i \<noteq> ''10.0.0.5'') gateway_up"
  unfolding cleanup_keeps_def Let_def gateway_up_def
  by (auto simp: triple_def node_nl_def set_links_def set_routes_def nw_links_def node_ns_def node_ipt_def node_kube_def offline_client_def
      no_call_def retE_def failE_def split: option.splits if_splits)

lemma node_gw_name: "getWireguardInterfaceName node_gw = ''wg-7''"
  by code_simp

lemma node_live: "live_gateway node_r gateway_up node_gw ''10.0.0.5''"
proof -
  have "applyToNode node_meta node_gw = Ok True" by code_simp
  moreover have "getVMIP node_r node_gw s = (Ok (''10.0.0.4'', ''10.0.0.5''), s)" if "gateway_up s" for s
    using that by (simp add: gateway_up_def getVMIP_def node_meta_def node_kube_def offline_client_def node_vmc_def node_start_def
        bindE_def tryE_def liftR_def retE_def)
  ultimately show ?thesis
    by (auto simp: live_gateway_def node_kube_def offline_client_def retE_def node_gw_def deleting_def new_meta_def)
qed


end
