(* ===== verification/Daemon_Props.thy ===== *)
theory Daemon_Props
  imports Daemon_World
begin

text \<open>
  The properties of the daemon's two controllers, each with an instance on a concrete node.
\<close>

section \<open>Gateways\<close>



text \<open>
  Property C32. A clean-up spares the active gateways: whatever fact of the world only the deletion of the gateway's own
  link or of its egress address can break still holds after it, however the clean-up ends.
\<close>

theorem cleanUp_GW_spares_active:
  assumes "live_gateway r I gw vmSecondaryIP"
    and "cleanup_keeps r (\<lambda>l. lk_Name l \<noteq> getWireguardInterfaceName gw) (\<lambda>a. \<forall>i. addr_IP a = Ok i \<longrightarrow> IP_String i \<noteq> vmSecondaryIP) I"
    and "I s" and "cleanUp_GW r s = (res, s')"
  shows "I s'"
  by (rule keepsD [OF cleanUp_spares_triple [OF assms(1,2)] assms(3,4)])

definition stale_link :: nl_link where
  "stale_link = (NewLinkAttrs Wireguard ''wg-9'')\<lparr>lk_Alias := ''old''\<rparr>"

definition node_stale :: node_world where
  "node_stale = (snd node_up)\<lparr>nw_gw_links := nw_gw_links (snd node_up) @ [stale_link]\<rparr>"

definition node_cleaned :: "unit res \<times> node_world" where
  "node_cleaned = cleanUp_GW node_r node_stale"

lemma node_stale_up: "gateway_up node_stale"
proof -
  have "list_ex (\<lambda>l. lk_Name l = ''wg-7'') (nw_gw_links node_stale)"
    "list_ex (\<lambda>a. bindR (addr_IP a) (\<lambda>i. Ok (IP_String i)) = Ok ''10.0.0.5'') (nw_addrs node_stale ''host0'')"
    "nw_vm node_stale = nw_vm node_start"
    by code_simp+
  then show ?thesis by (auto simp: gateway_up_def list_ex_iff)
qed

theorem cleanUp_GW_spares_active_witness:
  "map lk_Name (nw_gw_links node_stale) = [''lo'', ''wg-7'', ''host0'', ''wg-9''] \<and>
    map lk_Name (nw_gw_links (snd node_cleaned)) = [''lo'', ''wg-7'', ''host0''] \<and> gateway_up (snd node_cleaned)"
proof (intro conjI)
  show "map lk_Name (nw_gw_links node_stale) = [''lo'', ''wg-7'', ''host0'', ''wg-9'']" by code_simp
  show "map lk_Name (nw_gw_links (snd node_cleaned)) = [''lo'', ''wg-7'', ''host0'']" by code_simp
  have "cleanUp_GW node_r node_stale = (fst node_cleaned, snd node_cleaned)" by (simp add: node_cleaned_def)
  from cleanUp_GW_spares_active [OF node_live _ node_stale_up this] show "gateway_up (snd node_cleaned)"
    using node_cleanup_keeps by (simp add: node_gw_name)
qed

text \<open>
  Property C33. \<open>reconcileIlbIPOnHost\<close> makes the addresses of eth0 what they should be. For an address of the load balancer: it is
  present and nothing else has changed. For the empty string: exactly the addresses with the label of the load balancer
  are gone. An error leaves all others in place.
\<close>

theorem reconcileIlbIPOnHost_exact:
  assumes "addr_laws (gr_Netlink r) ''eth0'' eth0 addrs" and "reconcileIlbIPOnHost r ilbIP s = (res, s')"
  shows "case res of Ok _ \<Rightarrow> ilb_done r ilbIP (addrs s) (addrs s')
    | _ \<Rightarrow> some_deleted (\<lambda>a. Ok (ilbIP = '''' \<and> ad_Label a = ILBIPLabel)) (addrs s) (addrs s')"
  using triple_dests [OF reconcileIlbIPOnHost_triple [OF assms(1), of "addrs s"] refl] assms(2) by (cases res) auto

definition ilb_up :: "unit res \<times> node_world" where
  "ilb_up = reconcileIlbIPOnHost node_r ''10.0.0.9'' node_start"

definition ilb_down :: "unit res \<times> node_world" where
  "ilb_down = reconcileIlbIPOnHost node_r '''' (snd ilb_up)"

theorem reconcileIlbIPOnHost_exact_witness:
  "map ad_Label (nw_addrs (snd ilb_up) ''eth0'') = [''eth0'', '''', ILBIPLabel] \<and>
    nw_addrs (snd ilb_down) ''eth0'' = filter (\<lambda>a. ad_Label a \<noteq> ILBIPLabel) (nw_addrs (snd ilb_up) ''eth0'')"
proof
  show "map ad_Label (nw_addrs (snd ilb_up) ''eth0'') = [''eth0'', '''', ILBIPLabel]" by code_simp
  have ok: "is_ok (fst ilb_down)" by code_simp
  have "reconcileIlbIPOnHost node_r '''' (snd ilb_up) = (fst ilb_down, snd ilb_down)" by (simp add: ilb_down_def)
  from reconcileIlbIPOnHost_exact [OF _ this] node_addr_laws ok
  show "nw_addrs (snd ilb_down) ''eth0'' = filter (\<lambda>a. ad_Label a \<noteq> ILBIPLabel) (nw_addrs (snd ilb_up) ''eth0'')"
    by (auto simp: is_ok_iff ilb_done_def)
qed

text \<open>
  Names of links and packet marks: the mark of a gateway's link is the port of the gateway, for every value of the
  32-bit port, and two gateways have the same link exactly if they have the same port. So gateways that listen on
  different ports never share a chain or a mark.
\<close>

lemma packet_mark_roundtrip:
  "getPacketMark (getWireguardInterfaceName gw) = Ok (sint (gsp_Port (sgt_GatewayServerProfile (sgc_Status gw)))) \<and>
    (getWireguardInterfaceName gw = getWireguardInterfaceName gw' \<longleftrightarrow>
      gsp_Port (sgt_GatewayServerProfile (sgc_Status gw)) = gsp_Port (sgt_GatewayServerProfile (sgc_Status gw')))"
  using packet_mark_of_link link_names_distinct by blast

text \<open>
  Property C34. The edit of the node's status keeps interfaces unique and reaches its goal: after adding, the interface is listed; after
  removing, neither it nor a peer on it is. What belongs to other interfaces stays, \<open>changed\<close> is set exactly if the
  object changed, and a second edit changes nothing.
\<close>

theorem editGatewayStatus_exact:
  assumes "status_ok spec" and "editGatewayStatus gw add spec = (changed, spec')"
  shows "status_ok spec' \<and> status_goal gw add spec' \<and> (changed \<longleftrightarrow> spec' \<noteq> spec) \<and>
    status_frame (gwc_InterfaceName gw) spec' = status_frame (gwc_InterfaceName gw) spec \<and>
    editGatewayStatus gw add spec' = (False, spec')"
  by (rule editGatewayStatus_step [OF assms])

definition demo_conf :: "string \<Rightarrow> GatewayConfiguration" where
  "demo_conf n = \<lparr>gwc_StaticGatewayConfiguration = ''ns/gw'', gwc_InterfaceName = n\<rparr>"

definition demo_peer :: "string \<Rightarrow> string \<Rightarrow> PeerConfiguration" where
  "demo_peer n k = \<lparr>peer_PodEndpoint = ''ns/pod'', peer_InterfaceName = n, peer_PublicKey = k\<rparr>"

definition demo_spec :: GatewayStatusSpec where
  "demo_spec = \<lparr>gss_ReadyGatewayConfigurations = [demo_conf ''wg-1'', demo_conf ''wg-2''],
     gss_ReadyPeerConfigurations = [demo_peer ''wg-1'' ''a'', demo_peer ''wg-2'' ''b'', demo_peer ''wg-1'' ''c'']\<rparr>"

theorem editGatewayStatus_exact_witness:
  "map peer_PublicKey (gss_ReadyPeerConfigurations (snd (editGatewayStatus (demo_conf ''wg-1'') False demo_spec))) = [''b''] \<and>
    status_goal (demo_conf ''wg-1'') False (snd (editGatewayStatus (demo_conf ''wg-1'') False demo_spec))"
proof
  show "map peer_PublicKey (gss_ReadyPeerConfigurations (snd (editGatewayStatus (demo_conf ''wg-1'') False demo_spec))) = [''b'']"
    by code_simp
  have ok: "status_ok demo_spec" by code_simp
  have "editGatewayStatus (demo_conf ''wg-1'') False demo_spec = (fst (editGatewayStatus (demo_conf ''wg-1'') False demo_spec),
    snd (editGatewayStatus (demo_conf ''wg-1'') False demo_spec))" by simp
  from editGatewayStatus_exact [OF ok this]
  show "status_goal (demo_conf ''wg-1'') False (snd (editGatewayStatus (demo_conf ''wg-1'') False demo_spec))" by blast
qed



section \<open>Peers\<close>

text \<open>
  Property C36. The edit of the peers in the node's status treats them as a map from public keys: adding gives exactly the old keys and the
  new ones, removing exactly the old keys without the given ones. Every entry is an old one or a given one, an
  old entry wins over a given one with its key, whatever interface that names, keys are unique in a changed object, and
  \<open>changed\<close> is set exactly if a key was added or removed.
\<close>

theorem editPeerStatus_is_map_update:
  assumes "iter_law keys" and "editPeerStatus keys ps add spec = (changed, spec')"
  shows "peer_PublicKey ` set (gss_ReadyPeerConfigurations spec') =
      (if add then peer_PublicKey ` set (gss_ReadyPeerConfigurations spec) \<union> peer_PublicKey ` set ps
       else peer_PublicKey ` set (gss_ReadyPeerConfigurations spec) - peer_PublicKey ` set ps) \<and>
    set (gss_ReadyPeerConfigurations spec') \<subseteq> set (gss_ReadyPeerConfigurations spec) \<union> set ps \<and>
    {p \<in> set (gss_ReadyPeerConfigurations spec'). peer_PublicKey p \<in> peer_PublicKey ` set (gss_ReadyPeerConfigurations spec)}
      \<subseteq> set (gss_ReadyPeerConfigurations spec) \<and>
    gss_ReadyGatewayConfigurations spec' = gss_ReadyGatewayConfigurations spec \<and>
    (changed \<longrightarrow> distinct (map peer_PublicKey (gss_ReadyPeerConfigurations spec'))) \<and>
    (changed \<longleftrightarrow> (\<exists>p\<in>set ps. (peer_PublicKey p \<notin> peer_PublicKey ` set (gss_ReadyPeerConfigurations spec)) = add))"
  using editPeerStatus_props [OF assms] by (intro conjI) auto

theorem editPeerStatus_is_map_update_witness:
  "map peer_InterfaceName (gss_ReadyPeerConfigurations (snd (editPeerStatus rev [demo_peer ''wg-9'' ''a'', demo_peer ''wg-9'' ''d''] True demo_spec)))
      = [''wg-9'', ''wg-1'', ''wg-2'', ''wg-1''] \<and>
    peer_PublicKey ` set (gss_ReadyPeerConfigurations (snd (editPeerStatus rev [demo_peer ''wg-9'' ''a'', demo_peer ''wg-9'' ''d''] True demo_spec)))
      = {''a'', ''b'', ''c'', ''d''}"
proof
  show "map peer_InterfaceName (gss_ReadyPeerConfigurations (snd (editPeerStatus rev [demo_peer ''wg-9'' ''a'', demo_peer ''wg-9'' ''d''] True demo_spec)))
      = [''wg-9'', ''wg-1'', ''wg-2'', ''wg-1'']" by code_simp
  have "editPeerStatus rev [demo_peer ''wg-9'' ''a'', demo_peer ''wg-9'' ''d''] True demo_spec =
    (fst (editPeerStatus rev [demo_peer ''wg-9'' ''a'', demo_peer ''wg-9'' ''d''] True demo_spec),
     snd (editPeerStatus rev [demo_peer ''wg-9'' ''a'', demo_peer ''wg-9'' ''d''] True demo_spec))" by simp
  from editPeerStatus_is_map_update [OF rev_iter_law this]
  show "peer_PublicKey ` set (gss_ReadyPeerConfigurations (snd (editPeerStatus rev [demo_peer ''wg-9'' ''a'', demo_peer ''wg-9'' ''d''] True demo_spec)))
      = {''a'', ''b'', ''c'', ''d''}" by (auto simp: demo_spec_def demo_peer_def)
qed

text \<open>
  Property C37. When the pod controller succeeds, the WireGuard device of the gateway has the pod as a peer, with the pod's address as its
  only allowed one, and the other peers are the same; when it fails, no other peer has come or gone either.
\<close>

theorem reconcile_PE_adds_peer:
  assumes "device_laws r (getWireguardInterfaceName gw) dev" and "reconcile_PE r gw pe s = (res, s')"
  shows "if is_ok res then is_peer r pe (dev s) (dev s') else dev s' = dev s \<or> is_peer r pe (dev s) (dev s')"
  using triple_dests [OF reconcile_PE_triple [OF assms(1)] refl] assms(2) by (cases res) auto

definition peer_up :: "unit res \<times> node_world" where
  "peer_up = reconcile_PE node_pr node_gw node_pe (snd node_up)"

theorem reconcile_PE_adds_peer_witness:
  "fst peer_up = Ok () \<and> is_peer node_pr node_pe (nw_dev (snd node_up)) (nw_dev (snd peer_up))"
proof
  show ok: "fst peer_up = Ok ()" by code_simp
  have "reconcile_PE node_pr node_gw node_pe (snd node_up) = (fst peer_up, snd peer_up)" by (simp add: peer_up_def)
  from reconcile_PE_adds_peer [OF node_device_laws this] ok
  show "is_peer node_pr node_pe (nw_dev (snd node_up)) (nw_dev (snd peer_up))" by simp
qed

text \<open>
  Property C38. The clean-up of a device removes exactly the peers that no pod endpoint claims for this device, and reports exactly their
  public keys for removal from the status; when it fails, the device has all its peers.
\<close>

theorem cleanUpWgLink_removes_orphans:
  assumes "device_laws r name dev" and "cleanUpWgLink r name peerMap s = (res, s')"
  shows "case res of Ok reported \<Rightarrow> device_cleaned (pr_WgCtrl r) peerMap name (dev s) reported (dev s') | _ \<Rightarrow> dev s' = dev s"
  using triple_dests [OF cleanUpWgLink_triple [OF assms(1)] refl] assms(2) by (cases res) auto

definition crowded :: node_world where
  "crowded = (snd peer_up)\<lparr>nw_dev := (nw_dev (snd peer_up))\<lparr>dev_Peers := \<lparr>wp_PublicKey = [1, 2], wp_AllowedIPs = []\<rparr> # dev_Peers (nw_dev (snd peer_up))\<rparr>\<rparr>"

definition crowd_cleaned :: "PeerConfiguration list res \<times> node_world" where
  "crowd_cleaned = cleanUpWgLink node_pr ''wg-7'' [''wg-7'' \<mapsto> [''podkey'']] crowded"

theorem cleanUpWgLink_removes_orphans_witness:
  "length (dev_Peers (nw_dev crowded)) = 2 \<and> length (dev_Peers (nw_dev (snd crowd_cleaned))) = 1 \<and>
    (\<exists>reported. fst crowd_cleaned = Ok reported \<and>
      device_cleaned node_wg [''wg-7'' \<mapsto> [''podkey'']] ''wg-7'' (nw_dev crowded) reported (nw_dev (snd crowd_cleaned)))"
proof (intro conjI)
  show "length (dev_Peers (nw_dev crowded)) = 2" "length (dev_Peers (nw_dev (snd crowd_cleaned))) = 1" by code_simp+
  have "is_ok (fst crowd_cleaned)" by code_simp
  then obtain reported where ok: "fst crowd_cleaned = Ok reported" unfolding is_ok_iff by blast
  have "cleanUpWgLink node_pr ''wg-7'' [''wg-7'' \<mapsto> [''podkey'']] crowded = (fst crowd_cleaned, snd crowd_cleaned)" by (simp add: crowd_cleaned_def)
  from cleanUpWgLink_removes_orphans [OF node_device_laws this] ok
  show "\<exists>reported. fst crowd_cleaned = Ok reported \<and>
      device_cleaned node_wg [''wg-7'' \<mapsto> [''podkey'']] ''wg-7'' (nw_dev crowded) reported (nw_dev (snd crowd_cleaned))" by simp
qed

end
