(* ===== verification/CNI_Plugin.thy ===== *)
theory CNI_Plugin
  imports Daemon_Gateway
begin

text \<open>
  The CNI plugin of a pod: src/cmd/kube-egress-cni/main.go with src/pkg/cni/conf/conf.go,
  src/pkg/cni/ipam/delegate.go, src/pkg/cni/wireguard/nic.go and src/pkg/cni/routes/routes.go, and the
  address plugin src/cmd/kube-egress-cni-ipam/main.go it delegates to.

  The container runtime's libraries, the kernel, gRPC and the key generator are the fields of \<open>plugin_env\<close>.
  The network result that Go passes as a pointer is threaded through the functions that append to it; on an error no
  caller reads it again. Logging is left out.
\<close>

section \<open>Constants\<close>

definition Eth0Mark :: int where "Eth0Mark = 8738"
definition MangleTable :: string where "MangleTable = ''mangle''"
definition PreRoutingChain :: string where "PreRoutingChain = ''PREROUTING''"
definition OutputChain :: string where "OutputChain = ''OUTPUT''"
definition CNIGatewayAnnotationKey :: string where
  "CNIGatewayAnnotationKey = ''kubernetes.azure.com/static-gateway-configuration''"

text \<open>\<open>unix.RTPROT_STATIC\<close>, \<open>net.IPv4zero\<close> in its 16 bytes and \<open>net.IPv6zero\<close>.\<close>

definition RTPROT_STATIC :: int where "RTPROT_STATIC = 4"
definition IPv4zero :: ip where "IPv4zero = v4InV6Prefix @ replicate 4 0"
definition IPv6zero :: ip where "IPv6zero = replicate 16 0"

section \<open>Results and requests\<close>

record cni_interface =
  ci_Mac :: string
  ci_Name :: string
  ci_Sandbox :: string

record cni_ipconfig =
  ic_Interface :: "int option"
  ic_Address :: ipnet
  ic_Gateway :: ip

record cni_route =
  cr_Dst :: ipnet
  cr_GW :: ip

text \<open>The result type of the version that the plugin implements. Its addresses are pointers.\<close>

record cni_result =
  cres_CNIVersion :: string
  cres_Interfaces :: "cni_interface list"
  cres_IPs :: "cni_ipconfig option list"
  cres_Routes :: "cni_route list"

definition empty_result :: cni_result where
  "empty_result = \<lparr>cres_CNIVersion = '''', cres_Interfaces = [], cres_IPs = [], cres_Routes = []\<rparr>"

record CNIConfig =
  cc_CNIVersion :: string
  cc_IPAMType :: string
  cc_PrevResult :: "cni_result option"
  cc_ExcludedCIDRs :: "string list"
  cc_SocketPath :: string

record K8sConfig =
  K8S_POD_NAME :: string
  K8S_POD_NAMESPACE :: string
  K8S_POD_INFRA_CONTAINER_ID :: string

datatype DefaultRoute = DEFAULT_ROUTE_UNSPECIFIED | DEFAULT_ROUTE_STATIC_EGRESS_GATEWAY | DEFAULT_ROUTE_AZURE_NETWORKING

record PodInfo =
  pi_PodName :: string
  pi_PodNamespace :: string

record NicAddRequest =
  naq_PodConfig :: PodInfo
  naq_ListenPort :: int32
  naq_AllowedIp :: string
  naq_PublicKey :: string
  naq_GatewayName :: string

record NicAddResponse =
  nar_EndpointIp :: string
  nar_ListenPort :: int32
  nar_PublicKey :: string
  nar_ExceptionCidrs :: "string list"
  nar_DefaultRoute :: DefaultRoute

text \<open>The arguments that \<open>skel\<close> hands to a command.\<close>

record CmdArgs =
  ca_ContainerID :: string
  ca_Netns :: string
  ca_IfName :: string
  ca_Args :: string
  ca_StdinData :: string

section \<open>Environment\<close>

text \<open>
  Decoding \<open>null\<close> makes the pointer to the configuration nil. \<open>plug_Dial\<close> is \<open>grpc.NewClient\<close>; the three requests go through the
  connection that it opens and \<open>plug_CloseConn\<close> closes.
\<close>

record 's plugin_env =
  plug_Netlink :: "'s netlinkwrapper"
  plug_NetNS :: "'s netns_sys"
  plug_WgCtrl :: "'s wgctrlwrapper"
  plug_Unmarshal :: "string \<Rightarrow> CNIConfig option res"
  plug_ParsePrevResult :: "CNIConfig \<Rightarrow> CNIConfig res"
  plug_LoadArgs :: "string \<Rightarrow> K8sConfig res"
  plug_NewResultFromResult :: "cni_result option \<Rightarrow> cni_result res"
  plug_ImplementedSpecVersion :: string
  plug_PrintResult :: "cni_result \<Rightarrow> string \<Rightarrow> ('s, unit) io"
  plug_ExecAdd :: "string \<Rightarrow> string \<Rightarrow> ('s, cni_result) io"
  plug_ExecDel :: "string \<Rightarrow> string \<Rightarrow> ('s, unit) io"
  plug_ConfigureIface :: "string \<Rightarrow> cni_result \<Rightarrow> ('s, unit) io"
  plug_NewIPTables :: "('s, unit) io"
  plug_AppendUnique :: "string \<Rightarrow> string \<Rightarrow> string list \<Rightarrow> ('s, unit) io"
  plug_WriteFile :: "string \<Rightarrow> string \<Rightarrow> ('s, unit) io"
  plug_Getenv :: "string \<Rightarrow> string"
  plug_GeneratePrivateKey :: "('s, wgkey) io"
  plug_PublicKey :: "wgkey \<Rightarrow> wgkey"
  plug_Dial :: "string \<Rightarrow> ('s, unit) io"
  plug_CloseConn :: "('s, unit) io"
  plug_PodRetrieve :: "PodInfo \<Rightarrow> ('s, string \<rightharpoonup> string) io"
  plug_NicAdd :: "NicAddRequest \<Rightarrow> ('s, NicAddResponse) io"
  plug_NicDel :: "PodInfo \<Rightarrow> ('s, unit) io"

text \<open>\<open>fmt.Errorf("m: %v", err)\<close> keeps only the text of the error.\<close>

definition formatE :: "string \<Rightarrow> ('s, 'a) io \<Rightarrow> ('s, 'a) io" where
  "formatE msg m = tryE m retE (\<lambda>e. failE (ErrMsg (msg @ '': '' @ error_text e)))"

section \<open>Configuration\<close>

definition ParseCNIConfig :: "'s plugin_env \<Rightarrow> string \<Rightarrow> ('s, CNIConfig) io" where
  "ParseCNIConfig env stdin =
     bindE (formatE ''failed to parse network configuration'' (liftR (plug_Unmarshal env stdin))) (\<lambda>p.
     bindE (liftR (deref p)) (\<lambda>conf.
     formatE ''could not parse prevResult'' (liftR (plug_ParsePrevResult env conf))))"

definition LoadK8sInfo :: "'s plugin_env \<Rightarrow> string \<Rightarrow> ('s, K8sConfig) io" where
  "LoadK8sInfo env args = liftR (plug_LoadArgs env args)"

definition podInfo :: "K8sConfig \<Rightarrow> PodInfo" where
  "podInfo k8sInfo = \<lparr>pi_PodName = K8S_POD_NAME k8sInfo, pi_PodNamespace = K8S_POD_NAMESPACE k8sInfo\<rparr>"

section \<open>Address delegation\<close>

record IPWrapper =
  ipw_pluginType :: string
  ipw_netConf :: string

definition DeleteIP :: "'s plugin_env \<Rightarrow> IPWrapper \<Rightarrow> ('s, unit) io" where
  "DeleteIP env wrapper = plug_ExecDel env (ipw_pluginType wrapper) (ipw_netConf wrapper)"

text \<open>
  The deferred function releases the address on an error. The error of the release is added to the
  text; a panic of \<open>configFunc\<close> passes by, because \<open>err\<close> is nil then.
\<close>

definition WithIP :: "'s plugin_env \<Rightarrow> IPWrapper \<Rightarrow> (cni_result \<Rightarrow> ('s, 'a) io) option \<Rightarrow> ('s, 'a) io" where
  "WithIP env wrapper configFunc =
     bindE (plug_ExecAdd env (ipw_pluginType wrapper) (ipw_netConf wrapper)) (\<lambda>r.
     tryE (bindE (liftR (plug_NewResultFromResult env (Some r))) (\<lambda>ipamResult.
         case configFunc of
           None \<Rightarrow> failE (ErrMsg ''configure function is nil'')
         | Some f \<Rightarrow> f ipamResult))
       retE
       (\<lambda>e. tryE (DeleteIP env wrapper) (\<lambda>_. failE e)
         (\<lambda>recoverErr. failE (Wrap (''error occurred and failed to delete ip: '' @ error_text recoverErr) e))))"

section \<open>The WireGuard interface of a pod\<close>

text \<open>
  One deletion of the recovery: a link that is not there is fine, any other error is reported.
  \<open>appendErr\<close> is \<open>multierr.Append\<close> of an error and a possible one.
\<close>

definition deleteLeftover :: "'s netlinkwrapper \<Rightarrow> string \<Rightarrow> ('s, error option) io" where
  "deleteLeftover nl name = tryE (LinkByName nl name)
     (\<lambda>wgLink. tryE (LinkDel nl wgLink) (\<lambda>_. retE None) (\<lambda>e. retE (Some e)))
     (\<lambda>e. retE (if isLinkNotFound e then None else Some e))"

fun appendErr :: "error \<Rightarrow> error option \<Rightarrow> error" where
  "appendErr e None = e"
| "appendErr e (Some e') = Joined e e'"

fun joinErrs :: "error option \<Rightarrow> error option \<Rightarrow> error option" where
  "joinErrs None e = e"
| "joinErrs (Some e) e' = Some (appendErr e e')"

definition recoverNic :: "'s plugin_env \<Rightarrow> netns \<Rightarrow> string \<Rightarrow> string \<Rightarrow> error \<Rightarrow> ('s, 'a) io" where
  "recoverNic env podNetNS wgNameInMain ifName err = (let nl = plug_Netlink env in
     bindE (deleteLeftover nl wgNameInMain) (\<lambda>e1.
     let err1 = appendErr err e1 in
     tryE (ns_Do (plug_NetNS env) podNetNS
         (bindE (deleteLeftover nl wgNameInMain) (\<lambda>e2.
          bindE (deleteLeftover nl ifName) (\<lambda>e3.
          case joinErrs e2 e3 of None \<Rightarrow> retE () | Some e \<Rightarrow> failE e))))
       (\<lambda>_. failE err1)
       (\<lambda>recoverErr. failE (Joined err1 recoverErr))))"

text \<open>The new link gets a name from the container in the main namespace, and is moved and renamed.\<close>

definition renameInPod :: "'s netlinkwrapper \<Rightarrow> string \<Rightarrow> string \<Rightarrow> ('s, unit) io" where
  "renameInPod nl wgNameInMain ifName =
     bindE (formatE ''failed to find link'' (LinkByName nl wgNameInMain)) (\<lambda>wgLink.
     bindE (formatE ''failed to set link down'' (LinkSetDown nl wgLink)) (\<lambda>_.
     bindE (formatE ''failed to set alias'' (LinkSetAlias nl wgLink (lk_Name wgLink))) (\<lambda>_.
     bindE (formatE ''failed to rename device'' (LinkSetName nl wgLink ifName)) (\<lambda>_.
     formatE ''failed to set link up'' (LinkSetUp nl wgLink)))))"

definition createNic :: "'s plugin_env \<Rightarrow> netns \<Rightarrow> string \<Rightarrow> string \<Rightarrow> ('s, unit) io" where
  "createNic env podNetNS wgNameInMain ifName = (let nl = plug_Netlink env in
     bindE (wrapE ''failed to add WireGuard link'' (LinkAdd nl (NewLinkAttrs Wireguard wgNameInMain))) (\<lambda>_.
     bindE (LinkByName nl wgNameInMain) (\<lambda>wgLink.
     bindE (wrapE ''failed to move wireguard link to pod namespace'' (LinkSetNsFd nl wgLink (ns_Fd podNetNS))) (\<lambda>_.
     ns_Do (plug_NetNS env) podNetNS (renameInPod nl wgNameInMain ifName)))))"

text \<open>
  The loop over the addresses of the delegate: an IPv6 address is assigned to the interface and
  added to the result, an IPv4 address becomes the allowed address of the tunnel.
\<close>

fun assignIPs :: "cni_ipconfig option list \<Rightarrow> cni_result \<Rightarrow> string \<Rightarrow> (cni_ipconfig option list \<times> cni_result \<times> string) res" where
  "assignIPs [] result allowed = Ok ([], result, allowed)"
| "assignIPs (p # ps) result allowed = bindR (deref p) (\<lambda>item.
     if To4 (in_IP (ic_Address item)) = None
     then bindR (assignIPs ps (result\<lparr>cres_IPs := cres_IPs result @
         [Some \<lparr>ic_Interface = Some (int (length (cres_Interfaces result)) - 1), ic_Address = ic_Address item, ic_Gateway = []\<rparr>]\<rparr>) allowed)
       (\<lambda>(items, rest). Ok (Some (item\<lparr>ic_Interface := Some 0\<rparr>) # items, rest))
     else bindR (assignIPs ps result (IP_String (in_IP (ic_Address item)) @ ''/32''))
       (\<lambda>(items, rest). Ok (Some item # items, rest)))"

definition isUnitTestEnv :: "'s plugin_env \<Rightarrow> bool" where
  "isUnitTestEnv env \<longleftrightarrow> plug_Getenv env ''IS_UNIT_TEST_ENV'' = ''true''"

definition assignNic :: "'s plugin_env \<Rightarrow> string \<Rightarrow> string \<Rightarrow> cni_result \<Rightarrow> cni_result \<Rightarrow> ('s, cni_result \<times> string) io" where
  "assignNic env podNSPath ifName ipamResult result =
     bindE (formatE ''failed to find link'' (LinkByName (plug_Netlink env) ifName)) (\<lambda>wgLink.
     let iface = \<lparr>ci_Mac = lk_HardwareAddr wgLink, ci_Name = lk_Name wgLink, ci_Sandbox = podNSPath\<rparr> in
     bindE (liftR (assignIPs (cres_IPs ipamResult) (result\<lparr>cres_Interfaces := cres_Interfaces result @ [iface]\<rparr>) ''''))
       (\<lambda>(items, result', allowedIPNet).
     bindE (if isUnitTestEnv env then retE ()
       else plug_ConfigureIface env ifName (ipamResult\<lparr>cres_Interfaces := [iface], cres_IPs := items\<rparr>)) (\<lambda>_.
     retE (result', allowedIPNet))))"

definition configureNic :: "'s plugin_env \<Rightarrow> netns \<Rightarrow> string \<Rightarrow> string \<Rightarrow> cni_result \<Rightarrow>
    (netns \<Rightarrow> string \<Rightarrow> cni_result \<Rightarrow> ('s, cni_result) io) option \<Rightarrow> cni_result \<Rightarrow> ('s, cni_result) io" where
  "configureNic env podNetNS podNSPath ifName result configFunc ipamResult =
     (if cres_IPs ipamResult = [] then failE (ErrMsg ''ipam result is empty'')
      else bindE (ns_Do (plug_NetNS env) podNetNS (assignNic env podNSPath ifName ipamResult result)) (\<lambda>(result', allowedIPNet).
        if allowedIPNet = '''' then failE (ErrMsg ''failed to find pod ipv4 ip'')
        else case configFunc of None \<Rightarrow> retE result' | Some f \<Rightarrow> f podNetNS allowedIPNet result'))"

definition WithWireGuardNic :: "'s plugin_env \<Rightarrow> string \<Rightarrow> string \<Rightarrow> string \<Rightarrow> IPWrapper \<Rightarrow> cni_result \<Rightarrow>
    (netns \<Rightarrow> string \<Rightarrow> cni_result \<Rightarrow> ('s, cni_result) io) option \<Rightarrow> ('s, cni_result) io" where
  "WithWireGuardNic env containerID podNSPath ifName ipWrapper result configFunc =
     bindE (GetNSByPath (plug_NetNS env) podNSPath) (\<lambda>podNetNS.
     finE (bindE (ns_Do (plug_NetNS env) podNetNS (lookupLink (plug_Netlink env) ''failed to retrieve new WireGuard link'' ifName)) (\<lambda>wgLink.
         let withIP = WithIP env ipWrapper (Some (configureNic env podNetNS podNSPath ifName result configFunc)) in
         if wgLink \<noteq> None then withIP
         else if length containerID < 8 then liftR Panic
         else let wgNameInMain = ''wg'' @ take 8 containerID in
           tryE (bindE (createNic env podNetNS wgNameInMain ifName) (\<lambda>_. withIP)) retE
             (recoverNic env podNetNS wgNameInMain ifName)))
       (\<lambda>_. ignoring (ns_Close (plug_NetNS env) podNetNS)))"

section \<open>Routes of a pod\<close>

definition isDefaultRoute :: "nl_route \<Rightarrow> bool" where
  "isDefaultRoute route \<longleftrightarrow> rt_Family route = FAMILY_V4 \<and>
     (case rt_Dst route of None \<Rightarrow> True | Some d \<Rightarrow> IPNet_String d = ''0.0.0.0/0'')"

text \<open>The loop keeps the last default route.\<close>

definition findDefaultRoute :: "nl_route list \<Rightarrow> nl_route option" where
  "findDefaultRoute routes = find isDefaultRoute (rev routes)"

definition eth0RouteTmpl :: "nl_route \<Rightarrow> nl_link \<Rightarrow> nl_route" where
  "eth0RouteTmpl defaultRoute eth0Link =
     new_route\<lparr>rt_Gw := rt_Gw defaultRoute, rt_LinkIndex := lk_Index eth0Link, rt_Protocol := RTPROT_STATIC\<rparr>"

definition wgRouteTmpl :: "nl_link \<Rightarrow> nl_route" where
  "wgRouteTmpl wgLink = new_route\<lparr>rt_Via := Some (ParseIP ''fe80::1'', FAMILY_V6), rt_LinkIndex := lk_Index wgLink,
     rt_Scope := SCOPE_UNIVERSE, rt_Family := FAMILY_V4\<rparr>"

text \<open>\<open>net.ParseCIDR("0.0.0.0/0")\<close>, whose error is dropped.\<close>

definition defaultRouteCidr :: "ipnet res" where
  "defaultRouteCidr = (case net_ParseCIDR ''0.0.0.0/0'' of Ok (_, n) \<Rightarrow> Ok n | _ \<Rightarrow> Panic)"

definition gatewayDestination :: "nl_route \<Rightarrow> ipnet" where
  "gatewayDestination defaultRoute = \<lparr>in_IP = rt_Gw defaultRoute, in_Mask = CIDRMask 32 32\<rparr>"

definition replaceDefault :: "'s netlinkwrapper \<Rightarrow> nl_link \<Rightarrow> nl_link \<Rightarrow> nl_route list \<Rightarrow> nl_route \<Rightarrow> cni_result \<Rightarrow> ('s, cni_result) io" where
  "replaceDefault nl eth0Link wgLink routes defaultRoute result =
     bindE (foldE (\<lambda>_ route. wrapE ''failed to delete route'' (RouteDel nl route)) () routes) (\<lambda>_.
     let gw = gatewayDestination defaultRoute in
     bindE (wrapE ''failed to add original gateway route'' (RouteReplace nl
       (new_route\<lparr>rt_Dst := Some gw, rt_LinkIndex := lk_Index eth0Link, rt_Scope := SCOPE_LINK\<rparr>))) (\<lambda>_.
     bindE (liftR defaultRouteCidr) (\<lambda>cidr.
     bindE (wrapE ''failed to add default wireguard route'' (RouteReplace nl ((wgRouteTmpl wgLink)\<lparr>rt_Dst := Some cidr\<rparr>))) (\<lambda>_.
     retE (result\<lparr>cres_Routes := [\<lparr>cr_Dst = gw, cr_GW = []\<rparr>, \<lparr>cr_Dst = cidr, cr_GW = ParseIP ''fe80::1''\<rparr>]\<rparr>)))))"

definition addException :: "'s netlinkwrapper \<Rightarrow> nl_route \<Rightarrow> ip \<Rightarrow> cni_result \<Rightarrow> string \<Rightarrow> ('s, cni_result) io" where
  "addException nl gatewayRoute gwIP result exception =
     bindE (wrapE ''failed to parse cidr'' (liftR (net_ParseCIDR exception))) (\<lambda>(_, cidr).
     bindE (wrapE ''failed to add route'' (RouteReplace nl (gatewayRoute\<lparr>rt_Dst := Some cidr\<rparr>))) (\<lambda>_.
     retE (result\<lparr>cres_Routes := cres_Routes result @ [\<lparr>cr_Dst = cidr, cr_GW = gwIP\<rparr>]\<rparr>)))"

definition addRoutingForIngress :: "'s plugin_env \<Rightarrow> nl_route \<Rightarrow> string \<Rightarrow> ('s, unit) io" where
  "addRoutingForIngress env defaultRoute sysctlDir = (let nl = plug_Netlink env; mark = Itoa Eth0Mark in
     bindE (wrapE ''failed to create iptable'' (plug_NewIPTables env)) (\<lambda>_.
     bindE (wrapE ''failed to append iptables set-mark rule'' (plug_AppendUnique env MangleTable PreRoutingChain
       [''-i'', ''eth0'', ''-j'', ''MARK'', ''--set-mark'', mark])) (\<lambda>_.
     bindE (wrapE ''failed to append iptables save-mark rule'' (plug_AppendUnique env MangleTable PreRoutingChain
       [''-j'', ''CONNMARK'', ''--save-mark''])) (\<lambda>_.
     bindE (wrapE ''failed to append iptables restore-mark rule'' (plug_AppendUnique env MangleTable OutputChain
       [''-m'', ''connmark'', ''--mark'', mark, ''-j'', ''CONNMARK'', ''--restore-mark''])) (\<lambda>_.
     bindE (wrapE ''failed to add routing rule'' (RuleAdd nl \<lparr>ru_Mark = word_of_int Eth0Mark, ru_Table = Eth0Mark\<rparr>)) (\<lambda>_.
     bindE (wrapE ''failed to add default route via eth0'' (RouteReplace nl (defaultRoute\<lparr>rt_Table := Eth0Mark\<rparr>))) (\<lambda>_.
     bindE (wrapE ''failed to write net.ipv4.conf.all.rp_filter''
       (plug_WriteFile env (path_Join [sysctlDir, ''net/ipv4/conf/all/rp_filter'']) ''2'')) (\<lambda>_.
     wrapE ''failed to write net.ipv4.conf.eth0.rp_filter''
       (plug_WriteFile env (path_Join [sysctlDir, ''net/ipv4/conf/eth0/rp_filter'']) ''2'')))))))))"

definition SetPodRoutes :: "'s plugin_env \<Rightarrow> string \<Rightarrow> NicAddResponse \<Rightarrow> string list \<Rightarrow> string \<Rightarrow> cni_result \<Rightarrow> ('s, cni_result) io" where
  "SetPodRoutes env ifName nic excludedCIDRs sysctlDir result = (let nl = plug_Netlink env;
       defaultToGateway = (nar_DefaultRoute nic = DEFAULT_ROUTE_STATIC_EGRESS_GATEWAY);
       exceptionCidrs = nar_ExceptionCidrs nic @ (if defaultToGateway then excludedCIDRs else []) in
     bindE (wrapE ''failed to retrieve eth0 interface'' (LinkByName nl ''eth0'')) (\<lambda>eth0Link.
     bindE (wrapE ''failed to retrieve wireguard interface'' (LinkByName nl ifName)) (\<lambda>wgLink.
     bindE (wrapE ''failed to list all routes on eth0'' (RouteList nl (Some eth0Link) FAMILY_ALL)) (\<lambda>routes.
     case findDefaultRoute routes of
       None \<Rightarrow> failE (ErrMsg ''failed to find default route'')
     | Some defaultRoute \<Rightarrow>
         bindE (if defaultToGateway then replaceDefault nl eth0Link wgLink routes defaultRoute result else retE result) (\<lambda>result1.
         bindE (foldE (addException nl
             (if defaultToGateway then eth0RouteTmpl defaultRoute eth0Link else wgRouteTmpl wgLink)
             (if defaultToGateway then rt_Gw defaultRoute else ParseIP ''fe80::1'')) result1 exceptionCidrs) (\<lambda>result2.
         bindE (addRoutingForIngress env defaultRoute sysctlDir) (\<lambda>_.
         retE result2)))))))"

section \<open>Commands of the plugin\<close>

definition podDevice :: "'s plugin_env \<Rightarrow> netns \<Rightarrow> ('s, wg_device) io" where
  "podDevice env podNs = ns_Do (plug_NetNS env) podNs (withWgClient (plug_WgCtrl env) ''failed to create wg client''
     (wrapE ''failed to find wg device'' (wg_Device (plug_WgCtrl env) WireguardLinkName)))"

definition tunnelConfig :: "wgkey \<Rightarrow> wgkey \<Rightarrow> NicAddResponse \<Rightarrow> wg_config" where
  "tunnelConfig privateKey gwPublicKey resp = \<lparr>wc_PrivateKey = Some privateKey, wc_ListenPort = None, wc_Peers =
     [\<lparr>pc_PublicKey = gwPublicKey, pc_Remove = False, pc_ReplaceAllowedIPs = False,
       pc_AllowedIPs = [\<lparr>in_IP = IPv4zero, in_Mask = CIDRMask 0 (8 * length IPv4zero)\<rparr>,
         \<lparr>in_IP = IPv6zero, in_Mask = CIDRMask 0 (8 * length IPv6zero)\<rparr>],
       pc_Endpoint = Some (ParseIP (nar_EndpointIp resp), sint (nar_ListenPort resp))\<rparr>]\<rparr>"

text \<open>The function that \<open>cmdAdd\<close> hands to \<open>WithWireGuardNic\<close>.\<close>

definition configureTunnel :: "'s plugin_env \<Rightarrow> CNIConfig \<Rightarrow> K8sConfig \<Rightarrow> string \<Rightarrow> netns \<Rightarrow> string \<Rightarrow> cni_result \<Rightarrow> ('s, cni_result) io" where
  "configureTunnel env config k8sInfo gwName podNs allowedIPNet result = (let wg = plug_WgCtrl env in
     bindE (wrapE ''failed to generate wg private key'' (plug_GeneratePrivateKey env)) (\<lambda>privateKey.
     bindE (podDevice env podNs) (\<lambda>wgDevice.
     bindE (wrapE ''failed to send nicAdd request'' (plug_NicAdd env
       \<lparr>naq_PodConfig = podInfo k8sInfo, naq_ListenPort = word_of_int (dev_ListenPort wgDevice), naq_AllowedIp = allowedIPNet,
         naq_PublicKey = wg_KeyString wg (plug_PublicKey env privateKey), naq_GatewayName = gwName\<rparr>)) (\<lambda>resp.
     bindE (wrapE ''failed to parse gateway public key'' (liftR (wg_ParseKey wg (nar_PublicKey resp)))) (\<lambda>gwPublicKey.
     ns_Do (plug_NetNS env) podNs (withWgClient wg ''failed to create wg client''
       (bindE (wrapE ''failed to configure wg device''
         (wg_ConfigureDevice wg WireguardLinkName (tunnelConfig privateKey gwPublicKey resp))) (\<lambda>_.
        if isUnitTestEnv env then retE result
        else wrapE ''failed to setup pod routes''
          (SetPodRoutes env WireguardLinkName resp (cc_ExcludedCIDRs config) ''/proc/sys'' result)))))))))"

definition addNic :: "'s plugin_env \<Rightarrow> CmdArgs \<Rightarrow> CNIConfig \<Rightarrow> K8sConfig \<Rightarrow> string \<Rightarrow> cni_result \<Rightarrow> ('s, unit) io" where
  "addNic env args config k8sInfo gwName result =
     (if cc_IPAMType config = '''' then failE (ErrMsg ''ipam should not be empty'')
      else bindE (WithWireGuardNic env (ca_ContainerID args) (ca_Netns args) WireguardLinkName
          \<lparr>ipw_pluginType = cc_IPAMType config, ipw_netConf = ca_StdinData args\<rparr> result
          (Some (configureTunnel env config k8sInfo gwName))) (\<lambda>result'.
        plug_PrintResult env result' (cc_CNIVersion config)))"

text \<open>The connection is closed by a deferred call whose error is only logged.\<close>

definition withConn :: "'s plugin_env \<Rightarrow> CNIConfig \<Rightarrow> ('s, 'a) io \<Rightarrow> ('s, 'a) io" where
  "withConn env config body = bindE (wrapE ''failed to contact cni manager daemon'' (plug_Dial env (cc_SocketPath config)))
     (\<lambda>_. finE body (\<lambda>_. ignoring (plug_CloseConn env)))"

definition cmdAdd :: "'s plugin_env \<Rightarrow> CmdArgs \<Rightarrow> ('s, unit) io" where
  "cmdAdd env args =
     bindE (wrapE ''failed to parse CNI config'' (ParseCNIConfig env (ca_StdinData args))) (\<lambda>config.
     bindE (wrapE ''failed to load k8s metadata'' (LoadK8sInfo env (ca_Args args))) (\<lambda>k8sInfo.
     bindE (wrapE ''failed to convert result to current version'' (liftR (plug_NewResultFromResult env (cc_PrevResult config)))) (\<lambda>result.
     withConn env config
       (bindE (wrapE ''failed to get pod annotations'' (plug_PodRetrieve env (podInfo k8sInfo))) (\<lambda>annotations.
        case annotations CNIGatewayAnnotationKey of
          None \<Rightarrow> plug_PrintResult env result (cc_CNIVersion config)
        | Some gwName \<Rightarrow> addNic env args config k8sInfo gwName result)))))"

text \<open>\<open>cmdDel\<close> logs every error and returns nil; after one it does not go on.\<close>

definition deleteNic :: "'s plugin_env \<Rightarrow> netns \<Rightarrow> ('s, unit) io" where
  "deleteNic env podNs = ns_Do (plug_NetNS env) podNs (tryE (LinkByName (plug_Netlink env) WireguardLinkName)
     (\<lambda>ifHandle. loggedE (LinkDel (plug_Netlink env) ifHandle)) (\<lambda>_. retE ()))"

definition releasePod :: "'s plugin_env \<Rightarrow> CmdArgs \<Rightarrow> CNIConfig \<Rightarrow> K8sConfig \<Rightarrow> ('s, unit) io" where
  "releasePod env args config k8sInfo =
     bindE (DeleteIP env \<lparr>ipw_pluginType = cc_IPAMType config, ipw_netConf = ca_StdinData args\<rparr>) (\<lambda>_.
     withConn env config (plug_NicDel env (podInfo k8sInfo)))"

definition cmdDel :: "'s plugin_env \<Rightarrow> CmdArgs \<Rightarrow> ('s, unit) io" where
  "cmdDel env args = loggedE
     (bindE (ParseCNIConfig env (ca_StdinData args)) (\<lambda>config.
      bindE (LoadK8sInfo env (ca_Args args)) (\<lambda>k8sInfo.
      bindE (ns_GetNS (plug_NetNS env) (ca_Netns args)) (\<lambda>podNs.
      finE (bindE (deleteNic env podNs) (\<lambda>_. releasePod env args config k8sInfo))
        (\<lambda>_. ignoring (ns_Close (plug_NetNS env) podNs))))))"

definition cmdCheck :: "'s plugin_env \<Rightarrow> CmdArgs \<Rightarrow> ('s, unit) io" where
  "cmdCheck env args = bindE (ParseCNIConfig env (ca_StdinData args)) (\<lambda>config.
     plug_PrintResult env empty_result (cc_CNIVersion config))"

section \<open>Commands of the address plugin\<close>

text \<open>The loops keep the last address of the wanted scope.\<close>

definition lastOfScope :: "int \<Rightarrow> nl_addr list \<Rightarrow> ipnet option res" where
  "lastOfScope scope addrs = foldl (\<lambda>acc a. bindR acc (\<lambda>found.
     if ad_Scope a = scope then bindR (deref (ad_IPNet a)) (\<lambda>n. Ok (Some n)) else Ok found)) (Ok None) addrs"

definition podAddresses :: "'s netlinkwrapper \<Rightarrow> ('s, ipnet option \<times> ipnet option) io" where
  "podAddresses nl = bindE (LinkByName nl ''eth0'') (\<lambda>eth0Link.
     bindE (AddrList nl eth0Link FAMILY_V6) (\<lambda>v6.
     bindE (liftR (lastOfScope SCOPE_LINK v6)) (\<lambda>v6Address.
     bindE (AddrList nl eth0Link FAMILY_V4) (\<lambda>v4.
     bindE (liftR (lastOfScope SCOPE_UNIVERSE v4)) (\<lambda>v4Address.
     retE (v4Address, v6Address))))))"

definition ipamResultOf :: "string \<Rightarrow> ipnet \<Rightarrow> ipnet \<Rightarrow> cni_result" where
  "ipamResultOf version v4Address v6Address = empty_result\<lparr>cres_CNIVersion := version, cres_IPs :=
     [Some \<lparr>ic_Interface = None, ic_Address = v6Address, ic_Gateway = ParseIP GatewayIP\<rparr>,
      Some \<lparr>ic_Interface = None, ic_Address = v4Address, ic_Gateway = []\<rparr>]\<rparr>"

definition ipamCmdAdd :: "'s plugin_env \<Rightarrow> CmdArgs \<Rightarrow> ('s, unit) io" where
  "ipamCmdAdd env args =
     bindE (ParseCNIConfig env (ca_StdinData args)) (\<lambda>config.
     bindE (LoadK8sInfo env (ca_Args args)) (\<lambda>_.
     if cc_IPAMType config = '''' then failE (ErrMsg ''ipam should not be empty'')
     else bindE (ns_GetNS (plug_NetNS env) (ca_Netns args)) (\<lambda>podNetNS.
       finE (bindE (ns_Do (plug_NetNS env) podNetNS (podAddresses (plug_Netlink env))) (\<lambda>(v4Address, v6Address).
           case v4Address of None \<Rightarrow> failE (ErrMsg ''there is no enough ipv4 addr allocated for this pod'')
           | Some v4 \<Rightarrow> (case v6Address of None \<Rightarrow> failE (ErrMsg ''there is no enough ipv6 addr allocated for this pod'')
             | Some v6 \<Rightarrow> plug_PrintResult env (ipamResultOf (plug_ImplementedSpecVersion env) v4 v6) (cc_CNIVersion config))))
         (\<lambda>_. ignoring (ns_Close (plug_NetNS env) podNetNS)))))"

definition ipamCmdDel :: "'s plugin_env \<Rightarrow> CmdArgs \<Rightarrow> ('s, unit) io" where
  "ipamCmdDel env args = bindE (ParseCNIConfig env (ca_StdinData args)) (\<lambda>config.
     plug_PrintResult env empty_result (cc_CNIVersion config))"

definition ipamCmdCheck :: "'s plugin_env \<Rightarrow> CmdArgs \<Rightarrow> ('s, unit) io" where
  "ipamCmdCheck env args = bindE (ParseCNIConfig env (ca_StdinData args)) (\<lambda>config.
     plug_PrintResult env empty_result (cc_CNIVersion config))"

end
