(* ===== verification/Plugin_Proofs.thy ===== *)
theory Plugin_Proofs
  imports CNI_Plugin
begin

text \<open>
  What the CNI plugin leaves behind. The first part shows that a failed set-up of the WireGuard interface takes back what it
  did; the second computes the routing table of a pod.
\<close>

section \<open>The network of a pod\<close>

text \<open>
  What the world holds for one pod: whether the thread is in the pod's namespace, the names of the links in
  the main namespace and in the pod's, and whether an address is leased for the pod.
\<close>

record pod_net =
  pn_inside :: bool
  pn_host :: "string set"
  pn_pod :: "string set"
  pn_leased :: bool

definition link_names :: "pod_net \<Rightarrow> string set" where
  "link_names w = (if pn_inside w then pn_pod w else pn_host w)"

definition without_link :: "string \<Rightarrow> pod_net \<Rightarrow> pod_net" where
  "without_link n w = (if pn_inside w then w\<lparr>pn_pod := pn_pod w - {n}\<rparr> else w\<lparr>pn_host := pn_host w - {n}\<rparr>)"

lemma without_link_fields [simp]:
  "pn_inside (without_link n w) = pn_inside w" "pn_leased (without_link n w) = pn_leased w"
  "pn_host (without_link n w) = (if pn_inside w then pn_host w else pn_host w - {n})"
  "pn_pod (without_link n w) = (if pn_inside w then pn_pod w - {n} else pn_pod w)"
  by (simp_all add: without_link_def)

definition calm :: "pod_net \<Rightarrow> pod_net \<Rightarrow> bool" where
  "calm w w' \<longleftrightarrow> pn_inside w' = pn_inside w \<and> pn_leased w' = pn_leased w"

lemma calm_refl [simp]: "calm w w"
  by (simp add: calm_def)

text \<open>A call that neither switches the namespace nor touches the lease.\<close>

definition stays :: "('s \<Rightarrow> pod_net) \<Rightarrow> ('s, 'a) io \<Rightarrow> bool" where
  "stays v m \<longleftrightarrow> (\<forall>w. triple (\<lambda>s. v s = w) m (\<lambda>_ s. calm w (v s)) (\<lambda>_ s. calm w (v s)) (\<lambda>_. True))"

text \<open>
  The documented behaviour of the calls. \<open>LinkByName\<close> finds links of the current namespace by name and reports a missing one
  with its own error; \<open>LinkDel\<close> removes the link; \<open>Do\<close> enters a namespace and leaves it; the delegate
  leases an address on success and releases it. Nothing is assumed of how the calls that create, move or rename links change them.
\<close>

definition nic_laws :: "'s plugin_env \<Rightarrow> ('s \<Rightarrow> pod_net) \<Rightarrow> bool" where
  "nic_laws env v \<longleftrightarrow> (let nl = plug_Netlink env; sys = plug_NetNS env in
     (\<forall>n w. triple (\<lambda>s. v s = w) (LinkByName nl n) (\<lambda>l s. v s = w \<and> lk_Name l = n \<and> n \<in> link_names w)
       (\<lambda>e s. v s = w \<and> (isLinkNotFound e \<longrightarrow> n \<notin> link_names w)) (\<lambda>_. True)) \<and>
     (\<forall>l w. triple (\<lambda>s. v s = w) (LinkDel nl l) (\<lambda>_ s. v s = without_link (lk_Name l) w) (\<lambda>_ s. v s = w) (\<lambda>_. True)) \<and>
     (\<forall>n w. triple (\<lambda>s. v s = w) (ns_Enter sys n) (\<lambda>_ s. v s = w\<lparr>pn_inside := True\<rparr>) (\<lambda>_ s. v s = w) (\<lambda>_. True)) \<and>
     (\<forall>n s. v (ns_Leave sys n s) = (v s)\<lparr>pn_inside := False\<rparr>) \<and>
     (\<forall>p w. triple (\<lambda>s. v s = w) (ns_GetNS sys p) (\<lambda>_ s. v s = w) (\<lambda>_ s. v s = w) (\<lambda>_. True)) \<and>
     (\<forall>n s. v (snd (ns_Close sys n s)) = v s) \<and>
     (\<forall>l. stays v (LinkAdd nl l)) \<and> (\<forall>l fd. stays v (LinkSetNsFd nl l fd)) \<and> (\<forall>l. stays v (LinkSetDown nl l)) \<and>
     (\<forall>l a. stays v (LinkSetAlias nl l a)) \<and> (\<forall>l a. stays v (LinkSetName nl l a)) \<and> (\<forall>l. stays v (LinkSetUp nl l)) \<and>
     (\<forall>i r. stays v (plug_ConfigureIface env i r)) \<and>
     (\<forall>t c w. triple (\<lambda>s. v s = w) (plug_ExecAdd env t c) (\<lambda>_ s. pn_inside (v s) = pn_inside w) (\<lambda>_ s. calm w (v s)) (\<lambda>_. True)) \<and>
     (\<forall>t c w. triple (\<lambda>s. v s = w) (plug_ExecDel env t c) (\<lambda>_ s. pn_inside (v s) = pn_inside w \<and> \<not> pn_leased (v s))
       (\<lambda>_ s. pn_inside (v s) = pn_inside w) (\<lambda>_. True)))"

lemma nic_lawsD:
  assumes "nic_laws env v"
  shows "triple (\<lambda>s. v s = w) (LinkByName (plug_Netlink env) n) (\<lambda>l s. v s = w \<and> lk_Name l = n \<and> n \<in> link_names w)
      (\<lambda>e s. v s = w \<and> (isLinkNotFound e \<longrightarrow> n \<notin> link_names w)) (\<lambda>_. True)"
    and "triple (\<lambda>s. v s = w) (LinkDel (plug_Netlink env) l) (\<lambda>_ s. v s = without_link (lk_Name l) w) (\<lambda>_ s. v s = w) (\<lambda>_. True)"
    and "triple (\<lambda>s. v s = w) (ns_Enter (plug_NetNS env) x) (\<lambda>_ s. v s = w\<lparr>pn_inside := True\<rparr>) (\<lambda>_ s. v s = w) (\<lambda>_. True)"
    and "v (ns_Leave (plug_NetNS env) x s) = (v s)\<lparr>pn_inside := False\<rparr>"
    and "triple (\<lambda>s. v s = w) (ns_GetNS (plug_NetNS env) p) (\<lambda>_ s. v s = w) (\<lambda>_ s. v s = w) (\<lambda>_. True)"
    and "v (snd (ns_Close (plug_NetNS env) x s)) = v s"
    and "triple (\<lambda>s. v s = w) (plug_ExecAdd env t c) (\<lambda>_ s. pn_inside (v s) = pn_inside w) (\<lambda>_ s. calm w (v s)) (\<lambda>_. True)"
    and "triple (\<lambda>s. v s = w) (plug_ExecDel env t c) (\<lambda>_ s. pn_inside (v s) = pn_inside w \<and> \<not> pn_leased (v s))
      (\<lambda>_ s. pn_inside (v s) = pn_inside w) (\<lambda>_. True)"
  using assms unfolding nic_laws_def Let_def by (elim conjE, simp)+

lemma nic_laws_stays:
  assumes "nic_laws env v"
  shows "stays v (LinkAdd (plug_Netlink env) l)" and "stays v (LinkSetNsFd (plug_Netlink env) l fd)"
    and "stays v (LinkSetDown (plug_Netlink env) l)" and "stays v (LinkSetAlias (plug_Netlink env) l a)"
    and "stays v (LinkSetName (plug_Netlink env) l a)" and "stays v (LinkSetUp (plug_Netlink env) l)"
    and "stays v (plug_ConfigureIface env i r)" and "stays v (LinkByName (plug_Netlink env) n)"
proof -
  show "stays v (LinkByName (plug_Netlink env) n)"
    unfolding stays_def by (rule allI, rule triple_conseq [OF nic_lawsD(1) [OF assms]]) auto
qed (use assms in \<open>simp_all add: nic_laws_def Let_def\<close>)

subsection \<open>Rules\<close>

lemma stays_triple:
  assumes "stays v m"
  shows "triple (\<lambda>s. pn_inside (v s) = b \<and> pn_leased (v s) = l) m (\<lambda>_ s. pn_inside (v s) = b \<and> pn_leased (v s) = l)
    (\<lambda>_ s. pn_inside (v s) = b \<and> pn_leased (v s) = l) (\<lambda>_. True)"
proof (rule triple_ghost [where g = v and P = "\<lambda>w. pn_inside w = b \<and> pn_leased w = l"])
  fix w :: pod_net assume "pn_inside w = b \<and> pn_leased w = l"
  then show "triple (\<lambda>s. v s = w) m (\<lambda>_ s. pn_inside (v s) = b \<and> pn_leased (v s) = l)
      (\<lambda>_ s. pn_inside (v s) = b \<and> pn_leased (v s) = l) (\<lambda>_. True)"
    by (intro triple_conseq [OF assms [unfolded stays_def, rule_format, of w]]) (auto simp: calm_def)
qed

lemma stays_intro:
  assumes "\<And>b l. triple (\<lambda>s. pn_inside (v s) = b \<and> pn_leased (v s) = l) m (\<lambda>_ s. pn_inside (v s) = b \<and> pn_leased (v s) = l)
    (\<lambda>_ s. pn_inside (v s) = b \<and> pn_leased (v s) = l) (\<lambda>_. True)"
  shows "stays v m"
  unfolding stays_def calm_def
  by (intro allI triple_conseq [OF assms [of "pn_inside w" "pn_leased w" for w]]) auto

lemma stays_ret: "stays v (retE a)" and stays_fail: "stays v (failE e)" and stays_lift: "stays v (liftR r)"
  unfolding stays_def by (auto intro!: triple_rules)

lemma stays_try: "stays v m \<Longrightarrow> (\<And>a. stays v (f a)) \<Longrightarrow> (\<And>e. stays v (h e)) \<Longrightarrow> stays v (tryE m f h)"
  by (rule stays_intro, rule triple_try) (auto intro: stays_triple)

lemma stays_bind: "stays v m \<Longrightarrow> (\<And>a. stays v (f a)) \<Longrightarrow> stays v (bindE m f)"
  unfolding bindE_def by (intro stays_try stays_fail)

lemma stays_wrap: "stays v m \<Longrightarrow> stays v (wrapE msg m)"
  unfolding wrapE_def by (intro stays_try stays_ret stays_fail)

lemma stays_format: "stays v m \<Longrightarrow> stays v (formatE msg m)"
  unfolding formatE_def by (intro stays_try stays_ret stays_fail)

lemma stays_if: "stays v m \<Longrightarrow> stays v m' \<Longrightarrow> stays v (if c then m else m')"
  by simp

lemma stays_case_prod: "(\<And>a b. stays v (f a b)) \<Longrightarrow> stays v (case x of (a, b) \<Rightarrow> f a b)"
  by (cases x) simp

lemmas stays_rules = stays_bind stays_wrap stays_format stays_if stays_case_prod stays_ret stays_fail stays_lift

subsection \<open>Taking back\<close>

lemma deleteLeftover_triple:
  assumes "nic_laws env v"
  shows "triple (\<lambda>s. v s = w) (deleteLeftover (plug_Netlink env) n)
    (\<lambda>r s. (v s = w \<or> v s = without_link n w) \<and> (r = None \<longrightarrow> n \<notin> link_names (v s))) E (\<lambda>_. True)"
  unfolding deleteLeftover_def
proof (rule triple_try [OF nic_lawsD(1) [OF assms]])
  fix l
  show "triple (\<lambda>s. v s = w \<and> lk_Name l = n \<and> n \<in> link_names w)
      (tryE (LinkDel (plug_Netlink env) l) (\<lambda>_. retE None) (\<lambda>e. retE (Some e)))
      (\<lambda>r s. (v s = w \<or> v s = without_link n w) \<and> (r = None \<longrightarrow> n \<notin> link_names (v s))) E (\<lambda>_. True)"
    by (rule triple_pure, rule triple_try [OF nic_lawsD(2) [OF assms]])
      (auto intro!: triple_ret simp: without_link_def link_names_def)
qed (auto intro!: triple_ret)

definition links_gone :: "string \<Rightarrow> string \<Rightarrow> pod_net \<Rightarrow> bool" where
  "links_gone main ifName w \<longleftrightarrow> main \<notin> pn_host w \<and> main \<notin> pn_pod w \<and> ifName \<notin> pn_pod w"

lemma joinErrs_None: "joinErrs a b = None \<longleftrightarrow> a = None \<and> b = None"
  by (cases a) auto

definition recoverInPod :: "'s plugin_env \<Rightarrow> string \<Rightarrow> string \<Rightarrow> ('s, unit) io" where
  "recoverInPod env main ifName = bindE (deleteLeftover (plug_Netlink env) main) (\<lambda>e2.
     bindE (deleteLeftover (plug_Netlink env) ifName) (\<lambda>e3.
     case joinErrs e2 e3 of None \<Rightarrow> retE () | Some e \<Rightarrow> failE e))"

definition pod_cleared :: "string \<Rightarrow> string \<Rightarrow> pod_net \<Rightarrow> pod_net \<Rightarrow> bool" where
  "pod_cleared main ifName w w' \<longleftrightarrow> pn_host w' = pn_host w \<and> pn_leased w' = pn_leased w \<and>
     main \<notin> pn_pod w' \<and> ifName \<notin> pn_pod w'"

lemma recoverInPod_triple:
  assumes laws: "nic_laws env v" and w: "pn_inside w"
  shows "triple (\<lambda>s. v s = w) (recoverInPod env main ifName) (\<lambda>_ s. pod_cleared main ifName w (v s))
    (\<lambda>_ s. pn_leased (v s) = pn_leased w) (\<lambda>_. True)"
proof -
  have second: "triple (\<lambda>s. v s = u) (bindE (deleteLeftover (plug_Netlink env) ifName) (\<lambda>e3.
        case joinErrs e2 e3 of None \<Rightarrow> retE () | Some e \<Rightarrow> failE e))
      (\<lambda>_ s. pod_cleared main ifName w (v s)) (\<lambda>_ s. pn_leased (v s) = pn_leased w) (\<lambda>_. True)"
    if u: "u = w \<or> u = without_link main w" "e2 = None \<longrightarrow> main \<notin> link_names u" for u e2
  proof (rule triple_bind [OF deleteLeftover_triple [OF laws]], rule triple_case_option)
    fix e3 assume "joinErrs e2 e3 = None"
    then show "triple (\<lambda>s. (v s = u \<or> v s = without_link ifName u) \<and> (e3 = None \<longrightarrow> ifName \<notin> link_names (v s))) (retE ())
        (\<lambda>_ s. pod_cleared main ifName w (v s)) (\<lambda>_ s. pn_leased (v s) = pn_leased w) (\<lambda>_. True)"
      using u w
      by (intro triple_ret) (auto simp: joinErrs_None pod_cleared_def link_names_def)
  next
    fix e3 e
    show "triple (\<lambda>s. (v s = u \<or> v s = without_link ifName u) \<and> (e3 = None \<longrightarrow> ifName \<notin> link_names (v s))) (failE e)
        (\<lambda>_ s. pod_cleared main ifName w (v s)) (\<lambda>_ s. pn_leased (v s) = pn_leased w) (\<lambda>_. True)"
      using u(1) by (intro triple_fail) auto
  qed
  show ?thesis
    unfolding recoverInPod_def
    by (rule triple_bind [OF deleteLeftover_triple [OF laws]], rule triple_ghost [where g = v], rule second) auto
qed

lemma recoverNic_triple:
  assumes laws: "nic_laws env v"
  shows "triple (\<lambda>s. \<not> pn_inside (v s) \<and> pn_leased (v s) = b) (recoverNic env podNetNS main ifName err)
    (\<lambda>_ _. False)
    (\<lambda>e s. pn_leased (v s) = b \<and> (e = err \<and> links_gone main ifName (v s) \<or> (\<exists>e1 e2. e = Joined e1 e2))) (\<lambda>_. True)"
proof -
  let ?E = "\<lambda>e s. pn_leased (v s) = b \<and> (e = err \<and> links_gone main ifName (v s) \<or> (\<exists>e1 e2. e = Joined e1 e2))"
  have inPod: "triple (\<lambda>s. v s = u) (ns_Do (plug_NetNS env) podNetNS (recoverInPod env main ifName))
      (\<lambda>_ s. pod_cleared main ifName u (v s)) (\<lambda>_ s. pn_leased (v s) = pn_leased u) (\<lambda>_. True)" for u
  proof (rule triple_ns_Do [where R = "\<lambda>s. v s = u\<lparr>pn_inside := True\<rparr>"])
    show "triple (\<lambda>s. v s = u) (ns_Enter (plug_NetNS env) podNetNS) (\<lambda>_ s. v s = u\<lparr>pn_inside := True\<rparr>)
        (\<lambda>_ s. pn_leased (v s) = pn_leased u) (\<lambda>_. True)"
      by (rule triple_conseq [OF nic_lawsD(3) [OF laws]]) auto
  qed (rule triple_conseq [OF recoverInPod_triple [OF laws, of "u\<lparr>pn_inside := True\<rparr>"]], auto simp: nic_lawsD(4) [OF laws] pod_cleared_def)
  have rest: "triple (\<lambda>s. v s = u) (tryE (ns_Do (plug_NetNS env) podNetNS (recoverInPod env main ifName))
        (\<lambda>_. failE (appendErr err e1)) (\<lambda>recoverErr. failE (Joined (appendErr err e1) recoverErr))) (\<lambda>_ _. False) ?E (\<lambda>_. True)"
    if "pn_leased u = b" "e1 = None \<longrightarrow> main \<notin> pn_host u" for u e1
    by (rule triple_try [OF inPod]; rule triple_fail)
      (use that in \<open>cases e1; auto simp: pod_cleared_def links_gone_def\<close>)+
  have all: "triple (\<lambda>s. v s = w) (recoverNic env podNetNS main ifName err) (\<lambda>_ _. False) ?E (\<lambda>_. True)"
    if "\<not> pn_inside w \<and> pn_leased w = b" for w
    unfolding recoverNic_def Let_def recoverInPod_def [symmetric]
    by (rule triple_bind [OF deleteLeftover_triple [OF laws]], rule triple_ghost [where g = v], rule rest)
      (use that in \<open>auto simp: link_names_def\<close>)
  show ?thesis by (rule triple_ghost [where g = v, OF all])
qed

subsection \<open>Setting up\<close>

text \<open>A call in the pod's namespace, seen from outside.\<close>

lemma stays_ns_Do:
  assumes laws: "nic_laws env v" and body: "stays v body"
  shows "triple (\<lambda>s. \<not> pn_inside (v s) \<and> pn_leased (v s) = b) (ns_Do (plug_NetNS env) x body)
    (\<lambda>_ s. \<not> pn_inside (v s) \<and> pn_leased (v s) = b) (\<lambda>_ s. \<not> pn_inside (v s) \<and> pn_leased (v s) = b) (\<lambda>_. True)"
proof (rule triple_ns_Do [where R = "\<lambda>s. pn_inside (v s) = True \<and> pn_leased (v s) = b"])
  show "triple (\<lambda>s. \<not> pn_inside (v s) \<and> pn_leased (v s) = b) (ns_Enter (plug_NetNS env) x)
      (\<lambda>_ s. pn_inside (v s) = True \<and> pn_leased (v s) = b) (\<lambda>_ s. \<not> pn_inside (v s) \<and> pn_leased (v s) = b) (\<lambda>_. True)"
    by (rule triple_ghost [where g = v], rule triple_conseq [OF nic_lawsD(3) [OF laws]]) auto
qed (rule triple_conseq [OF stays_triple [OF body, of True b]], simp_all add: nic_lawsD(4) [OF laws])

lemma createNic_triple:
  assumes laws: "nic_laws env v"
  shows "triple (\<lambda>s. \<not> pn_inside (v s) \<and> pn_leased (v s) = b) (createNic env podNetNS main ifName)
    (\<lambda>_ s. \<not> pn_inside (v s) \<and> pn_leased (v s) = b) (\<lambda>_ s. \<not> pn_inside (v s) \<and> pn_leased (v s) = b) (\<lambda>_. True)"
proof -
  have stay: "triple (\<lambda>s. \<not> pn_inside (v s) \<and> pn_leased (v s) = b) m
      (\<lambda>_ s. \<not> pn_inside (v s) \<and> pn_leased (v s) = b) (\<lambda>_ s. \<not> pn_inside (v s) \<and> pn_leased (v s) = b) (\<lambda>_. True)"
    if "stays v m" for m :: "('a, 'x) io"
    using stays_triple [OF that, of False b] by simp
  have rename: "stays v (renameInPod (plug_Netlink env) main ifName)"
    unfolding renameInPod_def by (intro stays_rules nic_laws_stays [OF laws])
  show ?thesis
    unfolding createNic_def Let_def
    by (intro triple_bind [OF stay] stays_wrap nic_laws_stays [OF laws] stays_ns_Do [OF laws] rename)
qed

lemma assignNic_stays: "nic_laws env v \<Longrightarrow> stays v (assignNic env podNSPath ifName ipamResult result)"
  unfolding assignNic_def Let_def by (intro stays_rules nic_laws_stays)

text \<open>The function of the caller may do anything but stay in another namespace.\<close>

definition returns_outside :: "('s \<Rightarrow> pod_net) \<Rightarrow> ('s, 'a) io \<Rightarrow> bool" where
  "returns_outside v m \<longleftrightarrow> triple (\<lambda>s. \<not> pn_inside (v s)) m (\<lambda>_ s. \<not> pn_inside (v s)) (\<lambda>_ s. \<not> pn_inside (v s)) (\<lambda>_. True)"

lemma configureNic_outside:
  assumes laws: "nic_laws env v" and f: "\<And>f x a r. configFunc = Some f \<Longrightarrow> returns_outside v (f x a r)"
  shows "returns_outside v (configureNic env podNetNS podNSPath ifName result configFunc ipamResult)"
proof -
  have "triple (\<lambda>s. \<not> pn_inside (v s)) (ns_Do (plug_NetNS env) podNetNS (assignNic env podNSPath ifName ipamResult result))
      (\<lambda>_ s. \<not> pn_inside (v s)) (\<lambda>_ s. \<not> pn_inside (v s)) (\<lambda>_. True)"
  proof (rule triple_ghost [where g = v])
    fix w :: pod_net assume "\<not> pn_inside w"
    then show "triple (\<lambda>s. v s = w)
        (ns_Do (plug_NetNS env) podNetNS (assignNic env podNSPath ifName ipamResult result))
        (\<lambda>_ s. \<not> pn_inside (v s)) (\<lambda>_ s. \<not> pn_inside (v s)) (\<lambda>_. True)"
      by (intro triple_conseq [OF stays_ns_Do [OF laws assignNic_stays [OF laws], of "pn_leased w"]]) auto
  qed
  then show ?thesis
    unfolding configureNic_def returns_outside_def
    using f [unfolded returns_outside_def] by (auto intro!: triple_rules)
qed

definition release_failed :: "error \<Rightarrow> bool" where
  "release_failed e \<longleftrightarrow> (\<exists>m e0. e = Wrap (''error occurred and failed to delete ip: '' @ m) e0)"

lemma WithIP_triple:
  assumes laws: "nic_laws env v" and f: "\<And>f r. configFunc = Some f \<Longrightarrow> returns_outside v (f r)"
  shows "triple (\<lambda>s. \<not> pn_inside (v s) \<and> \<not> pn_leased (v s)) (WithIP env wrapper configFunc)
    (\<lambda>_ s. \<not> pn_inside (v s)) (\<lambda>e s. \<not> pn_inside (v s) \<and> (\<not> pn_leased (v s) \<or> release_failed e)) (\<lambda>_. True)"
proof -
  let ?E = "\<lambda>e s. \<not> pn_inside (v s) \<and> (\<not> pn_leased (v s) \<or> release_failed e)"
  have add: "triple (\<lambda>s. \<not> pn_inside (v s) \<and> \<not> pn_leased (v s)) (plug_ExecAdd env t c) (\<lambda>_ s. \<not> pn_inside (v s)) ?E (\<lambda>_. True)" for t c
    by (rule triple_ghost [where g = v], rule triple_conseq [OF nic_lawsD(7) [OF laws]]) (auto simp: calm_def)
  have del: "triple (\<lambda>s. \<not> pn_inside (v s)) (DeleteIP env wrapper) (\<lambda>_ s. \<not> pn_inside (v s) \<and> \<not> pn_leased (v s))
      (\<lambda>_ s. \<not> pn_inside (v s)) (\<lambda>_. True)"
    unfolding DeleteIP_def
    by (rule triple_ghost [where g = v], rule triple_conseq [OF nic_lawsD(8) [OF laws]]) auto
  have body: "triple (\<lambda>s. \<not> pn_inside (v s)) (bindE (liftR r) (\<lambda>ipamResult. case configFunc of
        None \<Rightarrow> failE (ErrMsg ''configure function is nil'') | Some f \<Rightarrow> f ipamResult))
      (\<lambda>_ s. \<not> pn_inside (v s)) (\<lambda>_ s. \<not> pn_inside (v s)) (\<lambda>_. True)" for r
    by (rule triple_bind_lift, cases configFunc) (simp_all add: triple_fail f [unfolded returns_outside_def])
  show ?thesis
    unfolding WithIP_def
    by (rule triple_bind [OF add], rule triple_try [OF body], rule triple_ret, assumption, rule triple_try [OF del]; rule triple_fail)
      (auto simp: release_failed_def)
qed

text \<open>Some step of the recovery failed and its error is part of the result.\<close>

definition recovery_reported :: "error \<Rightarrow> bool" where
  "recovery_reported e \<longleftrightarrow> (\<exists>e1 e2. e = Joined e1 e2) \<or> release_failed e"

lemma triple_panic: "triple P (liftR Panic) Q E (\<lambda>_. True)"
  by (simp add: triple_def liftR_def)

lemma WithWireGuardNic_triple:
  fixes containerID :: string
  defines "main \<equiv> ''wg'' @ take 8 containerID"
  assumes laws: "nic_laws env v" and f: "\<And>f x a r. configFunc = Some f \<Longrightarrow> returns_outside v (f x a r)"
  shows "triple (\<lambda>s. \<not> pn_inside (v s) \<and> \<not> pn_leased (v s) \<and> links_gone main ifName (v s))
    (WithWireGuardNic env containerID podNSPath ifName ipWrapper result configFunc) (\<lambda>_ _. True)
    (\<lambda>e s. recovery_reported e \<or> \<not> pn_leased (v s) \<and> links_gone main ifName (v s)) (\<lambda>_. True)"
proof -
  let ?E = "\<lambda>e s. recovery_reported e \<or> \<not> pn_leased (v s) \<and> links_gone main ifName (v s)"
  let ?body = "\<lambda>x. bindE (createNic env x main ifName)
    (\<lambda>_. WithIP env ipWrapper (Some (configureNic env x podNSPath ifName result configFunc)))"
  have body: "triple (\<lambda>s. \<not> pn_inside (v s) \<and> \<not> pn_leased (v s)) (?body x) (\<lambda>_ _. True)
      (\<lambda>e s. \<not> pn_inside (v s) \<and> (\<not> pn_leased (v s) \<or> release_failed e)) (\<lambda>_. True)" for x
  proof (rule triple_bind [where R = "\<lambda>_ s. \<not> pn_inside (v s) \<and> \<not> pn_leased (v s)"])
    show "triple (\<lambda>s. \<not> pn_inside (v s) \<and> \<not> pn_leased (v s)) (createNic env x main ifName) (\<lambda>_ s. \<not> pn_inside (v s) \<and> \<not> pn_leased (v s))
        (\<lambda>e s. \<not> pn_inside (v s) \<and> (\<not> pn_leased (v s) \<or> release_failed e)) (\<lambda>_. True)"
      by (rule triple_conseq [OF createNic_triple [OF laws, of False]]) simp_all
    have out: "returns_outside v (configureNic env x podNSPath ifName result configFunc r)" for r
      by (rule configureNic_outside [OF laws]) (rule f)
    show "triple (\<lambda>s. \<not> pn_inside (v s) \<and> \<not> pn_leased (v s))
        (WithIP env ipWrapper (Some (configureNic env x podNSPath ifName result configFunc))) (\<lambda>_ _. True)
        (\<lambda>e s. \<not> pn_inside (v s) \<and> (\<not> pn_leased (v s) \<or> release_failed e)) (\<lambda>_. True)" for a :: unit
      by (rule triple_conseq [OF WithIP_triple [OF laws]]) (use out in simp_all)
  qed
  have recover: "triple (\<lambda>s. \<not> pn_inside (v s) \<and> (\<not> pn_leased (v s) \<or> release_failed e)) (recoverNic env x main ifName e)
      (\<lambda>_ _. True) ?E (\<lambda>_. True)" for x e
  proof (rule triple_ghost [where g = v])
    fix w :: pod_net assume "\<not> pn_inside w \<and> (\<not> pn_leased w \<or> release_failed e)"
    then show "triple (\<lambda>s. v s = w) (recoverNic env x main ifName e) (\<lambda>_ _. True) ?E (\<lambda>_. True)"
      by (intro triple_conseq [OF recoverNic_triple [OF laws, of "pn_leased w"]]) (auto simp: recovery_reported_def)
  qed
  let ?P = "\<lambda>s. \<not> pn_inside (v s) \<and> \<not> pn_leased (v s) \<and> links_gone main ifName (v s)"
  have look: "triple ?P (ns_Do (plug_NetNS env) x (lookupLink (plug_Netlink env) msg ifName))
      (\<lambda>r s. ?P s \<and> r = None) ?E (\<lambda>_. True)" for x msg
  proof (rule triple_ghost [where g = v])
    fix w :: pod_net assume w: "\<not> pn_inside w \<and> \<not> pn_leased w \<and> links_gone main ifName w"
    show "triple (\<lambda>s. v s = w) (ns_Do (plug_NetNS env) x (lookupLink (plug_Netlink env) msg ifName)) (\<lambda>r s. ?P s \<and> r = None) ?E (\<lambda>_. True)"
    proof (rule triple_ns_Do [where R = "\<lambda>s. v s = w\<lparr>pn_inside := True\<rparr>"])
      show "triple (\<lambda>s. v s = w) (ns_Enter (plug_NetNS env) x) (\<lambda>_ s. v s = w\<lparr>pn_inside := True\<rparr>) ?E (\<lambda>_. True)"
        by (rule triple_conseq [OF nic_lawsD(3) [OF laws]]) (use w in auto)
      show "triple (\<lambda>s. v s = w\<lparr>pn_inside := True\<rparr>) (lookupLink (plug_Netlink env) msg ifName)
          (\<lambda>r s. ?P (ns_Leave (plug_NetNS env) x s) \<and> r = None) (\<lambda>e s. ?E e (ns_Leave (plug_NetNS env) x s)) (\<lambda>_. True)"
        unfolding lookupLink_def
        by (rule triple_try [OF nic_lawsD(1) [OF laws]])
          (use w in \<open>auto intro!: triple_rules simp: nic_lawsD(4) [OF laws] links_gone_def link_names_def\<close>)
    qed
  qed
  have close: "?E e (ignoring (ns_Close (plug_NetNS env) x) s) = ?E e s" for e x s
    by (simp add: ignoring_def nic_lawsD(6) [OF laws])
  have tried: "triple ?P (tryE (?body x) retE (recoverNic env x main ifName)) (\<lambda>_ _. True) ?E (\<lambda>_. True)" for x
  proof (rule triple_try)
    show "triple ?P (?body x) (\<lambda>_ _. True) (\<lambda>e s. \<not> pn_inside (v s) \<and> (\<not> pn_leased (v s) \<or> release_failed e)) (\<lambda>_. True)"
      by (rule triple_conseq [OF body]) simp_all
  qed (simp add: triple_ret, rule recover)
  have inner: "triple (\<lambda>s. ?P s \<and> r = None) (let withIP = WithIP env ipWrapper (Some (configureNic env x podNSPath ifName result configFunc)) in
        if r \<noteq> None then withIP else if length containerID < 8 then liftR Panic
        else let wgNameInMain = ''wg'' @ take 8 containerID in
          tryE (bindE (createNic env x wgNameInMain ifName) (\<lambda>_. withIP)) retE (recoverNic env x wgNameInMain ifName))
      (\<lambda>_ _. True) ?E (\<lambda>_. True)" for x :: netns and r :: "nl_link option"
    unfolding Let_def main_def [symmetric]
    by (rule triple_pure) (simp add: tried triple_panic)
  show ?thesis
    unfolding WithWireGuardNic_def GetNSByPath_def
  proof (rule triple_bind)
    show "triple ?P (ns_GetNS (plug_NetNS env) podNSPath) (\<lambda>_. ?P) ?E (\<lambda>_. True)"
      by (rule triple_ghost [where g = v], rule triple_conseq [OF nic_lawsD(5) [OF laws]]) auto
  qed (rule triple_fin, unfold close, rule triple_bind [OF look inner])
qed

section \<open>The routing table of a pod\<close>

text \<open>
  A routing table maps the number of a table and the text of a destination to a route. The table 0 of a
  request is the main table, and a route without destination is the default route of its family.
\<close>

type_synonym fib = "int \<times> string \<rightharpoonup> nl_route"

definition mainTable :: int where "mainTable = 254"

definition route_key :: "nl_route \<Rightarrow> int \<times> string" where
  "route_key r = (if rt_Table r = 0 then mainTable else rt_Table r,
     case rt_Dst r of Some d \<Rightarrow> IPNet_String d | None \<Rightarrow> if rt_Family r = FAMILY_V6 then ''::/0'' else ''0.0.0.0/0'')"

definition on_link :: "nl_link \<Rightarrow> nl_route option \<Rightarrow> bool" where
  "on_link l r \<longleftrightarrow> (case r of None \<Rightarrow> False | Some x \<Rightarrow> rt_LinkIndex x = lk_Index l)"

text \<open>
  The documented behaviour of the calls that succeed: \<open>RouteReplace\<close> sets the route of its destination, \<open>RouteDel\<close> removes it,
  \<open>RouteList\<close> lists the routes of a link in the main table, and the other calls leave the tables alone.
\<close>

definition fib_laws :: "'s plugin_env \<Rightarrow> nl_link \<Rightarrow> string \<Rightarrow> nl_link \<Rightarrow> ('s \<Rightarrow> fib) \<Rightarrow> bool" where
  "fib_laws env eth0 ifName wg fib \<longleftrightarrow> (let nl = plug_Netlink env in
     (\<forall>s l s'. LinkByName nl ''eth0'' s = (Ok l, s') \<longrightarrow> l = eth0 \<and> fib s' = fib s) \<and>
     (\<forall>s l s'. LinkByName nl ifName s = (Ok l, s') \<longrightarrow> l = wg \<and> fib s' = fib s) \<and>
     (\<forall>s rs s'. RouteList nl (Some eth0) FAMILY_ALL s = (Ok rs, s') \<longrightarrow> fib s' = fib s \<and>
       set rs = {r. \<exists>k. fib s (mainTable, k) = Some r \<and> route_key r = (mainTable, k) \<and> rt_LinkIndex r = lk_Index eth0}) \<and>
     (\<forall>k r s. fib s k = Some r \<longrightarrow> route_key r = k) \<and>
     (\<forall>r s u s'. RouteReplace nl r s = (Ok u, s') \<longrightarrow> fib s' = (fib s)(route_key r \<mapsto> r)) \<and>
     (\<forall>r s u s'. RouteDel nl r s = (Ok u, s') \<longrightarrow> fib s' = (fib s)(route_key r := None)) \<and>
     (\<forall>r s u s'. RuleAdd nl r s = (Ok u, s') \<longrightarrow> fib s' = fib s) \<and>
     (\<forall>s u s'. plug_NewIPTables env s = (Ok u, s') \<longrightarrow> fib s' = fib s) \<and>
     (\<forall>t c rule s u s'. plug_AppendUnique env t c rule s = (Ok u, s') \<longrightarrow> fib s' = fib s) \<and>
     (\<forall>p c s u s'. plug_WriteFile env p c s = (Ok u, s') \<longrightarrow> fib s' = fib s))"

lemmas fib_laws_first = fib_laws_def [unfolded Let_def, THEN iffD1]

lemmas fib_laws_rest = fib_laws_first [THEN conjunct2, THEN conjunct2, THEN conjunct2, THEN conjunct2, THEN conjunct2]

lemmas fib_lawsD =
  fib_laws_first [THEN conjunct1, rule_format]
  fib_laws_first [THEN conjunct2, THEN conjunct1, rule_format]
  fib_laws_first [THEN conjunct2, THEN conjunct2, THEN conjunct1, rule_format]
  fib_laws_first [THEN conjunct2, THEN conjunct2, THEN conjunct2, THEN conjunct1, rule_format]
  fib_laws_first [THEN conjunct2, THEN conjunct2, THEN conjunct2, THEN conjunct2, THEN conjunct1, rule_format]
  fib_laws_rest [THEN conjunct1, rule_format]
  fib_laws_rest [THEN conjunct2, THEN conjunct1, rule_format]
  fib_laws_rest [THEN conjunct2, THEN conjunct2, THEN conjunct1, rule_format]
  fib_laws_rest [THEN conjunct2, THEN conjunct2, THEN conjunct2, THEN conjunct1, rule_format]
  fib_laws_rest [THEN conjunct2, THEN conjunct2, THEN conjunct2, THEN conjunct2, rule_format]

text \<open>
  The table that a pod should have. Replies to traffic that came in through eth0 use a table of their own with the
  original default route. In the main table the excepted destinations go the other way, and in
  gateway mode all routes of eth0 are gone but the one to its gateway, and the default is the tunnel.
\<close>

definition exception_nets :: "string list \<Rightarrow> ipnet list" where
  "exception_nets cs = concat (map (\<lambda>c. case net_ParseCIDR c of Ok (_, n) \<Rightarrow> [n] | _ \<Rightarrow> []) cs)"

definition tunnelDefault :: "nl_link \<Rightarrow> nl_route" where
  "tunnelDefault wg = (wgRouteTmpl wg)\<lparr>rt_Dst := Some \<lparr>in_IP = [0, 0, 0, 0], in_Mask = [0, 0, 0, 0]\<rparr>\<rparr>"

definition gatewayHop :: "nl_link \<Rightarrow> nl_route \<Rightarrow> nl_route" where
  "gatewayHop eth0 dflt = new_route\<lparr>rt_Dst := Some (gatewayDestination dflt), rt_LinkIndex := lk_Index eth0, rt_Scope := SCOPE_LINK\<rparr>"

definition pod_table :: "bool \<Rightarrow> nl_link \<Rightarrow> nl_link \<Rightarrow> nl_route \<Rightarrow> ipnet list \<Rightarrow> fib \<Rightarrow> fib" where
  "pod_table gw eth0 wg dflt nets m = (\<lambda>(t, k).
     if (t, k) = (Eth0Mark, ''0.0.0.0/0'') then Some (dflt\<lparr>rt_Table := Eth0Mark\<rparr>)
     else if t \<noteq> mainTable then m (t, k)
     else case find (\<lambda>n. IPNet_String n = k) (rev nets) of
         Some n \<Rightarrow> Some ((if gw then eth0RouteTmpl dflt eth0 else wgRouteTmpl wg)\<lparr>rt_Dst := Some n\<rparr>)
       | None \<Rightarrow>
           if \<not> gw then m (t, k)
           else if k = ''0.0.0.0/0'' then Some (tunnelDefault wg)
           else if k = IPNet_String (gatewayDestination dflt) then Some (gatewayHop eth0 dflt)
           else if on_link eth0 (m (t, k)) then None else m (t, k))"

lemma default_cidr: "defaultRouteCidr = Ok \<lparr>in_IP = [0, 0, 0, 0], in_Mask = [0, 0, 0, 0]\<rparr>"
  by code_simp

lemma default_text: "IPNet_String \<lparr>in_IP = [0, 0, 0, 0], in_Mask = [0, 0, 0, 0]\<rparr> = ''0.0.0.0/0''"
  by code_simp

lemma route_key_Dst: "route_key (r\<lparr>rt_Dst := Some d\<rparr>) = (if rt_Table r = 0 then mainTable else rt_Table r, IPNet_String d)"
  by (simp add: route_key_def)

lemma tmpl_tables [simp]:
  "rt_Table (eth0RouteTmpl dflt eth0) = 0" "rt_Table (wgRouteTmpl wg) = 0" "rt_Table new_route = 0"
  by (simp_all add: eth0RouteTmpl_def wgRouteTmpl_def new_route_def)

lemma deleteRoutes_fib:
  assumes laws: "fib_laws env eth0 ifName wg fib"
  shows "foldE (\<lambda>_ route. wrapE msg (RouteDel (plug_Netlink env) route)) () rs s = (Ok u, s') \<Longrightarrow>
    fib s' = (\<lambda>k. if k \<in> route_key ` set rs then None else fib s k)"
proof (induction rs arbitrary: s)
  case (Cons r rs)
  then obtain s1 where "RouteDel (plug_Netlink env) r s = (Ok (), s1)"
    and "foldE (\<lambda>_ route. wrapE msg (RouteDel (plug_Netlink env) route)) () rs s1 = (Ok u, s')"
    by (auto simp: bindE_Ok_iff wrapE_Ok_iff)
  with Cons.IH [of s1] fib_lawsD(6) [OF laws] show ?case by fastforce
qed simp

text \<open>The loop over the exceptions sets the routes of their networks, the last one winning.\<close>

lemma addExceptions_fib:
  assumes laws: "fib_laws env eth0 ifName wg fib" and tbl: "rt_Table tmpl = 0"
  shows "foldE (addException (plug_Netlink env) tmpl gwIP) result cs s = (Ok result', s') \<Longrightarrow>
    fib s' = (\<lambda>(t, k). case find (\<lambda>n. t = mainTable \<and> IPNet_String n = k) (rev (exception_nets cs)) of
        Some n \<Rightarrow> Some (tmpl\<lparr>rt_Dst := Some n\<rparr>) | None \<Rightarrow> fib s (t, k)) \<and>
    result' = result\<lparr>cres_Routes := cres_Routes result @ map (\<lambda>n. \<lparr>cr_Dst = n, cr_GW = gwIP\<rparr>) (exception_nets cs)\<rparr>"
proof (induction cs arbitrary: s result)
  case (Cons c cs)
  then obtain r1 s1 where add: "addException (plug_Netlink env) tmpl gwIP result c s = (Ok r1, s1)"
    and rest: "foldE (addException (plug_Netlink env) tmpl gwIP) r1 cs s1 = (Ok result', s')"
    by (auto simp: bindE_Ok_iff)
  from add obtain i n where parse: "net_ParseCIDR c = Ok (i, n)"
    and rep: "RouteReplace (plug_Netlink env) (tmpl\<lparr>rt_Dst := Some n\<rparr>) s = (Ok (), s1)"
    and r1: "r1 = result\<lparr>cres_Routes := cres_Routes result @ [\<lparr>cr_Dst = n, cr_GW = gwIP\<rparr>]\<rparr>"
    by (auto simp: addException_def bindE_Ok_iff wrapE_Ok_iff)
  have "fib s1 = (fib s)((mainTable, IPNet_String n) \<mapsto> tmpl\<lparr>rt_Dst := Some n\<rparr>)"
    using fib_lawsD(5) [OF laws rep] tbl by (simp add: route_key_Dst)
  moreover have "exception_nets (c # cs) = n # exception_nets cs" by (simp add: exception_nets_def parse)
  ultimately show ?case
    using Cons.IH [OF rest] by (auto simp: r1)
      (auto simp: fun_eq_iff find_append_None find_append_Some split: option.splits)
qed (auto simp: exception_nets_def)

lemma replaceDefault_fib:
  assumes laws: "fib_laws env eth0 ifName wg fib"
    and run: "replaceDefault (plug_Netlink env) eth0 wg rs dflt result s = (Ok result', s')"
  shows "fib s' = (\<lambda>k. if k \<in> route_key ` set rs then None else fib s k)
      ((mainTable, IPNet_String (gatewayDestination dflt)) \<mapsto> gatewayHop eth0 dflt, (mainTable, ''0.0.0.0/0'') \<mapsto> tunnelDefault wg)"
    and "cres_Routes result' = [\<lparr>cr_Dst = gatewayDestination dflt, cr_GW = []\<rparr>,
      \<lparr>cr_Dst = \<lparr>in_IP = [0, 0, 0, 0], in_Mask = [0, 0, 0, 0]\<rparr>, cr_GW = ParseIP ''fe80::1''\<rparr>]"
proof -
  obtain s1 s2 where del: "foldE (\<lambda>_ route. wrapE ''failed to delete route'' (RouteDel (plug_Netlink env) route)) () rs s = (Ok (), s1)"
    and hop: "RouteReplace (plug_Netlink env) (gatewayHop eth0 dflt) s1 = (Ok (), s2)"
    and def: "RouteReplace (plug_Netlink env) (tunnelDefault wg) s2 = (Ok (), s')"
    and res: "result' = result\<lparr>cres_Routes := [\<lparr>cr_Dst = gatewayDestination dflt, cr_GW = []\<rparr>,
      \<lparr>cr_Dst = \<lparr>in_IP = [0, 0, 0, 0], in_Mask = [0, 0, 0, 0]\<rparr>, cr_GW = ParseIP ''fe80::1''\<rparr>]\<rparr>"
    using run unfolding replaceDefault_def Let_def bindE_Ok_iff default_cidr
    by (auto simp: bindE_Ok_iff wrapE_Ok_iff gatewayHop_def tunnelDefault_def)
  have keys: "route_key (gatewayHop eth0 dflt) = (mainTable, IPNet_String (gatewayDestination dflt))"
    "route_key (tunnelDefault wg) = (mainTable, ''0.0.0.0/0'')"
    by (simp_all add: gatewayHop_def tunnelDefault_def route_key_Dst default_text) (simp add: route_key_def new_route_def)
  show "fib s' = (\<lambda>k. if k \<in> route_key ` set rs then None else fib s k)
      ((mainTable, IPNet_String (gatewayDestination dflt)) \<mapsto> gatewayHop eth0 dflt, (mainTable, ''0.0.0.0/0'') \<mapsto> tunnelDefault wg)"
    by (simp only: fib_lawsD(5) [OF laws def] fib_lawsD(5) [OF laws hop] deleteRoutes_fib [OF laws del] keys)
  show "cres_Routes result' = [\<lparr>cr_Dst = gatewayDestination dflt, cr_GW = []\<rparr>,
      \<lparr>cr_Dst = \<lparr>in_IP = [0, 0, 0, 0], in_Mask = [0, 0, 0, 0]\<rparr>, cr_GW = ParseIP ''fe80::1''\<rparr>]"
    by (simp add: res)
qed

lemma addRoutingForIngress_fib:
  assumes laws: "fib_laws env eth0 ifName wg fib" and run: "addRoutingForIngress env dflt dir s = (Ok u, s')"
  shows "fib s' = (fib s)(route_key (dflt\<lparr>rt_Table := Eth0Mark\<rparr>) \<mapsto> dflt\<lparr>rt_Table := Eth0Mark\<rparr>)"
  using run unfolding addRoutingForIngress_def Let_def bindE_Ok_iff wrapE_Ok_iff
  by (elim exE conjE) (simp only: fib_lawsD [OF laws])

definition default_key :: "int \<times> string" where
  "default_key = (mainTable, ''0.0.0.0/0'')"

lemma findDefaultRoute_key:
  assumes "findDefaultRoute rs = Some dflt" and "\<And>r. r \<in> set rs \<Longrightarrow> fst (route_key r) = mainTable"
  shows "dflt \<in> set rs \<and> route_key dflt = default_key \<and> route_key (dflt\<lparr>rt_Table := Eth0Mark\<rparr>) = (Eth0Mark, ''0.0.0.0/0'')"
proof -
  from assms(1) have "dflt \<in> set rs" "isDefaultRoute dflt"
    by (auto simp: findDefaultRoute_def dest: find_SomeD)
  with assms(2) show ?thesis
    by (auto simp: isDefaultRoute_def route_key_def default_key_def Eth0Mark_def split: option.splits)
qed

lemma find_never: "find (\<lambda>_. False) xs = None"
  by (induction xs) auto

lemma tables_agree:
  assumes exc: "m5 = (\<lambda>(t, k). case find (\<lambda>n. t = mainTable \<and> IPNet_String n = k) (rev nets) of
      Some n \<Rightarrow> Some ((if gw then eth0RouteTmpl dflt eth0 else wgRouteTmpl wg)\<lparr>rt_Dst := Some n\<rparr>) | None \<Rightarrow> m4 (t, k))"
    and base: "m4 = (if gw then (\<lambda>k. if k \<in> K then None else m k)
      ((mainTable, IPNet_String (gatewayDestination dflt)) \<mapsto> gatewayHop eth0 dflt, (mainTable, ''0.0.0.0/0'') \<mapsto> tunnelDefault wg) else m)"
    and K: "\<And>k. k \<in> K \<longleftrightarrow> fst k = mainTable \<and> on_link eth0 (m k)"
  shows "m5((Eth0Mark, ''0.0.0.0/0'') \<mapsto> dflt\<lparr>rt_Table := Eth0Mark\<rparr>) = pod_table gw eth0 wg dflt nets m"
proof (rule ext)
  fix x :: "int \<times> string"
  obtain t k where x: "x = (t, k)" by (cases x)
  have mark: "mainTable \<noteq> Eth0Mark" by (simp add: mainTable_def Eth0Mark_def)
  have other: "(t, k) \<noteq> (Eth0Mark, ''0.0.0.0/0'') \<Longrightarrow> m5 (t, k) = pod_table gw eth0 wg dflt nets m (t, k)"
    by (cases "t = mainTable"; cases gw; cases "find (\<lambda>n. IPNet_String n = k) (rev nets)")
      (auto simp: exc base K pod_table_def find_never mark)
  show "(m5((Eth0Mark, ''0.0.0.0/0'') \<mapsto> dflt\<lparr>rt_Table := Eth0Mark\<rparr>)) x = pod_table gw eth0 wg dflt nets m x"
  proof (cases "x = (Eth0Mark, ''0.0.0.0/0'')")
    case False
    have "m5 x = pod_table gw eth0 wg dflt nets m x" unfolding x by (rule other [OF False [unfolded x]])
    with fun_upd_other [OF False] show ?thesis by (rule trans)
  qed (simp add: pod_table_def)
qed

text \<open>A run that succeeds makes the table of the pod the one that \<open>pod_table\<close> specifies, and reports its routes.\<close>

lemma SetPodRoutes_fib:
  assumes laws: "fib_laws env eth0 ifName wg fib"
    and run: "SetPodRoutes env ifName nic excl dir result s = (Ok result', s')"
  defines "gw \<equiv> nar_DefaultRoute nic = DEFAULT_ROUTE_STATIC_EGRESS_GATEWAY"
    and "nets \<equiv> exception_nets (nar_ExceptionCidrs nic @ (if nar_DefaultRoute nic = DEFAULT_ROUTE_STATIC_EGRESS_GATEWAY then excl else []))"
  shows "\<exists>dflt. fib s default_key = Some dflt \<and> rt_LinkIndex dflt = lk_Index eth0 \<and> fib s' = pod_table gw eth0 wg dflt nets (fib s) \<and>
    cres_Routes result' = (if gw then [\<lparr>cr_Dst = gatewayDestination dflt, cr_GW = []\<rparr>,
        \<lparr>cr_Dst = \<lparr>in_IP = [0, 0, 0, 0], in_Mask = [0, 0, 0, 0]\<rparr>, cr_GW = ParseIP ''fe80::1''\<rparr>] else cres_Routes result) @
      map (\<lambda>n. \<lparr>cr_Dst = n, cr_GW = if gw then rt_Gw dflt else ParseIP ''fe80::1''\<rparr>) nets"
proof -
  define cs where "cs = nar_ExceptionCidrs nic @ (if gw then excl else [])"
  have nets: "nets = exception_nets cs" by (simp add: nets_def cs_def gw_def)
  obtain l w rs s1 s2 s3 where eth: "LinkByName (plug_Netlink env) ''eth0'' s = (Ok l, s1)"
    and wgl: "LinkByName (plug_Netlink env) ifName s1 = (Ok w, s2)"
    and lst: "RouteList (plug_Netlink env) (Some l) FAMILY_ALL s2 = (Ok rs, s3)"
    and rest: "(case findDefaultRoute rs of None \<Rightarrow> failE (ErrMsg ''failed to find default route'')
      | Some defaultRoute \<Rightarrow>
         bindE (if gw then replaceDefault (plug_Netlink env) l w rs defaultRoute result else retE result) (\<lambda>result1.
         bindE (foldE (addException (plug_Netlink env) (if gw then eth0RouteTmpl defaultRoute l else wgRouteTmpl w)
             (if gw then rt_Gw defaultRoute else ParseIP ''fe80::1'')) result1 cs) (\<lambda>result2.
         bindE (addRoutingForIngress env defaultRoute dir) (\<lambda>_. retE result2)))) s3 = (Ok result', s')"
    using run unfolding SetPodRoutes_def Let_def bindE_Ok_iff wrapE_Ok_iff gw_def [symmetric] cs_def [symmetric] by blast
  have l: "l = eth0" and f1: "fib s1 = fib s" using fib_lawsD(1) [OF laws eth] by simp_all
  have w: "w = wg" and f2: "fib s2 = fib s" using fib_lawsD(2) [OF laws wgl] f1 by simp_all
  have rs: "set rs = {r. \<exists>k. fib s (mainTable, k) = Some r \<and> route_key r = (mainTable, k) \<and> rt_LinkIndex r = lk_Index eth0}"
    and f3: "fib s3 = fib s" using fib_lawsD(3) [OF laws lst [unfolded l]] f2 by simp_all
  obtain dflt where dflt: "findDefaultRoute rs = Some dflt" using rest by (cases "findDefaultRoute rs") auto
  have key: "dflt \<in> set rs" "route_key dflt = default_key" "route_key (dflt\<lparr>rt_Table := Eth0Mark\<rparr>) = (Eth0Mark, ''0.0.0.0/0'')"
    using findDefaultRoute_key [OF dflt] rs by fastforce+
  from rest obtain r1 s4 r2 s5 where rep: "(if gw then replaceDefault (plug_Netlink env) eth0 wg rs dflt result else retE result) s3 = (Ok r1, s4)"
    and exc: "foldE (addException (plug_Netlink env) (if gw then eth0RouteTmpl dflt eth0 else wgRouteTmpl wg)
             (if gw then rt_Gw dflt else ParseIP ''fe80::1'')) r1 cs s4 = (Ok r2, s5)"
    and ing: "addRoutingForIngress env dflt dir s5 = (Ok (), s')" and r2: "result' = r2"
    unfolding dflt l w option.case bindE_Ok_iff by auto
  have inrs: "k \<in> route_key ` set rs \<longleftrightarrow> fst k = mainTable \<and> on_link eth0 (fib s k)" for k
    unfolding rs on_link_def using fib_lawsD(4) [OF laws]
    by (cases k) (fastforce split: option.splits simp: image_iff)
  have tbl: "rt_Table (if gw then eth0RouteTmpl dflt eth0 else wgRouteTmpl wg) = 0" by simp
  note exc' = addExceptions_fib [OF laws tbl exc]
  have base: "fib s4 = (if gw then (\<lambda>k. if k \<in> route_key ` set rs then None else fib s k)
      ((mainTable, IPNet_String (gatewayDestination dflt)) \<mapsto> gatewayHop eth0 dflt, (mainTable, ''0.0.0.0/0'') \<mapsto> tunnelDefault wg)
      else fib s)"
    using rep replaceDefault_fib(1) [OF laws, of rs dflt result s3 r1 s4, unfolded f3] f3 by (cases gw) simp_all
  have table: "fib s' = (fib s5)((Eth0Mark, ''0.0.0.0/0'') \<mapsto> dflt\<lparr>rt_Table := Eth0Mark\<rparr>)"
    using addRoutingForIngress_fib [OF laws ing] by (simp add: key(3))
  have "fib s' = pod_table gw eth0 wg dflt nets (fib s)"
    unfolding table by (rule tables_agree [OF _ base inrs]) (simp add: exc' nets)
  moreover have "cres_Routes result' = (if gw then [\<lparr>cr_Dst = gatewayDestination dflt, cr_GW = []\<rparr>,
        \<lparr>cr_Dst = \<lparr>in_IP = [0, 0, 0, 0], in_Mask = [0, 0, 0, 0]\<rparr>, cr_GW = ParseIP ''fe80::1''\<rparr>] else cres_Routes result) @
      map (\<lambda>n. \<lparr>cr_Dst = n, cr_GW = if gw then rt_Gw dflt else ParseIP ''fe80::1''\<rparr>) nets"
    using exc' rep replaceDefault_fib(2) [OF laws, of rs dflt result s3 r1 s4] by (auto simp: r2 nets)
  moreover have "fib s default_key = Some dflt" "rt_LinkIndex dflt = lk_Index eth0"
    using key rs by (auto simp: default_key_def)
  ultimately show ?thesis by blast
qed

section \<open>Texts of addresses\<close>

text \<open>
  The far end of the tunnel, evaluated once. The constant \<open>GatewayIP\<close> is a prefix, and \<open>net.ParseIP\<close> reads no prefixes.
\<close>

lemma hex_digits:
  "hex_value (CHR ''f'') = Some 15" "hex_value (CHR ''e'') = Some 14" "hex_value (CHR ''8'') = Some 8"
  "hex_value (CHR ''0'') = Some 0" "hex_value (CHR ''1'') = Some 1" "hex_value (CHR '':'') = None" "hex_value (CHR ''/'') = None"
  by code_simp+

lemma ipv6_fe80: "ipv6_groups (Suc (Suc fuel)) 0 None [] ''fe80::1'' = Some (4, Some 2, [254, 128, 0, 1])"
proof -
  have "hex_run ''fe80::1'' = ''fe80''" "hex_run ''1'' = ''1''" by (simp_all add: hex_run_def hex_digits)
  moreover have "hex_number ''fe80'' = 65152" "hex_number ''1'' = 1" by (simp_all add: hex_number_def hex_digits)
  ultimately show ?thesis by (simp add: HasPrefix_def Let_def)
qed

lemma parse_fe80 [code_unfold]: "ParseIP ''fe80::1'' = [254, 128, 0, 0, 0, 0, 0, 0, 0, 0, 0, 0, 0, 0, 0, 1]"
proof -
  have "parseIPv6 ''fe80::1'' = Some (take 2 [254, 128, 0, 1] @ replicate 12 0 @ drop 2 [254, 128, 0, 1])"
    using ipv6_fe80 [of 7] by (simp add: parseIPv6_def HasPrefix_def Let_def)
  then have "ParseAddr ''fe80::1'' = Some (take 2 [254, 128, 0, 1] @ replicate 12 0 @ drop 2 [254, 128, 0, 1])"
    by (simp add: ParseAddr_def)
  moreover have "replicate 12 (0::nat) = [0, 0, 0, 0, 0, 0, 0, 0, 0, 0, 0, 0]" by code_simp
  ultimately show ?thesis by (simp add: ParseIP_def To16_def)
qed
lemma parse_fe80_64: "ParseIP ''fe80::1/64'' = []"
proof -
  have "hex_run ''fe80::1/64'' = ''fe80''" "hex_run ''1/64'' = ''1''" by (simp_all add: hex_run_def hex_digits)
  moreover have "hex_number ''fe80'' = 65152" "hex_number ''1'' = 1" by (simp_all add: hex_number_def hex_digits)
  ultimately have "ipv6_groups (Suc (Suc fuel)) 0 None [] ''fe80::1/64'' = None" for fuel by (simp add: HasPrefix_def Let_def)
  from this [of 7] have "ipv6_groups 9 0 None [] ''fe80::1/64'' = None" by simp
  then show ?thesis by (simp add: ParseIP_def ParseAddr_def parseIPv6_def HasPrefix_def Let_def)
qed

lemma parse_GatewayIP [code_unfold]: "ParseIP GatewayIP = []"
  by (simp add: GatewayIP_def parse_fe80_64)

text \<open>The text of an IPv4 address with a full mask reads back as the network of that address alone.\<close>

lemma string4_chars:
  assumes "length b = 4"
  obtains a rest where "string4 b = nat_str a @ CHR ''.'' # rest" "set (string4 b) \<subseteq> insert (CHR ''.'') {c. is_digit c}"
proof -
  obtain b0 b1 b2 b3 where b: "b = [b0, b1, b2, b3]"
    using assms by (auto simp: length_Suc_conv numeral_eq_Suc)
  have "string4 b = nat_str b0 @ CHR ''.'' # (nat_str b1 @ ''.'' @ nat_str b2 @ ''.'' @ nat_str b3)"
    by (simp add: b string4_def Join_Cons)
  moreover from this have "set (string4 b) \<subseteq> insert (CHR ''.'') {c. is_digit c}"
    using nat_str_digits by auto
  ultimately show thesis using that by blast
qed

lemma digit_not_sign: "is_digit c \<Longrightarrow> c \<noteq> CHR ''/'' \<and> c \<noteq> CHR ''.'' \<and> c \<noteq> CHR '':'' \<and> c \<noteq> CHR ''%''"
  by (auto simp: is_digit_def)

lemma ParseAddr_string4:
  assumes "length b = 4" and "\<forall>x\<in>set b. x \<le> 255"
  shows "ParseAddr (string4 b) = Some b"
proof -
  obtain a rest where s: "string4 b = nat_str a @ CHR ''.'' # rest" using string4_chars [OF assms(1)] .
  have "dropWhile (\<lambda>c. c \<noteq> CHR ''.'' \<and> c \<noteq> CHR '':'' \<and> c \<noteq> CHR ''%'') (string4 b) = CHR ''.'' # rest"
    unfolding s by (subst dropWhile_append2) (auto dest: nat_str_digits digit_not_sign)
  then show ?thesis using parseIPv4_string4 [OF assms] by (simp add: ParseAddr_def)
qed

lemma net_ParseCIDR_host:
  assumes "To4 i = Some b" and "\<forall>x\<in>set b. x \<le> 255"
  shows "net_ParseCIDR (IP_String i @ ''/32'') = Ok (v4InV6Prefix @ b, \<lparr>in_IP = b, in_Mask = [255, 255, 255, 255]\<rparr>)"
proof -
  have len: "length b = 4" and ne: "i \<noteq> []" using assms(1) by (auto simp: To4_def split: if_splits)
  have shown: "IP_String i = string4 b" using assms(1) ne by (simp add: IP_String_def)
  have chars: "set (string4 b) \<subseteq> insert (CHR ''.'') {c. is_digit c}" by (rule string4_chars [OF len])
  have slash: "CHR ''/'' \<notin> set (string4 b)"
    using subsetD [OF chars, of "CHR ''/''"] digit_not_sign [of "CHR ''/''"] by auto
  have tw: "takeWhile (\<lambda>c. c \<noteq> CHR ''/'') (string4 b @ ''/32'') = string4 b"
    using slash by (subst takeWhile_append2) auto
  have "ParseCIDR (string4 b @ ''/32'') = Some (b, 32)"
  proof -
    have "parse_digits 0 ''32'' = Some 32" by code_simp
    then show ?thesis by (simp add: ParseCIDR_def tw ParseAddr_string4 [OF len assms(2)] len)
  qed
  moreover have "mask_prefix 32 b = b"
    using len by (auto simp: mask_prefix_def length_Suc_conv numeral_eq_Suc)
  moreover have "CIDRMask 32 32 = [255, 255, 255, 255]" by code_simp
  ultimately show ?thesis using len by (simp add: net_ParseCIDR_def shown To16_def)
qed

end
