(* ===== verification/Plugin_World.thy ===== *)
theory Plugin_World
  imports Plugin_Proofs
begin

text \<open>
  A node with one pod, on which the CNI plugin runs: links of both namespaces by name, routes of the pod, and a lease of an
  address. It satisfies the laws of the kernel and of the delegate that the theorems assume.
\<close>

record pod_world =
  pw_inside :: bool
  pw_host :: "nl_link list"
  pw_pod :: "nl_link list"
  pw_leased :: bool
  pw_routes :: "nl_route list"

definition pw_links :: "pod_world \<Rightarrow> nl_link list" where
  "pw_links s = (if pw_inside s then pw_pod s else pw_host s)"

definition pw_set_links :: "nl_link list \<Rightarrow> pod_world \<Rightarrow> pod_world" where
  "pw_set_links ls s = (if pw_inside s then s\<lparr>pw_pod := ls\<rparr> else s\<lparr>pw_host := ls\<rparr>)"

definition pw_fib :: "pod_world \<Rightarrow> fib" where
  "pw_fib s = map_of (map (\<lambda>r. (route_key r, r)) (pw_routes s))"

definition pw_view :: "pod_world \<Rightarrow> pod_net" where
  "pw_view s = \<lparr>pn_inside = pw_inside s, pn_host = lk_Name ` set (pw_host s), pn_pod = lk_Name ` set (pw_pod s), pn_leased = pw_leased s\<rparr>"

definition pod_eth0 :: nl_link where
  "pod_eth0 = (NewLinkAttrs Device ''eth0'')\<lparr>lk_Index := 2\<rparr>"

definition pod_wg0 :: nl_link where
  "pod_wg0 = (NewLinkAttrs Wireguard ''wg0'')\<lparr>lk_Index := 3\<rparr>"

definition pod_addr :: nl_addr where
  "pod_addr = \<lparr>ad_IPNet = Some \<lparr>in_IP = [10, 1, 0, 7], in_Mask = [255, 255, 0, 0]\<rparr>, ad_Label = ''eth0'', ad_Scope = 0\<rparr>"

definition pod_addr6 :: nl_addr where
  "pod_addr6 = \<lparr>ad_IPNet = Some \<lparr>in_IP = 254 # 128 # replicate 13 0 @ [7], in_Mask = replicate 8 255 @ replicate 8 0\<rparr>,
     ad_Label = ''eth0'', ad_Scope = 253\<rparr>"

definition pod_nl :: "pod_world netlinkwrapper" where
  "pod_nl = \<lparr>LinkByName = \<lambda>n s. (case find (\<lambda>l. lk_Name l = n) (pw_links s) of Some l \<Rightarrow> Ok l | None \<Rightarrow> Err (LinkNotFound n), s),
     LinkAdd = \<lambda>l s. if lk_Name l \<in> lk_Name ` set (pw_links s) then (Err (ErrMsg ''file exists''), s)
       else (Ok (), pw_set_links (pw_links s @ [l]) s),
     LinkList = \<lambda>s. (Ok (pw_links s), s),
     LinkDel = \<lambda>l s. (Ok (), pw_set_links (filter (\<lambda>x. lk_Name x \<noteq> lk_Name l) (pw_links s)) s),
     LinkSetUp = \<lambda>_. retE (), LinkSetDown = \<lambda>_. retE (),
     LinkSetNsFd = \<lambda>l _ s. (Ok (), s\<lparr>pw_host := filter (\<lambda>x. lk_Name x \<noteq> lk_Name l) (pw_host s), pw_pod := pw_pod s @ [l]\<rparr>),
     LinkSetName = \<lambda>l n s. (Ok (), pw_set_links (map (\<lambda>x. if lk_Name x = lk_Name l then x\<lparr>lk_Name := n\<rparr> else x) (pw_links s)) s),
     LinkSetAlias = \<lambda>_ _. retE (),
     AddrList = \<lambda>_ f. retE (if f = FAMILY_V6 then [pod_addr6] else [pod_addr]), AddrAdd = \<lambda>_ _. retE (), AddrDel = \<lambda>_ _. retE (),
     AddrReplace = \<lambda>_ _. retE (),
     RouteReplace = \<lambda>r s. (Ok (), s\<lparr>pw_routes := r # filter (\<lambda>x. route_key x \<noteq> route_key r) (pw_routes s)\<rparr>),
     RouteDel = \<lambda>r s. (Ok (), s\<lparr>pw_routes := filter (\<lambda>x. route_key x \<noteq> route_key r) (pw_routes s)\<rparr>),
     RouteList = \<lambda>l _ s. (Ok (filter (\<lambda>r. pw_fib s (route_key r) = Some r \<and> fst (route_key r) = mainTable \<and>
       (case l of None \<Rightarrow> True | Some x \<Rightarrow> rt_LinkIndex r = lk_Index x)) (pw_routes s)), s),
     RuleAdd = \<lambda>_. retE (),
     nl_ParseIPNet = \<lambda>_. Err (ErrMsg ''invalid''), nl_Addr_Equal = (\<lambda>a b. a = b)\<rparr>"

definition pod_ns :: "pod_world netns_sys" where
  "pod_ns = \<lparr>ns_GetNS = \<lambda>p. retE \<lparr>ns_Path = p, ns_Fd = 7\<rparr>, ns_Enter = \<lambda>_ s. (Ok (), s\<lparr>pw_inside := True\<rparr>),
     ns_Leave = \<lambda>_ s. s\<lparr>pw_inside := False\<rparr>, ns_Close = \<lambda>_. retE (), ns_Set = \<lambda>_. retE (),
     sys_ThreadNetNSPath = \<lambda>_. '''', sys_MkdirAll = \<lambda>_. retE (), sys_CreateExclusive = \<lambda>_. retE (), sys_RemoveAll = \<lambda>_. retE (),
     sys_UnshareNet = retE (), sys_BindMount = \<lambda>_ _. retE (), sys_Unmount = \<lambda>_. retE (), sys_Remove = \<lambda>_. retE (),
     sys_Readdir = \<lambda>_. retE []\<rparr>"

definition pod_wg :: "pod_world wgctrlwrapper" where
  "pod_wg = \<lparr>wg_New = retE (), wg_Close = retE (), wg_Device = \<lambda>_. retE \<lparr>dev_PrivateKey = [], dev_ListenPort = 51820, dev_Peers = []\<rparr>,
     wg_ConfigureDevice = \<lambda>_ _. retE (), wg_ParseKey = \<lambda>t. Ok (map of_char t), wg_KeyString = map char_of\<rparr>"

definition pod_response :: NicAddResponse where
  "pod_response = \<lparr>nar_EndpointIp = ''10.2.0.4'', nar_ListenPort = 6000, nar_PublicKey = ''key'', nar_ExceptionCidrs = [''10.0.0.0/8''],
     nar_DefaultRoute = DEFAULT_ROUTE_STATIC_EGRESS_GATEWAY\<rparr>"

definition pod_config :: CNIConfig where
  "pod_config = \<lparr>cc_CNIVersion = ''1.0.0'', cc_IPAMType = ''kube-egress-cni-ipam'', cc_PrevResult = Some empty_result,
     cc_ExcludedCIDRs = [''192.168.0.0/16''], cc_SocketPath = ''localhost:50051''\<rparr>"

definition pod_lease :: cni_result where
  "pod_lease = ipamResultOf ''1.0.0'' \<lparr>in_IP = [10, 1, 0, 7], in_Mask = [255, 255, 0, 0]\<rparr>
     \<lparr>in_IP = 254 # 128 # replicate 13 0 @ [7], in_Mask = replicate 8 255 @ replicate 8 0\<rparr>"

definition pod_env :: "pod_world plugin_env" where
  "pod_env = \<lparr>plug_Netlink = pod_nl, plug_NetNS = pod_ns, plug_WgCtrl = pod_wg, plug_Unmarshal = \<lambda>_. Ok (Some pod_config),
     plug_ParsePrevResult = Ok,
     plug_LoadArgs = \<lambda>_. Ok \<lparr>K8S_POD_NAME = ''pod'', K8S_POD_NAMESPACE = ''ns'', K8S_POD_INFRA_CONTAINER_ID = ''''\<rparr>,
     plug_NewResultFromResult = (\<lambda>p. case p of None \<Rightarrow> Err (ErrMsg ''no result'') | Some r \<Rightarrow> Ok r),
     plug_ImplementedSpecVersion = ''1.0.0'', plug_PrintResult = \<lambda>_ _. retE (),
     plug_ExecAdd = \<lambda>_ _ s. (Ok pod_lease, s\<lparr>pw_leased := True\<rparr>), plug_ExecDel = \<lambda>_ _ s. (Ok (), s\<lparr>pw_leased := False\<rparr>),
     plug_ConfigureIface = \<lambda>_ _. retE (), plug_NewIPTables = retE (), plug_AppendUnique = \<lambda>_ _ _. retE (), plug_WriteFile = \<lambda>_ _. retE (),
     plug_Getenv = \<lambda>_. '''', plug_GeneratePrivateKey = retE [1], plug_PublicKey = id, plug_Dial = \<lambda>_. retE (), plug_CloseConn = retE (),
     plug_PodRetrieve = \<lambda>_. retE [CNIGatewayAnnotationKey \<mapsto> ''gw''], plug_NicAdd = \<lambda>_. retE pod_response, plug_NicDel = \<lambda>_. retE ()\<rparr>"

text \<open>The same node seen from inside the pod once its two links are there for good.\<close>

definition route_env :: "pod_world plugin_env" where
  "route_env = pod_env\<lparr>plug_Netlink := pod_nl\<lparr>LinkByName := \<lambda>n. if n = ''eth0'' then retE pod_eth0 else retE pod_wg0\<rparr>\<rparr>"

definition pod_gateway_route :: nl_route where
  "pod_gateway_route = new_route\<lparr>rt_Gw := [10, 1, 0, 1], rt_LinkIndex := 2, rt_Family := FAMILY_V4, rt_Table := 254\<rparr>"

definition pod_subnet_route :: nl_route where
  "pod_subnet_route = new_route\<lparr>rt_Dst := Some \<lparr>in_IP = [10, 1, 0, 0], in_Mask = [255, 255, 0, 0]\<rparr>, rt_LinkIndex := 2, rt_Family := FAMILY_V4, rt_Table := 254\<rparr>"

definition pod_start :: pod_world where
  "pod_start = \<lparr>pw_inside = False, pw_host = [], pw_pod = [pod_eth0], pw_leased = False, pw_routes = [pod_gateway_route, pod_subnet_route]\<rparr>"

section \<open>Laws\<close>

lemma pod_env_simps:
  "plug_Netlink pod_env = pod_nl" "plug_NetNS pod_env = pod_ns" "plug_ExecAdd pod_env = (\<lambda>_ _ s. (Ok pod_lease, s\<lparr>pw_leased := True\<rparr>))"
  "plug_ExecDel pod_env = (\<lambda>_ _ s. (Ok (), s\<lparr>pw_leased := False\<rparr>))" "plug_ConfigureIface pod_env = (\<lambda>_ _. retE ())"
  "plug_NewIPTables pod_env = retE ()" "plug_AppendUnique pod_env = (\<lambda>_ _ _. retE ())" "plug_WriteFile pod_env = (\<lambda>_ _. retE ())"
  by (simp_all add: pod_env_def)

lemma found_name: "find (\<lambda>l. lk_Name l = n) ls = Some l \<Longrightarrow> lk_Name l = n \<and> n \<in> lk_Name ` set ls"
  by (drule find_SomeD) auto

lemma pw_names: "link_names (pw_view s) = lk_Name ` set (pw_links s)"
  by (simp add: link_names_def pw_view_def pw_links_def)

lemma pod_nic_laws: "nic_laws pod_env pw_view"
  unfolding nic_laws_def Let_def pod_env_simps
proof (intro conjI allI)
  fix n w
  show "triple (\<lambda>s. pw_view s = w) (LinkByName pod_nl n) (\<lambda>l s. pw_view s = w \<and> lk_Name l = n \<and> n \<in> link_names w)
      (\<lambda>e s. pw_view s = w \<and> (isLinkNotFound e \<longrightarrow> n \<notin> link_names w)) (\<lambda>_. True)"
    by (auto simp: triple_def pod_nl_def pw_names find_None_iff_ex dest: found_name split: option.splits)
next
  fix l w
  show "triple (\<lambda>s. pw_view s = w) (LinkDel pod_nl l) (\<lambda>_ s. pw_view s = without_link (lk_Name l) w) (\<lambda>_ s. pw_view s = w) (\<lambda>_. True)"
    by (auto simp: triple_def pod_nl_def pw_links_def pw_set_links_def without_link_def pw_view_def)
qed (auto simp: triple_def stays_def calm_def pod_nl_def pod_ns_def pw_links_def pw_set_links_def pw_view_def retE_def)

lemma map_of_keyed_filter:
  "map_of (map (\<lambda>r. (f r, r)) (filter (\<lambda>x. f x \<noteq> k) rs)) = (map_of (map (\<lambda>r. (f r, r)) rs))(k := None)"
  by (induction rs) (auto simp: fun_eq_iff)

lemma map_of_keyed: "map_of (map (\<lambda>r. (f r, r)) rs) k = Some r \<Longrightarrow> f r = k \<and> r \<in> set rs"
  by (drule map_of_SomeD) auto

lemma pod_fib_laws: "fib_laws route_env pod_eth0 ''wg0'' pod_wg0 pw_fib"
proof -
  have listed: "set (filter (\<lambda>r. pw_fib s (route_key r) = Some r \<and> fst (route_key r) = mainTable \<and> rt_LinkIndex r = i) (pw_routes s)) =
      {r. \<exists>k. pw_fib s (mainTable, k) = Some r \<and> route_key r = (mainTable, k) \<and> rt_LinkIndex r = i}" for s i
    by (auto simp: pw_fib_def dest: map_of_keyed) (metis prod.collapse)
  show ?thesis
    unfolding fib_laws_def Let_def route_env_def
    using listed [of _ "lk_Index pod_eth0"]
    by (auto simp: pod_nl_def retE_def pod_env_simps pw_fib_def map_of_keyed_filter dest: map_of_keyed)
qed

end
