(* ===== verification/Plugin_Props.thy ===== *)
theory Plugin_Props
  imports Plugin_World "HOL-Library.Code_Target_Nat"
begin

text \<open>
  Properties of the CNI plugin: a failed set-up takes back what it did, a pod without the annotation is left alone, the routing
  table of a pod is the specified one, and what the address plugin hands over.
\<close>

section \<open>The interface\<close>

text \<open>
  Property C27. \<open>WithWireGuardNic\<close> takes back a set-up that fails, wherever it fails and whatever the calls before the failure did to
  the links: afterwards the new link is neither in the main namespace nor under either name in the pod's, and no address is
  leased, unless the returned error reports that a step of the recovery failed.
\<close>

theorem WithWireGuardNic_takes_back:
  assumes "nic_laws env v" and "pred_option (\<lambda>f. \<forall>x a r. returns_outside v (f x a r)) configFunc"
    and "\<not> pn_inside (v s)" and "\<not> pn_leased (v s)" and "links_gone (''wg'' @ take 8 containerID) ifName (v s)"
    and "WithWireGuardNic env containerID podNSPath ifName ipWrapper result configFunc s = (Err e, s')"
  shows "recovery_reported e \<or> \<not> pn_leased (v s') \<and> links_gone (''wg'' @ take 8 containerID) ifName (v s')"
proof -
  have "triple (\<lambda>s. \<not> pn_inside (v s) \<and> \<not> pn_leased (v s) \<and> links_gone (''wg'' @ take 8 containerID) ifName (v s))
      (WithWireGuardNic env containerID podNSPath ifName ipWrapper result configFunc) (\<lambda>_ _. True)
      (\<lambda>e s. recovery_reported e \<or> \<not> pn_leased (v s) \<and> links_gone (''wg'' @ take 8 containerID) ifName (v s)) (\<lambda>_. True)"
    by (rule WithWireGuardNic_triple [OF assms(1)]) (use assms(2) in simp)
  from triple_ErrD [OF this _ assms(6)] assms(3-5) show ?thesis by blast
qed

definition notReady :: "netns \<Rightarrow> string \<Rightarrow> cni_result \<Rightarrow> (pod_world, cni_result) io" where
  "notReady _ _ _ = failE (ErrMsg ''not ready'')"

definition pod_wrapper :: IPWrapper where
  "pod_wrapper = \<lparr>ipw_pluginType = ''kube-egress-cni-ipam'', ipw_netConf = ''''\<rparr>"

definition pod_failed :: "cni_result res \<times> pod_world" where
  "pod_failed = WithWireGuardNic pod_env ''0123456789'' ''/var/run/netns/pod'' ''wg0'' pod_wrapper empty_result (Some notReady) pod_start"

theorem WithWireGuardNic_takes_back_witness:
  "fst pod_failed = Err (ErrMsg ''not ready'') \<and> \<not> pn_leased (pw_view (snd pod_failed)) \<and>
    links_gone ''wg01234567'' ''wg0'' (pw_view (snd pod_failed))"
proof -
  have run: "fst pod_failed = Err (ErrMsg ''not ready'')" by code_simp
  then have eq: "WithWireGuardNic pod_env ''0123456789'' ''/var/run/netns/pod'' ''wg0'' pod_wrapper empty_result (Some notReady) pod_start =
      (Err (ErrMsg ''not ready''), snd pod_failed)"
    unfolding pod_failed_def by (metis prod.collapse)
  have name: "''wg'' @ take 8 ''0123456789'' = ''wg01234567''" by simp
  have start: "\<not> pn_inside (pw_view pod_start)" "\<not> pn_leased (pw_view pod_start)" "links_gone ''wg01234567'' ''wg0'' (pw_view pod_start)"
    by (simp_all add: pw_view_def pod_start_def links_gone_def pod_eth0_def NewLinkAttrs_def)
  have out: "pred_option (\<lambda>f. \<forall>x a r. returns_outside pw_view (f x a r)) (Some notReady)"
    by (auto simp: notReady_def returns_outside_def intro!: triple_fail)
  have "\<not> recovery_reported (ErrMsg ''not ready'')" by (simp add: recovery_reported_def release_failed_def)
  with WithWireGuardNic_takes_back [OF pod_nic_laws out start(1,2) _ eq, unfolded name] start(3) run show ?thesis by blast
qed

text \<open>
  A pod without the annotation is left alone: the plugin keeps every fact that reading the pod and printing the
  previous result keep.
\<close>

lemma cmdAdd_skips_pod:
  assumes "\<And>a. keeps I (plug_Dial env a)" and "keeps I (plug_CloseConn env)" and "\<And>r v. keeps I (plug_PrintResult env r v)"
    and "\<And>p. triple I (plug_PodRetrieve env p) (\<lambda>an s. I s \<and> an CNIGatewayAnnotationKey = None) (\<lambda>_. I) I"
  shows "keeps I (cmdAdd env args)"
proof -
  have body: "keeps I (bindE (wrapE msg (plug_PodRetrieve env p)) (\<lambda>an. case an CNIGatewayAnnotationKey of
      None \<Rightarrow> plug_PrintResult env result v | Some gwName \<Rightarrow> f gwName))" for msg p result v f
    by (rule triple_bind [OF triple_wrap [OF assms(4)]], rule triple_pure) (simp add: assms(3))
  have conn: "keeps I (withConn env config (bindE (wrapE msg (plug_PodRetrieve env p)) (\<lambda>an. case an CNIGatewayAnnotationKey of
      None \<Rightarrow> plug_PrintResult env result v | Some gwName \<Rightarrow> f gwName)))" for config msg p result v f
    unfolding withConn_def
    by (rule keeps_bind [OF keeps_wrap [OF assms(1)]], rule keeps_fin [OF body], erule ignoring_keeps [OF assms(2)])
  show ?thesis
    unfolding cmdAdd_def ParseCNIConfig_def LoadK8sInfo_def formatE_def
    by (intro keeps_bind keeps_wrap keeps_try keeps_lift keeps_ret keeps_fail conn)
qed

section \<open>Routes\<close>

text \<open>
  Property C28. The calls of \<open>SetPodRoutes\<close> refine the routing table that a pod should have: after a run that succeeds, whatever the table
  was before, it is the one that \<open>pod_table\<close> computes from it, key by key, and the result lists the routes that were set.
\<close>

theorem SetPodRoutes_refines_table:
  assumes "fib_laws env eth0 ifName wg fib"
    and "SetPodRoutes env ifName nic excludedCIDRs sysctlDir result s = (Ok result', s')"
  shows "let gw = (nar_DefaultRoute nic = DEFAULT_ROUTE_STATIC_EGRESS_GATEWAY);
      nets = exception_nets (nar_ExceptionCidrs nic @ (if gw then excludedCIDRs else [])) in
    \<exists>dflt. fib s default_key = Some dflt \<and> rt_LinkIndex dflt = lk_Index eth0 \<and> fib s' = pod_table gw eth0 wg dflt nets (fib s) \<and>
      cres_Routes result' = (if gw then [\<lparr>cr_Dst = gatewayDestination dflt, cr_GW = []\<rparr>,
          \<lparr>cr_Dst = \<lparr>in_IP = [0, 0, 0, 0], in_Mask = [0, 0, 0, 0]\<rparr>, cr_GW = ParseIP ''fe80::1''\<rparr>] else cres_Routes result) @
        map (\<lambda>n. \<lparr>cr_Dst = n, cr_GW = if gw then rt_Gw dflt else ParseIP ''fe80::1''\<rparr>) nets"
  unfolding Let_def by (rule SetPodRoutes_fib [OF assms])

definition pod_routed :: "cni_result res \<times> pod_world" where
  "pod_routed = SetPodRoutes route_env ''wg0'' pod_response [''192.168.0.0/16''] ''/proc/sys'' empty_result pod_start"

text \<open>In the pod of the witness the default goes through the tunnel, the subnet's route is gone and an exception goes through eth0.\<close>

theorem SetPodRoutes_refines_table_witness:
  "is_ok (fst pod_routed) \<and> pw_fib (snd pod_routed) (254, ''0.0.0.0/0'') = Some (tunnelDefault pod_wg0) \<and>
    pw_fib (snd pod_routed) (254, ''10.1.0.0/16'') = None \<and>
    map_option rt_Gw (pw_fib (snd pod_routed) (254, ''192.168.0.0/16'')) = Some [10, 1, 0, 1]"
proof -
  have ok: "is_ok (fst pod_routed)" by code_simp
  then obtain res where eq: "SetPodRoutes route_env ''wg0'' pod_response [''192.168.0.0/16''] ''/proc/sys'' empty_result pod_start =
      (Ok res, snd pod_routed)"
    unfolding pod_routed_def is_ok_iff by (metis prod.collapse)
  have gw: "nar_DefaultRoute pod_response = DEFAULT_ROUTE_STATIC_EGRESS_GATEWAY" "nar_ExceptionCidrs pod_response = [''10.0.0.0/8'']"
    by (simp_all add: pod_response_def)
  from SetPodRoutes_refines_table [OF pod_fib_laws eq, unfolded gw Let_def]
  obtain dflt where start: "pw_fib pod_start default_key = Some dflt"
    and tab: "pw_fib (snd pod_routed) = pod_table True pod_eth0 pod_wg0 dflt (exception_nets [''10.0.0.0/8'', ''192.168.0.0/16'']) (pw_fib pod_start)"
    by auto
  have "pw_fib pod_start default_key = Some pod_gateway_route" by code_simp
  with start have dflt: "dflt = pod_gateway_route" by simp
  have "pod_table True pod_eth0 pod_wg0 pod_gateway_route (exception_nets [''10.0.0.0/8'', ''192.168.0.0/16'']) (pw_fib pod_start)
      (254, ''0.0.0.0/0'') = Some (tunnelDefault pod_wg0)"
    and "pod_table True pod_eth0 pod_wg0 pod_gateway_route (exception_nets [''10.0.0.0/8'', ''192.168.0.0/16'']) (pw_fib pod_start)
      (254, ''10.1.0.0/16'') = None"
    and "map_option rt_Gw (pod_table True pod_eth0 pod_wg0 pod_gateway_route (exception_nets [''10.0.0.0/8'', ''192.168.0.0/16''])
      (pw_fib pod_start) (254, ''192.168.0.0/16'')) = Some [10, 1, 0, 1]"
    by code_simp+
  with ok show ?thesis by (simp add: tab dflt)
qed

section \<open>The address plugin\<close>

text \<open>
  The result of the address plugin names no gateway: whatever the addresses are, the gateway of the first one is nil like that of
  the second, because \<open>GatewayIP\<close> is written with a prefix length, which \<open>net.ParseIP\<close> does not read.
\<close>

lemma ipamResult_has_no_gateway:
  "map (map_option ic_Gateway) (cres_IPs (ipamResultOf version v4Address v6Address)) = [Some [], Some []]"
  by (simp add: ipamResultOf_def parse_GatewayIP)

end
