(* ===== verification/Nic_Service.thy ===== *)
theory Nic_Service
  imports CNI_Plugin CNI_Conf Object_Store
begin

text \<open>
  The CNI manager of a node: the service that answers the requests of the plugin, src/controllers/cnimanager/server.go, and the
  handler that takes the taint off the node once the CNI configuration is in place,
  src/cmd/kube-egress-gateway-cnimanager/cmd/serve.go.
\<close>

section \<open>The service\<close>

text \<open>
  \<open>status.Errorf\<close> with the text of the cause. The getters of a request read the empty value from a missing part, so a
  request is its value.
\<close>

definition grpcError :: "string \<Rightarrow> string \<Rightarrow> error" where
  "grpcError code text = ErrMsg (''rpc error: code = '' @ code @ '' desc = '' @ text)"

definition grpcE :: "string \<Rightarrow> ('s, 'a) io \<Rightarrow> ('s, 'a) io" where
  "grpcE msg m = tryE m retE (\<lambda>e. failE (grpcError ''Unknown'' (msg @ '': '' @ error_text e)))"

text \<open>The \<open>%s/%s\<close> of the messages.\<close>

definition keyText :: "string \<Rightarrow> string \<Rightarrow> string" where
  "keyText namespace name = namespace @ ''/'' @ name"

definition newEndpoint :: "PodInfo \<Rightarrow> PodEndpoint" where
  "newEndpoint pod = \<lparr>pe_Meta = new_meta (pi_PodNamespace pod) (pi_PodName pod),
     pe_Spec = \<lparr>pes_StaticGatewayConfiguration = '''', pes_PodIpAddress = '''', pes_PodPublicKey = ''''\<rparr>\<rparr>"

definition mutateEndpoint :: "controllerutil \<Rightarrow> Pod \<Rightarrow> NicAddRequest \<Rightarrow> PodEndpoint \<Rightarrow> PodEndpoint res" where
  "mutateEndpoint cu pod req podEndpoint =
     bindR (SetControllerReference cu (pod_Meta pod) (pe_Meta podEndpoint)) (\<lambda>m.
     Ok (podEndpoint\<lparr>pe_Meta := m, pe_Spec := (pe_Spec podEndpoint)\<lparr>pes_PodIpAddress := naq_AllowedIp req,
       pes_StaticGatewayConfiguration := naq_GatewayName req, pes_PodPublicKey := naq_PublicKey req\<rparr>\<rparr>))"

definition nicAddResponse :: "StaticGatewayConfiguration \<Rightarrow> NicAddResponse" where
  "nicAddResponse gwConfig = (let profile = sgt_GatewayServerProfile (sgc_Status gwConfig) in
     \<lparr>nar_EndpointIp = gsp_Ip profile, nar_ListenPort = gsp_Port profile, nar_PublicKey = gsp_PublicKey profile,
       nar_ExceptionCidrs = sgs_ExcludeCidrs (sgc_Spec gwConfig),
       nar_DefaultRoute = (if sgs_DefaultRoute (sgc_Spec gwConfig) = RouteAzureNetworking
         then DEFAULT_ROUTE_AZURE_NETWORKING else DEFAULT_ROUTE_STATIC_EGRESS_GATEWAY)\<rparr>)"

definition NicAdd :: "'s kube \<Rightarrow> NicAddRequest \<Rightarrow> ('s, NicAddResponse) io" where
  "NicAdd k req = (let pod = naq_PodConfig req in
     bindE (grpcE (''failed to retrieve StaticGatewayConfiguration '' @ keyText (pi_PodNamespace pod) (naq_GatewayName req))
       (kGet (k_SGC k) (pi_PodNamespace pod) (naq_GatewayName req))) (\<lambda>gwConfig.
     if sgt_EgressIpPrefix (sgc_Status gwConfig) = ''''
     then failE (grpcError ''FailedPrecondition'' ''the egress IP prefix is not ready yet.'')
     else bindE (grpcE (''failed to retrieve pod '' @ keyText (pi_PodNamespace pod) (pi_PodName pod))
         (kGet (k_Pod k) (pi_PodNamespace pod) (pi_PodName pod))) (\<lambda>podObj.
       bindE (grpcE (''failed to update PodEndpoint '' @ keyText (pi_PodNamespace pod) (pi_PodName pod))
         (kCreateOrUpdate (k_PE k) (newEndpoint pod) (mutateEndpoint (k_util k) podObj req))) (\<lambda>_.
       retE (nicAddResponse gwConfig)))))"

definition NicDel :: "'s kube \<Rightarrow> PodInfo \<Rightarrow> ('s, unit) io" where
  "NicDel k pod = tryE (kDelete (k_PE k) (newEndpoint pod)) retE
     (\<lambda>e. if IsNotFound e then retE () else failE (grpcError ''Unknown''
       (''failed to delete PodEndpoint '' @ keyText (pi_PodNamespace pod) (pi_PodName pod) @ '': '' @ error_text e)))"

definition PodRetrieve :: "'s kube \<Rightarrow> PodInfo \<Rightarrow> ('s, string \<rightharpoonup> string) io" where
  "PodRetrieve k pod = bindE (grpcE (''failed to retrieve pod '' @ keyText (pi_PodNamespace pod) (pi_PodName pod))
     (kGet (k_Pod k) (pi_PodNamespace pod) (pi_PodName pod)))
     (\<lambda>podObj. retE (om_Annotations (pod_Meta podObj)))"

section \<open>The taint of the node\<close>

definition CNIManagerNotReadyTaintKey :: string where
  "CNIManagerNotReadyTaintKey = ''egressgateway.kubernetes.azure.com/cni-not-ready''"

definition isNotReadyTaint :: "Taint \<Rightarrow> bool" where
  "isNotReadyTaint taint \<longleftrightarrow> tnt_Key taint = CNIManagerNotReadyTaintKey"

definition withoutTaint :: "Node \<Rightarrow> Node" where
  "withoutTaint node = node\<lparr>node_Taints := drop_first isNotReadyTaint (node_Taints node)\<rparr>"

text \<open>
  \<open>retry\<close> is \<open>retry.RetryOnConflict\<close> of client-go with its default backoff. Every attempt sends the copy that was made
  of the object of the event. An error is logged.
\<close>

definition removeNodeTaintIfNeeded ::
  "'s kube \<Rightarrow> (('s, Node) io \<Rightarrow> ('s, Node) io) \<Rightarrow> ('s, bool) io \<Rightarrow> Node \<Rightarrow> ('s, unit) io" where
  "removeNodeTaintIfNeeded k retry ready node =
     (if list_ex isNotReadyTaint (node_Taints node) then
        bindE ready (\<lambda>b. if b then tryE (retry (kUpdate (k_Node k) (withoutTaint node))) (\<lambda>_. retE ()) (\<lambda>_. retE ())
          else retE ())
      else retE ())"

text \<open>The handler of node events that \<open>ServiceLauncher\<close> registers.\<close>

definition nodeTaintHandler :: "'s kube \<Rightarrow> (('s, Node) io \<Rightarrow> ('s, Node) io) \<Rightarrow> 's Manager \<Rightarrow> Node \<Rightarrow> ('s, unit) io" where
  "nodeTaintHandler k retry mgr node = removeNodeTaintIfNeeded k retry (IsReady mgr) node"

end
