(* ===== verification/Pod_Proofs.thy ===== *)
theory Pod_Proofs
  imports Plugin_Proofs Nic_Service Peers_Proofs
begin

text \<open>
  The way of a pod through the programs: the plugin draws a key and asks the CNI manager, the manager publishes the endpoint,
  and the daemon of the gateway node makes it a peer. Here are the manager's answer and what a
  successful \<open>addNic\<close> of the plugin has published.
\<close>

section \<open>Runs that succeed\<close>

abbreviation yields :: "('s \<Rightarrow> bool) \<Rightarrow> ('s, 'a) io \<Rightarrow> ('a \<Rightarrow> 's \<Rightarrow> bool) \<Rightarrow> bool" where
  "yields P m Q \<equiv> triple P m Q (\<lambda>_ _. True) (\<lambda>_. True)"

lemma yields_keeps: "keeps I m \<Longrightarrow> yields I m (\<lambda>_. I)"
  by (erule triple_conseq) simp_all

lemma yields_seq: "keeps I m \<Longrightarrow> (\<And>a. yields I (f a) Q) \<Longrightarrow> yields I (bindE m f) Q"
  by (rule triple_bind [OF yields_keeps])

text \<open>A call that does not touch what \<open>g\<close> reads from the world, however it ends.\<close>

definition quiet :: "('s \<Rightarrow> 'v) \<Rightarrow> ('s, 'a) io \<Rightarrow> bool" where
  "quiet g m \<longleftrightarrow> (\<forall>s. g (snd (m s)) = g s)"

lemma quiet_keeps: "quiet g m \<Longrightarrow> keeps (\<lambda>s. P (g s)) m"
  by (rule keepsI) (metis quiet_def snd_conv)

lemma quiet_fst: "quiet (\<lambda>s. (g s, h s)) m \<Longrightarrow> quiet g m"
  by (simp add: quiet_def)

section \<open>The CNI manager\<close>

definition pe_key :: "PodEndpoint \<Rightarrow> object_key" where
  "pe_key pe = meta_key (pe_Meta pe)"

definition pod_key :: "PodInfo \<Rightarrow> object_key" where
  "pod_key pod = (pi_PodNamespace pod, pi_PodName pod)"

definition pe_echo :: "PodEndpoint \<Rightarrow> PodEndpoint \<Rightarrow> bool" where
  "pe_echo x y \<longleftrightarrow> pe_Spec y = pe_Spec x \<and> pe_key y = pe_key x"

text \<open>\<open>CreateOrUpdate\<close> promises what \<open>CreateOrPatch\<close> does.\<close>

definition update_law ::
  "('s, 'o) kclient \<Rightarrow> ('o \<Rightarrow> object_key) \<Rightarrow> ('o \<Rightarrow> 'o \<Rightarrow> bool) \<Rightarrow> ('s \<Rightarrow> object_key \<rightharpoonup> 'o) \<Rightarrow> bool" where
  "update_law c key echo store \<longleftrightarrow> patch_law (c\<lparr>kCreateOrPatch := kCreateOrUpdate c\<rparr>) key echo store"

definition requested :: "NicAddRequest \<Rightarrow> PodEndpointSpec" where
  "requested req = \<lparr>pes_StaticGatewayConfiguration = naq_GatewayName req, pes_PodIpAddress = naq_AllowedIp req,
     pes_PodPublicKey = naq_PublicKey req\<rparr>"

interpretation endpoint_spec: mutation "mutateEndpoint cu pod req" "\<lambda>pe. pe_Spec pe = requested req" pe_echo for cu pod req
  by unfold_locales (auto simp: mutateEndpoint_def requested_def pe_echo_def bindR_Ok_iff)

lemma newEndpoint_key [simp]: "pe_key (newEndpoint pod) = pod_key pod"
  by (simp add: pe_key_def newEndpoint_def pod_key_def meta_key_def new_meta_def)

definition manager_laws :: "'s kube \<Rightarrow> ('s \<Rightarrow> object_key \<rightharpoonup> PodEndpoint) \<Rightarrow> bool" where
  "manager_laws k store \<longleftrightarrow> (\<forall>ns n. quiet store (kGet (k_SGC k) ns n)) \<and> (\<forall>ns n. quiet store (kGet (k_Pod k) ns n)) \<and>
     update_law (k_PE k) pe_key pe_echo store"

definition endpoint_stored :: "NicAddRequest \<Rightarrow> (object_key \<rightharpoonup> PodEndpoint) \<Rightarrow> (object_key \<rightharpoonup> PodEndpoint) \<Rightarrow> bool" where
  "endpoint_stored req st st' \<longleftrightarrow> (\<exists>pe. pe_Spec pe = requested req \<and> st' = st(pod_key (naq_PodConfig req) \<mapsto> pe))"

lemma keeps_grpc: "keeps I m \<Longrightarrow> keeps I (grpcE msg m)"
  unfolding grpcE_def by (intro keeps_try keeps_ret keeps_fail)

lemma grpcE_Ok_iff: "grpcE msg m s = (Ok a, s') \<longleftrightarrow> m s = (Ok a, s')"
  by (auto simp: grpcE_def tryE_def retE_def failE_def split: prod.splits res.splits)

lemma update_stores:
  assumes "update_law (k_PE k) pe_key pe_echo store"
    and "kCreateOrUpdate (k_PE k) (newEndpoint (naq_PodConfig req)) (mutateEndpoint cu pod req) s = (Ok pe, s')"
  shows "endpoint_stored req (store s) (store s')"
  using endpoint_spec.stored_goal [OF assms(1) [unfolded update_law_def], of "newEndpoint (naq_PodConfig req)" cu pod req s pe s'] assms(2)
  by (auto simp: endpoint_stored_def)

lemma NicAdd_Ok:
  assumes laws: "manager_laws k store" and run: "NicAdd k req s = (Ok resp, s')"
  shows "\<exists>gw s1. kGet (k_SGC k) (pi_PodNamespace (naq_PodConfig req)) (naq_GatewayName req) s = (Ok gw, s1) \<and>
    sgt_EgressIpPrefix (sgc_Status gw) \<noteq> '''' \<and> resp = nicAddResponse gw \<and> endpoint_stored req (store s) (store s')"
proof -
  let ?pod = "naq_PodConfig req"
  from run obtain gw s1 podObj s2 pe where
    get: "kGet (k_SGC k) (pi_PodNamespace ?pod) (naq_GatewayName req) s = (Ok gw, s1)" and ready: "sgt_EgressIpPrefix (sgc_Status gw) \<noteq> ''''"
    and pod: "kGet (k_Pod k) (pi_PodNamespace ?pod) (pi_PodName ?pod) s1 = (Ok podObj, s2)"
    and upd: "kCreateOrUpdate (k_PE k) (newEndpoint ?pod) (mutateEndpoint (k_util k) podObj req) s2 = (Ok pe, s')" and resp: "resp = nicAddResponse gw"
    unfolding NicAdd_def Let_def by (auto simp: bindE_Ok_iff grpcE_Ok_iff retE_def failE_def split: if_splits)
  have "store s1 = store s" "store s2 = store s1"
    using laws get pod unfolding manager_laws_def quiet_def by (metis snd_conv)+
  with update_stores [OF _ upd, of store] laws have "endpoint_stored req (store s) (store s')" by (simp add: manager_laws_def)
  with get ready resp show ?thesis by blast
qed

text \<open>As long as the gateway has no egress prefix the manager refuses, and nothing is published.\<close>

lemma NicAdd_not_ready:
  assumes "manager_laws k store" and "NicAdd k req s = (r, s')"
    and "kGet (k_SGC k) (pi_PodNamespace (naq_PodConfig req)) (naq_GatewayName req) s = (Ok gw, s1)" and "sgt_EgressIpPrefix (sgc_Status gw) = ''''"
  shows "r = Err (grpcError ''FailedPrecondition'' ''the egress IP prefix is not ready yet.'') \<and> store s' = store s"
proof -
  have "store s1 = store s" using assms(1,3) unfolding manager_laws_def quiet_def by (metis snd_conv)
  with assms(2-4) show ?thesis by (auto simp: NicAdd_def Let_def bindE_def grpcE_def tryE_def retE_def failE_def)
qed

section \<open>The plugin\<close>

text \<open>
  The calls of the plugin do not touch the endpoints of the cluster, and once the device of the pod has its key, what
  follows leaves the key alone. \<open>ConfigureDevice\<close> sets the private key that the configuration names.
\<close>

definition plugin_laws :: "'s plugin_env \<Rightarrow> ('s \<Rightarrow> object_key \<rightharpoonup> PodEndpoint) \<Rightarrow> ('s \<Rightarrow> wgkey) \<Rightarrow> bool" where
  "plugin_laws env store devKey \<longleftrightarrow> (let nl = plug_Netlink env; sys = plug_NetNS env; wg = plug_WgCtrl env; both = \<lambda>s. (store s, devKey s) in
     (\<forall>l. quiet store (LinkAdd nl l)) \<and> (\<forall>l fd. quiet store (LinkSetNsFd nl l fd)) \<and> (\<forall>l. quiet store (LinkSetDown nl l)) \<and>
     (\<forall>l a. quiet store (LinkSetAlias nl l a)) \<and> (\<forall>l a. quiet store (LinkSetName nl l a)) \<and> (\<forall>l. quiet store (LinkSetUp nl l)) \<and>
     (\<forall>t c. quiet store (plug_ExecAdd env t c)) \<and> (\<forall>i r. quiet store (plug_ConfigureIface env i r)) \<and>
     quiet store (plug_GeneratePrivateKey env) \<and> (\<forall>n. quiet store (wg_Device wg n)) \<and> (\<forall>p. quiet store (ns_GetNS sys p)) \<and>
     (\<forall>n. quiet both (LinkByName nl n)) \<and> (\<forall>n. quiet both (ns_Enter sys n)) \<and> (\<forall>n s. both (ns_Leave sys n s) = both s) \<and>
     (\<forall>n. quiet both (ns_Close sys n)) \<and> quiet both (wg_New wg) \<and> quiet both (wg_Close wg) \<and>
     (\<forall>l f. quiet both (RouteList nl l f)) \<and> (\<forall>r. quiet both (RouteDel nl r)) \<and> (\<forall>r. quiet both (RouteReplace nl r)) \<and>
     (\<forall>r. quiet both (RuleAdd nl r)) \<and> quiet both (plug_NewIPTables env) \<and> (\<forall>t c r. quiet both (plug_AppendUnique env t c r)) \<and>
     (\<forall>f d. quiet both (plug_WriteFile env f d)) \<and> (\<forall>r v. quiet both (plug_PrintResult env r v)) \<and>
     (\<forall>n c key s s'. wg_ConfigureDevice wg n c s = (Ok (), s') \<longrightarrow> wc_PrivateKey c = Some key \<longrightarrow>
        store s' = store s \<and> devKey s' = key))"

lemma plugin_lawsD:
  assumes "plugin_laws env store devKey"
  shows "quiet store (LinkAdd (plug_Netlink env) l)" and "quiet store (LinkSetNsFd (plug_Netlink env) l fd)"
    and "quiet store (LinkSetDown (plug_Netlink env) l)" and "quiet store (LinkSetAlias (plug_Netlink env) l a)"
    and "quiet store (LinkSetName (plug_Netlink env) l a)" and "quiet store (LinkSetUp (plug_Netlink env) l)"
    and "quiet store (plug_ExecAdd env t c)" and "quiet store (plug_ConfigureIface env i r)"
    and "quiet store (plug_GeneratePrivateKey env)" and "quiet store (wg_Device (plug_WgCtrl env) n)"
    and "quiet store (ns_GetNS (plug_NetNS env) p)"
  using assms unfolding plugin_laws_def Let_def by (elim conjE, simp)+

lemma plugin_lawsD2:
  assumes "plugin_laws env store devKey"
  shows "quiet (\<lambda>s. (store s, devKey s)) (LinkByName (plug_Netlink env) n)"
    and "quiet (\<lambda>s. (store s, devKey s)) (ns_Enter (plug_NetNS env) x)"
    and "quiet (\<lambda>s. (store s, devKey s)) (ns_Close (plug_NetNS env) x)" and "quiet (\<lambda>s. (store s, devKey s)) (wg_New (plug_WgCtrl env))"
    and "quiet (\<lambda>s. (store s, devKey s)) (wg_Close (plug_WgCtrl env))"
    and "quiet (\<lambda>s. (store s, devKey s)) (RouteList (plug_Netlink env) ol f)"
    and "quiet (\<lambda>s. (store s, devKey s)) (RouteDel (plug_Netlink env) rt)"
    and "quiet (\<lambda>s. (store s, devKey s)) (RouteReplace (plug_Netlink env) rt)"
    and "quiet (\<lambda>s. (store s, devKey s)) (RuleAdd (plug_Netlink env) ru)"
    and "quiet (\<lambda>s. (store s, devKey s)) (plug_NewIPTables env)"
    and "quiet (\<lambda>s. (store s, devKey s)) (plug_AppendUnique env ta ch args)"
    and "quiet (\<lambda>s. (store s, devKey s)) (plug_WriteFile env fn d)"
    and "quiet (\<lambda>s. (store s, devKey s)) (plug_PrintResult env res v)"
    and "store (ns_Leave (plug_NetNS env) x s) = store s \<and> devKey (ns_Leave (plug_NetNS env) x s) = devKey s"
  using assms unfolding plugin_laws_def Let_def by (elim conjE, simp)+

lemmas plugin_quiet = plugin_lawsD plugin_lawsD2(1-5) [THEN quiet_fst]

lemma store_keeps: "quiet store m \<Longrightarrow> keeps (\<lambda>s. store s = st) m"
  by (rule quiet_keeps [where P = "\<lambda>x. x = st"])

lemma both_keeps: "quiet (\<lambda>s. (store s, devKey s)) m \<Longrightarrow> keeps (\<lambda>s. P (store s) (devKey s)) m"
  by (rule quiet_keeps [where g = "\<lambda>s. (store s, devKey s)" and P = "\<lambda>(x, y). P x y", simplified])

lemma keeps_format: "keeps I m \<Longrightarrow> keeps I (formatE msg m)"
  unfolding formatE_def by (intro keeps_try keeps_ret keeps_fail)

lemma store_ns_Do:
  assumes "plugin_laws env store devKey" and "keeps (\<lambda>s. store s = st) body"
  shows "keeps (\<lambda>s. store s = st) (ns_Do (plug_NetNS env) x body)"
  by (intro keeps_ns_Do store_keeps plugin_quiet [OF assms(1)] assms(2)) (simp add: plugin_lawsD2(14) [OF assms(1)])

lemma lookup_keeps:
  assumes "plugin_laws env store devKey"
  shows "keeps (\<lambda>s. store s = st) (lookupLink (plug_Netlink env) msg n)"
  unfolding lookupLink_def by (intro keeps_try store_keeps plugin_quiet [OF assms] keeps_ret triple_if keeps_fail)

lemma createNic_keeps:
  assumes "plugin_laws env store devKey"
  shows "keeps (\<lambda>s. store s = st) (createNic env podNetNS main ifName)"
  unfolding createNic_def renameInPod_def Let_def
  by (intro keeps_bind keeps_wrap keeps_format store_ns_Do [OF assms] store_keeps plugin_quiet [OF assms])

lemma podDevice_keeps:
  assumes "plugin_laws env store devKey"
  shows "keeps (\<lambda>s. store s = st) (podDevice env podNs)"
proof -
  have "keeps (\<lambda>s. store s = st) (withWgClient (plug_WgCtrl env) m (wrapE m' (wg_Device (plug_WgCtrl env) n)))" for m m' n
    unfolding withWgClient_def
    by (intro keeps_bind keeps_wrap keeps_fin store_keeps plugin_quiet [OF assms]) (rule ignoring_keeps [OF store_keeps [OF plugin_quiet(16) [OF assms]]])
  then show ?thesis unfolding podDevice_def by (rule store_ns_Do [OF assms])
qed

lemma SetPodRoutes_keeps:
  assumes "plugin_laws env store devKey"
  shows "keeps (\<lambda>s. P (store s) (devKey s)) (SetPodRoutes env ifName nic excluded dir result)"
proof -
  let ?I = "\<lambda>s. P (store s) (devKey s)"
  have ingress: "keeps ?I (addRoutingForIngress env dflt dir)" for dflt
    unfolding addRoutingForIngress_def Let_def by (intro keeps_bind keeps_wrap both_keeps [where P = P and store = store] plugin_lawsD2 [OF assms])
  have exception: "keeps ?I (addException (plug_Netlink env) gwr ip res x)" for gwr ip res x
    unfolding addException_def by (intro keeps_bind keeps_wrap keeps_lift triple_case_prod keeps_ret both_keeps [where P = P and store = store] plugin_lawsD2 [OF assms])
  have replace: "keeps ?I (replaceDefault (plug_Netlink env) e w rs d res)" for e w rs d res
    unfolding replaceDefault_def Let_def
    by (intro keeps_bind keeps_fold keeps_wrap keeps_lift keeps_ret both_keeps [where P = P and store = store] plugin_lawsD2 [OF assms])
  show ?thesis
    unfolding SetPodRoutes_def Let_def
    by (intro keeps_bind keeps_fold keeps_wrap keeps_ret keeps_fail triple_if triple_case_option ingress exception replace
      both_keeps [where P = P and store = store] plugin_lawsD2 [OF assms])
qed

text \<open>The pod is published with the public key of its device.\<close>

definition tunnel_up ::
  "'s plugin_env \<Rightarrow> PodInfo \<Rightarrow> string \<Rightarrow> string \<Rightarrow> (object_key \<rightharpoonup> PodEndpoint) \<Rightarrow> (object_key \<rightharpoonup> PodEndpoint) \<Rightarrow> wgkey \<Rightarrow> bool" where
  "tunnel_up env pod gwName allowed st st' key \<longleftrightarrow> (\<exists>pe. st' = st(pod_key pod \<mapsto> pe) \<and>
     pe_Spec pe = \<lparr>pes_StaticGatewayConfiguration = gwName, pes_PodIpAddress = allowed,
       pes_PodPublicKey = wg_KeyString (plug_WgCtrl env) (plug_PublicKey env key)\<rparr>)"

lemma NicAdd_yields:
  assumes "manager_laws k store"
  shows "yields (\<lambda>s. store s = st) (NicAdd k req) (\<lambda>_ s. endpoint_stored req st (store s))"
  unfolding triple_def using NicAdd_Ok [OF assms] by (auto split: prod.splits res.splits)

lemma wg_configured:
  assumes laws: "plugin_laws env store devKey"
  shows "yields (\<lambda>s. P (store s)) (wg_ConfigureDevice (plug_WgCtrl env) n (tunnelConfig key gwKey resp)) (\<lambda>_ s. P (store s) \<and> devKey s = key)"
proof -
  have "store s' = store s \<and> devKey s' = key" if "wg_ConfigureDevice (plug_WgCtrl env) n (tunnelConfig key gwKey resp) s = (Ok (), s')" for s s'
  proof -
    have "wc_PrivateKey (tunnelConfig key gwKey resp) = Some key" by (simp add: tunnelConfig_def)
    with that laws show ?thesis unfolding plugin_laws_def Let_def by metis
  qed
  then show ?thesis by (auto simp: triple_def split: prod.splits res.splits)
qed

definition tunnelRequest :: "'s plugin_env \<Rightarrow> PodInfo \<Rightarrow> string \<Rightarrow> string \<Rightarrow> wg_device \<Rightarrow> wgkey \<Rightarrow> NicAddRequest" where
  "tunnelRequest env pod gwName allowed device key = \<lparr>naq_PodConfig = pod, naq_ListenPort = word_of_int (dev_ListenPort device),
     naq_AllowedIp = allowed, naq_PublicKey = wg_KeyString (plug_WgCtrl env) (plug_PublicKey env key), naq_GatewayName = gwName\<rparr>"

lemma request_up:
  "endpoint_stored (tunnelRequest env pod gwName allowed device key) st st' \<Longrightarrow> tunnel_up env pod gwName allowed st st' key"
  by (auto simp: endpoint_stored_def tunnel_up_def requested_def tunnelRequest_def)

lemma device_configured_yields:
  assumes laws: "plugin_laws env store devKey" and up: "\<And>st'. P st' \<Longrightarrow> tunnel_up env pod gwName allowed st st' key"
  shows "yields (\<lambda>s. P (store s))
    (bindE (wrapE m (wg_ConfigureDevice (plug_WgCtrl env) WireguardLinkName (tunnelConfig key gwKey resp))) (\<lambda>_.
      if isUnitTestEnv env then retE result
      else wrapE m' (SetPodRoutes env WireguardLinkName resp excluded dir result)))
    (\<lambda>_ s. tunnel_up env pod gwName allowed st (store s) (devKey s))"
proof (rule triple_bind [OF triple_wrap [OF wg_configured [OF laws]]])
  let ?I = "\<lambda>s. P (store s) \<and> devKey s = key"
  have "yields ?I (if isUnitTestEnv env then retE result else wrapE m' (SetPodRoutes env WireguardLinkName resp excluded dir result)) (\<lambda>_. ?I)"
    by (intro yields_keeps triple_if keeps_ret keeps_wrap SetPodRoutes_keeps [OF laws, where P = "\<lambda>x y. P x \<and> y = key"])
  then show "yields ?I (if isUnitTestEnv env then retE result else wrapE m' (SetPodRoutes env WireguardLinkName resp excluded dir result))
      (\<lambda>_ s. tunnel_up env pod gwName allowed st (store s) (devKey s))"
    by (rule triple_conseq) (auto simp: up)
qed

lemma pod_client_yields:
  assumes laws: "plugin_laws env store devKey" and body: "yields (\<lambda>s. P (store s)) body (\<lambda>_ s. Q (store s) (devKey s))"
  shows "yields (\<lambda>s. P (store s)) (ns_Do (plug_NetNS env) podNs (withWgClient (plug_WgCtrl env) m body)) (\<lambda>_ s. Q (store s) (devKey s))"
proof -
  have closed: "store (ignoring (wg_Close (plug_WgCtrl env)) s) = store s \<and> devKey (ignoring (wg_Close (plug_WgCtrl env)) s) = devKey s" for s
    using plugin_lawsD2(5) [OF laws] by (simp add: quiet_def ignoring_def)
  have enter: "keeps (\<lambda>s. P (store s)) (ns_Enter (plug_NetNS env) podNs)" "keeps (\<lambda>s. P (store s)) (wg_New (plug_WgCtrl env))"
    by (intro quiet_keeps [where g = store] plugin_quiet [OF laws])+
  show ?thesis
    by (rule triple_ns_Do [OF yields_keeps [OF enter(1)]],
      unfold withWgClient_def plugin_lawsD2(14) [OF laws, THEN conjunct1] plugin_lawsD2(14) [OF laws, THEN conjunct2],
      rule yields_seq [OF keeps_wrap [OF enter(2)]], rule triple_fin, simp only: closed, rule body)
qed

lemma configureTunnel_yields:
  assumes laws: "plugin_laws env store devKey" and mgr: "manager_laws k store" and nic: "plug_NicAdd env = NicAdd k"
  shows "yields (\<lambda>s. store s = st) (configureTunnel env config k8sInfo gwName podNs allowed result)
    (\<lambda>_ s. tunnel_up env (podInfo k8sInfo) gwName allowed st (store s) (devKey s))"
  unfolding configureTunnel_def Let_def nic tunnelRequest_def [symmetric]
  by (rule yields_seq [OF keeps_wrap [OF store_keeps [OF plugin_quiet(9) [OF laws]]]], rule yields_seq [OF podDevice_keeps [OF laws]],
    rule triple_bind [OF triple_wrap [OF NicAdd_yields [OF mgr]]], rule yields_seq [OF keeps_wrap [OF keeps_lift]],
    rule pod_client_yields [OF laws device_configured_yields [OF laws request_up]])

section \<open>The address of the pod\<close>

text \<open>The text is that of an IPv4 address which the delegate has leased.\<close>

definition leased_ip :: "cni_result \<Rightarrow> string \<Rightarrow> bool" where
  "leased_ip ipam allowed \<longleftrightarrow> (\<exists>item b. Some item \<in> set (cres_IPs ipam) \<and> To4 (in_IP (ic_Address item)) = Some b \<and>
     allowed = IP_String (in_IP (ic_Address item)) @ ''/32'')"

lemma assignIPs_allowed:
  "assignIPs ps res al = Ok (items, res', al') \<Longrightarrow>
    al' = al \<or> (\<exists>item b. Some item \<in> set ps \<and> To4 (in_IP (ic_Address item)) = Some b \<and> al' = IP_String (in_IP (ic_Address item)) @ ''/32'')"
proof (induction ps res al arbitrary: items res' al' rule: assignIPs.induct)
  case (2 p ps result allowed)
  then obtain item where p: "p = Some item" by (cases p) (auto simp: deref_def)
  show ?case
  proof (cases "To4 (in_IP (ic_Address item)) = None")
    case True
    with 2(3) p obtain items' res1 where "assignIPs ps res1 allowed = Ok (items', res', al')"
      and "res1 = result\<lparr>cres_IPs := cres_IPs result @
         [Some \<lparr>ic_Interface = Some (int (length (cres_Interfaces result)) - 1), ic_Address = ic_Address item, ic_Gateway = []\<rparr>]\<rparr>"
      by (auto simp: bindR_Ok_iff)
    with 2(1) p True show ?thesis by fastforce
  next
    case False
    with 2(3) p obtain items' where "assignIPs ps result (IP_String (in_IP (ic_Address item)) @ ''/32'') = Ok (items', res', al')"
      by (auto simp: bindR_Ok_iff)
    with 2(2) p False show ?thesis by fastforce
  qed
qed simp

lemma assignNic_yields:
  assumes laws: "plugin_laws env store devKey"
  shows "yields (\<lambda>s. store s = st) (assignNic env podNSPath ifName ipam result)
    (\<lambda>(_, allowed) s. store s = st \<and> (allowed \<noteq> '''' \<longrightarrow> leased_ip ipam allowed))"
  unfolding assignNic_def Let_def
proof (rule yields_seq [OF keeps_format [OF store_keeps]], rule plugin_quiet(12) [OF laws], rule triple_bind_lift)
  fix link a
  assume ok: "assignIPs (cres_IPs ipam) (result\<lparr>cres_Interfaces := cres_Interfaces result @
    [\<lparr>ci_Mac = lk_HardwareAddr link, ci_Name = lk_Name link, ci_Sandbox = podNSPath\<rparr>]\<rparr>) '''' = Ok a"
  obtain items result' allowed where a: "a = (items, result', allowed)" by (cases a) auto
  have "allowed \<noteq> '''' \<longrightarrow> leased_ip ipam allowed"
    using assignIPs_allowed [OF ok [unfolded a]] by (auto simp: leased_ip_def)
  then show "yields (\<lambda>s. store s = st) (case a of (items, result', allowedIPNet) \<Rightarrow>
      bindE (if isUnitTestEnv env then retE () else plug_ConfigureIface env ifName (ipam\<lparr>cres_Interfaces :=
        [\<lparr>ci_Mac = lk_HardwareAddr link, ci_Name = lk_Name link, ci_Sandbox = podNSPath\<rparr>], cres_IPs := items\<rparr>))
      (\<lambda>_. retE (result', allowedIPNet))) (\<lambda>(_, allowed) s. store s = st \<and> (allowed \<noteq> '''' \<longrightarrow> leased_ip ipam allowed))"
    unfolding a prod.case
    by (intro yields_seq triple_if keeps_ret store_keeps plugin_quiet [OF laws] triple_ret) simp
qed simp_all

definition pod_published ::
  "'s plugin_env \<Rightarrow> PodInfo \<Rightarrow> string \<Rightarrow> cni_result \<Rightarrow> (object_key \<rightharpoonup> PodEndpoint) \<Rightarrow> (object_key \<rightharpoonup> PodEndpoint) \<Rightarrow> wgkey \<Rightarrow> bool" where
  "pod_published env pod gwName ipam st st' key \<longleftrightarrow> (\<exists>allowed. leased_ip ipam allowed \<and> tunnel_up env pod gwName allowed st st' key)"

lemma configureNic_yields:
  assumes laws: "plugin_laws env store devKey" and mgr: "manager_laws k store" and nic: "plug_NicAdd env = NicAdd k"
  shows "yields (\<lambda>s. store s = st)
    (configureNic env podNetNS podNSPath ifName result (Some (configureTunnel env config k8sInfo gwName)) ipam)
    (\<lambda>_ s. pod_published env (podInfo k8sInfo) gwName ipam st (store s) (devKey s))"
proof -
  let ?Q = "\<lambda>_ s. pod_published env (podInfo k8sInfo) gwName ipam st (store s) (devKey s)"
  have assign: "yields (\<lambda>s. store s = st) (ns_Do (plug_NetNS env) podNetNS (assignNic env podNSPath ifName ipam result))
      (\<lambda>a s. store s = st \<and> (snd a \<noteq> '''' \<longrightarrow> leased_ip ipam (snd a)))"
    by (rule triple_ns_Do [OF yields_keeps [OF store_keeps [OF plugin_quiet(13) [OF laws]]]],
      unfold plugin_lawsD2(14) [OF laws, THEN conjunct1], rule triple_conseq [OF assignNic_yields [OF laws]]) (auto split: prod.splits)
  have tunnel: "yields (\<lambda>s. store s = st) (configureTunnel env config k8sInfo gwName podNetNS allowed result') ?Q"
    if "leased_ip ipam allowed" for allowed result'
    by (rule triple_conseq [OF configureTunnel_yields [OF laws mgr nic]]) (use that in \<open>auto simp: pod_published_def\<close>)
  show ?thesis
    unfolding configureNic_def option.case
  proof (rule triple_if, simp add: triple_fail, rule triple_bind [OF assign], rule triple_pure)
    fix a :: "cni_result \<times> string" assume "snd a \<noteq> '''' \<longrightarrow> leased_ip ipam (snd a)"
    then show "yields (\<lambda>s. store s = st) (case a of (result', allowedIPNet) \<Rightarrow>
        if allowedIPNet = '''' then failE (ErrMsg ''failed to find pod ipv4 ip'')
        else configureTunnel env config k8sInfo gwName podNetNS allowedIPNet result') ?Q"
      by (cases a) (auto simp: triple_fail tunnel)
  qed
qed

text \<open>What the delegate returned to some call, in the version of the plugin.\<close>

definition delegated :: "'s plugin_env \<Rightarrow> cni_result \<Rightarrow> bool" where
  "delegated env ipam \<longleftrightarrow> (\<exists>t c s r s'. plug_ExecAdd env t c s = (Ok r, s') \<and> plug_NewResultFromResult env (Some r) = Ok ipam)"

lemma WithIP_yields:
  assumes add: "quiet store (plug_ExecAdd env (ipw_pluginType wrapper) (ipw_netConf wrapper))"
    and f: "\<And>ipam. delegated env ipam \<Longrightarrow> yields (\<lambda>s. store s = st) (f ipam) Q"
  shows "yields (\<lambda>s. store s = st) (WithIP env wrapper (Some f)) Q"
proof -
  let ?t = "ipw_pluginType wrapper" and ?c = "ipw_netConf wrapper"
  have exec: "yields (\<lambda>s. store s = st) (plug_ExecAdd env ?t ?c) (\<lambda>r s. store s = st \<and> (\<exists>u u'. plug_ExecAdd env ?t ?c u = (Ok r, u')))"
    using add unfolding triple_def quiet_def by (auto split: prod.splits res.splits) (metis snd_conv)
  have undo: "yields (\<lambda>_. True) (tryE (DeleteIP env wrapper) (\<lambda>_. failE e) (\<lambda>e'. failE (g e'))) Q" for e g
    by (auto simp: triple_def tryE_def failE_def split: prod.splits res.splits)
  have body: "yields (\<lambda>s. store s = st) (bindE (liftR (plug_NewResultFromResult env (Some r))) f) Q"
    if "\<exists>u u'. plug_ExecAdd env ?t ?c u = (Ok r, u')" for r
  proof (rule triple_bind_lift)
    fix ipam assume "plug_NewResultFromResult env (Some r) = Ok ipam"
    with that have "delegated env ipam" unfolding delegated_def by blast
    then show "yields (\<lambda>s. store s = st) (f ipam) Q" by (rule f)
  qed simp_all
  show ?thesis
    unfolding WithIP_def option.case
    by (rule triple_bind [OF exec], rule triple_pure, rule triple_try [OF body]) (auto intro: triple_ret undo)
qed

section \<open>The whole addition\<close>

lemma recoverNic_fails:
  fixes env :: "'b plugin_env"
  shows "yields (\<lambda>_. True) (recoverNic env podNetNS main ifName err) Q"
proof -
  have inside: "yields (\<lambda>_. True) (tryE m (\<lambda>_. failE e) (\<lambda>e'. failE (g e'))) Q" for m :: "('b, unit) io" and e g and Q :: "'c \<Rightarrow> 'b \<Rightarrow> bool"
    by (auto simp: triple_def tryE_def failE_def split: prod.splits res.splits)
  have any: "yields (\<lambda>_. True) m (\<lambda>_ _. True)" for m :: "('b, error option) io"
    by (auto simp: triple_def split: prod.splits res.splits)
  show ?thesis unfolding recoverNic_def Let_def by (rule triple_bind [OF any]) (rule inside)
qed

lemma WithWireGuardNic_yields:
  assumes laws: "plugin_laws env store devKey"
    and config: "\<And>x ipam. delegated env ipam \<Longrightarrow> yields (\<lambda>s. store s = st)
      (configureNic env x podNSPath ifName result configFunc ipam) (\<lambda>_ s. Q (store s) (devKey s))"
  shows "yields (\<lambda>s. store s = st) (WithWireGuardNic env containerID podNSPath ifName wrapper result configFunc) (\<lambda>_ s. Q (store s) (devKey s))"
proof -
  let ?I = "\<lambda>s. store s = st" and ?Q = "\<lambda>_ s. Q (store s) (devKey s)"
  let ?ip = "\<lambda>x. WithIP env wrapper (Some (configureNic env x podNSPath ifName result configFunc))"
  have ip: "yields ?I (?ip x) ?Q" for x
    by (rule WithIP_yields [OF plugin_quiet(7) [OF laws]]) (rule config)
  have created: "yields ?I (tryE (bindE (createNic env x main ifName) (\<lambda>_. ?ip x)) retE (recoverNic env x main ifName)) ?Q" for x main
    by (rule triple_try [OF yields_seq [OF createNic_keeps [OF laws] ip]]) (rule triple_ret, assumption, rule recoverNic_fails)
  have closed: "store (ignoring (ns_Close (plug_NetNS env) x) s) = store s \<and> devKey (ignoring (ns_Close (plug_NetNS env) x) s) = devKey s" for x s
    using plugin_lawsD2(3) [OF laws] by (simp add: quiet_def ignoring_def)
  show ?thesis
    unfolding WithWireGuardNic_def GetNSByPath_def
  proof (rule yields_seq [OF store_keeps [OF plugin_quiet(11) [OF laws]]], rule triple_fin, unfold closed [THEN conjunct1] closed [THEN conjunct2],
      rule yields_seq [OF store_ns_Do [OF laws lookup_keeps [OF laws]]])
    fix x :: netns and link :: "nl_link option"
    show "yields ?I (let withIP = ?ip x in if link \<noteq> None then withIP else if length containerID < 8 then liftR Panic
        else let wgNameInMain = ''wg'' @ take 8 containerID in
          tryE (bindE (createNic env x wgNameInMain ifName) (\<lambda>_. withIP)) retE (recoverNic env x wgNameInMain ifName)) ?Q"
      unfolding Let_def by (intro triple_if ip triple_panic created)
  qed
qed

lemma addNic_yields:
  assumes laws: "plugin_laws env store devKey" and mgr: "manager_laws k store" and nic: "plug_NicAdd env = NicAdd k"
  shows "yields (\<lambda>s. store s = st) (addNic env args config k8sInfo gwName result)
    (\<lambda>_ s. \<exists>ipam. delegated env ipam \<and> pod_published env (podInfo k8sInfo) gwName ipam st (store s) (devKey s))"
proof -
  let ?P = "\<lambda>x y. \<exists>ipam. delegated env ipam \<and> pod_published env (podInfo k8sInfo) gwName ipam st x y"
  have config: "yields (\<lambda>s. store s = st)
      (configureNic env x podNSPath ifName result (Some (configureTunnel env config k8sInfo gwName)) ipam) (\<lambda>_ s. ?P (store s) (devKey s))"
    if "delegated env ipam" for x podNSPath ifName ipam
    by (rule triple_conseq [OF configureNic_yields [OF laws mgr nic]]) (use that in auto)
  show ?thesis
    unfolding addNic_def
    by (rule triple_if, simp add: triple_fail, rule triple_bind [OF WithWireGuardNic_yields [OF laws config]], assumption,
      rule yields_keeps [OF both_keeps [where P = ?P, OF plugin_lawsD2(13) [OF laws]]])
qed

end
