(* ===== verification/Pod_World.thy ===== *)
theory Pod_World
  imports Pod_Proofs Plugin_World Daemon_World
begin

text \<open>
  A cluster with one pod: the plugin on the pod's node, the CNI manager that it calls, and the endpoints that the
  manager stores. The daemon of the gateway node is the one of \<open>Daemon_World\<close>.
\<close>

record cluster =
  cl_store :: "object_key \<rightharpoonup> PodEndpoint"
  cl_key :: wgkey

definition cl_pod :: Pod where
  "cl_pod = \<lparr>pod_Meta = (new_meta ''ns'' ''pod'')\<lparr>om_Annotations := [CNIGatewayAnnotationKey \<mapsto> ''gw'']\<rparr>\<rparr>"

definition cl_kube :: "cluster kube" where
  "cl_kube = offline_kube\<lparr>
     k_SGC := offline_client\<lparr>kGet := (\<lambda>_ _. retE node_gw)\<rparr>,
     k_Pod := offline_client\<lparr>kGet := (\<lambda>_ _. retE cl_pod)\<rparr>,
     k_PE := offline_client\<lparr>kCreateOrUpdate := (\<lambda>pe f s. case f (fetched (cl_store s) (pe_key pe) pe) of
       Ok x \<Rightarrow> (Ok x, s\<lparr>cl_store := (cl_store s)(pe_key pe \<mapsto> x)\<rparr>) | Err e \<Rightarrow> (Err e, s) | Panic \<Rightarrow> (Panic, s))\<rparr>\<rparr>"

definition cl_nl :: "cluster netlinkwrapper" where
  "cl_nl = \<lparr>LinkByName = \<lambda>n. retE (if n = ''eth0'' then pod_eth0 else pod_wg0),
     LinkAdd = \<lambda>_. retE (), LinkList = retE [pod_eth0, pod_wg0], LinkDel = \<lambda>_. retE (), LinkSetUp = \<lambda>_. retE (), LinkSetDown = \<lambda>_. retE (),
     LinkSetNsFd = \<lambda>_ _. retE (), LinkSetName = \<lambda>_ _. retE (), LinkSetAlias = \<lambda>_ _. retE (),
     AddrList = \<lambda>_ f. retE (if f = FAMILY_V6 then [pod_addr6] else [pod_addr]), AddrAdd = \<lambda>_ _. retE (), AddrDel = \<lambda>_ _. retE (),
     AddrReplace = \<lambda>_ _. retE (), RouteReplace = \<lambda>_. retE (), RouteDel = \<lambda>_. retE (), RouteList = \<lambda>_ _. retE [pod_gateway_route],
     RuleAdd = \<lambda>_. retE (), nl_ParseIPNet = \<lambda>_. Err (ErrMsg ''invalid''), nl_Addr_Equal = (\<lambda>a b. a = b)\<rparr>"

definition cl_ns :: "cluster netns_sys" where
  "cl_ns = \<lparr>ns_GetNS = \<lambda>p. retE \<lparr>ns_Path = p, ns_Fd = 7\<rparr>, ns_Enter = \<lambda>_. retE (), ns_Leave = \<lambda>_ s. s, ns_Close = \<lambda>_. retE (),
     ns_Set = \<lambda>_. retE (), sys_ThreadNetNSPath = \<lambda>_. '''', sys_MkdirAll = \<lambda>_. retE (), sys_CreateExclusive = \<lambda>_. retE (),
     sys_RemoveAll = \<lambda>_. retE (), sys_UnshareNet = retE (), sys_BindMount = \<lambda>_ _. retE (), sys_Unmount = \<lambda>_. retE (), sys_Remove = \<lambda>_. retE (),
     sys_Readdir = \<lambda>_. retE []\<rparr>"

definition cl_wg :: "cluster wgctrlwrapper" where
  "cl_wg = \<lparr>wg_New = retE (), wg_Close = retE (), wg_Device = \<lambda>_. retE \<lparr>dev_PrivateKey = [], dev_ListenPort = 7, dev_Peers = []\<rparr>,
     wg_ConfigureDevice = (\<lambda>_ c s. (Ok (), s\<lparr>cl_key := Val (cl_key s) (wc_PrivateKey c)\<rparr>)),
     wg_ParseKey = (\<lambda>t. Ok (map of_char t)), wg_KeyString = map char_of\<rparr>"

text \<open>The public key of a private one is a function of its bytes.\<close>

definition cl_env :: "cluster plugin_env" where
  "cl_env = \<lparr>plug_Netlink = cl_nl, plug_NetNS = cl_ns, plug_WgCtrl = cl_wg, plug_Unmarshal = \<lambda>_. Ok (Some pod_config),
     plug_ParsePrevResult = Ok,
     plug_LoadArgs = \<lambda>_. Ok \<lparr>K8S_POD_NAME = ''pod'', K8S_POD_NAMESPACE = ''ns'', K8S_POD_INFRA_CONTAINER_ID = ''''\<rparr>,
     plug_NewResultFromResult = (\<lambda>p. case p of None \<Rightarrow> Err (ErrMsg ''no result'') | Some r \<Rightarrow> Ok r),
     plug_ImplementedSpecVersion = ''1.0.0'', plug_PrintResult = \<lambda>_ _. retE (),
     plug_ExecAdd = \<lambda>_ _. retE pod_lease, plug_ExecDel = \<lambda>_ _. retE (),
     plug_ConfigureIface = \<lambda>_ _. retE (), plug_NewIPTables = retE (), plug_AppendUnique = \<lambda>_ _ _. retE (), plug_WriteFile = \<lambda>_ _. retE (),
     plug_Getenv = \<lambda>_. '''', plug_GeneratePrivateKey = retE [1, 2], plug_PublicKey = map (\<lambda>x. (x + 3) mod 256),
     plug_Dial = \<lambda>_. retE (), plug_CloseConn = retE (),
     plug_PodRetrieve = PodRetrieve cl_kube, plug_NicAdd = NicAdd cl_kube, plug_NicDel = NicDel cl_kube\<rparr>"

definition cl_start :: cluster where
  "cl_start = \<lparr>cl_store = Map.empty, cl_key = []\<rparr>"

definition cl_args :: CmdArgs where
  "cl_args = \<lparr>ca_ContainerID = ''0123456789'', ca_Netns = ''/run/netns/pod'', ca_IfName = ''eth0'', ca_Args = '''', ca_StdinData = ''''\<rparr>"

definition cl_k8s :: K8sConfig where
  "cl_k8s = \<lparr>K8S_POD_NAME = ''pod'', K8S_POD_NAMESPACE = ''ns'', K8S_POD_INFRA_CONTAINER_ID = ''''\<rparr>"

section \<open>Laws\<close>

lemma cl_env_simps [simp]:
  "plug_Netlink cl_env = cl_nl" "plug_NetNS cl_env = cl_ns" "plug_WgCtrl cl_env = cl_wg" "plug_NicAdd cl_env = NicAdd cl_kube"
  "plug_ExecAdd cl_env = (\<lambda>_ _. retE pod_lease)" "plug_PublicKey cl_env = map (\<lambda>x. (x + 3) mod 256)"
  by (simp_all add: cl_env_def)

lemma cl_plugin_laws: "plugin_laws cl_env cl_store cl_key"
  unfolding plugin_laws_def Let_def
  by (auto simp: quiet_def cl_env_def cl_nl_def cl_ns_def cl_wg_def retE_def)

lemma cl_manager_laws: "manager_laws cl_kube cl_store"
  by (auto simp: manager_laws_def quiet_def update_law_def patch_law_def cl_kube_def offline_client_def retE_def pe_echo_def split: res.splits)

end
