(* ===== verification/Pod_Props.thy ===== *)
theory Pod_Props
  imports Pod_World "HOL-Library.Code_Target_Nat"
begin

text \<open>The properties of the CNI manager's service, with an instance on the cluster of one pod.\<close>

section \<open>Endpoints\<close>

text \<open>
  Property C29. \<open>NicAdd\<close> answers for the gateway it has read: as long as the gateway has no egress prefix, the answer is the
  error of a failed precondition and no endpoint changes; a successful answer carries the gateway's address, port, key, exceptions
  and default route, and the one endpoint that has changed is that of the pod, with exactly the address, key and gateway of the request.
\<close>

theorem NicAdd_publishes_endpoint:
  assumes "manager_laws k store" and "NicAdd k req s = (r, s')"
    and "kGet (k_SGC k) (pi_PodNamespace (naq_PodConfig req)) (naq_GatewayName req) s = (Ok gw, s1)"
  shows "if sgt_EgressIpPrefix (sgc_Status gw) = ''''
    then r = Err (grpcError ''FailedPrecondition'' ''the egress IP prefix is not ready yet.'') \<and> store s' = store s
    else case r of Ok resp \<Rightarrow> resp = nicAddResponse gw \<and> endpoint_stored req (store s) (store s') | _ \<Rightarrow> True"
proof (cases "sgt_EgressIpPrefix (sgc_Status gw) = ''''")
  case True
  then show ?thesis using NicAdd_not_ready [OF assms] by simp
next
  case False
  with NicAdd_Ok [OF assms(1), of req s _ s'] assms(2,3) show ?thesis by (cases r) auto
qed

definition cl_request :: NicAddRequest where
  "cl_request = \<lparr>naq_PodConfig = podInfo cl_k8s, naq_ListenPort = 7, naq_AllowedIp = ''10.1.0.7/32'', naq_PublicKey = ''key'', naq_GatewayName = ''gw''\<rparr>"

definition cl_answered :: "NicAddResponse res \<times> cluster" where
  "cl_answered = NicAdd cl_kube cl_request cl_start"

theorem NicAdd_publishes_endpoint_witness:
  "fst cl_answered = Ok (nicAddResponse node_gw) \<and>
    (\<exists>pe. pe_Spec pe = requested cl_request \<and> cl_store (snd cl_answered) = [(''ns'', ''pod'') \<mapsto> pe])"
proof -
  have run: "NicAdd cl_kube cl_request cl_start = (fst cl_answered, snd cl_answered)" by (simp add: cl_answered_def)
  have get: "kGet (k_SGC cl_kube) (pi_PodNamespace (naq_PodConfig cl_request)) (naq_GatewayName cl_request) cl_start = (Ok node_gw, cl_start)"
    by (simp add: cl_kube_def retE_def)
  have ok: "is_ok (fst cl_answered)" by code_simp
  have ready: "sgt_EgressIpPrefix (sgc_Status node_gw) \<noteq> ''''" by code_simp
  have key: "pod_key (naq_PodConfig cl_request) = (''ns'', ''pod'')" by code_simp
  from NicAdd_publishes_endpoint [OF cl_manager_laws run get] ready ok
  have "fst cl_answered = Ok (nicAddResponse node_gw)" "endpoint_stored cl_request (cl_store cl_start) (cl_store (snd cl_answered))"
    by (auto simp: is_ok_iff)
  then show ?thesis by (auto simp: endpoint_stored_def key cl_start_def)
qed

section \<open>The taint of the node\<close>

text \<open>The update leaves every other taint and nothing is sent for a node without the taint or while the configuration is not ready.\<close>

lemma withoutTaint_others:
  "filter (\<lambda>t. \<not> isNotReadyTaint t) (node_Taints (withoutTaint node)) = filter (\<lambda>t. \<not> isNotReadyTaint t) (node_Taints node)"
  unfolding withoutTaint_def by (simp add: filter_drop_first)

lemma removeNodeTaint_waits:
  assumes "triple I ready (\<lambda>b s. I s \<and> \<not> b) (\<lambda>_. I) I"
  shows "keeps I (removeNodeTaintIfNeeded k retry ready node)"
  unfolding removeNodeTaintIfNeeded_def
  by (rule triple_if, rule triple_bind [OF assms], rule triple_pure) (simp_all add: keeps_ret)

end
