(* ===== verification/Node_Tools.thy ===== *)
theory Node_Tools
  imports Node_Net
begin

text \<open>
  The two small programs that prepare a node: src/cmd/add-netns creates the namespace of the gateways, src/cmd/copy copies the plugins
  into a directory of the host.
\<close>

section \<open>The namespace\<close>

text \<open>The type of the error that \<open>ns.GetNS\<close> returns for a missing path belongs to the CNI library.\<close>

definition ensureNS :: "(error \<Rightarrow> bool) \<Rightarrow> 's netns_sys \<Rightarrow> string \<Rightarrow> ('s, unit) io" where
  "ensureNS isNSPathNotExist sys namespace =
     bindE (tryE (GetNS sys namespace) retE
         (\<lambda>e. if isNSPathNotExist e then wrapE ''failed to create network namespace'' (NewNS sys namespace)
           else failE (Wrap ''failed to get network namespace'' e)))
       (\<lambda>targetNS. finE (retE ()) (\<lambda>_. ignoring (ns_Close sys targetNS)))"

text \<open>A namespace that is there is left alone; otherwise exactly the error of the lookup decides whether one is created.\<close>

lemma ensureNS_cases:
  "ensureNS p sys n s = (case GetNS sys n s of
      (Ok x, s1) \<Rightarrow> (Ok (), ignoring (ns_Close sys x) s1)
    | (Err e, s1) \<Rightarrow> if p e then (case NewNS sys n s1 of (Ok x, s2) \<Rightarrow> (Ok (), ignoring (ns_Close sys x) s2)
          | (Err e', s2) \<Rightarrow> (Err (Wrap ''failed to create network namespace'' e'), s2) | (Panic, s2) \<Rightarrow> (Panic, s2))
        else (Err (Wrap ''failed to get network namespace'' e), s1)
    | (Panic, s1) \<Rightarrow> (Panic, s1))"
  by (auto simp: ensureNS_def bindE_def tryE_def retE_def failE_def wrapE_def finE_def split: prod.splits res.splits)

section \<open>Paths\<close>





section \<open>Copying a file\<close>












end
