(* ===== verification/Visualizer.thy ===== *)
theory Visualizer
  imports GoPrelude GoStrings "HOL-Library.Word"
begin

text \<open>
  The back end of the network visualizer, src/network-visualizer/backend/main.go: it draws pods, services, nodes and namespaces of the
  cluster as a graph, reports simulated flows and simple issues. Values of the Kubernetes API that are only passed on have the type \<open>'x\<close>.
  A list call returns its items together with an error, since one handler uses the items without looking at the error.
\<close>

type_synonym int64 = "64 word"

section \<open>Objects\<close>

record container_status =
  cst_Ready :: bool
  cst_RestartCount :: "32 word"

record 'x v1_pod =
  vp_Namespace :: string
  vp_Name :: string
  vp_Labels :: "string \<rightharpoonup> string"
  vp_Phase :: string
  vp_PodIP :: string
  vp_NodeName :: string
  vp_Containers :: 'x
  vp_ContainerStatuses :: "container_status list"

record 'x v1_service =
  vs_Namespace :: string
  vs_Name :: string
  vs_Type :: string
  vs_ClusterIP :: string
  vs_Ports :: 'x
  vs_Selector :: "(string \<times> string) list"

record node_condition =
  cond_Type :: string
  cond_Status :: string

record 'x v1_node =
  vn_Name :: string
  vn_Capacity :: 'x
  vn_Allocatable :: 'x
  vn_NodeInfo :: 'x
  vn_Conditions :: "node_condition list"

record 'x v1_namespace =
  vns_Name :: string
  vns_CreationTimestamp :: 'x

section \<open>Answers\<close>

datatype 'x vdata = VText string | VNumber int | VLabels "string \<rightharpoonup> string" | VConditions "node_condition list" | VRaw 'x

record 'x TopologyNode =
  tn_ID :: string
  tn_Label :: string
  tn_Type :: string
  tn_Namespace :: string
  tn_Status :: string
  tn_Data :: "(string \<times> 'x vdata) list"

text \<open>The fields for bandwidth and packets keep their zero values.\<close>

record 'x TopologyEdge =
  te_ID :: string
  te_Source :: string
  te_Target :: string
  te_Type :: string
  te_Data :: "(string \<times> 'x vdata) list"
  te_Animated :: bool

record 'x TopologyResponse =
  tr_Nodes :: "'x TopologyNode list"
  tr_Edges :: "'x TopologyEdge list"
  tr_Timestamp :: string

record Flow =
  fl_ID :: string
  fl_SourcePod :: string
  fl_SourceNS :: string
  fl_DestPod :: string
  fl_DestNS :: string
  fl_Protocol :: string
  fl_BytesSent :: int64
  fl_BytesReceived :: int64
  fl_PacketsSent :: int64
  fl_PacketsRecv :: int64
  fl_Errors :: int
  fl_Timestamp :: string

text \<open>No anomaly is ever built; the two numbers of the type are left out.\<close>

record Anomaly =
  an_ID :: string
  an_Type :: string
  an_Severity :: string
  an_Description :: string
  an_AffectedPod :: string
  an_Metric :: string
  an_Timestamp :: string

record Issue =
  is_ID :: string
  is_Type :: string
  is_Severity :: string
  is_Title :: string
  is_Description :: string
  is_Remediation :: string
  is_AffectedResources :: "string list"

section \<open>Topology\<close>

definition isSystem :: "string \<Rightarrow> bool" where
  "isSystem ns \<longleftrightarrow> ns = ''kube-system'' \<or> ns = ''kube-public''"

text \<open>A missing label reads as the empty string. The result does not depend on the order of the selector.\<close>

definition matchesSelector :: "(string \<rightharpoonup> string) \<Rightarrow> (string \<times> string) list \<Rightarrow> bool" where
  "matchesSelector labels selector \<longleftrightarrow> selector \<noteq> [] \<and> list_all (\<lambda>(k, v). Val '''' (labels k) = v) selector"

definition countRestarts :: "container_status list \<Rightarrow> int" where
  "countRestarts statuses = foldl (\<lambda>total cs. total + sint (cst_RestartCount cs)) 0 statuses"

definition namespaceNode :: "'x v1_namespace \<Rightarrow> 'x TopologyNode" where
  "namespaceNode ns = \<lparr>tn_ID = ''ns-'' @ vns_Name ns, tn_Label = vns_Name ns, tn_Type = ''namespace'', tn_Namespace = '''', tn_Status = ''healthy'',
     tn_Data = [(''name'', VText (vns_Name ns)), (''creationTimestamp'', VRaw (vns_CreationTimestamp ns))]\<rparr>"

definition nodeStatus :: "'x v1_node \<Rightarrow> string" where
  "nodeStatus node = foldl (\<lambda>status cond. if cond_Type cond = ''Ready'' \<and> cond_Status cond \<noteq> ''True'' then ''failed'' else status)
     ''healthy'' (vn_Conditions node)"

definition nodeNode :: "'x v1_node \<Rightarrow> 'x TopologyNode" where
  "nodeNode node = \<lparr>tn_ID = ''node-'' @ vn_Name node, tn_Label = vn_Name node, tn_Type = ''node'', tn_Namespace = '''', tn_Status = nodeStatus node,
     tn_Data = [(''name'', VText (vn_Name node)), (''capacity'', VRaw (vn_Capacity node)), (''allocatable'', VRaw (vn_Allocatable node)),
       (''nodeInfo'', VRaw (vn_NodeInfo node)), (''conditions'', VConditions (vn_Conditions node))]\<rparr>"

definition svcID :: "'x v1_service \<Rightarrow> string" where
  "svcID svc = ''svc-'' @ vs_Namespace svc @ ''-'' @ vs_Name svc"

definition serviceNode :: "'x v1_service \<Rightarrow> 'x TopologyNode" where
  "serviceNode svc = \<lparr>tn_ID = svcID svc, tn_Label = vs_Name svc, tn_Type = ''service'', tn_Namespace = vs_Namespace svc, tn_Status = ''healthy'',
     tn_Data = [(''name'', VText (vs_Name svc)), (''namespace'', VText (vs_Namespace svc)), (''type'', VText (vs_Type svc)),
       (''clusterIP'', VText (vs_ClusterIP svc)), (''ports'', VRaw (vs_Ports svc))]\<rparr>"

definition podID :: "'x v1_pod \<Rightarrow> string" where
  "podID pod = ''pod-'' @ vp_Namespace pod @ ''-'' @ vp_Name pod"

definition podStatus :: "'x v1_pod \<Rightarrow> string" where
  "podStatus pod = foldl (\<lambda>status cs. if \<not> cst_Ready cs then ''failed'' else status)
     (if vp_Phase pod \<noteq> ''Running'' then ''degraded'' else ''healthy'') (vp_ContainerStatuses pod)"

definition podNode :: "'x v1_pod \<Rightarrow> 'x TopologyNode" where
  "podNode pod = \<lparr>tn_ID = podID pod, tn_Label = vp_Name pod, tn_Type = ''pod'', tn_Namespace = vp_Namespace pod, tn_Status = podStatus pod,
     tn_Data = [(''name'', VText (vp_Name pod)), (''namespace'', VText (vp_Namespace pod)), (''phase'', VText (vp_Phase pod)),
       (''podIP'', VText (vp_PodIP pod)), (''nodeName'', VText (vp_NodeName pod)), (''labels'', VLabels (vp_Labels pod)),
       (''containers'', VRaw (vp_Containers pod)), (''restarts'', VNumber (countRestarts (vp_ContainerStatuses pod)))]\<rparr>"

definition newEdge :: "string \<Rightarrow> string \<Rightarrow> string \<Rightarrow> string \<Rightarrow> 'x TopologyEdge" where
  "newEdge i src tgt typ = \<lparr>te_ID = i, te_Source = src, te_Target = tgt, te_Type = typ, te_Data = [], te_Animated = False\<rparr>"

definition podEdges :: "'x v1_service list \<Rightarrow> 'x v1_pod \<Rightarrow> 'x TopologyEdge list" where
  "podEdges services pod =
     (if vp_NodeName pod \<noteq> '''' then [newEdge (''edge-pod-node-'' @ vp_Namespace pod @ ''-'' @ vp_Name pod) (podID pod)
        (''node-'' @ vp_NodeName pod) ''pod-to-node''] else []) @
     [newEdge (''edge-ns-pod-'' @ vp_Namespace pod @ ''-'' @ vp_Name pod) (''ns-'' @ vp_Namespace pod) (podID pod) ''namespace-to-pod''] @
     map (\<lambda>svc. newEdge (''edge-svc-pod-'' @ vs_Namespace svc @ ''-'' @ vs_Name svc @ ''-'' @ vp_Name pod) (svcID svc) (podID pod) ''service-to-pod'')
       (filter (\<lambda>svc. vs_Namespace svc = vp_Namespace pod \<and> matchesSelector (vp_Labels pod) (vs_Selector svc)) services)"

definition buildTopology ::
  "string \<Rightarrow> 'x v1_pod list \<Rightarrow> 'x v1_service list \<Rightarrow> 'x v1_node list \<Rightarrow> 'x v1_namespace list \<Rightarrow> 'x TopologyResponse" where
  "buildTopology now pods services nodes namespaces = (let shown = filter (\<lambda>p. \<not> isSystem (vp_Namespace p)) pods in
     \<lparr>tr_Nodes = map namespaceNode namespaces @ map nodeNode nodes @
        map serviceNode (filter (\<lambda>svc. \<not> isSystem (vs_Namespace svc)) services) @ map podNode shown,
      tr_Edges = concat (map (podEdges services) shown), tr_Timestamp = now\<rparr>)"

section \<open>Handlers\<close>

datatype 'x vis_body = TopologyBody "'x TopologyResponse" | FlowsBody "Flow list" | MetricsBody int int64 int64 string
  | AnomaliesBody "Anomaly list" | IssuesBody "Issue list" | ErrorBody string | EmptyBody

record 'x response =
  rsp_Status :: nat
  rsp_Headers :: "(string \<times> string) list"
  rsp_Body :: "'x vis_body"

record ('s, 'x) vis_env =
  vis_Pods :: "('s, 'x v1_pod list \<times> error option) io"
  vis_Services :: "('s, 'x v1_service list \<times> error option) io"
  vis_Nodes :: "('s, 'x v1_node list \<times> error option) io"
  vis_Namespaces :: "('s, 'x v1_namespace list \<times> error option) io"
  vis_Policies :: "('s, 'x list \<times> error option) io"
  vis_Now :: "'s \<Rightarrow> string"
  vis_flows :: "'s \<Rightarrow> Flow list"
  vis_setFlows :: "Flow list \<Rightarrow> 's \<Rightarrow> 's"

definition jsonResponse :: "'x vis_body \<Rightarrow> 'x response" where
  "jsonResponse b = \<lparr>rsp_Status = 200, rsp_Headers = [(''Content-Type'', ''application/json'')], rsp_Body = b\<rparr>"

text \<open>\<open>http.Error\<close> with the status 500.\<close>

definition serverError :: "error \<Rightarrow> 'x response" where
  "serverError e = \<lparr>rsp_Status = 500, rsp_Headers = [(''Content-Type'', ''text/plain; charset=utf-8''), (''X-Content-Type-Options'', ''nosniff'')],
     rsp_Body = ErrorBody (error_text e @ [CHR 0x0A])\<rparr>"

definition corsMiddleware :: "(string \<Rightarrow> ('s, 'x response) io) \<Rightarrow> string \<Rightarrow> ('s, 'x response) io" where
  "corsMiddleware handler method = (let cors = [(''Access-Control-Allow-Origin'', ''*''), (''Access-Control-Allow-Methods'', ''GET, POST, OPTIONS''),
       (''Access-Control-Allow-Headers'', ''Content-Type'')] in
     if method = ''OPTIONS'' then retE \<lparr>rsp_Status = 200, rsp_Headers = cors, rsp_Body = EmptyBody\<rparr>
     else bindE (handler method) (\<lambda>r. retE (r\<lparr>rsp_Headers := cors @ rsp_Headers r\<rparr>)))"

text \<open>A list call whose error ends the handler.\<close>

definition listed :: "('s, 'a \<times> error option) io \<Rightarrow> ('a \<Rightarrow> ('s, 'x response) io) \<Rightarrow> ('s, 'x response) io" where
  "listed call k = bindE call (\<lambda>(items, err). case err of Some e \<Rightarrow> retE (serverError e) | None \<Rightarrow> k items)"

definition getTopologyHandler :: "('s, 'x) vis_env \<Rightarrow> ('s, 'x response) io" where
  "getTopologyHandler env = listed (vis_Pods env) (\<lambda>pods. listed (vis_Services env) (\<lambda>services. listed (vis_Nodes env) (\<lambda>nodes.
     listed (vis_Namespaces env) (\<lambda>namespaces s.
       (Ok (jsonResponse (TopologyBody (buildTopology (vis_Now env s) pods services nodes namespaces))), s)))))"

definition getFlowsHandler :: "('s, 'x) vis_env \<Rightarrow> ('s, 'x response) io" where
  "getFlowsHandler env s = (Ok (jsonResponse (FlowsBody (vis_flows env s))), s)"

definition flowTotals :: "Flow list \<Rightarrow> int64 \<times> int64" where
  "flowTotals flows = foldl (\<lambda>(b, p) flow. (b + (fl_BytesSent flow + fl_BytesReceived flow), p + (fl_PacketsSent flow + fl_PacketsRecv flow)))
     (0, 0) flows"

definition getFlowMetricsHandler :: "('s, 'x) vis_env \<Rightarrow> ('s, 'x response) io" where
  "getFlowMetricsHandler env s = (let flows = vis_flows env s in case flowTotals flows of (totalBytes, totalPackets) \<Rightarrow>
     (Ok (jsonResponse (MetricsBody (int (length flows)) totalBytes totalPackets (vis_Now env s))), s))"

definition getAnomaliesHandler :: "('s, 'x response) io" where
  "getAnomaliesHandler = retE (jsonResponse (AnomaliesBody []))"

definition isExposed :: "'x v1_service list \<Rightarrow> 'x v1_pod \<Rightarrow> bool" where
  "isExposed services pod \<longleftrightarrow> list_ex (\<lambda>svc. vs_Namespace svc = vp_Namespace pod \<and> matchesSelector (vp_Labels pod) (vs_Selector svc)) services"

definition unmatchedIssue :: Issue where
  "unmatchedIssue = \<lparr>is_ID = ''issue-unmatched-pods'', is_Type = ''configuration'', is_Severity = ''low'', is_Title = ''Pods without Services'',
     is_Description = ''Some pods are not exposed by any service'', is_Remediation = ''Create services for pods that need to be accessible'',
     is_AffectedResources = [''Multiple pods'']\<rparr>"

definition policyIssue :: Issue where
  "policyIssue = \<lparr>is_ID = ''issue-no-network-policies'', is_Type = ''security'', is_Severity = ''medium'', is_Title = ''No Network Policies Defined'',
     is_Description = ''Cluster has no network policies, all traffic is allowed'',
     is_Remediation = ''Implement network policies to restrict pod-to-pod traffic'', is_AffectedResources = [''Cluster-wide'']\<rparr>"

definition issuesOf :: "'x v1_pod list \<Rightarrow> 'x v1_service list \<Rightarrow> 'x list \<Rightarrow> Issue list" where
  "issuesOf pods services policies =
     (if list_ex (\<lambda>pod. vp_Namespace pod \<noteq> ''kube-system'' \<and> \<not> isExposed services pod) pods then [unmatchedIssue] else []) @
     (if policies = [] then [policyIssue] else [])"

text \<open>The errors of the three list calls are dropped.\<close>

definition getIssuesHandler :: "('s, 'x) vis_env \<Rightarrow> ('s, 'x response) io" where
  "getIssuesHandler env = bindE (vis_Pods env) (\<lambda>(pods, _). bindE (vis_Services env) (\<lambda>(services, _). bindE (vis_Policies env) (\<lambda>(policies, _).
     retE (jsonResponse (IssuesBody (issuesOf pods services policies))))))"

section \<open>Flows\<close>

definition flowOf :: "string \<Rightarrow> nat \<Rightarrow> 'x v1_pod \<Rightarrow> Flow" where
  "flowOf now i pod = \<lparr>fl_ID = ''flow-'' @ vp_Namespace pod @ ''-'' @ vp_Name pod, fl_SourcePod = vp_Name pod, fl_SourceNS = vp_Namespace pod,
     fl_DestPod = ''external'', fl_DestNS = '''', fl_Protocol = ''TCP'', fl_BytesSent = of_nat (1000 + i * 100),
     fl_BytesReceived = of_nat (500 + i * 50), fl_PacketsSent = of_nat (10 + i), fl_PacketsRecv = of_nat (5 + i), fl_Errors = 0, fl_Timestamp = now\<rparr>"

definition newFlows :: "string \<Rightarrow> 'x v1_pod list \<Rightarrow> Flow list" where
  "newFlows now pods = map (\<lambda>(i, pod). flowOf now i pod)
     (filter (\<lambda>(_, pod). vp_Namespace pod \<noteq> ''kube-system'') (zip [0..<10] pods))"

text \<open>One tick of the collector; an error of the list call skips it.\<close>

definition collectTick :: "('s, 'x) vis_env \<Rightarrow> ('s, unit) io" where
  "collectTick env = bindE (vis_Pods env) (\<lambda>(pods, err) s. case err of Some _ \<Rightarrow> (Ok (), s)
     | None \<Rightarrow> (Ok (), vis_setFlows env (newFlows (vis_Now env s) pods) s))"

fun collectFlows :: "('s, 'x) vis_env \<Rightarrow> nat \<Rightarrow> ('s, unit) io" where
  "collectFlows env 0 = retE ()"
| "collectFlows env (Suc ticks) = bindE (collectTick env) (\<lambda>_. collectFlows env ticks)"

text \<open>The socket: after every tick the flows are sent, until a write fails. The result tells whether the handler has returned.\<close>

fun pushFlows :: "('s, 'x) vis_env \<Rightarrow> (Flow list \<Rightarrow> ('s, unit) io) \<Rightarrow> nat \<Rightarrow> ('s, bool) io" where
  "pushFlows env writeJSON 0 = retE False"
| "pushFlows env writeJSON (Suc ticks) = tryE (\<lambda>s. writeJSON (vis_flows env s) s) (\<lambda>_. pushFlows env writeJSON ticks) (\<lambda>_. retE True)"

definition flowsWebSocketHandler ::
  "('s, 'x) vis_env \<Rightarrow> ('s, unit) io \<Rightarrow> (Flow list \<Rightarrow> ('s, unit) io) \<Rightarrow> ('s \<Rightarrow> 's) \<Rightarrow> nat \<Rightarrow> ('s, bool) io" where
  "flowsWebSocketHandler env upgrade writeJSON close ticks = tryE upgrade
     (\<lambda>_ s. case pushFlows env writeJSON ticks s of (Ok False, s1) \<Rightarrow> (Ok False, s1) | (r, s1) \<Rightarrow> (r, close s1)) (\<lambda>_. retE True)"

end
