(* ===== verification/Visualizer_Props.thy ===== *)
theory Visualizer_Props
  imports Visualizer
begin

text \<open>The graph of the visualizer is well formed, its numbers are sums, and the places where its answers mislead.\<close>

section \<open>The graph\<close>

definition node_ids :: "'x TopologyResponse \<Rightarrow> string set" where
  "node_ids t = tn_ID ` set (tr_Nodes t)"

definition service_edges :: "'x TopologyResponse \<Rightarrow> (string \<times> string) set" where
  "service_edges t = (\<lambda>e. (te_Source e, te_Target e)) ` {e \<in> set (tr_Edges t). te_Type e = ''service-to-pod''}"

text \<open>Every pod is in a listed namespace and, once scheduled, on a listed node.\<close>

definition snapshot_ok :: "'x v1_pod list \<Rightarrow> 'x v1_node list \<Rightarrow> 'x v1_namespace list \<Rightarrow> bool" where
  "snapshot_ok pods nodes namespaces \<longleftrightarrow> list_all (\<lambda>pod. vp_Namespace pod \<in> vns_Name ` set namespaces \<and>
     (vp_NodeName pod \<noteq> '''' \<longrightarrow> vp_NodeName pod \<in> vn_Name ` set nodes)) pods"

lemma podEdges_ends:
  "e \<in> set (podEdges services pod) \<longleftrightarrow>
    vp_NodeName pod \<noteq> '''' \<and> e = newEdge (''edge-pod-node-'' @ vp_Namespace pod @ ''-'' @ vp_Name pod) (podID pod) (''node-'' @ vp_NodeName pod) ''pod-to-node'' \<or>
    e = newEdge (''edge-ns-pod-'' @ vp_Namespace pod @ ''-'' @ vp_Name pod) (''ns-'' @ vp_Namespace pod) (podID pod) ''namespace-to-pod'' \<or>
    (\<exists>svc\<in>set services. vs_Namespace svc = vp_Namespace pod \<and> matchesSelector (vp_Labels pod) (vs_Selector svc) \<and>
      e = newEdge (''edge-svc-pod-'' @ vs_Namespace svc @ ''-'' @ vs_Name svc @ ''-'' @ vp_Name pod) (svcID svc) (podID pod) ''service-to-pod'')"
  unfolding podEdges_def by auto

lemma topology_ids:
  "node_ids (buildTopology now pods services nodes namespaces) = (\<lambda>ns. ''ns-'' @ vns_Name ns) ` set namespaces \<union> (\<lambda>n. ''node-'' @ vn_Name n) ` set nodes \<union>
    svcID ` {svc \<in> set services. \<not> isSystem (vs_Namespace svc)} \<union> podID ` {pod \<in> set pods. \<not> isSystem (vp_Namespace pod)}"
  unfolding node_ids_def buildTopology_def Let_def
  by (simp add: image_Un image_image namespaceNode_def nodeNode_def serviceNode_def podNode_def Un_assoc)

text \<open>
  Property C39. In the graph of a consistent snapshot every edge joins two nodes of the graph, although services and pods of the system
  namespaces are left out, and a service is joined to a pod exactly if it is in the pod's namespace and its selector matches.
\<close>

theorem buildTopology_connected:
  assumes "snapshot_ok pods nodes namespaces"
  shows "let t = buildTopology now pods services nodes namespaces in
    (\<forall>e\<in>set (tr_Edges t). te_Source e \<in> node_ids t \<and> te_Target e \<in> node_ids t) \<and>
    service_edges t = {(svcID svc, podID pod) |svc pod. svc \<in> set services \<and> pod \<in> set pods \<and> \<not> isSystem (vp_Namespace pod) \<and>
      vs_Namespace svc = vp_Namespace pod \<and> matchesSelector (vp_Labels pod) (vs_Selector svc)}"
proof -
  have ends: "te_Source (newEdge i a b c) = a" "te_Target (newEdge i a b c) = b" "te_Type (newEdge i a b c) = c" for i a b c
    by (simp_all add: newEdge_def)
  have edges: "set (tr_Edges (buildTopology now pods services nodes namespaces)) =
      (\<Union>pod\<in>{pod \<in> set pods. \<not> isSystem (vp_Namespace pod)}. set (podEdges services pod))"
    by (auto simp: buildTopology_def Let_def)
  have "te_Source e \<in> node_ids (buildTopology now pods services nodes namespaces) \<and> te_Target e \<in> node_ids (buildTopology now pods services nodes namespaces)"
    if "pod \<in> set pods" "\<not> isSystem (vp_Namespace pod)" "e \<in> set (podEdges services pod)" for e pod
    using that assms unfolding podEdges_ends topology_ids snapshot_ok_def list_all_iff by (fastforce simp: ends)
  then have "\<forall>e\<in>set (tr_Edges (buildTopology now pods services nodes namespaces)).
      te_Source e \<in> node_ids (buildTopology now pods services nodes namespaces) \<and> te_Target e \<in> node_ids (buildTopology now pods services nodes namespaces)"
    unfolding edges by blast
  moreover have "service_edges (buildTopology now pods services nodes namespaces) =
      {(svcID svc, podID pod) |svc pod. svc \<in> set services \<and> pod \<in> set pods \<and> \<not> isSystem (vp_Namespace pod) \<and>
        vs_Namespace svc = vp_Namespace pod \<and> matchesSelector (vp_Labels pod) (vs_Selector svc)}"
    unfolding service_edges_def edges by (fastforce simp: podEdges_ends ends image_iff)
  ultimately show ?thesis unfolding Let_def by blast
qed

definition demo_vpod :: "string \<Rightarrow> string \<Rightarrow> (string \<rightharpoonup> string) \<Rightarrow> unit v1_pod" where
  "demo_vpod ns n labels = \<lparr>vp_Namespace = ns, vp_Name = n, vp_Labels = labels, vp_Phase = ''Running'', vp_PodIP = '''', vp_NodeName = ''n1'',
     vp_Containers = (), vp_ContainerStatuses = []\<rparr>"

definition demo_service :: "unit v1_service" where
  "demo_service = \<lparr>vs_Namespace = ''a'', vs_Name = ''web'', vs_Type = ''ClusterIP'', vs_ClusterIP = '''', vs_Ports = (), vs_Selector = [(''app'', ''x'')]\<rparr>"

definition demo_graph :: "unit TopologyResponse" where
  "demo_graph = buildTopology ''now'' [demo_vpod ''a'' ''p'' [''app'' \<mapsto> ''x''], demo_vpod ''a'' ''q'' Map.empty, demo_vpod ''kube-system'' ''dns'' Map.empty] [demo_service]
     [\<lparr>vn_Name = ''n1'', vn_Capacity = (), vn_Allocatable = (), vn_NodeInfo = (), vn_Conditions = []\<rparr>]
     [\<lparr>vns_Name = ''a'', vns_CreationTimestamp = ()\<rparr>, \<lparr>vns_Name = ''kube-system'', vns_CreationTimestamp = ()\<rparr>]"

theorem buildTopology_connected_witness:
  "length (tr_Edges demo_graph) = 5 \<and> service_edges demo_graph = {(''svc-a-web'', ''pod-a-p'')}"
proof
  show "length (tr_Edges demo_graph) = 5" by code_simp
  have ok: "snapshot_ok [demo_vpod ''a'' ''p'' [''app'' \<mapsto> ''x''], demo_vpod ''a'' ''q'' Map.empty, demo_vpod ''kube-system'' ''dns'' Map.empty]
     [\<lparr>vn_Name = ''n1'', vn_Capacity = (), vn_Allocatable = (), vn_NodeInfo = (), vn_Conditions = []\<rparr>]
     [\<lparr>vns_Name = ''a'', vns_CreationTimestamp = ()\<rparr>, \<lparr>vns_Name = ''kube-system'', vns_CreationTimestamp = ()\<rparr>]"
    by code_simp
  have all: "service_edges demo_graph = {(svcID svc, podID pod) |svc pod. svc \<in> set [demo_service] \<and>
      pod \<in> set [demo_vpod ''a'' ''p'' [''app'' \<mapsto> ''x''], demo_vpod ''a'' ''q'' Map.empty, demo_vpod ''kube-system'' ''dns'' Map.empty] \<and>
      \<not> isSystem (vp_Namespace pod) \<and> vs_Namespace svc = vp_Namespace pod \<and> matchesSelector (vp_Labels pod) (vs_Selector svc)}"
    using buildTopology_connected [OF ok, of "''now''" "[demo_service]"] unfolding demo_graph_def Let_def by (rule conjunct2)
  show "service_edges demo_graph = {(''svc-a-web'', ''pod-a-p'')}"
    unfolding all
    by (auto simp: demo_service_def demo_vpod_def matchesSelector_def isSystem_def svcID_def podID_def
      intro!: exI [of _ "demo_vpod ''a'' ''p'' [''app'' \<mapsto> ''x'']"])
qed

text \<open>The identifier of a pod does not determine the pod: the separator occurs in names.\<close>

lemma podID_collides: "podID (demo_vpod ''a'' ''b-c'' Map.empty) = podID (demo_vpod ''a-b'' ''c'' Map.empty)"
  by (simp add: podID_def demo_vpod_def)

text \<open>A selector for the empty value matches a pod without the label.\<close>

lemma selector_matches_missing_label: "labels k = None \<Longrightarrow> matchesSelector labels [(k, '''')]"
  by (simp add: matchesSelector_def)

section \<open>Flows and issues\<close>

lemma flowTotals_sum:
  "flowTotals flows = (sum_list (map (\<lambda>f. fl_BytesSent f + fl_BytesReceived f) flows), sum_list (map (\<lambda>f. fl_PacketsSent f + fl_PacketsRecv f) flows))"
proof -
  have "foldl (\<lambda>(b, p) flow. (b + (fl_BytesSent flow + fl_BytesReceived flow), p + (fl_PacketsSent flow + fl_PacketsRecv flow))) (x, y) flows =
      (x + sum_list (map (\<lambda>f. fl_BytesSent f + fl_BytesReceived f) flows), y + sum_list (map (\<lambda>f. fl_PacketsSent f + fl_PacketsRecv f) flows))" for x y
    by (induction flows arbitrary: x y) (simp_all add: add.assoc)
  then show ?thesis by (simp add: flowTotals_def)
qed

lemma newFlows_bounded: "length (newFlows now pods) \<le> 10"
  unfolding newFlows_def length_map by (rule order_trans [OF length_filter_le]) simp

text \<open>When the three list calls fail and return no items, the answer claims that the cluster has no network policies.\<close>

lemma issues_after_failed_lists:
  assumes "\<And>s. vis_Pods env s = (Ok ([], Some e), s)" "\<And>s. vis_Services env s = (Ok ([], Some e), s)" "\<And>s. vis_Policies env s = (Ok ([], Some e), s)"
  shows "getIssuesHandler env s = (Ok (jsonResponse (IssuesBody [policyIssue])), s)"
  by (simp add: getIssuesHandler_def bindE_def tryE_def retE_def assms issuesOf_def)

end
