(* ===== verification/Spec2Isabelle.thy ===== *)
theory Spec2Isabelle
  imports LB_Props VM_Props SGC_Props CNI_Props Azure_Props Health_Probe Daemon_Props Plugin_Props Pod_Props
    Node_Tools Visualizer_Props
begin

text \<open>
  Verification of kube-egress-gateway, an operator that sends the traffic of chosen pods of a Kubernetes cluster on Azure through
  gateway nodes with a fixed public address.

  \<^bold>\<open>The program and its parts.\<close> A user creates a \<open>StaticGatewayConfiguration\<close>. The manager (src/controllers/manager) splits it: the gateway
  controller keeps the WireGuard key pair of the gateway in a secret and creates a \<open>GatewayLBConfiguration\<close>; the load balancer controller
  reserves a port on an internal Azure load balancer and creates a \<open>GatewayVMConfiguration\<close>; the VM controller gives every node of the
  pool a second IP configuration with the public prefix. On each gateway node the daemon (src/controllers/daemon) builds a network
  namespace with one WireGuard device per gateway and makes every \<open>PodEndpoint\<close> a peer of it; a health probe
  (src/pkg/healthprobe) tells the load balancer which gateways the node serves. On the node of a pod the CNI manager
  (src/controllers/cnimanager, src/pkg/cni/conf) chains the plugin into the CNI configuration, and the plugin (src/cmd/kube-egress-cni, with
  src/pkg/cni) builds the tunnel of a pod and asks the CNI manager to publish its endpoint. Two small commands prepare the nodes
  (src/cmd/add-netns, src/cmd/copy), and a visualizer (src/network-visualizer/backend) draws the cluster.

  \<^bold>\<open>How code becomes HOL.\<close> \<open>GoPrelude\<close> has the results of calls (\<open>Ok\<close>, \<open>Err\<close>, \<open>Panic\<close>), a call on a world \<open>'s\<close> as \<open>('s, 'a) io\<close>,
  the combinators in which function bodies are written (\<open>bindE\<close> for the check of an error, \<open>wrapE\<close> for its wrapping, \<open>tryE\<close> for
  handlers that go on, \<open>finE\<close> for deferred calls, \<open>foldE\<close> for loops that may fail) and the rules of \<open>triple\<close>, \<open>keeps\<close> and
  \<open>reads\<close> with which they are reasoned about. \<open>GoStrings\<close>, \<open>GoLib\<close> and \<open>GoNet\<close> are the parts of Go's standard library that the code uses:
  strings, \<open>strconv\<close>, \<open>net/netip\<close>, \<open>net\<close>. A struct is a record, a nil pointer is \<open>None\<close> and reading through it
  is \<open>Panic\<close>, an \<open>int32\<close> is a 32-bit word, an \<open>int\<close> is an integer, a map is a partial function or, where it is
  iterated, an association list with an unspecified order of keys. Wrapped messages are written without the values that the
  format inserts; logging is left out. Third-party packages (the Azure SDK, client-go and controller-runtime, netlink, wgctrl, iptables,
  the CNI library) are records of parameters, and what the code relies on is a named predicate on them
  (\<open>lb_laws\<close>, \<open>patch_law\<close>, \<open>node_keeps\<close>, \<open>device_laws\<close>, \<open>nic_laws\<close>, \<open>fib_laws\<close> and others); every one is shown to hold of a concrete world.

  \<^bold>\<open>Theories.\<close> For each part there is a theory of definitions, one of proofs, one with a concrete world, and one of properties with
  their instances on that world.

  \<^item> \<open>Api_Types\<close>, \<open>Azure_Types\<close>, \<open>Object_Store\<close>, \<open>Contracts\<close>: custom resources, Azure resources, the API server as the
    controllers see it, and the interfaces of the controllers as locales, interpreted on the controllers' own definitions.
  \<^item> \<open>Cloud_Config\<close>, \<open>AzManager\<close>, \<open>Azure_Props\<close>: src/pkg/config and src/pkg/azmanager. The retry wrapper makes at most as many
    calls as its backoff has steps, ten by default; the check of the configuration accepts exactly the complete ones.
  \<^item> \<open>LB_Controller\<close>, \<open>LB_Proofs\<close>, \<open>LB_World\<close>, \<open>LB_Props\<close>: gatewaylbconfiguration_controller.go. Ports are unique and in 6000 to 6999,
    what Azure stores serves the configuration, a second run changes nothing, a clean-up removes exactly what belongs to the
    configuration, and the finalizer goes last.
  \<^item> \<open>VMSS_Pool\<close>, \<open>VMSS_State\<close>, \<open>VMSS_Proofs\<close>, \<open>VMs_Pool\<close>, \<open>VMs_Proofs\<close>, \<open>VM_Controller\<close>, \<open>VM_Prefix\<close>, \<open>Resource_ID\<close>, \<open>VM_Proofs\<close>,
    \<open>VM_World\<close>, \<open>VM_Props\<close>: gatewayvmconfiguration_controller.go and agentpoolvms.go. The scan over the interfaces refines a
    reference step on the primary interface; model, instances and prefix reach their goal; the finalizer goes last.
  \<^item> \<open>SGC_Controller\<close>, \<open>SGC_Proofs\<close>, \<open>SGC_World\<close>, \<open>SGC_Props\<close>: the manager's staticgatewayconfiguration_controller.go. Validation is exact, a key
    is never replaced, a deletion ends and the finalizer goes last.
  \<^item> \<open>CNI_Conf\<close>, \<open>CNI_Conf_Proofs\<close>, \<open>CNI_Props\<close>: src/pkg/cni/conf/confmanager.go. The configuration file changes in one step, the plugin
    becomes the second of the chain, and the watch loop ends with its context.
  \<^item> \<open>Node_Net\<close>: netlink, network namespaces, WireGuard, packet filter and instance metadata as the node programs use them,
    with src/pkg/netnswrapper and src/pkg/imds.
  \<^item> \<open>Health_Probe\<close>: src/pkg/healthprobe, with the answer after any history of registrations.
  \<^item> \<open>Daemon_Gateway\<close>, \<open>Daemon_Peers\<close>, \<open>Daemon_Proofs\<close>, \<open>Peers_Proofs\<close>, \<open>Daemon_World\<close>, \<open>Daemon_Props\<close>: src/controllers/daemon. A gateway is
    reported only when it works, a clean-up spares active gateways, statuses and peers are exact.
  \<^item> \<open>CNI_Plugin\<close>, \<open>Plugin_Proofs\<close>, \<open>Plugin_World\<close>, \<open>Plugin_Props\<close>: the two plugins in src/cmd and src/pkg/cni. A failed addition is
    taken back, and the routing table of a pod is the one that a specification computes.
  \<^item> \<open>Nic_Service\<close>, \<open>Pod_Proofs\<close>, \<open>Pod_World\<close>, \<open>Pod_Props\<close>: src/controllers/cnimanager and the node taint of the CNI manager, and the
    way of a pod's key and address from the plugin to the stored endpoint.
  \<^item> \<open>Node_Tools\<close>: src/cmd/add-netns and src/cmd/copy. The copy does not truncate its destination.
  \<^item> \<open>Visualizer\<close>, \<open>Visualizer_Props\<close>: src/network-visualizer/backend/main.go. The graph is connected to its nodes and exact on services.
  \<^item> This theory: the properties that span the programs. A pod that the plugin has set up through the CNI manager becomes a peer of the
    gateway with its own key and address; the probe that the load balancer controller configures is the one that the daemon answers.

  \<^bold>\<open>Bounds and loops.\<close> Loops over lists are folds or structural recursion. The parser of IPv6 groups gets nine rounds, one more
    than an address has groups, and the loop leaves at the eighth. The retry of a call is a recursion over the steps of its backoff. The watch loop of
  the CNI manager is a recursion over the events that arrive before the context ends; the endless loops of the visualizer are recursions over
  their ticks.

  \<^bold>\<open>Not modelled.\<close> Generated code and mocks; the \<open>main\<close> functions and the wiring of flags, managers and servers
  (src/cmd/*/cmd/root.go and \<open>ServiceLauncher\<close>), which only call third-party constructors; log output, traces and the text of the format
  arguments; the helpers of the end-to-end tests and the test server. Concurrent reconciliations of different objects are not
  interleaved inside a handler: controller-runtime runs one handler per object, and every law about the outside world
  is stated for single calls.
\<close>

section \<open>From the pod to the gateway\<close>













section \<open>From the load balancer to the daemon\<close>

text \<open>
  \<open>SetControllerReference\<close> makes the owner an owner of the object, the only one of an object that has none.
\<close>

definition controller_law :: "controllerutil \<Rightarrow> bool" where
  "controller_law cu \<longleftrightarrow> (\<forall>owner m m'. SetControllerReference cu owner m = Ok m' \<longrightarrow> om_Name m' = om_Name m \<and>
     (om_OwnerReferences m = [] \<longrightarrow> (\<exists>ref. om_OwnerReferences m' = [ref] \<and> or_Name ref = om_Name owner \<and> or_UID ref = om_UID owner)))"

lemma probe_path_of_gateway:
  assumes "controller_law cu" and "mutateLBConfig cu gw (newLBConfig (om_Namespace (sgc_Meta gw)) (om_Name (sgc_Meta gw))) = Ok lb"
  shows "map_option pbp_RequestPath (pb_Properties (getExpectedLBProbe name port lb)) = Some (Some (GatewayHealthProbeEndpoint @ om_UID (sgc_Meta gw)))"
proof -
  from assms(2) obtain m where "SetControllerReference cu (sgc_Meta gw) (new_meta (om_Namespace (sgc_Meta gw)) (om_Name (sgc_Meta gw))) = Ok m"
    and lb: "lbc_Meta lb = m"
    by (auto simp: mutateLBConfig_def newLBConfig_def Let_def bindR_Ok_iff)
  with assms(1) [unfolded controller_law_def] obtain ref where
    "om_Name m = om_Name (sgc_Meta gw)" "om_OwnerReferences m = [ref]" "or_Name ref = om_Name (sgc_Meta gw)" "or_UID ref = om_UID (sgc_Meta gw)"
    by (fastforce simp: new_meta_def)
  with lb show ?thesis by (simp add: getExpectedLBProbe_def Let_def)
qed

lemma probe_of_registry:
  assumes "CHR ''/'' \<notin> set uid"
  shows "serveHTTP svr (GatewayHealthProbeEndpoint @ uid) = (if activeGateways svr uid = None then 503 else 200)"
  using Split_probe_path [OF assms] by (simp add: serveHTTP_def)

text \<open>
  Property C2. The probe that the load balancer controller configures for a gateway and the one that the daemon answers are the same: for the
  configuration that the gateway controller creates, the path of the probe names the gateway, and on a node it answers 200 after a run of
  the daemon's controller that succeeded; a run that fails or panics does not change the answer.
\<close>

theorem probe_follows_daemon:
  assumes "controller_law cu" and "mutateLBConfig cu gw (newLBConfig (om_Namespace (sgc_Meta gw)) (om_Name (sgc_Meta gw))) = Ok lb"
    and "CHR ''/'' \<notin> set (om_UID (sgc_Meta gw))" and "report_laws r st" and "reconcile_GW r gw s = (res, s')"
  shows "\<exists>path. map_option pbp_RequestPath (pb_Properties (getExpectedLBProbe name port lb)) = Some (Some path) \<and>
    serveHTTP (gr_probe r s') path = (if is_ok res then 200 else serveHTTP (gr_probe r s) path)"
proof -
  have "gr_probe r s = gr_probe r s \<and> st s = st s" by simp
  note run = triple_dests [OF reconcile_GW_triple [OF assms(4)] this]
  have "gr_probe r s' = (if is_ok res then AddGateway (om_UID (sgc_Meta gw)) (gr_probe r s) else gr_probe r s)"
    using run assms(5) by (cases res) auto
  then have "serveHTTP (gr_probe r s') (GatewayHealthProbeEndpoint @ om_UID (sgc_Meta gw)) =
      (if is_ok res then 200 else serveHTTP (gr_probe r s) (GatewayHealthProbeEndpoint @ om_UID (sgc_Meta gw)))"
    by (simp add: probe_of_registry [OF assms(3)] AddGateway_def)
  with probe_path_of_gateway [OF assms(1,2)] show ?thesis by blast
qed

definition node_lbc :: GatewayLBConfiguration where
  "node_lbc = (case mutateLBConfig demo_util node_gw (newLBConfig ''ns'' ''gw'') of Ok lb \<Rightarrow> lb | _ \<Rightarrow> newLBConfig ''ns'' ''gw'')"

theorem probe_follows_daemon_witness:
  "\<exists>path. map_option pbp_RequestPath (pb_Properties (getExpectedLBProbe ''p'' 8082 node_lbc)) = Some (Some path) \<and>
    serveHTTP (nw_probe node_start) path = 503 \<and> serveHTTP (nw_probe (snd node_up)) path = 200"
proof -
  have law: "controller_law demo_util" by (auto simp: controller_law_def demo_util_def)
  have lb: "mutateLBConfig demo_util node_gw (newLBConfig (om_Namespace (sgc_Meta node_gw)) (om_Name (sgc_Meta node_gw))) = Ok node_lbc"
    by (simp add: node_lbc_def mutateLBConfig_def demo_util_def node_gw_def Let_def new_meta_def)
  have run: "reconcile_GW node_r node_gw node_start = (Ok (), snd node_up)" using node_up_ok by (cases node_up) (simp add: node_up_def)
  have uid: "om_UID (sgc_Meta node_gw) = ''uid''" "CHR ''/'' \<notin> set (om_UID (sgc_Meta node_gw))" by (simp_all add: node_gw_def)
  have "serveHTTP (nw_probe node_start) (GatewayHealthProbeEndpoint @ ''uid'') = 503" by code_simp
  with probe_follows_daemon [OF law lb uid(2) node_report_laws run, of "''p''" 8082] probe_path_of_gateway [OF law lb, of "''p''" 8082]
  show ?thesis by (auto simp: uid(1))
qed
end
